(* ===== verification/Prelude.thy ===== *)
theory Prelude
  imports Complex_Main "HOL-Library.State_Monad" "HOL-Library.Word"
begin

text \<open>
  Shared vocabulary of the development: machine integers, the shape of a Go call that returns
  a value and an error, the transport of an operation on one part of a state to the whole
  state, and a small calculus of state invariants.

  A Go function that may fail is a state transformer whose result is a sum: \<open>Inl e\<close> is the
  returned error, \<open>Inr x\<close> the returned value. The idiom
  \<^verbatim>\<open>x, err := m(); if err != nil { return nil, f(err) }; k(x)\<close>
  is \<open>attempt m f k\<close>. A state predicate \<open>I\<close> that an operation \<open>m\<close> never breaks, whatever it
  returns, is \<open>keeps I m\<close>; the rules collected in \<open>keeps_intros\<close> follow the structure of a
  program, so that the invariant of a handler is proved by applying them.
\<close>

named_theorems keeps_intros "rules that follow the structure of a program"
named_theorems queries "definitions of the statements of a database"

subsection \<open>Machine integers and identifiers\<close>

type_synonym int32 = "32 word"
type_synonym int64 = "64 word"
type_synonym uuid = "128 word"

text \<open>Go's conversion of an \<open>int\<close> (64 bits here) to \<open>int32\<close> keeps the low 32 bits.\<close>

definition int32_of :: "int64 \<Rightarrow> int32" where
  "int32_of n = ucast n"

definition in_int32 :: "int \<Rightarrow> bool" where
  "in_int32 n \<longleftrightarrow> - (2 ^ 31) \<le> n \<and> n < 2 ^ 31"

definition in_int64 :: "int \<Rightarrow> bool" where
  "in_int64 n \<longleftrightarrow> - (2 ^ 63) \<le> n \<and> n < 2 ^ 63"

lemma sint_of_int32 [simp]: "in_int32 n \<Longrightarrow> sint (word_of_int n :: int32) = n"
  by (simp add: in_int32_def sint_sbintrunc' signed_take_bit_int_eq_self)

lemma sint_of_int64 [simp]: "in_int64 n \<Longrightarrow> sint (word_of_int n :: int64) = n"
  by (simp add: in_int64_def sint_sbintrunc' signed_take_bit_int_eq_self)

lemma sint_in_int32: "in_int32 (sint (q :: int32))"
  using sint_greater_eq [of q] sint_less [of q] by (simp add: in_int32_def)

lemma sint_in_int64: "in_int64 (sint (q :: int64))"
  using sint_greater_eq [of q] sint_less [of q] by (simp add: in_int64_def)

lemma sint_minus_int32: "in_int32 (sint (x :: int32) - q) \<Longrightarrow> sint (x - word_of_int q) = sint x - q"
  using sint_of_int32 [of "sint x - q"] by simp

lemma int32_of_word_of_int: "int32_of (word_of_int n) = word_of_int n"
  by (simp add: int32_of_def unsigned_of_int take_bit_eq_mod word_of_int_eq_iff mod_mod_cancel)

lemma int32_of_small: "in_int32 (sint n) \<Longrightarrow> sint (int32_of n) = sint n"
proof -
  assume "in_int32 (sint n)"
  then have "sint (word_of_int (sint n) :: int32) = sint n" by (rule sint_of_int32)
  then show ?thesis using int32_of_word_of_int [of "sint n"] by (simp add: signed_of_int)
qed

text \<open>Lengths below \<open>2 ^ 63\<close> are told apart in an \<open>int64\<close>.\<close>

lemma of_nat_eq_small:
  assumes "a < 2 ^ 63" "b < 2 ^ 63" "(of_nat a :: int64) = of_nat b"
  shows "a = b"
proof -
  have "unat (of_nat a :: int64) = unat (of_nat b :: int64)" using assms(3) by simp
  then have "a mod 2 ^ 64 = b mod 2 ^ 64" by (simp add: unsigned_of_nat take_bit_eq_mod)
  then show ?thesis using assms(1,2) by simp
qed

lemma of_nat_eq_iff_small:
  "a < 2 ^ 63 \<Longrightarrow> b < 2 ^ 63 \<Longrightarrow> (of_nat a :: int64) = of_nat b \<longleftrightarrow> a = b"
  using of_nat_eq_small by blast

subsection \<open>Calls that return a value or an error\<close>

definition attempt ::
  "('w, 'e + 'a) state \<Rightarrow> ('e \<Rightarrow> 'f) \<Rightarrow> ('a \<Rightarrow> ('w, 'f + 'b) state) \<Rightarrow> ('w, 'f + 'b) state" where
  "attempt m f k = do {
     r \<leftarrow> m;
     case r of Inl e \<Rightarrow> State_Monad.return (Inl (f e)) | Inr x \<Rightarrow> k x }"

text \<open>A guard: \<^verbatim>\<open>if !b { return nil, e }\<close>.\<close>

definition ensure :: "bool \<Rightarrow> 'f \<Rightarrow> ('w, 'f + 'b) state \<Rightarrow> ('w, 'f + 'b) state" where
  "ensure b e k = (if b then k else State_Monad.return (Inl e))"

text \<open>A pure call that may fail, in front of a stateful rest.\<close>

definition attempt_pure :: "'e + 'a \<Rightarrow> ('e \<Rightarrow> 'f) \<Rightarrow> ('a \<Rightarrow> ('w, 'f + 'b) state) \<Rightarrow> ('w, 'f + 'b) state" where
  "attempt_pure r f k = (case r of Inl e \<Rightarrow> State_Monad.return (Inl (f e)) | Inr x \<Rightarrow> k x)"

abbreviation ok :: "'a \<Rightarrow> ('w, 'e + 'a) state" where
  "ok x \<equiv> State_Monad.return (Inr x)"

abbreviation fail :: "'e \<Rightarrow> ('w, 'e + 'a) state" where
  "fail e \<equiv> State_Monad.return (Inl e)"

lemma run_attempt [simp]:
  "run_state (attempt m f k) w =
     (case run_state m w of (r, w') \<Rightarrow>
        (case r of Inl e \<Rightarrow> (Inl (f e), w') | Inr x \<Rightarrow> run_state (k x) w'))"
  by (simp add: attempt_def split: prod.splits sum.splits)

lemma run_ensure [simp]:
  "run_state (ensure b e k) w = (if b then run_state k w else (Inl e, w))"
  by (simp add: ensure_def)

lemma run_attempt_pure [simp]:
  "run_state (attempt_pure r f k) w =
     (case r of Inl e \<Rightarrow> (Inl (f e), w) | Inr x \<Rightarrow> run_state (k x) w)"
  by (simp add: attempt_pure_def split: sum.splits)

lemma run_pair: obtains x w' where "run_state m w = (x, w')"
  by (cases "run_state m w") auto

text \<open>A run that returns a value has passed every call before it.\<close>

lemma attempt_Inr:
  "run_state (attempt m f k) w = (Inr x, w') \<longleftrightarrow>
     (\<exists>y v. run_state m w = (Inr y, v) \<and> run_state (k y) v = (Inr x, w'))"
  by (auto split: prod.splits sum.splits)

lemma attempt_pure_Inr:
  "run_state (attempt_pure r f k) w = (Inr x, w') \<longleftrightarrow> (\<exists>y. r = Inr y \<and> run_state (k y) w = (Inr x, w'))"
  by (auto split: sum.splits)

subsection \<open>An operation on one part of a state\<close>

definition zoom :: "('w \<Rightarrow> 'v) \<Rightarrow> ('v \<Rightarrow> 'w \<Rightarrow> 'w) \<Rightarrow> ('v, 'a) state \<Rightarrow> ('w, 'a) state" where
  "zoom get put m = State (\<lambda>w. case run_state m (get w) of (x, v) \<Rightarrow> (x, put v w))"

lemma run_zoom [simp]:
  "run_state (zoom get put m) w = (case run_state m (get w) of (x, v) \<Rightarrow> (x, put v w))"
  by (simp add: zoom_def)

subsection \<open>Invariants of operations\<close>

definition keeps :: "('w \<Rightarrow> bool) \<Rightarrow> ('w, 'a) state \<Rightarrow> bool" where
  "keeps I m \<longleftrightarrow> (\<forall>w. I w \<longrightarrow> I (snd (run_state m w)))"

lemma keepsI: "(\<And>w r w'. I w \<Longrightarrow> run_state m w = (r, w') \<Longrightarrow> I w') \<Longrightarrow> keeps I m"
  unfolding keeps_def by (metis prod.collapse)

lemma keepsD: "keeps I m \<Longrightarrow> I w \<Longrightarrow> run_state m w = (r, w') \<Longrightarrow> I w'"
  unfolding keeps_def by (metis snd_conv)

lemma keepsE: "keeps I m \<Longrightarrow> I w \<Longrightarrow> I (snd (run_state m w))"
  by (simp add: keeps_def)

lemma keeps_return [keeps_intros]: "keeps I (State_Monad.return x)"
  by (simp add: keeps_def)

lemma keeps_bind [keeps_intros]:
  "keeps I m \<Longrightarrow> (\<And>x. keeps I (k x)) \<Longrightarrow> keeps I (m \<bind> k)"
  by (auto simp: keeps_def split: prod.splits)

lemma keeps_attempt [keeps_intros]:
  "keeps I m \<Longrightarrow> (\<And>x. keeps I (k x)) \<Longrightarrow> keeps I (attempt m f k)"
  unfolding attempt_def by (intro keeps_bind) (auto split: sum.splits intro: keeps_return)

lemma keeps_attempt_pure [keeps_intros]:
  "(\<And>x. r = Inr x \<Longrightarrow> keeps I (k x)) \<Longrightarrow> keeps I (attempt_pure r f k)"
  by (auto simp: attempt_pure_def split: sum.splits intro: keeps_return)

lemma keeps_ensure [keeps_intros]: "(b \<Longrightarrow> keeps I k) \<Longrightarrow> keeps I (ensure b e k)"
  by (auto simp: ensure_def intro: keeps_return)

lemma keeps_case_sum [keeps_intros]:
  "(\<And>e. r = Inl e \<Longrightarrow> keeps I (f e)) \<Longrightarrow> (\<And>x. r = Inr x \<Longrightarrow> keeps I (k x)) \<Longrightarrow>
   keeps I (case r of Inl e \<Rightarrow> f e | Inr x \<Rightarrow> k x)"
  by (auto split: sum.splits)

lemma keeps_case_option [keeps_intros]:
  "(r = None \<Longrightarrow> keeps I f) \<Longrightarrow> (\<And>x. r = Some x \<Longrightarrow> keeps I (k x)) \<Longrightarrow>
   keeps I (case r of None \<Rightarrow> f | Some x \<Rightarrow> k x)"
  by (auto split: option.splits)

lemma keeps_case_prod [keeps_intros]:
  "(\<And>x y. r = (x, y) \<Longrightarrow> keeps I (k x y)) \<Longrightarrow> keeps I (case r of (x, y) \<Rightarrow> k x y)"
  by (auto split: prod.splits)

lemma keeps_if [keeps_intros]:
  "(b \<Longrightarrow> keeps I m) \<Longrightarrow> (\<not> b \<Longrightarrow> keeps I n) \<Longrightarrow> keeps I (if b then m else n)"
  by auto

lemma keeps_zoom: "(\<And>w. I w \<Longrightarrow> J (get w)) \<Longrightarrow> keeps J m \<Longrightarrow>
   (\<And>v w. I w \<Longrightarrow> J v \<Longrightarrow> I (put v w)) \<Longrightarrow> keeps I (zoom get put m)"
  by (auto simp: keeps_def split: prod.splits) (metis snd_conv)

lemma keeps_conj: "keeps I m \<Longrightarrow> keeps J m \<Longrightarrow> keeps (\<lambda>w. I w \<and> J w) m"
  by (simp add: keeps_def)

subsection \<open>Lists\<close>

lemma sum_list_map_update:
  fixes g :: "'a \<Rightarrow> 'b::ab_group_add"
  assumes "i < length xs"
  shows "sum_list (map g (xs[i := y])) = sum_list (map g xs) - g (xs ! i) + g y"
  using assms by (induction xs arbitrary: i) (auto simp: algebra_simps split: nat.splits)

lemma filter_filter_conj: "filter P (filter Q xs) = filter (\<lambda>x. Q x \<and> P x) xs"
  by (simp add: conj_commute)

lemma find_Some_in: "find P xs = Some x \<Longrightarrow> x \<in> set xs \<and> P x"
  by (auto simp: find_Some_iff)

lemma find_map_same: "(\<And>x. P (f x) = P x) \<Longrightarrow> find P (map f xs) = map_option f (find P xs)"
  by (induction xs) auto

lemma find_None_iff': "find P xs = None \<longleftrightarrow> (\<forall>x\<in>set xs. \<not> P x)"
  by (auto simp: find_None_iff)

end
