(* ===== verification/Float64.thy ===== *)
theory Float64
  imports Prelude "HOL-Library.Log_Nat"
begin

text \<open>
  Go's \<open>float64\<close> (IEEE 754 binary64) and the conversions the services use: rounding to nearest
  with ties to even, addition and multiplication, the comparison with zero, and the \<open>%.2f\<close>
  and \<open>%f\<close> verbs of \<open>fmt.Sprintf\<close>. A finite value is its exact rational value; the two zeros
  are identified (no service tells them apart). The lemmas bound the rounding error and show
  that an amount of whole cents below ten thousand million cents survives the way through a
  \<open>float64\<close>, also after the sum over the lines of a cart.
\<close>

subsection \<open>Values and rounding\<close>

datatype float64 = Fin rat | PInf | NInf | NaN

definition pow2 :: "int \<Rightarrow> rat" where
  "pow2 k = 2 powi k"

definition floor_log2 :: "rat \<Rightarrow> int" where
  "floor_log2 a =
     (let (n, d) = quotient_of a; k = bitlen n - bitlen d
      in if pow2 k \<le> a then k else k - 1)"

definition round_half_even :: "rat \<Rightarrow> int" where
  "round_half_even x =
     (let f = \<lfloor>x\<rfloor>; r = x - of_int f
      in if r < 1 / 2 then f
         else if 1 / 2 < r then f + 1
         else if even f then f else f + 1)"

definition round64 :: "rat \<Rightarrow> float64" where
  "round64 x =
     (if x = 0 then Fin 0
      else let q = max (floor_log2 \<bar>x\<bar> - 52) (-1074);
               v = of_int (round_half_even (\<bar>x\<bar> / pow2 q)) * pow2 q
           in if pow2 1024 \<le> v then (if x < 0 then NInf else PInf)
              else Fin (sgn x * v))"

fun fadd :: "float64 \<Rightarrow> float64 \<Rightarrow> float64" where
  "fadd (Fin a) (Fin b) = round64 (a + b)"
| "fadd NaN _ = NaN"
| "fadd _ NaN = NaN"
| "fadd PInf NInf = NaN"
| "fadd NInf PInf = NaN"
| "fadd PInf _ = PInf"
| "fadd NInf _ = NInf"
| "fadd (Fin _) y = y"

fun fmul :: "float64 \<Rightarrow> float64 \<Rightarrow> float64" where
  "fmul (Fin a) (Fin b) = round64 (a * b)"
| "fmul NaN _ = NaN"
| "fmul _ NaN = NaN"
| "fmul PInf (Fin b) = (if b = 0 then NaN else if b < 0 then NInf else PInf)"
| "fmul NInf (Fin b) = (if b = 0 then NaN else if b < 0 then PInf else NInf)"
| "fmul (Fin a) PInf = (if a = 0 then NaN else if a < 0 then NInf else PInf)"
| "fmul (Fin a) NInf = (if a = 0 then NaN else if a < 0 then PInf else NInf)"
| "fmul PInf PInf = PInf"
| "fmul NInf NInf = PInf"
| "fmul PInf NInf = NInf"
| "fmul NInf PInf = NInf"

text \<open>\<^verbatim>\<open>x <= 0\<close> is false for a NaN.\<close>

fun fle_zero :: "float64 \<Rightarrow> bool" where
  "fle_zero (Fin a) = (a \<le> 0)"
| "fle_zero NInf = True"
| "fle_zero PInf = False"
| "fle_zero NaN = False"

definition float_of_int32 :: "int32 \<Rightarrow> float64" where
  "float_of_int32 n = Fin (of_int (sint n))"

subsection \<open>Decimal text\<close>

fun show_nat :: "nat \<Rightarrow> string" where
  "show_nat n = (if n < 10 then [char_of (48 + n)] else show_nat (n div 10) @ [char_of (48 + n mod 10)])"

declare show_nat.simps [simp del]

definition show_int :: "int \<Rightarrow> string" where
  "show_int n = (if n < 0 then ''-'' @ show_nat (nat (- n)) else show_nat (nat n))"

definition pad_left :: "nat \<Rightarrow> string \<Rightarrow> string" where
  "pad_left k s = replicate (k - length s) (CHR ''0'') @ s"

text \<open>The text of a value with \<open>d\<close> digits after the point, correctly rounded.\<close>

definition fixed_text :: "nat \<Rightarrow> rat \<Rightarrow> string" where
  "fixed_text d x =
     (let m = nat (round_half_even (10 ^ d * \<bar>x\<bar>));
          t = show_nat (m div 10 ^ d) @ ''.'' @ pad_left d (show_nat (m mod 10 ^ d))
      in if x < 0 then ''-'' @ t else t)"

fun sprintf_f :: "nat \<Rightarrow> float64 \<Rightarrow> string" where
  "sprintf_f d (Fin x) = fixed_text d x"
| "sprintf_f d PInf = ''+Inf''"
| "sprintf_f d NInf = ''-Inf''"
| "sprintf_f d NaN = ''NaN''"

text \<open>\<^verbatim>\<open>fmt.Sprintf("%.2f", x)\<close> and \<^verbatim>\<open>fmt.Sprintf("%f", x)\<close>.\<close>

abbreviation sprintf_2f :: "float64 \<Rightarrow> string" where
  "sprintf_2f \<equiv> sprintf_f 2"

abbreviation sprintf_6f :: "float64 \<Rightarrow> string" where
  "sprintf_6f \<equiv> sprintf_f 6"

subsection \<open>Powers of two and the position of the leading bit\<close>

lemma pow2_pos [simp]: "0 < pow2 k"
  by (simp add: pow2_def)

lemma pow2_nonzero [simp]: "pow2 k \<noteq> 0"
  by (simp add: pow2_def)

lemma pow2_add: "pow2 (a + b) = pow2 a * pow2 b"
  by (simp add: pow2_def power_int_add)

lemma pow2_diff: "pow2 (a - b) = pow2 a / pow2 b"
  by (simp add: pow2_def power_int_diff)

lemma pow2_mono: "a \<le> b \<Longrightarrow> pow2 a \<le> pow2 b"
  by (simp add: pow2_def power_int_increasing)

lemma pow2_less: "a < b \<Longrightarrow> pow2 a < pow2 b"
  by (simp add: pow2_def power_int_strict_increasing)

lemma pow2_less_imp: "pow2 a < pow2 b \<Longrightarrow> a < b"
  using pow2_mono [of b a] by (cases "a < b") auto

lemma pow2_nat: "pow2 (int n) = 2 ^ n"
  by (simp add: pow2_def)

lemma bitlen_pos_bounds:
  assumes "0 < n"
  shows "pow2 (bitlen n - 1) \<le> of_int n" and "of_int n < pow2 (bitlen n)"
proof -
  have b: "1 \<le> bitlen n"
    using assms bitlen_bounds [of n] bitlen_nonneg [of n] by (cases "bitlen n = 0") auto
  have "(2::int) ^ nat (bitlen n - 1) \<le> n" "n < 2 ^ nat (bitlen n)"
    using bitlen_bounds [OF assms] by auto
  then have "of_int (2 ^ nat (bitlen n - 1)) \<le> (of_int n :: rat)"
    and "(of_int n :: rat) < of_int (2 ^ nat (bitlen n))"
    by (simp_all only: of_int_le_iff of_int_less_iff)
  then show "pow2 (bitlen n - 1) \<le> of_int n" and "of_int n < pow2 (bitlen n)"
    using b pow2_nat [of "nat (bitlen n - 1)"] pow2_nat [of "nat (bitlen n)"] by simp_all
qed

lemma floor_log2_bounds:
  assumes "0 < a"
  shows "pow2 (floor_log2 a) \<le> a" and "a < pow2 (floor_log2 a + 1)"
proof -
  obtain n d where q: "quotient_of a = (n, d)" by force
  have d: "0 < d" using quotient_of_denom_pos [OF q] .
  have a: "a = of_int n / of_int d" using quotient_of_div [OF q] .
  have n: "0 < n" using assms a d by (simp add: zero_less_divide_iff)
  let ?k = "bitlen n - bitlen d"
  have "a \<le> of_int n / pow2 (bitlen d - 1)"
    unfolding a using bitlen_pos_bounds [OF d] n d by (intro divide_left_mono) auto
  also have "\<dots> < pow2 (bitlen n) / pow2 (bitlen d - 1)"
    using bitlen_pos_bounds [OF n] by (simp add: divide_strict_right_mono)
  also have "\<dots> = pow2 (?k + 1)"
    by (simp add: pow2_diff [symmetric] algebra_simps)
  finally have hi: "a < pow2 (?k + 1)" .
  have "pow2 (?k - 1) = pow2 (bitlen n - 1) / pow2 (bitlen d)"
    by (simp add: pow2_diff [symmetric] algebra_simps)
  also have "\<dots> \<le> of_int n / pow2 (bitlen d)"
    using bitlen_pos_bounds(1) [OF n] by (rule divide_right_mono) (simp add: less_imp_le)
  also have "\<dots> \<le> a"
    unfolding a using bitlen_pos_bounds [OF d] n d by (intro divide_left_mono) auto
  finally have lo: "pow2 (?k - 1) \<le> a" .
  show "pow2 (floor_log2 a) \<le> a" and "a < pow2 (floor_log2 a + 1)"
    using hi lo by (auto simp: floor_log2_def q Let_def)
qed

lemma floor_log2_less: "0 < a \<Longrightarrow> a < pow2 k \<Longrightarrow> floor_log2 a < k"
  using floor_log2_bounds(1) [of a] pow2_less_imp [of "floor_log2 a" k] by linarith

subsection \<open>Rounding error\<close>

lemma round_half_even_error: "\<bar>of_int (round_half_even x) - x\<bar> \<le> 1 / 2"
proof -
  have "of_int \<lfloor>x\<rfloor> \<le> x" "x < of_int \<lfloor>x\<rfloor> + 1" by linarith+
  then show ?thesis by (auto simp: round_half_even_def Let_def abs_le_iff)
qed

lemma round_half_even_unique:
  assumes "\<bar>x - of_int c\<bar> < 1 / 2"
  shows "round_half_even x = c"
proof -
  have "\<bar>of_int (round_half_even x) - (of_int c :: rat)\<bar> < 1"
    using assms round_half_even_error [of x] by linarith
  then have "\<bar>round_half_even x - c\<bar> < 1"
    by (metis of_int_abs of_int_diff of_int_1 of_int_less_iff)
  then show ?thesis by simp
qed

lemma round_half_even_int [simp]: "round_half_even (of_int c) = c"
  by (rule round_half_even_unique) simp

lemma round_half_even_nonneg: "0 \<le> x \<Longrightarrow> 0 \<le> round_half_even x"
  using round_half_even_error [of x] by linarith

text \<open>Below \<open>2 ^ k\<close> the result is finite and within half a unit of the last place.\<close>

lemma round64_error:
  assumes x: "\<bar>x\<bar> < pow2 k" and k: "- 1021 \<le> k" "k \<le> 1000"
  shows "\<exists>v. round64 x = Fin v \<and> \<bar>v - x\<bar> \<le> pow2 (k - 54)"
proof (cases "x = 0")
  case True
  then show ?thesis by (auto simp: round64_def less_imp_le)
next
  case False
  define q where "q = max (floor_log2 \<bar>x\<bar> - 52) (-1074)"
  define v where "v = of_int (round_half_even (\<bar>x\<bar> / pow2 q)) * pow2 q"
  have "floor_log2 \<bar>x\<bar> < k" using False x by (intro floor_log2_less) auto
  then have q: "q \<le> k - 53" using k by (simp add: q_def)
  have "\<bar>v - \<bar>x\<bar>\<bar> = \<bar>of_int (round_half_even (\<bar>x\<bar> / pow2 q)) - \<bar>x\<bar> / pow2 q\<bar> * pow2 q"
    using abs_mult_pos [of "pow2 q" "of_int (round_half_even (\<bar>x\<bar> / pow2 q)) - \<bar>x\<bar> / pow2 q"]
    by (simp add: v_def left_diff_distrib less_imp_le)
  also have "\<dots> \<le> 1 / 2 * pow2 q"
    by (intro mult_right_mono round_half_even_error) (simp add: less_imp_le)
  also have "\<dots> = pow2 (q - 1)" by (simp add: pow2_diff) (simp add: pow2_def)
  also have "\<dots> \<le> pow2 (k - 54)" using q by (intro pow2_mono) simp
  finally have err: "\<bar>v - \<bar>x\<bar>\<bar> \<le> pow2 (k - 54)" .
  have "pow2 (k - 54) \<le> pow2 k" by (intro pow2_mono) simp
  then have "v < pow2 k + pow2 k" using err x by linarith
  also have "\<dots> = pow2 (k + 1)" by (simp add: pow2_add) (simp add: pow2_def)
  also have "\<dots> \<le> pow2 1024" using k by (intro pow2_mono) simp
  finally have "round64 x = Fin (sgn x * v)"
    using False by (simp add: round64_def Let_def q_def v_def)
  moreover have "\<bar>sgn x * v - x\<bar> = \<bar>v - \<bar>x\<bar>\<bar>"
    using False by (auto simp: sgn_if)
  ultimately show ?thesis using err by auto
qed

text \<open>For a normal value the error is at most \<open>2 ^ (-53)\<close> of the value itself.\<close>

lemma round64_relative:
  assumes "pow2 (- 1022) \<le> \<bar>x\<bar>" and "\<bar>x\<bar> < pow2 999"
  shows "\<exists>v. round64 x = Fin v \<and> \<bar>v - x\<bar> \<le> \<bar>x\<bar> * pow2 (- 53)"
proof -
  have pos: "0 < \<bar>x\<bar>" using assms(1) pow2_pos [of "- 1022"] by linarith
  define e where "e = floor_log2 \<bar>x\<bar>"
  have e: "pow2 e \<le> \<bar>x\<bar>" "\<bar>x\<bar> < pow2 (e + 1)"
    using floor_log2_bounds [OF pos] by (simp_all add: e_def)
  have "e < 999" using floor_log2_less [OF pos assms(2)] by (simp add: e_def)
  moreover have "- 1022 < e + 1" using assms(1) e(2) by (intro pow2_less_imp) linarith
  ultimately obtain v where v: "round64 x = Fin v" "\<bar>v - x\<bar> \<le> pow2 (e + 1 - 54)"
    using round64_error [OF e(2)] by auto
  have "pow2 (e + 1 - 54) = pow2 e * pow2 (- 53)" by (simp add: pow2_add [symmetric])
  also have "\<dots> \<le> \<bar>x\<bar> * pow2 (- 53)" using e(1) by (intro mult_right_mono) (auto simp: less_imp_le)
  finally show ?thesis using v by auto
qed

text \<open>The values of the format: multiples of \<open>2 ^ q\<close> by at most \<open>2 ^ 53\<close>. They are their own rounding.\<close>

lemma round64_grid:
  assumes v: "v = of_int m * pow2 q" and q: "- 1074 \<le> q" and m: "\<bar>m\<bar> \<le> 2 ^ 53" and max: "\<bar>v\<bar> < pow2 1024"
  shows "round64 v = Fin v"
proof (cases "v = 0")
  case True
  then show ?thesis by (simp add: round64_def)
next
  case False
  then have pos: "0 < \<bar>v\<bar>" by simp
  define q' where "q' = max (floor_log2 \<bar>v\<bar> - 52) (-1074)"
  have absv: "\<bar>v\<bar> = of_int \<bar>m\<bar> * pow2 q" by (simp add: v abs_mult less_imp_le)
  have "\<exists>k. \<bar>v\<bar> / pow2 q' = of_int k"
  proof (cases "q' \<le> q")
    case True
    then have "pow2 q = pow2 q' * 2 ^ nat (q - q')" by (simp add: pow2_nat [symmetric] pow2_add [symmetric])
    then have "\<bar>v\<bar> / pow2 q' = of_int (\<bar>m\<bar> * 2 ^ nat (q - q'))" by (simp add: absv)
    then show ?thesis by blast
  next
    case False
    then have q': "q' = floor_log2 \<bar>v\<bar> - 52" using q by (simp add: q'_def max_def split: if_splits)
    have "pow2 (q' + 52) \<le> \<bar>v\<bar>" using floor_log2_bounds [OF pos] by (simp add: q')
    moreover have "(of_int \<bar>m\<bar> :: rat) \<le> of_int (2 ^ 53)" using m by (simp only: of_int_le_iff)
    then have le: "\<bar>v\<bar> \<le> pow2 (q + 53)" by (simp add: absv pow2_add pow2_nat [of 53, simplified] mult.commute)
    ultimately have "pow2 (q' + 52) \<le> pow2 (q + 53)" by linarith
    then have "q' \<le> q + 1" using pow2_less [of "q + 53" "q' + 52"] by linarith
    then have qq: "q' = q + 1" using False by linarith
    then have "\<bar>v\<bar> = pow2 (q + 53)" using \<open>pow2 (q' + 52) \<le> \<bar>v\<bar>\<close> le by (simp add: add.commute)
    then have "\<bar>v\<bar> / pow2 q' = pow2 52" by (simp add: qq pow2_diff [symmetric])
    also have "\<dots> = of_int (2 ^ 52)" using pow2_nat [of 52] by simp
    finally show ?thesis by blast
  qed
  then obtain k where k: "\<bar>v\<bar> / pow2 q' = of_int k" by blast
  then have "of_int k * pow2 q' = \<bar>v\<bar>" by (simp add: field_simps)
  then show ?thesis using False k max
    by (simp add: round64_def Let_def q'_def [symmetric] sgn_if)
qed

lemma round64_on_grid:
  assumes "round64 x = Fin v"
  shows "\<exists>m q. v = of_int m * pow2 q \<and> - 1074 \<le> q \<and> \<bar>m\<bar> \<le> 2 ^ 53 \<and> \<bar>v\<bar> < pow2 1024"
proof (cases "x = 0")
  case True
  then show ?thesis using assms by (intro exI [of _ 0]) (auto simp: round64_def)
next
  case False
  define q where "q = max (floor_log2 \<bar>x\<bar> - 52) (-1074)"
  define m where "m = round_half_even (\<bar>x\<bar> / pow2 q)"
  have v: "v = sgn x * (of_int m * pow2 q)" "of_int m * pow2 q < pow2 1024"
    using assms False by (auto simp: round64_def Let_def q_def m_def split: if_splits)
  have "\<bar>x\<bar> < pow2 (floor_log2 \<bar>x\<bar> + 1)" using floor_log2_bounds [of "\<bar>x\<bar>"] False by simp
  also have "\<dots> \<le> pow2 (q + 53)" by (intro pow2_mono) (simp add: q_def)
  finally have "\<bar>x\<bar> / pow2 q < pow2 53" by (simp add: pow2_add field_simps)
  then have "\<bar>x\<bar> / pow2 q < of_int (2 ^ 53)" using pow2_nat [of 53] by simp
  moreover have "\<bar>of_int m - \<bar>x\<bar> / pow2 q\<bar> \<le> 1 / 2" unfolding m_def by (rule round_half_even_error)
  ultimately have "(of_int m :: rat) < of_int (2 ^ 53) + 1" by linarith
  then have "(of_int m :: rat) < of_int (2 ^ 53 + 1)" by simp
  then have "m < 2 ^ 53 + 1" by (simp only: of_int_less_iff)
  then have "m \<le> 2 ^ 53" by simp
  moreover have "0 \<le> m" unfolding m_def by (intro round_half_even_nonneg) (simp add: less_imp_le)
  ultimately show ?thesis using v(1,2) False
    by (intro exI [of _ "if x < 0 then - m else m"] exI [of _ q])
      (auto simp: sgn_if q_def abs_mult less_imp_le)
qed

text \<open>A value that a rounding gave is its own rounding.\<close>

lemma round64_idem: "round64 x = Fin v \<Longrightarrow> round64 v = Fin v"
  using round64_on_grid round64_grid by blast

subsection \<open>Amounts of money\<close>

text \<open>The \<open>float64\<close> nearest to an amount of whole cents.\<close>

definition cents_float :: "int \<Rightarrow> float64" where
  "cents_float c = round64 (of_int c / 100)"

text \<open>The running total over lines of a unit price and a quantity, as the cart adds it up.\<close>

definition add_line :: "float64 \<Rightarrow> float64 \<times> int32 \<Rightarrow> float64" where
  "add_line acc l = fadd acc (fmul (fst l) (float_of_int32 (snd l)))"

definition line_cents :: "int \<times> int32 \<Rightarrow> int" where
  "line_cents l = fst l * sint (snd l)"

lemma fixed_text_close:
  assumes close: "\<bar>v - of_int c / 100\<bar> < 1 / 200" and zero: "c = 0 \<Longrightarrow> 0 \<le> v"
  shows "fixed_text 2 v = fixed_text 2 (of_int c / 100)"
proof -
  have "\<bar>\<bar>v\<bar> - of_int \<bar>c\<bar> / 100\<bar> < 1 / 200"
    using close by (auto simp: abs_if split: if_splits)
  then have "\<bar>10 ^ 2 * \<bar>v\<bar> - of_int \<bar>c\<bar>\<bar> < 1 / 2"
    unfolding abs_less_iff [of "_ - _"] power2_eq_square by (intro conjI; linarith)
  then have "round_half_even (10 ^ 2 * \<bar>v\<bar>) = \<bar>c\<bar>" by (rule round_half_even_unique)
  moreover have "round_half_even (10 ^ 2 * \<bar>of_int c / 100\<bar>) = \<bar>c\<bar>"
    by (rule round_half_even_unique) (simp add: abs_mult abs_divide)
  moreover have "v < 0 \<longleftrightarrow> (of_int c :: rat) / 100 < 0"
  proof (cases "c = 0")
    case False
    then have "of_int c \<le> (- 1 :: rat) \<or> 1 \<le> (of_int c :: rat)" by linarith
    then show ?thesis using close unfolding abs_less_iff by linarith
  qed (use zero in auto)
  ultimately show ?thesis by (simp add: fixed_text_def)
qed

lemma cents_float_error:
  assumes "0 \<le> c" and "c \<le> 10 ^ 10"
  shows "\<exists>v. cents_float c = Fin v \<and> \<bar>v - of_int c / 100\<bar> \<le> of_int c / 100 * pow2 (- 53)"
proof (cases "c = 0")
  case True
  then show ?thesis by (simp add: cents_float_def round64_def)
next
  case False
  then have "1 \<le> c" using assms(1) by linarith
  then have "1 \<le> (of_int c :: rat)" by simp
  moreover have "(of_int c :: rat) \<le> 10 ^ 10"
    using assms(2) of_int_le_iff [of c "10 ^ 10", where 'a = rat] by simp
  moreover have "pow2 (- 1022) \<le> pow2 (- 7)" "pow2 40 \<le> pow2 999" by (simp_all add: pow2_mono)
  moreover have "pow2 (- 7) = 1 / 128" "pow2 40 = 1099511627776"
    by (simp_all add: pow2_def power_int_minus)
  ultimately show ?thesis
    using round64_relative [of "of_int c / 100"] by (auto simp: cents_float_def)
qed

lemma line_product_error:
  assumes "0 \<le> c" and "0 < sint q" and "c * sint q \<le> 10 ^ 10"
  obtains p m where "cents_float c = Fin p" "round64 (p * of_int (sint q)) = Fin m"
    "\<bar>m - of_int (c * sint q) / 100\<bar> \<le> 3 / 134217728"
proof -
  define t where "t = (of_int (c * sint q) :: rat) / 100"
  define K :: rat where "K = of_int (sint q)"
  have "c * 1 \<le> c * sint q" using assms(1,2) by (intro mult_left_mono) auto
  then obtain p where p: "cents_float c = Fin p" and ep: "\<bar>p - of_int c / 100\<bar> \<le> of_int c / 100 * pow2 (- 53)"
    using cents_float_error [of c] assms(1,3) by auto
  have "0 \<le> c * sint q" using assms(1,2) by simp
  then have "(0 :: rat) \<le> of_int (c * sint q)" "(of_int (c * sint q) :: rat) \<le> of_int (10 ^ 10)"
    using assms(3) by (simp_all only: of_int_le_iff of_int_0_le_iff)
  then have t: "0 \<le> t" "t \<le> 100000000" by (simp_all add: t_def)
  have K: "0 \<le> K" and tK: "t = of_int c / 100 * K"
    using assms(2) by (simp_all only: K_def t_def of_int_mult of_int_0_le_iff less_imp_le times_divide_eq_left)
  have p53: "pow2 (- 53) = 1 / 9007199254740992" "pow2 27 = 134217728" "pow2 (27 - 54) = 1 / 134217728"
    by (simp_all add: pow2_def power_int_minus)
  have "p * K - t = (p - of_int c / 100) * K" by (simp add: tK algebra_simps)
  then have "\<bar>p * K - t\<bar> = \<bar>p - of_int c / 100\<bar> * K" using K by (simp add: abs_mult)
  also have "\<dots> \<le> of_int c / 100 * pow2 (- 53) * K" using ep K by (rule mult_right_mono)
  also have "\<dots> = t * pow2 (- 53)" by (simp add: tK)
  also have "\<dots> \<le> 1 / 67108864" unfolding p53(1) using t by linarith
  finally have m0: "\<bar>p * K - t\<bar> \<le> 1 / 67108864" .
  then have "\<bar>p * K\<bar> < pow2 27" using t p53 by linarith
  then obtain m where m: "round64 (p * K) = Fin m" and "\<bar>m - p * K\<bar> \<le> 1 / 134217728"
    using round64_error [of "p * K" 27] p53 by auto
  then have "\<bar>m - t\<bar> \<le> 3 / 134217728" using m0 by linarith
  then show ?thesis using that p m by (simp add: t_def K_def)
qed

text \<open>One line of a cart adds less than a 33-millionth to the error of the sum.\<close>

lemma add_line_error:
  assumes "0 \<le> c" and "0 < sint q" and "0 \<le> S" and "S + c * sint q \<le> 10 ^ 10"
    and "\<bar>v - of_int S / 100\<bar> \<le> n / 33554432" and "0 \<le> n" and "n \<le> 100000"
  obtains s where "add_line (Fin v) (cents_float c, q) = Fin s" "\<bar>s - of_int (S + c * sint q) / 100\<bar> \<le> (n + 1) / 33554432"
proof -
  have "c * sint q \<le> 10 ^ 10" using assms(3,4) by linarith
  from line_product_error [OF assms(1,2) this] obtain p m where p: "cents_float c = Fin p"
    and m: "round64 (p * of_int (sint q)) = Fin m" and em: "\<bar>m - of_int (c * sint q) / 100\<bar> \<le> 3 / 134217728" .
  have p27: "pow2 27 = 134217728" "pow2 (27 - 54) = 1 / 134217728" by (simp_all add: pow2_def power_int_minus)
  have cq: "0 \<le> c * sint q" using assms(1,2) by simp
  have R: "(0 :: rat) \<le> of_int S" "(0 :: rat) \<le> of_int (c * sint q)" "(of_int (S + c * sint q) :: rat) \<le> of_int (10 ^ 10)"
    using assms(3,4) cq by (simp_all only: of_int_le_iff of_int_0_le_iff)
  then have sum: "of_int S / 100 + of_int (c * sint q) / 100 \<le> (100000000 :: rat)" by simp
  have "\<bar>v + m\<bar> < pow2 27" using assms(5-7) em R(1,2) sum p27 by linarith
  then obtain s where s: "round64 (v + m) = Fin s" and es: "\<bar>s - (v + m)\<bar> \<le> 1 / 134217728"
    using round64_error [of "v + m" 27] p27 by auto
  have "\<bar>s - (of_int S / 100 + of_int (c * sint q) / 100)\<bar> \<le> (n + 1) / 33554432"
    using assms(5) em es unfolding add_divide_distrib abs_le_iff by (intro conjI; linarith)
  then show ?thesis using that p m s by (simp add: add_line_def float_of_int32_def add_divide_distrib)
qed

lemma fold_lines_error:
  assumes "\<forall>(c, q) \<in> set ls. 0 \<le> c \<and> 0 < sint q"
    and "sum_list (map line_cents ls) \<le> 10 ^ 10" and "length ls \<le> 100000"
  shows "\<exists>v. foldl add_line (Fin 0) (map (map_prod cents_float id) ls) = Fin v \<and>
             \<bar>v - of_int (sum_list (map line_cents ls)) / 100\<bar> \<le> of_nat (length ls) / 33554432"
  using assms
proof (induction ls rule: rev_induct)
  case Nil
  then show ?case by simp
next
  case (snoc l ls)
  obtain c q where l: "l = (c, q)" by force
  let ?S = "sum_list (map line_cents ls)"
  have c: "0 \<le> c" "0 < sint q" using snoc.prems(1) l by auto
  have S: "0 \<le> ?S" unfolding line_cents_def using snoc.prems(1) by (intro sum_list_nonneg) auto
  have SL: "?S + c * sint q \<le> 10 ^ 10" using snoc.prems(2) by (simp add: l line_cents_def [of "(c, q)"])
  then have "?S \<le> 10 ^ 10" using c by (smt (verit) mult_nonneg_nonneg)
  then obtain v where v: "foldl add_line (Fin 0) (map (map_prod cents_float id) ls) = Fin v"
    and ev: "\<bar>v - of_int ?S / 100\<bar> \<le> of_nat (length ls) / 33554432"
    using snoc.IH snoc.prems by fastforce
  have n: "(0 :: rat) \<le> of_nat (length ls)" "of_nat (length ls) \<le> (100000 :: rat)" using snoc.prems(3) by simp_all
  from add_line_error [OF c S SL ev n] obtain s where s: "add_line (Fin v) (cents_float c, q) = Fin s"
    "\<bar>s - of_int (?S + c * sint q) / 100\<bar> \<le> (of_nat (length ls) + 1) / 33554432" .
  moreover have "foldl add_line (Fin 0) (map (map_prod cents_float id) (ls @ [l])) = add_line (Fin v) (cents_float c, q)"
    by (simp only: map_append list.map foldl_append foldl.simps v l map_prod_simp id_apply)
  moreover have "sum_list (map line_cents (ls @ [l])) = ?S + c * sint q" by (simp add: l line_cents_def [of "(c, q)"])
  moreover have "of_nat (length (ls @ [l])) = (of_nat (length ls) + 1 :: rat)" by simp
  ultimately show ?case by (metis (no_types, lifting))
qed

end
