(* ===== verification/Decimal.thy ===== *)
theory Decimal
  imports Float64
begin

text \<open>
  Reading numbers: \<^verbatim>\<open>strconv.ParseInt\<close> (base 10), \<^verbatim>\<open>strconv.Atoi\<close> and the decimal and special forms
  of \<^verbatim>\<open>strconv.ParseFloat\<close> (its hexadecimal form is left out), and a reader of decimal
  fractions. What the printers of \<^theory_text>\<open>Float64\<close> write is read back.
\<close>

definition digit_val :: "char \<Rightarrow> nat option" where
  "digit_val c = (let n = of_char c :: nat in if 48 \<le> n \<and> n \<le> 57 then Some (n - 48) else None)"

fun digits :: "string \<Rightarrow> nat \<Rightarrow> nat option" where
  "digits [] acc = Some acc"
| "digits (c # cs) acc = (case digit_val c of None \<Rightarrow> None | Some d \<Rightarrow> digits cs (10 * acc + d))"

definition parse_nat :: "string \<Rightarrow> nat option" where
  "parse_nat s = (if s = [] then None else digits s 0)"

text \<open>A sign, then the rest.\<close>

fun signed_text :: "string \<Rightarrow> bool \<times> string" where
  "signed_text (c # cs) = (if c = CHR ''-'' then (True, cs) else if c = CHR ''+'' then (False, cs) else (False, c # cs))"
| "signed_text [] = (False, [])"

text \<open>\<^verbatim>\<open>strconv.ParseInt(s, 10, bits)\<close>.\<close>

definition parse_int :: "nat \<Rightarrow> string \<Rightarrow> int option" where
  "parse_int bits s = (case signed_text s of (neg, t) \<Rightarrow>
     (case parse_nat t of
        None \<Rightarrow> None
      | Some n \<Rightarrow>
         (let v = (if neg then - int n else int n) in
          if - (2 ^ (bits - 1)) \<le> v \<and> v < 2 ^ (bits - 1) then Some v else None)))"

text \<open>Digits with at most one point: the digits as a number and how many follow the point.\<close>

definition mantissa :: "string \<Rightarrow> (nat \<times> nat) option" where
  "mantissa s = (let a = takeWhile (\<lambda>c. c \<noteq> CHR ''.'') s; b = drop (Suc (length a)) s in
     if a @ b = [] then None
     else map_option (\<lambda>n. (n, length b)) (digits (a @ b) 0))"

definition exponent :: "string \<Rightarrow> int option" where
  "exponent t = (case t of [] \<Rightarrow> Some 0 | _ # e \<Rightarrow>
     (case signed_text e of (neg, ds) \<Rightarrow> map_option (\<lambda>n. if neg then - int n else int n) (parse_nat ds)))"

definition is_exp :: "char \<Rightarrow> bool" where
  "is_exp c \<longleftrightarrow> c = CHR ''e'' \<or> c = CHR ''E''"

definition parse_decimal :: "string \<Rightarrow> rat option" where
  "parse_decimal s = (case signed_text s of (neg, t) \<Rightarrow>
     (case (mantissa (takeWhile (\<lambda>c. \<not> is_exp c) t), exponent (dropWhile (\<lambda>c. \<not> is_exp c) t)) of
        (Some (n, k), Some e) \<Rightarrow>
          Some ((if neg then - 1 else 1) * of_nat n * (10 powi (e - int k)))
      | _ \<Rightarrow> None))"

definition lower_ascii :: "char \<Rightarrow> char" where
  "lower_ascii c = (let n = of_char c :: nat in if 65 \<le> n \<and> n \<le> 90 then char_of (n + 32) else c)"

text \<open>\<^verbatim>\<open>strconv.ParseFloat(s, 64)\<close>; \<open>None\<close> is an error, a value out of range included.\<close>

definition parse_float :: "string \<Rightarrow> float64 option" where
  "parse_float s = (case signed_text s of (neg, t) \<Rightarrow>
     (let l = map lower_ascii t in
      if l = ''inf'' \<or> l = ''infinity'' then Some (if neg then NInf else PInf)
      else if map lower_ascii s = ''nan'' then Some NaN
      else (case parse_decimal s of
         None \<Rightarrow> None
       | Some r \<Rightarrow> (case round64 r of Fin v \<Rightarrow> Some (Fin v) | _ \<Rightarrow> None))))"

subsection \<open>Reading what was printed\<close>

lemma of_char_digit: "d < 10 \<Longrightarrow> of_char (char_of (48 + d) :: char) = 48 + (d :: nat)"
  by (simp add: of_char_of)

lemma digit_val_show: "d < 10 \<Longrightarrow> digit_val (char_of (48 + d)) = Some d"
  by (simp add: digit_val_def of_char_digit Let_def)

lemma digits_append:
  "digits (s @ t) acc = (case digits s acc of None \<Rightarrow> None | Some a \<Rightarrow> digits t a)"
  by (induction s arbitrary: acc) (auto split: option.splits)

lemma digits_show_nat: "digits (show_nat n) acc = Some (acc * 10 ^ length (show_nat n) + n)"
proof (induction n arbitrary: acc rule: less_induct)
  case (less n)
  show ?case
  proof (cases "n < 10")
    case True
    then show ?thesis by (simp add: show_nat.simps [of n] digit_val_show)
  next
    case False
    have "n div 10 < n" using False by simp
    from less.IH [OF this] have "digits (show_nat n) acc =
        Some (10 * (acc * 10 ^ length (show_nat (n div 10)) + n div 10) + n mod 10)"
      using False by (simp add: show_nat.simps [of n] digits_append digit_val_show)
    also have "\<dots> = Some (acc * 10 ^ length (show_nat n) + n)"
      using False by (subst (2) show_nat.simps) (simp add: algebra_simps)
    finally show ?thesis .
  qed
qed

lemma show_nat_nonempty: "show_nat n \<noteq> []"
  by (subst show_nat.simps) simp

lemma parse_show_nat: "parse_nat (show_nat n) = Some n"
  by (simp add: parse_nat_def show_nat_nonempty digits_show_nat)

lemma show_nat_digits: "c \<in> set (show_nat n) \<Longrightarrow> digit_val c \<noteq> None"
proof (induction n rule: less_induct)
  case (less n)
  show ?case
  proof (cases "n < 10")
    case True
    then show ?thesis using less.prems by (simp add: show_nat.simps [of n] digit_val_show)
  next
    case False
    then have "n div 10 < n" by simp
    then show ?thesis using less show_nat.simps [of n] False by (fastforce simp: digit_val_show)
  qed
qed

lemma not_digit: "digit_val (CHR ''-'') = None" "digit_val (CHR ''+'') = None"
  "digit_val (CHR ''.'') = None" "digit_val (CHR ''e'') = None" "digit_val (CHR ''E'') = None"
  by (simp_all add: digit_val_def)

lemma show_nat_no: "digit_val c = None \<Longrightarrow> c \<notin> set (show_nat n)"
  using show_nat_digits by fastforce

lemma signed_show_nat: "signed_text (show_nat n @ t) = (False, show_nat n @ t)"
proof -
  obtain c cs where s: "show_nat n = c # cs" using show_nat_nonempty by (cases "show_nat n") auto
  then have "c \<in> set (show_nat n)" by simp
  then have "c \<noteq> CHR ''-''" "c \<noteq> CHR ''+''" using show_nat_no not_digit by metis+
  then show ?thesis by (simp add: s)
qed

lemma parse_show_int:
  assumes "- (2 ^ (bits - 1)) \<le> n" "n < 2 ^ (bits - 1)"
  shows "parse_int bits (show_int n) = Some n"
  using assms signed_show_nat [of "nat n" "[]"]
  by (auto simp: parse_int_def show_int_def parse_show_nat)

lemma digits_zeros: "digits (replicate k (CHR ''0'')) acc = Some (acc * 10 ^ k)"
  by (induction k arbitrary: acc) (auto simp: digit_val_def algebra_simps)

lemma length_show_nat: "n < 10 ^ d \<Longrightarrow> 0 < d \<Longrightarrow> length (show_nat n) \<le> d"
proof (induction d arbitrary: n)
  case (Suc d)
  show ?case
  proof (cases "n < 10")
    case True
    then show ?thesis by (simp add: show_nat.simps)
  next
    case False
    then have "0 < d" using Suc.prems by (cases d) auto
    moreover have "n div 10 < 10 ^ d" using Suc.prems by (simp add: div_less_iff_less_mult mult.commute)
    ultimately show ?thesis using Suc.IH False by (subst show_nat.simps) simp
  qed
qed simp

lemma pad_show: "n < 10 ^ d \<Longrightarrow> 0 < d \<Longrightarrow>
    digits (pad_left d (show_nat n)) acc = Some (acc * 10 ^ d + n) \<and> length (pad_left d (show_nat n)) = d"
  using length_show_nat [of n d]
  by (simp add: pad_left_def digits_append digits_zeros digits_show_nat power_add [symmetric])

lemma takeWhile_all: "(\<forall>c \<in> set s. P c) \<Longrightarrow> takeWhile P s = s \<and> dropWhile P s = []"
  by (induction s) auto

lemma pad_no: "digit_val c = None \<Longrightarrow> c \<notin> set (pad_left d (show_nat n))"
  using show_nat_no by (auto simp: pad_left_def digit_val_def)

text \<open>The text of \<open>m\<close> units of \<open>10 ^ (- d)\<close> is read as that number.\<close>

lemma parse_fixed:
  assumes "0 < d"
  shows "parse_decimal ((if neg then ''-'' else []) @ show_nat (m div 10 ^ d) @ ''.'' @
      pad_left d (show_nat (m mod 10 ^ d))) =
    Some ((if neg then - 1 else 1) * (of_nat m / 10 ^ d))"
proof -
  let ?a = "show_nat (m div 10 ^ d)" and ?b = "pad_left d (show_nat (m mod 10 ^ d))"
  have b: "digits ?b acc = Some (acc * 10 ^ d + m mod 10 ^ d)" "length ?b = d" for acc
    using pad_show [of "m mod 10 ^ d" d] assms by simp_all
  have "\<forall>c \<in> set (?a @ ''.'' @ ?b). \<not> is_exp c"
    using show_nat_no pad_no not_digit by (auto simp: is_exp_def)
  then have e: "takeWhile (\<lambda>c. \<not> is_exp c) (?a @ ''.'' @ ?b) = ?a @ ''.'' @ ?b"
    "dropWhile (\<lambda>c. \<not> is_exp c) (?a @ ''.'' @ ?b) = []"
    using takeWhile_all by blast+
  have "takeWhile (\<lambda>c. c \<noteq> CHR ''.'') (?a @ ''.'' @ ?b) = ?a"
    using show_nat_no [OF not_digit(3)] by (subst takeWhile_append2) auto
  then have m: "mantissa (?a @ ''.'' @ ?b) = Some (m, d)"
    using show_nat_nonempty
    by (simp add: mantissa_def Let_def digits_append digits_show_nat b div_mult_mod_eq)
  define T where "T = ?a @ ''.'' @ ?b"
  have "signed_text ((if neg then ''-'' else []) @ T) = (neg, T)"
    using signed_show_nat [of "m div 10 ^ d" "''.'' @ ?b"] by (simp add: T_def)
  then have "parse_decimal ((if neg then ''-'' else []) @ T) =
      Some ((if neg then - 1 else 1) * (of_nat m / 10 ^ d))"
    by (simp add: parse_decimal_def e [folded T_def] m [folded T_def] exponent_def power_int_minus
        field_simps)
  then show ?thesis unfolding T_def .
qed

lemma parse_fixed_text:
  assumes "0 < d" and "round_half_even (10 ^ d * \<bar>x\<bar>) = m"
  shows "parse_decimal (fixed_text d x) = Some ((if x < 0 then - 1 else 1) * (of_nat (nat m) / 10 ^ d))"
  using parse_fixed [OF assms(1), of "x < 0" "nat m"]
  unfolding fixed_text_def assms(2) by (cases "x < 0") (simp_all add: Let_def)

text \<open>An amount of whole cents.\<close>

lemma parse_cents: "parse_decimal (fixed_text 2 (of_int c / 100)) = Some (of_int c / 100)"
proof -
  have "round_half_even (10 ^ 2 * \<bar>of_int c / 100\<bar>) = \<bar>c\<bar>"
    by (rule round_half_even_unique) (simp add: abs_mult abs_divide)
  from parse_fixed_text [OF _ this] show ?thesis by (cases "c < 0") auto
qed


text \<open>A text that starts with a digit is no special form.\<close>

lemma parse_float_digit:
  assumes "digit_val c \<noteq> None" and "parse_decimal (c # cs) = Some r"
  shows "parse_float (c # cs) = (case round64 r of Fin v \<Rightarrow> Some (Fin v) | _ \<Rightarrow> None)"
proof -
  have c: "48 \<le> (of_char c :: nat)" "of_char c \<le> (57 :: nat)"
    using assms(1) by (simp_all add: digit_val_def Let_def split: if_splits)
  then have l: "lower_ascii c = c" by (simp add: lower_ascii_def)
  have "c \<noteq> CHR ''-''" "c \<noteq> CHR ''+''" "c \<noteq> CHR ''i''" "c \<noteq> CHR ''n''" using c by auto
  then show ?thesis using assms(2) by (auto simp: parse_float_def Let_def l)
qed

lemma show_nat_head: obtains c cs where "show_nat n = c # cs" "digit_val c \<noteq> None"
  using show_nat_digits [of _ n] show_nat_nonempty [of n] by (cases "show_nat n") auto

lemma parse_float_cents:
  assumes "0 \<le> v" and "fixed_text 2 v = fixed_text 2 (of_int c / 100)" and "round64 (of_int c / 100) = Fin u"
  shows "parse_float (fixed_text 2 v) = Some (Fin u)"
proof -
  obtain x xs where x: "show_nat (nat (round_half_even (10 ^ 2 * \<bar>v\<bar>)) div 10 ^ 2) = x # xs" "digit_val x \<noteq> None"
    by (rule show_nat_head)
  then obtain ys where "fixed_text 2 v = x # ys" using assms(1) by (simp add: fixed_text_def Let_def)
  then show ?thesis using parse_float_digit [OF x(2), of ys "of_int c / 100"] parse_cents [of c] assms(2,3)
    by simp
qed

end
