(* ===== verification/Status.thy ===== *)
theory Status
  imports Decimal
begin

text \<open>
  Errors and statuses. The first part names the errors that pass through the services: the
  errors of the PostgreSQL driver, of the Redis and RabbitMQ clients, of a context, a gRPC
  status, and a text with or without a wrapped cause (\<open>fmt.Errorf("t: %w", err)\<close>).

  The record \<open>ext\<close> collects the third-party functions the services call and whose code is not
  in the repository: the parsers and printers of \<open>pgtype\<close>, the conversions of the gRPC
  \<open>status\<close> package, the texts of foreign errors, PostgreSQL's reader of identifiers and its order of
  texts (as an order-preserving map into the rationals), and the text the Redis client writes for
  a \<open>float64\<close>. Every definition that uses one of them
  takes the record as its argument \<open>X\<close>; what the code relies on is stated by the named
  hypotheses at the end of this theory, and \<open>sample_ext\<close> shows that they can hold together.
\<close>

subsection \<open>Errors\<close>

datatype code =
    OK | Canceled | Unknown | InvalidArgument | DeadlineExceeded | NotFound | AlreadyExists
  | PermissionDenied | ResourceExhausted | FailedPrecondition | Aborted | OutOfRange
  | Unimplemented | Internal | Unavailable | DataLoss | Unauthenticated | OtherCode nat

record status =
  st_code :: code
  st_msg :: string

datatype ctx_err = CtxCanceled | CtxDeadlineExceeded | CtxOther string

datatype pg_error =
    UniqueViolation string | ForeignKeyViolation string | CheckViolation string
  | NotNullViolation string | NumericOverflow | IntegerOverflow | InvalidInput string
  | NegativeLimit | NegativeOffset | Unreachable string

datatype go_error =
    ErrNoRows | ErrTooManyRows | PgError pg_error | TxAborted
  | RedisNil | RedisError string | BrokerError string
  | StatusError status | CtxError ctx_err | TextError string | WrappedError string go_error

datatype numeric = Num rat | NumNaN | NumPInf | NumNInf

text \<open>\<open>errors.Is(err, pgx.ErrNoRows)\<close> follows the chain of wrapped errors.\<close>

fun is_no_rows :: "go_error \<Rightarrow> bool" where
  "is_no_rows ErrNoRows = True"
| "is_no_rows (WrappedError t e) = is_no_rows e"
| "is_no_rows _ = False"

subsection \<open>The third-party functions\<close>

record ext =
  scan_uuid :: "string \<Rightarrow> string + uuid"
  uuid_text :: "uuid \<Rightarrow> string"
  scan_numeric :: "string \<Rightarrow> string + numeric"
  numeric_float :: "numeric \<Rightarrow> string + float64"
  numeric_text :: "numeric \<Rightarrow> string"
  status_convert :: "go_error \<Rightarrow> status"
  ctx_status :: "ctx_err \<Rightarrow> status"
  status_text :: "status \<Rightarrow> string"
  foreign_text :: "go_error \<Rightarrow> string"
  pg_uuid :: "string \<Rightarrow> uuid option"
  collate :: "string \<Rightarrow> rat"
  redis_float :: "float64 \<Rightarrow> string"

text \<open>The text of an error, \<open>err.Error()\<close>, which \<open>%v\<close> prints.\<close>

fun err_text :: "ext \<Rightarrow> go_error \<Rightarrow> string" where
  "err_text X (TextError t) = t"
| "err_text X (WrappedError t e) = t @ '': '' @ err_text X e"
| "err_text X (StatusError s) = status_text X s"
| "err_text X (BrokerError t) = t"
| "err_text X e = foreign_text X e"

text \<open>\<open>status.Errorf(code, text)\<close>.\<close>

definition Errorf :: "code \<Rightarrow> string \<Rightarrow> status" where
  "Errorf c t = \<lparr>st_code = c, st_msg = t\<rparr>"

lemma Errorf_simps [simp]: "st_code (Errorf c t) = c" "st_msg (Errorf c t) = t"
  by (simp_all add: Errorf_def)

text \<open>\<open>pgUUID.Scan\<close> and \<open>pgNumeric.Scan\<close> as calls with an error.\<close>

definition parse_uuid :: "ext \<Rightarrow> string \<Rightarrow> go_error + uuid" where
  "parse_uuid X s = (case scan_uuid X s of Inl t \<Rightarrow> Inl (TextError t) | Inr u \<Rightarrow> Inr u)"

definition parse_numeric :: "ext \<Rightarrow> string \<Rightarrow> go_error + numeric" where
  "parse_numeric X s = (case scan_numeric X s of Inl t \<Rightarrow> Inl (TextError t) | Inr u \<Rightarrow> Inr u)"

definition numeric_float64 :: "ext \<Rightarrow> numeric \<Rightarrow> go_error + float64" where
  "numeric_float64 X n = (case numeric_float X n of Inl t \<Rightarrow> Inl (TextError t) | Inr u \<Rightarrow> Inr u)"

subsection \<open>What the code relies on\<close>

text \<open>\<open>pgtype.UUID\<close>: scanning the text of an identifier gives the identifier back.\<close>

definition uuid_round_trip :: "ext \<Rightarrow> bool" where
  "uuid_round_trip X \<longleftrightarrow> (\<forall>u. scan_uuid X (uuid_text X u) = Inr u)"

text \<open>The text \<open>%.2f\<close> prints for an amount of whole cents.\<close>

definition cents_text :: "int \<Rightarrow> string" where
  "cents_text c = fixed_text 2 (of_int c / 100)"

text \<open>\<open>pgtype.Numeric\<close>: scanning a decimal text gives the number it denotes.\<close>

definition scans_cents :: "ext \<Rightarrow> bool" where
  "scans_cents X \<longleftrightarrow> (\<forall>c. scan_numeric X (cents_text c) = Inr (Num (of_int c / 100)))"

text \<open>\<open>Numeric.Float64Value\<close>: the nearest \<open>float64\<close> of a number of cents that fits \<^verbatim>\<open>NUMERIC(10, 2)\<close>.\<close>

definition floats_cents :: "ext \<Rightarrow> bool" where
  "floats_cents X \<longleftrightarrow> (\<forall>c. \<bar>c\<bar> < 10 ^ 10 \<longrightarrow> numeric_float X (Num (of_int c / 100)) = Inr (cents_float c))"

text \<open>\<open>status.Convert\<close> gives the status of an error that is one.\<close>

definition converts_status :: "ext \<Rightarrow> bool" where
  "converts_status X \<longleftrightarrow> (\<forall>s. status_convert X (StatusError s) = s)"

text \<open>\<open>status.FromContextError\<close> reports the two errors of a context by their codes.\<close>

definition ctx_codes :: "ext \<Rightarrow> bool" where
  "ctx_codes X \<longleftrightarrow> st_code (ctx_status X CtxCanceled) = Canceled \<and>
     st_code (ctx_status X CtxDeadlineExceeded) = DeadlineExceeded"

text \<open>\<open>Numeric.Value\<close>: a number of cents, other than zero, with its two decimals.\<close>

definition shows_cents :: "ext \<Rightarrow> bool" where
  "shows_cents X \<longleftrightarrow> (\<forall>c. c \<noteq> 0 \<longrightarrow> numeric_text X (Num (of_int c / 100)) = cents_text c)"

text \<open>PostgreSQL reads the text of an identifier as the driver does.\<close>

definition pg_reads_uuids :: "ext \<Rightarrow> bool" where
  "pg_reads_uuids X \<longleftrightarrow> (\<forall>u. pg_uuid X (uuid_text X u) = Some u)"

text \<open>A price of whole cents that the Redis client writes is read back by \<^verbatim>\<open>strconv.ParseFloat\<close>.\<close>

definition redis_keeps_cents :: "ext \<Rightarrow> bool" where
  "redis_keeps_cents X \<longleftrightarrow> (\<forall>c. 0 \<le> c \<longrightarrow> c < 10 ^ 10 \<longrightarrow>
     parse_float (redis_float X (cents_float c)) = Some (cents_float c))"

lemma parse_uuid_text: "uuid_round_trip X \<Longrightarrow> parse_uuid X (uuid_text X u) = Inr u"
  by (simp add: parse_uuid_def uuid_round_trip_def)

lemma mapped_cents: "scans_cents X \<Longrightarrow> parse_numeric X (cents_text c) = Inr (Num (of_int c / 100))"
  by (simp add: parse_numeric_def scans_cents_def)

subsection \<open>An instance\<close>

definition sample_ext :: ext where
  "sample_ext = \<lparr>
     scan_uuid = (\<lambda>s. case parse_nat s of
         Some n \<Rightarrow> Inr (of_nat n)
       | None \<Rightarrow> Inl ''bad uuid''),
     uuid_text = (\<lambda>u. show_nat (unat u)),
     scan_numeric = (\<lambda>s. if s = ''NaN'' then Inr NumNaN else
       (case parse_decimal s of Some r \<Rightarrow> Inr (Num r) | None \<Rightarrow> Inl ''bad number'')),
     numeric_float = (\<lambda>n. case n of Num r \<Rightarrow> Inr (round64 r) | NumNaN \<Rightarrow> Inr NaN
       | NumPInf \<Rightarrow> Inr PInf | NumNInf \<Rightarrow> Inr NInf),
     numeric_text = (\<lambda>n. case n of Num r \<Rightarrow> fixed_text 2 r | NumNaN \<Rightarrow> ''NaN''
       | NumPInf \<Rightarrow> ''Infinity'' | NumNInf \<Rightarrow> ''-Infinity''),
     status_convert = (\<lambda>e. case e of StatusError s \<Rightarrow> s | _ \<Rightarrow> Errorf Unknown ''error''),
     ctx_status = (\<lambda>e. case e of CtxCanceled \<Rightarrow> Errorf Canceled ''context canceled''
       | CtxDeadlineExceeded \<Rightarrow> Errorf DeadlineExceeded ''context deadline exceeded''
       | CtxOther t \<Rightarrow> Errorf Unknown t),
     status_text = (\<lambda>s. ''rpc error: '' @ st_msg s),
     foreign_text = (\<lambda>e. ''error''),
     pg_uuid = (\<lambda>s. map_option of_nat (parse_nat s)),
     collate = (\<lambda>s. of_nat (length s)),
     redis_float = sprintf_2f\<rparr>"

lemma sample_uuids: "uuid_round_trip sample_ext"
  by (simp add: uuid_round_trip_def sample_ext_def parse_show_nat)

lemma sample_scans: "scans_cents sample_ext"
proof -
  have "cents_text c \<noteq> ''NaN''" for c
  proof
    assume "cents_text c = ''NaN''"
    then have "parse_decimal ''NaN'' = Some (of_int c / 100)"
      using parse_cents [of c] by (simp add: cents_text_def)
    moreover have "parse_decimal ''NaN'' = None" by code_simp
    ultimately show False by simp
  qed
  then show ?thesis
    by (simp add: scans_cents_def sample_ext_def parse_cents [folded cents_text_def])
qed

lemma sample_floats: "floats_cents sample_ext"
  by (simp add: floats_cents_def sample_ext_def cents_float_def)

lemma sample_shows: "shows_cents sample_ext"
  by (simp add: shows_cents_def sample_ext_def cents_text_def)

lemma sample_pg_uuids: "pg_reads_uuids sample_ext"
  by (simp add: pg_reads_uuids_def sample_ext_def parse_show_nat)

lemma sample_redis: "redis_keeps_cents sample_ext"
  unfolding redis_keeps_cents_def
proof (intro allI impI)
  fix c :: int assume c: "0 \<le> c" "c < 10 ^ 10"
  then obtain v where v: "cents_float c = Fin v" "\<bar>v - of_int c / 100\<bar> \<le> of_int c / 100 * pow2 (- 53)"
    using cents_float_error [of c] by auto
  have "of_int c / 100 \<le> (100000000 :: rat)" using c(2) of_int_le_iff [of c "10 ^ 10", where 'a = rat] by simp
  then have close: "\<bar>v - of_int c / 100\<bar> < 1 / 200" and zero: "c = 0 \<Longrightarrow> 0 \<le> v"
    using v(2) by (auto simp: pow2_def power_int_minus)
  have "0 \<le> v"
  proof (cases "c = 0")
    case False
    then have "1 \<le> (of_int c :: rat)" using c(1) by simp
    then show ?thesis using close by linarith
  qed (rule zero)
  moreover have "fixed_text 2 v = fixed_text 2 (of_int c / 100)" using close zero by (rule fixed_text_close)
  ultimately have "parse_float (fixed_text 2 v) = Some (Fin v)"
    using v(1) by (intro parse_float_cents) (simp_all add: cents_float_def)
  then show "parse_float (redis_float sample_ext (cents_float c)) = Some (cents_float c)"
    by (simp add: sample_ext_def v(1))
qed

lemma sample_converts: "converts_status sample_ext" "ctx_codes sample_ext"
  by (simp_all add: converts_status_def ctx_codes_def sample_ext_def)

end
