(* ===== verification/Json.thy ===== *)
theory Json
  imports Status
begin

text \<open>
  JSON values and Go's \<^verbatim>\<open>encoding/json\<close> on them, as the events use it. A message body is a tree;
  a body that is no JSON text is \<open>None\<close>. Numbers written with a fraction or an exponent are
  \<open>JDec\<close>: they decode into no integer, whatever their value. A struct is decoded key by key into
  a zero value: an exact key wins over one that differs in case, an unknown key is ignored, a
  \<^verbatim>\<open>null\<close> leaves a field as it is and makes a slice nil. A nil slice is \<open>None\<close>.
\<close>

datatype json =
    JNull | JBool bool | JInt int | JDec rat | JStr string | JArr "json list"
  | JObj "(string \<times> json) list"

type_synonym 'a slice = "'a list option"

definition elems :: "'a slice \<Rightarrow> 'a list" where
  "elems s = (case s of None \<Rightarrow> [] | Some xs \<Rightarrow> xs)"

lemma elems_simps [simp]: "elems None = []" "elems (Some xs) = xs"
  by (simp_all add: elems_def)

subsection \<open>Decoding\<close>

type_synonym 'a decoder = "json \<Rightarrow> 'a \<Rightarrow> 'a option"

fun into_string :: "string decoder" where
  "into_string (JStr s) old = Some s"
| "into_string JNull old = Some old"
| "into_string _ old = None"

fun into_int32 :: "int32 decoder" where
  "into_int32 (JInt n) old = (if in_int32 n then Some (word_of_int n) else None)"
| "into_int32 JNull old = Some old"
| "into_int32 _ old = None"

text \<open>An integer of the range \<open>P\<close>.\<close>

fun into_int :: "(int \<Rightarrow> bool) \<Rightarrow> int decoder" where
  "into_int P (JInt n) old = (if P n then Some n else None)"
| "into_int P JNull old = Some old"
| "into_int P _ old = None"

fun all_some :: "'a option list \<Rightarrow> 'a list option" where
  "all_some [] = Some []"
| "all_some (None # xs) = None"
| "all_some (Some x # xs) = map_option (Cons x) (all_some xs)"

fun into_slice :: "'a decoder \<Rightarrow> 'a \<Rightarrow> 'a slice decoder" where
  "into_slice d zero (JArr js) old = map_option Some (all_some (map (\<lambda>j. d j zero) js))"
| "into_slice d zero JNull old = Some None"
| "into_slice d zero _ old = None"

definition lower_char :: "char \<Rightarrow> char" where
  "lower_char c = (let n = of_char c :: nat in if 65 \<le> n \<and> n \<le> 90 then char_of (n + 32) else c)"

definition same_fold :: "string \<Rightarrow> string \<Rightarrow> bool" where
  "same_fold k l \<longleftrightarrow> map lower_char k = map lower_char l"

text \<open>The field a key denotes: the one of that very name, else the first of a name that differs
  in case only.\<close>

definition field_of :: "(string \<times> 's decoder) list \<Rightarrow> string \<Rightarrow> 's decoder option" where
  "field_of fs k = (case map_of fs k of
     Some d \<Rightarrow> Some d
   | None \<Rightarrow> map_option snd (find (\<lambda>(f, d). same_fold f k) fs))"

fun into_fields :: "(string \<times> 's decoder) list \<Rightarrow> (string \<times> json) list \<Rightarrow> 's \<Rightarrow> 's option" where
  "into_fields fs [] s = Some s"
| "into_fields fs ((k, j) # kvs) s =
     (case field_of fs k of
        None \<Rightarrow> into_fields fs kvs s
      | Some d \<Rightarrow> Option.bind (d j s) (into_fields fs kvs))"

fun into_struct :: "(string \<times> 's decoder) list \<Rightarrow> 's decoder" where
  "into_struct fs (JObj kvs) s = into_fields fs kvs s"
| "into_struct fs JNull s = Some s"
| "into_struct fs _ s = None"

text \<open>A field of a struct: read the value through \<open>get\<close>, store it through \<open>put\<close>.\<close>

definition fld :: "'a decoder \<Rightarrow> ('s \<Rightarrow> 'a) \<Rightarrow> ('a \<Rightarrow> 's \<Rightarrow> 's) \<Rightarrow> 's decoder" where
  "fld d get put j s = map_option (\<lambda>x. put x s) (d j (get s))"

text \<open>\<open>json.Unmarshal(body, &v)\<close> into a zero value.\<close>

definition unmarshal :: "'a decoder \<Rightarrow> 'a \<Rightarrow> json option \<Rightarrow> go_error + 'a" where
  "unmarshal d zero body = (case Option.bind body (\<lambda>j. d j zero) of
     None \<Rightarrow> Inl (TextError ''json: cannot unmarshal'') | Some x \<Rightarrow> Inr x)"

subsection \<open>Encoding\<close>

definition enc_int32 :: "int32 \<Rightarrow> json" where
  "enc_int32 q = JInt (sint q)"

definition enc_slice :: "('a \<Rightarrow> json) \<Rightarrow> 'a slice \<Rightarrow> json" where
  "enc_slice f s = (case s of None \<Rightarrow> JNull | Some xs \<Rightarrow> JArr (map f xs))"

text \<open>A field with the option \<^verbatim>\<open>omitempty\<close>.\<close>

definition opt_field :: "string \<Rightarrow> bool \<Rightarrow> json \<Rightarrow> (string \<times> json) list" where
  "opt_field k zero j = (if zero then [] else [(k, j)])"

text \<open>A \<open>float64\<close> is written as the shortest decimal that reads back as it; the tree holds its value. An infinite
  value and \<^verbatim>\<open>NaN\<close> cannot be written. A number too large for a \<open>float64\<close> cannot be read.\<close>

fun enc_float :: "float64 \<Rightarrow> json option" where
  "enc_float (Fin v) = Some (JDec v)"
| "enc_float _ = None"

definition read_float :: "rat \<Rightarrow> float64 option" where
  "read_float r = (case round64 r of Fin v \<Rightarrow> Some (Fin v) | _ \<Rightarrow> None)"

fun into_float :: "float64 decoder" where
  "into_float (JInt n) old = read_float (of_int n)"
| "into_float (JDec r) old = read_float r"
| "into_float JNull old = Some old"
| "into_float _ old = None"

lemma into_enc_int32 [simp]: "into_int32 (enc_int32 q) old = Some q"
  by (simp add: enc_int32_def sint_in_int32)

lemma all_some_map: "(\<And>x. x \<in> set xs \<Longrightarrow> f x = Some (g x)) \<Longrightarrow> all_some (map f xs) = Some (map g xs)"
  by (induction xs) auto

lemma into_enc_slice:
  assumes "\<And>x. d (f x) zero = Some x"
  shows "into_slice d zero (enc_slice f s) old = Some s"
proof (cases s)
  case (Some xs)
  have "all_some (map (\<lambda>x. d (f x) zero) xs) = Some xs"
    using all_some_map [of xs "\<lambda>x. d (f x) zero" "\<lambda>x. x"] assms by simp
  then show ?thesis by (simp add: enc_slice_def Some comp_def)
qed (simp add: enc_slice_def)

end
