(* ===== verification/Events.thy ===== *)
theory Events
  imports Json
begin

text \<open>
  The events of \<^verbatim>\<open>shared/events\<close>: the records, what Go's encoder makes of them, and how the
  consumers decode them.
\<close>

record OrderItem =
  oi_ProductID :: string
  oi_Quantity :: int32

record OrderCreatedEvent =
  oce_OrderID :: string
  oce_UserID :: string
  oce_UserEmail :: string
  oce_Products :: "OrderItem slice"

record StockUpdateFailedEvent =
  sfe_OrderID :: string
  sfe_Products :: "OrderItem slice"

text \<open>The event an outbox hands to the relayer.\<close>

record OutboxEvent =
  obe_ID :: string
  obe_AggregateID :: string
  obe_EventName :: string
  obe_Payload :: json
  obe_Status :: string

record ProductEvent =
  pe_ID :: string
  pe_CategoryID :: string
  pe_Name :: string
  pe_Description :: string
  pe_Price :: string
  pe_StockQuantity :: int32

definition ProductExchangeName :: string where "ProductExchangeName = ''products.events''"
definition ProductCreatedRoutingKey :: string where "ProductCreatedRoutingKey = ''product.created''"
definition ProductUpdatedRoutingKey :: string where "ProductUpdatedRoutingKey = ''product.updated''"
definition ProductDeletedRoutingKey :: string where "ProductDeletedRoutingKey = ''product.deleted''"
definition ProductWildcardRoutingKey :: string where "ProductWildcardRoutingKey = ''product.#''"
definition ProductCreatedEventName :: string where
  "ProductCreatedEventName = ProductExchangeName @ '':'' @ ProductCreatedRoutingKey"
definition ProductUpdatedEventName :: string where
  "ProductUpdatedEventName = ProductExchangeName @ '':'' @ ProductUpdatedRoutingKey"
definition ProductDeletedEventName :: string where
  "ProductDeletedEventName = ProductExchangeName @ '':'' @ ProductDeletedRoutingKey"

subsection \<open>Encoding\<close>

definition enc_order_item :: "OrderItem \<Rightarrow> json" where
  "enc_order_item i = JObj [(''productId'', JStr (oi_ProductID i)), (''quantity'', enc_int32 (oi_Quantity i))]"

definition enc_order_created :: "OrderCreatedEvent \<Rightarrow> json" where
  "enc_order_created e = JObj [(''orderId'', JStr (oce_OrderID e)), (''userId'', JStr (oce_UserID e)),
     (''userEmail'', JStr (oce_UserEmail e)), (''products'', enc_slice enc_order_item (oce_Products e))]"

definition enc_stock_failed :: "StockUpdateFailedEvent \<Rightarrow> json" where
  "enc_stock_failed e = JObj [(''orderId'', JStr (sfe_OrderID e)),
     (''products'', enc_slice enc_order_item (sfe_Products e))]"

definition enc_product :: "ProductEvent \<Rightarrow> json" where
  "enc_product p = JObj [(''id'', JStr (pe_ID p)), (''categoryId'', JStr (pe_CategoryID p)),
     (''name'', JStr (pe_Name p)), (''description'', JStr (pe_Description p)),
     (''price'', JStr (pe_Price p)), (''stockQuantity'', enc_int32 (pe_StockQuantity p))]"

subsection \<open>Decoding\<close>

definition zero_item :: OrderItem where
  "zero_item = \<lparr>oi_ProductID = [], oi_Quantity = 0\<rparr>"

definition zero_order_created :: OrderCreatedEvent where
  "zero_order_created = \<lparr>oce_OrderID = [], oce_UserID = [], oce_UserEmail = [], oce_Products = None\<rparr>"

definition zero_stock_failed :: StockUpdateFailedEvent where
  "zero_stock_failed = \<lparr>sfe_OrderID = [], sfe_Products = None\<rparr>"

definition zero_product_event :: ProductEvent where
  "zero_product_event = \<lparr>pe_ID = [], pe_CategoryID = [], pe_Name = [], pe_Description = [],
     pe_Price = [], pe_StockQuantity = 0\<rparr>"

definition into_order_item :: "OrderItem decoder" where
  "into_order_item = into_struct
     [(''productId'', fld into_string oi_ProductID (\<lambda>x. oi_ProductID_update (\<lambda>_. x))),
      (''quantity'', fld into_int32 oi_Quantity (\<lambda>x. oi_Quantity_update (\<lambda>_. x)))]"

definition into_order_created :: "OrderCreatedEvent decoder" where
  "into_order_created = into_struct
     [(''orderId'', fld into_string oce_OrderID (\<lambda>x. oce_OrderID_update (\<lambda>_. x))),
      (''userId'', fld into_string oce_UserID (\<lambda>x. oce_UserID_update (\<lambda>_. x))),
      (''userEmail'', fld into_string oce_UserEmail (\<lambda>x. oce_UserEmail_update (\<lambda>_. x))),
      (''products'', fld (into_slice into_order_item zero_item) oce_Products
         (\<lambda>x. oce_Products_update (\<lambda>_. x)))]"

definition into_stock_failed :: "StockUpdateFailedEvent decoder" where
  "into_stock_failed = into_struct
     [(''orderId'', fld into_string sfe_OrderID (\<lambda>x. sfe_OrderID_update (\<lambda>_. x))),
      (''products'', fld (into_slice into_order_item zero_item) sfe_Products
         (\<lambda>x. sfe_Products_update (\<lambda>_. x)))]"

definition into_product_event :: "ProductEvent decoder" where
  "into_product_event = into_struct
     [(''id'', fld into_string pe_ID (\<lambda>x. pe_ID_update (\<lambda>_. x))),
      (''categoryId'', fld into_string pe_CategoryID (\<lambda>x. pe_CategoryID_update (\<lambda>_. x))),
      (''name'', fld into_string pe_Name (\<lambda>x. pe_Name_update (\<lambda>_. x))),
      (''description'', fld into_string pe_Description (\<lambda>x. pe_Description_update (\<lambda>_. x))),
      (''price'', fld into_string pe_Price (\<lambda>x. pe_Price_update (\<lambda>_. x))),
      (''stockQuantity'', fld into_int32 pe_StockQuantity (\<lambda>x. pe_StockQuantity_update (\<lambda>_. x)))]"

definition unmarshal_order_created :: "json option \<Rightarrow> go_error + OrderCreatedEvent" where
  "unmarshal_order_created = unmarshal into_order_created zero_order_created"

definition unmarshal_stock_failed :: "json option \<Rightarrow> go_error + StockUpdateFailedEvent" where
  "unmarshal_stock_failed = unmarshal into_stock_failed zero_stock_failed"

definition unmarshal_product :: "json option \<Rightarrow> go_error + ProductEvent" where
  "unmarshal_product = unmarshal into_product_event zero_product_event"

subsection \<open>Round trips\<close>

lemma into_enc_order_item [simp]: "into_order_item (enc_order_item i) zero_item = Some i"
  by (simp add: into_order_item_def enc_order_item_def field_of_def fld_def zero_item_def)

lemma order_created_decodes: "unmarshal_order_created (Some (enc_order_created e)) = Inr e"
  by (simp add: unmarshal_order_created_def unmarshal_def into_order_created_def
      enc_order_created_def field_of_def fld_def zero_order_created_def into_enc_slice)

lemma stock_failed_decodes: "unmarshal_stock_failed (Some (enc_stock_failed e)) = Inr e"
  by (simp add: unmarshal_stock_failed_def unmarshal_def into_stock_failed_def
      enc_stock_failed_def field_of_def fld_def zero_stock_failed_def into_enc_slice)

lemma product_decodes: "unmarshal_product (Some (enc_product p)) = Inr p"
  by (simp add: unmarshal_product_def unmarshal_def into_product_event_def
      enc_product_def field_of_def fld_def zero_product_event_def)

end
