(* ===== verification/Db.thy ===== *)
theory Db
  imports Status
begin

text \<open>
  The PostgreSQL connection a service talks to. A service's database extends the record
  \<open>db_env\<close> with its tables. A statement is a function of the tables; \<open>db_call\<close> sends it: it
  numbers the statement, lets the environment lose the request (\<open>Before\<close>: the statement does
  not run) or the reply (\<open>LostReply\<close>: it runs, the caller sees an error), and keeps the
  state of the transaction: an error inside a transaction makes the later statements
  fail and the commit a rollback. \<open>with_tx\<close> is the code's
  \<^verbatim>\<open>Begin; defer Rollback; fn; Commit\<close>. A transaction is one step here: what other
  transactions do meanwhile is not modelled (it is atomic), and \<open>NOW()\<close> is the time at which
  it started, as PostgreSQL has it.
\<close>

datatype fault = Before string | LostReply string

datatype tx_state = NoTx | InTx int | TxFailed

record db_env =
  calls :: nat
  fault_at :: "nat \<Rightarrow> fault option"
  clock_at :: "nat \<Rightarrow> int"
  uuid_at :: "nat \<Rightarrow> uuid"
  txn :: tx_state

definition now :: "'z db_env_scheme \<Rightarrow> nat \<Rightarrow> int" where
  "now w n = (case txn w of InTx t \<Rightarrow> t | _ \<Rightarrow> clock_at w n)"

type_synonym ('w, 'a) stmt = "nat \<Rightarrow> 'w \<Rightarrow> pg_error + ('a \<times> 'w)"

text \<open>The connection after an error: a transaction in progress is lost.\<close>

definition failed :: "'z db_env_scheme \<Rightarrow> 'z db_env_scheme" where
  "failed w = w\<lparr>txn := (case txn w of NoTx \<Rightarrow> NoTx | _ \<Rightarrow> TxFailed)\<rparr>"

definition db_call :: "('z db_env_scheme, 'a) stmt \<Rightarrow> ('z db_env_scheme, go_error + 'a) state" where
  "db_call s = State (\<lambda>w.
     let n = calls w; v = w\<lparr>calls := Suc n\<rparr> in
     if txn w = TxFailed then (Inl TxAborted, v)
     else case fault_at w n of
       Some (Before t) \<Rightarrow> (Inl (PgError (Unreachable t)), failed v)
     | Some (LostReply t) \<Rightarrow>
         (Inl (PgError (Unreachable t)), failed (case s n v of Inl e \<Rightarrow> v | Inr (x, v') \<Rightarrow> v'))
     | None \<Rightarrow>
         (case s n v of Inl e \<Rightarrow> (Inl (PgError e), failed v) | Inr (x, v') \<Rightarrow> (Inr x, v')))"

text \<open>\<open>QueryRow(...).Scan(...)\<close>: a query that returns no row is \<open>pgx.ErrNoRows\<close>. This is an
  error of the client only, the transaction goes on.\<close>

definition query_row :: "('z db_env_scheme, 'a option) stmt \<Rightarrow> ('z db_env_scheme, go_error + 'a) state" where
  "query_row s = do {
     r \<leftarrow> db_call s;
     State_Monad.return (case r of Inl e \<Rightarrow> Inl e | Inr None \<Rightarrow> Inl ErrNoRows | Inr (Some x) \<Rightarrow> Inr x) }"

text \<open>A statement that only reads.\<close>

definition read_only :: "('w \<Rightarrow> 'a) \<Rightarrow> ('w, 'a) stmt" where
  "read_only f n w = Inr (f w, w)"

subsection \<open>Transactions\<close>

definition tx_begin :: "('z db_env_scheme, go_error + unit) state" where
  "tx_begin = db_call (\<lambda>n w. Inr ((), w\<lparr>txn := InTx (clock_at w n)\<rparr>))"

text \<open>The end of a transaction without its effects: the tables as they were at its start.\<close>

definition rolled_back :: "'z db_env_scheme \<Rightarrow> 'z db_env_scheme \<Rightarrow> 'z db_env_scheme" where
  "rolled_back w0 w = w0\<lparr>calls := calls w, txn := NoTx\<rparr>"

definition tx_commit :: "'z db_env_scheme \<Rightarrow> ('z db_env_scheme, go_error + unit) state" where
  "tx_commit w0 = State (\<lambda>w.
     let n = calls w; v = w\<lparr>calls := Suc n\<rparr> in
     if txn w = TxFailed then (Inl TxAborted, rolled_back w0 v)
     else case fault_at w n of
       Some (Before t) \<Rightarrow> (Inl (PgError (Unreachable t)), rolled_back w0 v)
     | Some (LostReply t) \<Rightarrow> (Inl (PgError (Unreachable t)), v\<lparr>txn := NoTx\<rparr>)
     | None \<Rightarrow> (Inr (), v\<lparr>txn := NoTx\<rparr>))"

definition with_tx ::
  "('z db_env_scheme, go_error + 'a) state \<Rightarrow> ('z db_env_scheme, go_error + 'a) state" where
  "with_tx body = State (\<lambda>w0.
     case run_state tx_begin w0 of
       (Inl e, w) \<Rightarrow> (Inl e, w\<lparr>txn := NoTx\<rparr>)
     | (Inr _, w) \<Rightarrow>
        (case run_state body w of
           (Inl e, w') \<Rightarrow> (Inl e, rolled_back w0 w')
         | (Inr x, w') \<Rightarrow>
            (case run_state (tx_commit w0) w' of
               (Inl e, w'') \<Rightarrow> (Inl e, w'')
             | (Inr _, w'') \<Rightarrow> (Inr x, w''))))"

subsection \<open>Columns\<close>

text \<open>A value stored in a \<^verbatim>\<open>NUMERIC(10, 2)\<close> column: rounded to cents, half away from zero; an
  absolute value of \<open>10 ^ 8\<close> or more, and an infinite one, do not fit.\<close>

definition round_half_away :: "rat \<Rightarrow> int" where
  "round_half_away x = (if 0 \<le> x then \<lfloor>x + 1 / 2\<rfloor> else - \<lfloor>- x + 1 / 2\<rfloor>)"

fun numeric_10_2 :: "numeric \<Rightarrow> pg_error + numeric" where
  "numeric_10_2 (Num r) = (let c = round_half_away (r * 100) in
     if \<bar>c\<bar> < 10 ^ 10 then Inr (Num (of_int c / 100)) else Inl NumericOverflow)"
| "numeric_10_2 NumNaN = Inr NumNaN"
| "numeric_10_2 _ = Inl NumericOverflow"

text \<open>PostgreSQL orders \<^verbatim>\<open>NaN\<close> above every number, also above infinity.\<close>

fun numeric_le :: "numeric \<Rightarrow> numeric \<Rightarrow> bool" where
  "numeric_le _ NumNaN = True"
| "numeric_le NumNaN _ = False"
| "numeric_le NumNInf _ = True"
| "numeric_le _ NumNInf = False"
| "numeric_le _ NumPInf = True"
| "numeric_le NumPInf _ = False"
| "numeric_le (Num a) (Num b) = (a \<le> b)"

instantiation numeric :: linorder
begin

definition less_eq_numeric :: "numeric \<Rightarrow> numeric \<Rightarrow> bool" where
  "x \<le> y \<longleftrightarrow> numeric_le x y"

definition less_numeric :: "numeric \<Rightarrow> numeric \<Rightarrow> bool" where
  "x < y \<longleftrightarrow> numeric_le x y \<and> \<not> numeric_le y x"

instance
proof
  fix x y z :: numeric
  show "x < y \<longleftrightarrow> x \<le> y \<and> \<not> y \<le> x" by (simp add: less_eq_numeric_def less_numeric_def)
  show "x \<le> x" by (cases x) (simp_all add: less_eq_numeric_def)
  show "x \<le> y \<Longrightarrow> y \<le> z \<Longrightarrow> x \<le> z" by (cases x; cases y; cases z) (simp_all add: less_eq_numeric_def)
  show "x \<le> y \<Longrightarrow> y \<le> x \<Longrightarrow> x = y" by (cases x; cases y) (simp_all add: less_eq_numeric_def)
  show "x \<le> y \<or> y \<le> x" by (cases x; cases y) (auto simp: less_eq_numeric_def)
qed

end

text \<open>\<^verbatim>\<open>n > 0\<close> in a constraint of a table.\<close>

definition num_positive :: "numeric \<Rightarrow> bool" where
  "num_positive n \<longleftrightarrow> Num 0 < n"

lemma num_positive_simps [simp]:
  "num_positive (Num r) \<longleftrightarrow> 0 < r" "num_positive NumNaN" "num_positive NumPInf" "\<not> num_positive NumNInf"
  by (auto simp: num_positive_def less_numeric_def)

lemma numeric_10_2_cents: "\<bar>c\<bar> < 10 ^ 10 \<Longrightarrow> numeric_10_2 (Num (of_int c / 100)) = Inr (Num (of_int c / 100))"
proof -
  have "\<lfloor>(of_int k :: rat) + 1 / 2\<rfloor> = k" for k by linarith
  from this [of c] this [of "- c"] have "round_half_away (of_int c) = c"
    by (simp add: round_half_away_def)
  then show "\<bar>c\<bar> < 10 ^ 10 \<Longrightarrow> ?thesis" by (simp add: Let_def)
qed

subsection \<open>Invariants of the tables\<close>

text \<open>A predicate of the tables does not look at the connection.\<close>

definition of_tables :: "('z db_env_scheme \<Rightarrow> bool) \<Rightarrow> bool" where
  "of_tables I \<longleftrightarrow> (\<forall>w c t. I (w\<lparr>calls := c\<rparr>) = I w \<and> I (w\<lparr>txn := t\<rparr>) = I w)"

definition stmt_keeps :: "('w \<Rightarrow> bool) \<Rightarrow> ('w, 'a) stmt \<Rightarrow> bool" where
  "stmt_keeps I s \<longleftrightarrow> (\<forall>n w x w'. I w \<longrightarrow> s n w = Inr (x, w') \<longrightarrow> I w')"

lemma of_tablesD: "of_tables I \<Longrightarrow> I (w\<lparr>calls := c\<rparr>) = I w" "of_tables I \<Longrightarrow> I (w\<lparr>txn := t\<rparr>) = I w"
  by (simp_all add: of_tables_def)

lemma stmt_keepsI: "(\<And>n w x w'. I w \<Longrightarrow> s n w = Inr (x, w') \<Longrightarrow> I w') \<Longrightarrow> stmt_keeps I s"
  unfolding stmt_keeps_def by blast

lemma stmt_keepsD: "stmt_keeps I s \<Longrightarrow> I w \<Longrightarrow> s n w = Inr (x, w') \<Longrightarrow> I w'"
  unfolding stmt_keeps_def by blast

lemma stmt_keeps_read_only [intro]: "stmt_keeps I (read_only f)"
  by (auto simp: stmt_keeps_def read_only_def)

text \<open>A call ends in one of three ways: it did nothing, it ran and the reply was lost, it ran.\<close>

lemma db_call_cases:
  assumes "run_state (db_call s) w = (r, w')"
  obtains (skipped) e where "r = Inl e" "w' = failed (w\<lparr>calls := Suc (calls w)\<rparr>)"
  | (lost) e x v where "r = Inl e" "s (calls w) (w\<lparr>calls := Suc (calls w)\<rparr>) = Inr (x, v)" "w' = failed v"
  | (ran) x where "r = Inr x" "s (calls w) (w\<lparr>calls := Suc (calls w)\<rparr>) = Inr (x, w')" "txn w \<noteq> TxFailed"
  using assms
  by (auto simp: db_call_def Let_def failed_def
      split: if_splits option.splits fault.splits sum.splits prod.splits)

lemma db_call_Inr:
  "run_state (db_call s) w = (Inr x, w') \<Longrightarrow>
     s (calls w) (w\<lparr>calls := Suc (calls w)\<rparr>) = Inr (x, w') \<and> fault_at w (calls w) = None"
  by (auto simp: db_call_def Let_def failed_def
      split: if_splits option.splits fault.splits sum.splits prod.splits)

lemma query_row_Inr:
  "run_state (query_row s) w = (Inr x, w') \<Longrightarrow>
     s (calls w) (w\<lparr>calls := Suc (calls w)\<rparr>) = Inr (Some x, w') \<and> fault_at w (calls w) = None"
  by (auto simp: query_row_def dest!: db_call_Inr split: prod.splits sum.splits option.splits)

lemma query_row_cases:
  assumes "run_state (query_row s) w = (r, w')"
  obtains (failed) e where "r = Inl e" "w' = failed (w\<lparr>calls := Suc (calls w)\<rparr>)"
  | (lost) e x v where "r = Inl e" "s (calls w) (w\<lparr>calls := Suc (calls w)\<rparr>) = Inr (x, v)" "w' = failed v"
  | (none) "r = Inl ErrNoRows" "s (calls w) (w\<lparr>calls := Suc (calls w)\<rparr>) = Inr (None, w')"
  | (row) x where "r = Inr x" "s (calls w) (w\<lparr>calls := Suc (calls w)\<rparr>) = Inr (Some x, w')"
proof -
  obtain q where q: "run_state (db_call s) w = (q, w')" and r: "r = (case q of Inl e \<Rightarrow> Inl e | Inr None \<Rightarrow> Inl ErrNoRows
      | Inr (Some x) \<Rightarrow> Inr x)"
    using assms by (auto simp: query_row_def split: prod.splits)
  from q show ?thesis
  proof (cases rule: db_call_cases)
    case (skipped e)
    then show ?thesis using r that(1) by simp
  next
    case (lost e x v)
    then show ?thesis using r that(2) by simp
  next
    case (ran x)
    then show ?thesis using r that(3,4) by (cases x) simp_all
  qed
qed

text \<open>Only a query that ran and found nothing gives the error \<^verbatim>\<open>pgx.ErrNoRows\<close>.\<close>

lemma query_row_no_rows:
  "run_state (query_row s) w = (Inl e, w') \<Longrightarrow> is_no_rows e \<Longrightarrow>
     s (calls w) (w\<lparr>calls := Suc (calls w)\<rparr>) = Inr (None, w')"
  by (auto simp: query_row_def db_call_def Let_def split: prod.splits sum.splits option.splits if_splits fault.splits)

lemma tables_failed: "of_tables I \<Longrightarrow> I (failed w) = I w"
  by (simp add: failed_def of_tablesD)

lemma keeps_db_call:
  assumes "of_tables I" and "stmt_keeps I s"
  shows "keeps I (db_call s)"
proof (rule keepsI)
  fix w r w' assume "I w" and run: "run_state (db_call s) w = (r, w')"
  then have v: "I (w\<lparr>calls := Suc (calls w)\<rparr>)" using assms(1) by (simp add: of_tablesD)
  from run show "I w'"
    by (cases rule: db_call_cases)
      (auto simp: tables_failed [OF assms(1)] v intro: stmt_keepsD [OF assms(2) v])
qed

lemma keeps_query_row: "of_tables I \<Longrightarrow> stmt_keeps I s \<Longrightarrow> keeps I (query_row s)"
  unfolding query_row_def by (intro keeps_bind keeps_db_call keeps_return)

lemma tx_commit_cases:
  assumes "run_state (tx_commit w0) w = (y, w')"
  obtains (rolled_back) e where "y = Inl e" "w' = rolled_back w0 (w\<lparr>calls := Suc (calls w)\<rparr>)"
  | (committed) "txn w \<noteq> TxFailed" "w' = w\<lparr>calls := Suc (calls w), txn := NoTx\<rparr>" "y = Inr () \<or> (\<exists>e. y = Inl e)"
  using assms by (auto simp: tx_commit_def Let_def split: if_splits option.splits fault.splits)

lemma with_tx_cases:
  assumes "run_state (with_tx body) w0 = (r, w')"
  obtains (rolled_back) e c where "r = Inl e" "w' = w0\<lparr>calls := c, txn := NoTx\<rparr>"
  | (committed) c t x w c' where
      "run_state body (w0\<lparr>calls := c, txn := InTx t\<rparr>) = (Inr x, w)" "txn w \<noteq> TxFailed"
      "w' = w\<lparr>calls := c', txn := NoTx\<rparr>" "r = Inr x \<or> (\<exists>e. r = Inl e)"
proof -
  obtain b w1 where b: "run_state tx_begin w0 = (b, w1)" by (cases "run_state tx_begin w0") auto
  from b [unfolded tx_begin_def] show ?thesis
  proof (cases rule: db_call_cases)
    case (skipped e)
    then have "r = Inl e" "w' = w0\<lparr>calls := Suc (calls w0), txn := NoTx\<rparr>"
      using assms b by (simp_all add: with_tx_def failed_def)
    then show ?thesis by (rule that(1))
  next
    case (lost e x v)
    then have "r = Inl e" "w' = w0\<lparr>calls := Suc (calls w0), txn := NoTx\<rparr>"
      using assms b by (auto simp: with_tx_def failed_def)
    then show ?thesis by (rule that(1))
  next
    case (ran u)
    obtain x w2 where x: "run_state body w1 = (x, w2)" by (cases "run_state body w1") auto
    obtain y w3 where y: "run_state (tx_commit w0) w2 = (y, w3)" by (cases "run_state (tx_commit w0) w2") auto
    have w1: "\<exists>c t. w1 = w0\<lparr>calls := c, txn := InTx t\<rparr>" using ran by auto
    show ?thesis
    proof (cases x)
      case (Inl e)
      then have "r = Inl e" "w' = w0\<lparr>calls := calls w2, txn := NoTx\<rparr>"
        using assms b ran x by (simp_all add: with_tx_def rolled_back_def)
      then show ?thesis by (rule that(1))
    next
      case (Inr z)
      then have r: "r = (case y of Inl e \<Rightarrow> Inl e | Inr _ \<Rightarrow> Inr z)" "w' = w3"
        using assms b ran x y by (auto simp: with_tx_def split: sum.splits)
      from y show ?thesis
      proof (cases rule: tx_commit_cases)
        case (rolled_back e)
        then show ?thesis using r by (intro that(1) [of e "Suc (calls w2)"]) (simp_all add: rolled_back_def)
      next
        case committed
        then show ?thesis using w1 x Inr r that(2) by (auto split: sum.splits)
      qed
    qed
  qed
qed

text \<open>A transaction keeps an invariant its body re-establishes when it returns without an
  error, even if the invariant is broken in between.\<close>

lemma keeps_with_tx:
  assumes I: "of_tables I"
    and body: "\<And>w x w'. I w \<Longrightarrow> run_state body w = (Inr x, w') \<Longrightarrow> txn w' \<noteq> TxFailed \<Longrightarrow> I w'"
  shows "keeps I (with_tx body)"
proof (rule keepsI)
  fix w0 r w' assume w0: "I w0" and run: "run_state (with_tx body) w0 = (r, w')"
  note I' [simp] = of_tablesD [OF I]
  from run show "I w'"
  proof (cases rule: with_tx_cases)
    case (committed c t x w c')
    then show ?thesis using body [OF _ committed(1)] w0 by simp
  qed (use w0 in simp)
qed

lemma keeps_with_tx_body:
  assumes "of_tables I" and "keeps I body"
  shows "keeps I (with_tx body)"
  using assms by (intro keeps_with_tx) (auto dest: keepsD)

subsection \<open>Runs without faults\<close>

definition reliable :: "'z db_env_scheme \<Rightarrow> bool" where
  "reliable w \<longleftrightarrow> (\<forall>n. fault_at w n = None) \<and> txn w = NoTx"

text \<open>The next call goes through.\<close>

lemma run_db_call:
  "fault_at w (calls w) = None \<Longrightarrow> txn w \<noteq> TxFailed \<Longrightarrow>
   run_state (db_call s) w =
     (case s (calls w) (w\<lparr>calls := Suc (calls w)\<rparr>) of
        Inl e \<Rightarrow> (Inl (PgError e), failed (w\<lparr>calls := Suc (calls w)\<rparr>))
      | Inr (x, v) \<Rightarrow> (Inr x, v))"
  by (simp add: db_call_def Let_def)

lemma run_query_row:
  "run_state (query_row s) w =
     (case run_state (db_call s) w of
        (r, v) \<Rightarrow> (case r of Inl e \<Rightarrow> Inl e | Inr None \<Rightarrow> Inl ErrNoRows | Inr (Some x) \<Rightarrow> Inr x, v))"
  by (simp add: query_row_def split: prod.splits)

lemma run_with_tx:
  assumes "fault_at w (calls w) = None" and "txn w \<noteq> TxFailed"
  shows "run_state (with_tx body) w =
     (case run_state body (w\<lparr>calls := Suc (calls w), txn := InTx (clock_at w (calls w))\<rparr>) of
        (Inl e, w') \<Rightarrow> (Inl e, rolled_back w w')
      | (Inr x, w') \<Rightarrow>
         (case run_state (tx_commit w) w' of
            (Inl e, w'') \<Rightarrow> (Inl e, w'')
          | (Inr _, w'') \<Rightarrow> (Inr x, w'')))"
  using assms by (simp add: with_tx_def tx_begin_def run_db_call)

lemma run_tx_commit:
  "fault_at w (calls w) = None \<Longrightarrow> txn w \<noteq> TxFailed \<Longrightarrow>
   run_state (tx_commit w0) w = (Inr (), w\<lparr>calls := Suc (calls w), txn := NoTx\<rparr>)"
  by (simp add: tx_commit_def Let_def)

lemma read_only_apply [simp]: "read_only f n w = Inr (f w, w)"
  by (simp add: read_only_def)

end
