(* ===== verification/Outbox.thy ===== *)
theory Outbox
  imports Events Db "HOL-Library.Multiset"
begin

text \<open>
  The outbox relayer of \<^verbatim>\<open>shared/events/worker\<close>: at every tick it reads a batch of unpublished
  events, publishes each one and marks it. Its two interfaces are locales.
  \<open>outbox_store\<close> is \<^verbatim>\<open>OutboxEventRepository\<close>: \<open>known\<close> are the messages of all rows, \<open>sent\<close> those
  of the rows marked published. \<open>publisher\<close> is \<^verbatim>\<open>Publisher\<close>: \<open>sends\<close> is what it handed to the
  broker, under the route it gave it. \<open>relayer\<close> joins them: what the store marks
  as published has been handed to the broker, whatever fails.
\<close>

subsection \<open>The relayer\<close>

definition relay_one ::
  "(string \<Rightarrow> json \<Rightarrow> ('w, go_error + unit) state) \<Rightarrow> (string \<Rightarrow> ('w, go_error + unit) state) \<Rightarrow>
   OutboxEvent \<Rightarrow> ('w, unit) state" where
  "relay_one publish mark e = do {
     p \<leftarrow> publish (obe_EventName e) (obe_Payload e);
     case p of
       Inl _ \<Rightarrow> State_Monad.return ()
     | Inr _ \<Rightarrow> do { _ \<leftarrow> mark (obe_ID e); State_Monad.return () } }"

fun relay_all ::
  "(string \<Rightarrow> json \<Rightarrow> ('w, go_error + unit) state) \<Rightarrow> (string \<Rightarrow> ('w, go_error + unit) state) \<Rightarrow>
   OutboxEvent list \<Rightarrow> ('w, unit) state" where
  "relay_all publish mark [] = State_Monad.return ()"
| "relay_all publish mark (e # es) = do { _ \<leftarrow> relay_one publish mark e; relay_all publish mark es }"

definition processEvents ::
  "(int32 \<Rightarrow> ('w, go_error + OutboxEvent list) state) \<Rightarrow>
   (string \<Rightarrow> json \<Rightarrow> ('w, go_error + unit) state) \<Rightarrow> (string \<Rightarrow> ('w, go_error + unit) state) \<Rightarrow>
   int32 \<Rightarrow> ('w, go_error + unit) state" where
  "processEvents get publish mark batch =
     attempt (get batch) id (\<lambda>es. do { _ \<leftarrow> relay_all publish mark es; ok () })"

lemma keeps_relay_all:
  assumes "\<And>n b. keeps I (publish n b)" and "\<And>i. keeps I (mark i)"
  shows "keeps I (relay_all publish mark es)"
  by (induction es) (auto simp: relay_one_def intro!: keeps_intros assms)

lemma keeps_processEvents:
  assumes "\<And>n. keeps I (get n)" and "\<And>n b. keeps I (publish n b)" and "\<And>i. keeps I (mark i)"
  shows "keeps I (processEvents get publish mark batch)"
  unfolding processEvents_def by (intro keeps_intros keeps_relay_all assms)

text \<open>The worker: at every tick a batch, until the context is done. The signals are what the
  \<^verbatim>\<open>select\<close> receives; an error of a batch is logged only.\<close>

datatype signal = Tick | CtxDone

fun Start_relayer :: "('w, go_error + unit) state \<Rightarrow> signal list \<Rightarrow> ('w, unit) state" where
  "Start_relayer process [] = State_Monad.return ()"
| "Start_relayer process (CtxDone # _) = State_Monad.return ()"
| "Start_relayer process (Tick # ss) = do { _ \<leftarrow> process; Start_relayer process ss }"

subsection \<open>The interfaces\<close>

type_synonym message = "string \<times> string \<times> json"

definition msg :: "OutboxEvent \<Rightarrow> message" where
  "msg e = (obe_ID e, obe_EventName e, obe_Payload e)"

locale outbox_store =
  fixes get :: "int32 \<Rightarrow> ('s, go_error + OutboxEvent list) state"
    and mark :: "string \<Rightarrow> ('s, go_error + unit) state"
    and valid :: "'s \<Rightarrow> bool"
    and known :: "'s \<Rightarrow> message set"
    and sent :: "'s \<Rightarrow> message set"
  assumes get_state: "valid s \<Longrightarrow> run_state (get n) s = (r, s') \<Longrightarrow>
      valid s' \<and> known s' = known s \<and> sent s' = sent s"
    and get_known: "valid s \<Longrightarrow> run_state (get n) s = (Inr es, s') \<Longrightarrow> msg ` set es \<subseteq> known s"
    and mark_state: "valid s \<Longrightarrow> run_state (mark i) s = (q, s') \<Longrightarrow>
      valid s' \<and> known s' = known s \<and> sent s \<subseteq> sent s'"
    and mark_sent: "valid s \<Longrightarrow> run_state (mark i) s = (q, s') \<Longrightarrow> i \<in> fst ` known s \<Longrightarrow>
      m \<in> sent s' \<Longrightarrow> m \<in> sent s \<or> m \<in> known s \<and> fst m = i"
    and mark_done: "valid s \<Longrightarrow> run_state (mark i) s = (Inr u, s') \<Longrightarrow> m \<in> known s \<Longrightarrow> fst m = i \<Longrightarrow>
      m \<in> sent s'"
    and one_row: "valid s \<Longrightarrow> m \<in> known s \<Longrightarrow> m' \<in> known s \<Longrightarrow> fst m = fst m' \<Longrightarrow> m = m'"

locale publisher =
  fixes publish :: "string \<Rightarrow> json \<Rightarrow> ('b, go_error + unit) state"
    and route :: "string \<Rightarrow> 'r"
    and sends :: "'b \<Rightarrow> ('r \<times> json) multiset"
  assumes publish_sends: "run_state (publish n b) w = (r, w') \<Longrightarrow>
      \<exists>k. sends w' = sends w + replicate_mset k (route n, b) \<and> (\<forall>u. r = Inr u \<longrightarrow> 0 < k)"

locale relayer = outbox_store get mark valid known sent + publisher publish route sends
  for get :: "int32 \<Rightarrow> ('s, go_error + OutboxEvent list) state"
    and mark valid known sent
    and publish :: "string \<Rightarrow> json \<Rightarrow> ('b, go_error + unit) state"
    and route :: "string \<Rightarrow> 'r" and sends
begin

definition in_store :: "('s, 'a) state \<Rightarrow> ('s \<times> 'b, 'a) state" where
  "in_store m = zoom fst (\<lambda>s w. (s, snd w)) m"

definition in_broker :: "('b, 'a) state \<Rightarrow> ('s \<times> 'b, 'a) state" where
  "in_broker m = zoom snd (\<lambda>b w. (fst w, b)) m"

definition handed :: "message \<Rightarrow> 'r \<times> json" where
  "handed m = (route (fst (snd m)), snd (snd m))"

text \<open>What is marked has been handed over.\<close>

definition sound :: "'s \<times> 'b \<Rightarrow> bool" where
  "sound w \<longleftrightarrow> valid (fst w) \<and> (\<forall>m \<in> sent (fst w). handed m \<in># sends (snd w))"

abbreviation process :: "int32 \<Rightarrow> ('s \<times> 'b, go_error + unit) state" where
  "process batch \<equiv> processEvents (\<lambda>n. in_store (get n)) (\<lambda>n b. in_broker (publish n b)) (\<lambda>i. in_store (mark i)) batch"

abbreviation relay :: "OutboxEvent \<Rightarrow> ('s \<times> 'b, unit) state" where
  "relay e \<equiv> relay_one (\<lambda>n b. in_broker (publish n b)) (\<lambda>i. in_store (mark i)) e"

lemma relay_step:
  assumes "sound w" and "msg e \<in> known (fst w)" and "run_state (relay e) w = (u, w')"
  shows "sound w' \<and> known (fst w') = known (fst w) \<and> sent (fst w) \<subseteq> sent (fst w') \<and>
    (\<exists>k. sends (snd w') = sends (snd w) + replicate_mset k (handed (msg e)))"
proof -
  obtain s b where w: "w = (s, b)" by force
  obtain p b1 where p: "run_state (publish (obe_EventName e) (obe_Payload e)) b = (p, b1)" by force
  then obtain k where k: "sends b1 = sends b + replicate_mset k (handed (msg e))"
      "\<forall>u. p = Inr u \<longrightarrow> 0 < k"
    using publish_sends by (fastforce simp: handed_def msg_def)
  show ?thesis
  proof (cases p)
    case (Inl err)
    then have "w' = (s, b1)" using assms(3) p by (simp add: relay_one_def w in_broker_def)
    then show ?thesis using assms(1) k(1) w by (auto simp: sound_def)
  next
    case (Inr x)
    obtain r s1 where m: "run_state (mark (obe_ID e)) s = (r, s1)" by force
    have w': "w' = (s1, b1)" using assms(3) p m Inr
      by (simp add: relay_one_def w in_broker_def in_store_def)
    have v: "valid s" using assms(1) by (simp add: sound_def w)
    note st = mark_state [OF v m]
    have i: "obe_ID e \<in> fst ` known s" using assms(2) by (auto simp: w msg_def image_iff) force
    have "handed x \<in># sends b1" if x: "x \<in> sent s1" for x
    proof (cases "x \<in> sent s")
      case True
      then show ?thesis using assms(1) k(1) by (simp add: sound_def w)
    next
      case False
      then have "x \<in> known s" "fst x = obe_ID e" using mark_sent [OF v m i x] by auto
      then have "x = msg e" using one_row [OF v] assms(2) by (simp add: w msg_def)
      then show ?thesis using k Inr by simp
    qed
    then show ?thesis using st k(1) by (auto simp: sound_def w w')
  qed
qed

lemma relay_all_sound:
  assumes "sound w" and "msg ` set es \<subseteq> known (fst w)"
    and "run_state (relay_all (\<lambda>n b. in_broker (publish n b)) (\<lambda>i. in_store (mark i)) es) w = (u, w')"
  shows "sound w' \<and> known (fst w') = known (fst w) \<and> sent (fst w) \<subseteq> sent (fst w')"
  using assms
proof (induction es arbitrary: w)
  case (Cons e es)
  obtain w1 where r: "run_state (relay e) w = ((), w1)" by (cases "run_state (relay e) w") auto
  note step = relay_step [OF Cons.prems(1) _ r]
  have "msg e \<in> known (fst w)" using Cons.prems(2) by auto
  then have 1: "sound w1" "known (fst w1) = known (fst w)" "sent (fst w) \<subseteq> sent (fst w1)"
    using step by auto
  have "run_state (relay_all (\<lambda>n b. in_broker (publish n b)) (\<lambda>i. in_store (mark i)) es) w1 = (u, w')"
    using Cons.prems(3) r by simp
  moreover have "msg ` set es \<subseteq> known (fst w1)" using Cons.prems(2) 1 by auto
  ultimately show ?case using Cons.IH [OF 1(1)] 1 by (metis order_trans)
qed auto

lemma process_sound: "keeps sound (process batch)"
proof (rule keepsI)
  fix w r w' assume w: "sound w" and run: "run_state (process batch) w = (r, w')"
  obtain g s1 where g: "run_state (get batch) (fst w) = (g, s1)" by force
  have v: "valid (fst w)" using w by (simp add: sound_def)
  note st = get_state [OF v g]
  then have w1: "sound (s1, snd w)" using w by (simp add: sound_def)
  show "sound w'"
  proof (cases g)
    case (Inl e)
    then show ?thesis using run g w1 by (simp add: processEvents_def in_store_def)
  next
    case (Inr es)
    have "msg ` set es \<subseteq> known s1" using get_known [OF v] g Inr st by auto
    then show ?thesis using run g Inr relay_all_sound [OF w1]
      by (auto simp: processEvents_def in_store_def split: prod.splits)
  qed
qed

lemma worker_sound: "keeps sound (Start_relayer (process batch) ss)"
  by (induction "process batch" ss rule: Start_relayer.induct)
    (auto intro!: keeps_intros process_sound)

text \<open>What is handed over is a message of the store, also when nothing is known of what was marked before.\<close>

lemma relay_sends:
  assumes "valid (fst w)" and "run_state (relay e) w = (u, w')"
  shows "valid (fst w') \<and> known (fst w') = known (fst w) \<and>
    set_mset (sends (snd w')) \<subseteq> insert (handed (msg e)) (set_mset (sends (snd w)))"
proof -
  obtain p b1 where p: "run_state (publish (obe_EventName e) (obe_Payload e)) (snd w) = (p, b1)" by (rule run_pair)
  obtain r s1 where m: "run_state (mark (obe_ID e)) (fst w) = (r, s1)" by (rule run_pair)
  have "set_mset (sends b1) \<subseteq> insert (handed (msg e)) (set_mset (sends (snd w)))"
    using publish_sends [OF p] by (auto simp: handed_def msg_def split: if_splits)
  then show ?thesis using mark_state [OF assms(1) m] assms p m
    by (auto simp: relay_one_def in_store_def in_broker_def split: sum.splits)
qed

lemma relay_all_sends:
  assumes "valid (fst w)" and "msg ` set es \<subseteq> known (fst w)"
    and "run_state (relay_all (\<lambda>n b. in_broker (publish n b)) (\<lambda>i. in_store (mark i)) es) w = (u, w')"
  shows "valid (fst w') \<and> known (fst w') = known (fst w) \<and>
    set_mset (sends (snd w')) \<subseteq> handed ` known (fst w) \<union> set_mset (sends (snd w))"
  using assms
proof (induction es arbitrary: w)
  case (Cons e es)
  obtain w1 where r: "run_state (relay e) w = ((), w1)" by (cases "run_state (relay e) w") auto
  note step = relay_sends [OF Cons.prems(1) r]
  have "run_state (relay_all (\<lambda>n b. in_broker (publish n b)) (\<lambda>i. in_store (mark i)) es) w1 = (u, w')"
    using Cons.prems(3) r by simp
  from Cons.IH [OF _ _ this] step Cons.prems(2) show ?case by auto
qed auto

lemma process_sends:
  assumes "valid (fst w)" and "run_state (process batch) w = (r, w')"
  shows "valid (fst w') \<and> known (fst w') = known (fst w) \<and>
    set_mset (sends (snd w')) \<subseteq> handed ` known (fst w) \<union> set_mset (sends (snd w))"
proof -
  obtain g s1 where g: "run_state (get batch) (fst w) = (g, s1)" by (rule run_pair)
  note st = get_state [OF assms(1) g]
  show ?thesis
  proof (cases g)
    case (Inl e)
    then show ?thesis using assms g st by (auto simp: processEvents_def in_store_def)
  next
    case (Inr es)
    have "msg ` set es \<subseteq> known s1" using get_known [OF assms(1)] g Inr st by auto
    then show ?thesis using assms(2) g Inr st relay_all_sends [of "(s1, snd w)" es]
      by (auto simp: processEvents_def in_store_def split: prod.splits)
  qed
qed

text \<open>While the store (\<open>up\<close>) and the broker (\<open>live\<close>) work, a batch publishes and marks all of its events.\<close>

lemma relay_all_complete:
  assumes "sound w" and "up (fst w)" and "live (snd w)" and "msg ` set es \<subseteq> known (fst w)"
    and "run_state (relay_all (\<lambda>n b. in_broker (publish n b)) (\<lambda>i. in_store (mark i)) es) w = (u, w')"
    and pub: "\<And>n b v. live v \<Longrightarrow> \<exists>v'. run_state (publish n b) v = (Inr (), v') \<and> live v'"
    and mrk: "\<And>i s. valid s \<Longrightarrow> up s \<Longrightarrow> i \<in> fst ` known s \<Longrightarrow> \<exists>s'. run_state (mark i) s = (Inr (), s') \<and> up s'"
  shows "msg ` set es \<subseteq> sent (fst w') \<and> up (fst w') \<and> live (snd w')"
  using assms(1-5)
proof (induction es arbitrary: w)
  case (Cons e es)
  obtain w1 where r: "run_state (relay e) w = ((), w1)" by (cases "run_state (relay e) w") auto
  have e: "msg e \<in> known (fst w)" using Cons.prems(4) by auto
  note step = relay_step [OF Cons.prems(1) e r]
  obtain b1 where p: "run_state (publish (obe_EventName e) (obe_Payload e)) (snd w) = (Inr (), b1)" "live b1"
    using pub [OF Cons.prems(3)] by blast
  have vw: "valid (fst w)" using Cons.prems(1) by (simp add: sound_def)
  have "obe_ID e \<in> fst ` known (fst w)" using e by (force simp: msg_def)
  then obtain s1 where m: "run_state (mark (obe_ID e)) (fst w) = (Inr (), s1)" "up s1"
    using mrk [OF vw Cons.prems(2)] by blast
  have w1: "w1 = (s1, b1)" using r p m by (simp add: relay_one_def in_broker_def in_store_def)
  then have "msg e \<in> sent (fst w1)" using mark_done [OF vw m(1)] e by (simp add: msg_def)
  moreover have rest: "run_state (relay_all (\<lambda>n b. in_broker (publish n b)) (\<lambda>i. in_store (mark i)) es) w1 = (u, w')"
    using Cons.prems(5) r by simp
  moreover have sub: "msg ` set es \<subseteq> known (fst w1)" using Cons.prems(4) step by auto
  ultimately show ?case
    using Cons.IH [of w1] relay_all_sound [OF _ sub rest] step w1 m(2) p(2) by auto
qed auto

lemma process_complete:
  assumes "sound w" and "up (fst w)" and "live (snd w)" and "run_state (get batch) (fst w) = (Inr es, s1)" "up s1"
    and "run_state (process batch) w = (r, w')"
    and pub: "\<And>n b v. live v \<Longrightarrow> \<exists>v'. run_state (publish n b) v = (Inr (), v') \<and> live v'"
    and mrk: "\<And>i s. valid s \<Longrightarrow> up s \<Longrightarrow> i \<in> fst ` known s \<Longrightarrow> \<exists>s'. run_state (mark i) s = (Inr (), s') \<and> up s'"
  shows "r = Inr () \<and> msg ` set es \<subseteq> sent (fst w') \<and> sent (fst w) \<subseteq> sent (fst w') \<and> known (fst w') = known (fst w)"
proof -
  have v: "valid (fst w)" using assms(1) by (simp add: sound_def)
  note st = get_state [OF v assms(4)]
  then have w1: "sound (s1, snd w)" using assms(1) by (simp add: sound_def)
  have sub: "msg ` set es \<subseteq> known (fst (s1, snd w))" using get_known [OF v assms(4)] st by simp
  obtain u where all: "run_state (relay_all (\<lambda>n b. in_broker (publish n b)) (\<lambda>i. in_store (mark i)) es) (s1, snd w) =
      (u, w')" and r: "r = Inr ()"
    using assms(4,6) by (auto simp: processEvents_def in_store_def split: prod.splits)
  from relay_all_complete [OF w1 _ _ sub all pub mrk] relay_all_sound [OF w1 sub all] show ?thesis
    using st assms(3,5) r by auto
qed

end

end
