(* ===== verification/OutboxTable.thy ===== *)
theory OutboxTable
  imports Outbox
begin

text \<open>
  The table \<^verbatim>\<open>outbox_events\<close>, which the order and the product service both have: its rows, the
  statements on the rows, and the view of it the relayer's contract speaks of. The services
  differ in the labels of the status (\<open>labels\<close>) and in the order service's unique
  \<^verbatim>\<open>aggregate_id\<close> (\<open>unique\<close>). Rows of equal \<^verbatim>\<open>created_at\<close> are read in the order of insertion;
  SQL leaves that order open. A payload is \<^verbatim>\<open>JSONB\<close>; the order of its keys, which
  PostgreSQL does not keep, makes no difference to the consumers.
\<close>

record OutboxRow =
  ob_ID :: uuid
  ob_AggregateID :: uuid
  ob_EventName :: string
  ob_Payload :: json
  ob_Status :: string
  ob_CreatedAt :: int
  ob_PublishedAt :: "int option"

definition insert_outbox ::
  "bool \<Rightarrow> uuid \<Rightarrow> int \<Rightarrow> uuid \<Rightarrow> string \<Rightarrow> json \<Rightarrow> OutboxRow list \<Rightarrow> pg_error + OutboxRow list" where
  "insert_outbox unique i t aggregate name payload rows =
     (if 150 < length name then Inl (InvalidInput ''value too long for type character varying(150)'')
      else if i \<in> ob_ID ` set rows then Inl (UniqueViolation ''outbox_events_pkey'')
      else if unique \<and> aggregate \<in> ob_AggregateID ` set rows
           then Inl (UniqueViolation ''outbox_events_aggregate_id_key'')
      else Inr (rows @ [\<lparr>ob_ID = i, ob_AggregateID = aggregate, ob_EventName = name,
             ob_Payload = payload, ob_Status = ''UNPUBLISHED'', ob_CreatedAt = t, ob_PublishedAt = None\<rparr>]))"

definition unpublished_rows :: "int32 \<Rightarrow> OutboxRow list \<Rightarrow> pg_error + OutboxRow list" where
  "unpublished_rows limit rows =
     (if sint limit < 0 then Inl NegativeLimit
      else Inr (take (nat (sint limit))
        (sort_key ob_CreatedAt (filter (\<lambda>r. ob_Status r = ''UNPUBLISHED'') rows))))"

definition set_outbox_status ::
  "string list \<Rightarrow> uuid \<Rightarrow> string \<Rightarrow> int \<Rightarrow> OutboxRow list \<Rightarrow> pg_error + OutboxRow list" where
  "set_outbox_status labels i st t rows =
     (if st \<notin> set labels then Inl (InvalidInput ''invalid input value for enum outbox_event_status'')
      else Inr (map (\<lambda>r. if ob_ID r = i then r\<lparr>ob_Status := st, ob_PublishedAt := Some t\<rparr> else r) rows))"

text \<open>The event of a row, as both relayer repositories convert it.\<close>

definition row_event :: "ext \<Rightarrow> OutboxRow \<Rightarrow> OutboxEvent" where
  "row_event X r = \<lparr>obe_ID = uuid_text X (ob_ID r), obe_AggregateID = uuid_text X (ob_AggregateID r),
     obe_EventName = ob_EventName r, obe_Payload = ob_Payload r, obe_Status = ob_Status r\<rparr>"

subsection \<open>The relayer's view\<close>

definition row_msgs :: "ext \<Rightarrow> OutboxRow list \<Rightarrow> message set" where
  "row_msgs X rows = (\<lambda>r. msg (row_event X r)) ` set rows"

definition published_msgs :: "ext \<Rightarrow> OutboxRow list \<Rightarrow> message set" where
  "published_msgs X rows = row_msgs X (filter (\<lambda>r. ob_Status r = ''PUBLISHED'') rows)"

lemma msg_row [simp]: "msg (row_event X r) = (uuid_text X (ob_ID r), ob_EventName r, ob_Payload r)"
  by (simp add: msg_def row_event_def)

lemma uuid_text_eq: "uuid_round_trip X \<Longrightarrow> uuid_text X u = uuid_text X v \<longleftrightarrow> u = v"
  by (metis sum.inject(2) uuid_round_trip_def)

lemma row_msgs_unique:
  assumes "uuid_round_trip X" and "distinct (map ob_ID rows)"
    and "m \<in> row_msgs X rows" and "m' \<in> row_msgs X rows" and "fst m = fst m'"
  shows "m = m'"
proof -
  obtain r r' where r: "r \<in> set rows" "m = msg (row_event X r)"
    and r': "r' \<in> set rows" "m' = msg (row_event X r')"
    using assms(3,4) by (auto simp: row_msgs_def)
  then have "ob_ID r = ob_ID r'" using assms(5) uuid_text_eq [OF assms(1)] by simp
  then have "r = r'" using assms(2) r(1) r'(1) by (simp add: distinct_map inj_on_def)
  then show ?thesis using r r' by simp
qed

lemma unpublished_known: "unpublished_rows n rows = Inr rs \<Longrightarrow> set rs \<subseteq> set rows"
  by (auto simp: unpublished_rows_def split: if_splits dest!: in_set_takeD)

lemma set_status_ids: "set_outbox_status ls i st t rows = Inr rs \<Longrightarrow> map ob_ID rs = map ob_ID rows"
  by (auto simp: set_outbox_status_def split: if_splits)

text \<open>A change of status maps the rows and keeps what the relayer sees of them.\<close>

lemma set_status_map:
  assumes "set_outbox_status ls i st t rows = Inr rs"
  obtains f where "rs = map f rows" "\<And>X r. msg (row_event X (f r)) = msg (row_event X r)"
    "\<And>r. ob_Status (f r) = (if ob_ID r = i then st else ob_Status r)" "\<And>r. ob_ID (f r) = ob_ID r"
    "\<And>r. ob_AggregateID (f r) = ob_AggregateID r"
proof -
  define f :: "OutboxRow \<Rightarrow> OutboxRow"
    where "f r = (if ob_ID r = i then r\<lparr>ob_Status := st, ob_PublishedAt := Some t\<rparr> else r)" for r
  have "rs = map f rows" using assms by (auto simp: set_outbox_status_def f_def split: if_splits)
  then show ?thesis by (rule that) (simp_all add: f_def)
qed

lemma set_status_msgs:
  assumes "set_outbox_status ls i st t rows = Inr rs"
  shows "row_msgs X rs = row_msgs X rows"
proof -
  obtain f where "rs = map f rows" "\<And>X r. msg (row_event X (f r)) = msg (row_event X r)"
    using assms by (rule set_status_map) blast
  then show ?thesis by (simp add: row_msgs_def image_image del: msg_row)
qed

lemma set_published_msgs:
  assumes "set_outbox_status ls i ''PUBLISHED'' t rows = Inr rs"
  shows "published_msgs X rs =
    published_msgs X rows \<union> row_msgs X (filter (\<lambda>r. ob_ID r = i) rows)"
proof -
  obtain f where f: "rs = map f rows" "\<And>X r. msg (row_event X (f r)) = msg (row_event X r)"
    "\<And>r. ob_Status (f r) = (if ob_ID r = i then ''PUBLISHED'' else ob_Status r)"
    using assms by (rule set_status_map) blast
  then show ?thesis
    by (auto simp: published_msgs_def row_msgs_def filter_map comp_def image_image simp del: msg_row
        split: if_splits)
qed

lemma insert_outbox_ids:
  "insert_outbox q i t a n b rows = Inr rs \<Longrightarrow> distinct (map ob_ID rows) \<Longrightarrow> distinct (map ob_ID rs)"
  by (auto simp: insert_outbox_def split: if_splits)

text \<open>A relayer repository whose reads and marks are these statements satisfies the relayer's
  contract.\<close>

definition table_store_ok :: "ext \<Rightarrow> OutboxRow list \<Rightarrow> bool" where
  "table_store_ok X rows \<longleftrightarrow> uuid_round_trip X \<and> distinct (map ob_ID rows)"

lemma outbox_table_store:
  assumes G: "\<And>n s r s'. run_state (get n) s = (r, s') \<Longrightarrow> rows s' = rows s \<and>
      (\<forall>es. r = Inr es \<longrightarrow> (\<exists>rs. es = map (row_event X) rs \<and> unpublished_rows n (rows s) = Inr rs))"
    and M: "\<And>i s r s'. run_state (mark i) s = (r, s') \<Longrightarrow> rows s' = rows s \<and> (\<exists>e. r = Inl e) \<or>
      (\<exists>u t. parse_uuid X i = Inr u \<and> set_outbox_status ls u ''PUBLISHED'' t (rows s) = Inr (rows s'))"
  shows "outbox_store get mark (\<lambda>s. table_store_ok X (rows s)) (\<lambda>s. row_msgs X (rows s))
    (\<lambda>s. published_msgs X (rows s))"
proof
  fix s n r s' assume "table_store_ok X (rows s)" "run_state (get n) s = (r, s')"
  then show "table_store_ok X (rows s') \<and> row_msgs X (rows s') = row_msgs X (rows s) \<and>
      published_msgs X (rows s') = published_msgs X (rows s)"
    using G by simp
next
  fix s n es s' assume "run_state (get n) s = (Inr es, s')"
  from G [OF this] show "msg ` set es \<subseteq> row_msgs X (rows s)"
    using unpublished_known by (fastforce simp: row_msgs_def simp del: msg_row)
next
  fix s i q s' assume ok: "table_store_ok X (rows s)" and run: "run_state (mark i) s = (q, s')"
  from M [OF run] show "table_store_ok X (rows s') \<and> row_msgs X (rows s') = row_msgs X (rows s) \<and>
      published_msgs X (rows s) \<subseteq> published_msgs X (rows s')"
    using ok by (auto simp: table_store_ok_def set_status_ids set_status_msgs set_published_msgs)
next
  fix s i q s' m assume ok: "table_store_ok X (rows s)" and run: "run_state (mark i) s = (q, s')"
    and i: "i \<in> fst ` row_msgs X (rows s)" and m: "m \<in> published_msgs X (rows s')"
  from i obtain v where "i = uuid_text X v" by (auto simp: row_msgs_def)
  then have "parse_uuid X i = Inr v" using ok by (simp add: table_store_ok_def parse_uuid_text)
  then show "m \<in> published_msgs X (rows s) \<or> m \<in> row_msgs X (rows s) \<and> fst m = i"
    using M [OF run] m \<open>i = uuid_text X v\<close> by (auto simp: set_published_msgs row_msgs_def)
next
  fix s i u s' m assume ok: "table_store_ok X (rows s)" and run: "run_state (mark i) s = (Inr u, s')"
    and m: "m \<in> row_msgs X (rows s)" "fst m = i"
  from m obtain r where r: "r \<in> set (rows s)" "m = msg (row_event X r)" "i = uuid_text X (ob_ID r)"
    by (auto simp: row_msgs_def)
  then have "parse_uuid X i = Inr (ob_ID r)" using ok by (simp add: table_store_ok_def parse_uuid_text)
  then show "m \<in> published_msgs X (rows s')"
    using M [OF run] r by (auto simp: set_published_msgs row_msgs_def)
next
  fix s m m' assume "table_store_ok X (rows s)" "m \<in> row_msgs X (rows s)" "m' \<in> row_msgs X (rows s)"
    "fst m = fst m'"
  then show "m = m'" unfolding table_store_ok_def by (blast intro: row_msgs_unique)
qed

end
