(* ===== verification/Api.thy ===== *)
theory Api
  imports Status
begin

text \<open>
  The messages of the gRPC services (\<^verbatim>\<open>gen/*/v1\<close>), one record per message with the fields of its
  Go struct. A time is a number of nanoseconds since the epoch; a pointer to a
  timestamp that may be nil is an option. A repeated field is a list.
\<close>

subsection \<open>Orders and payments\<close>

record CreateOrderRequest =
  cor_UserId :: string

record OrderV1 =
  ov_Id :: string
  ov_UserId :: string
  ov_TotalAmount :: float64
  ov_Status :: string
  ov_CreatedAt :: int

record GetPaymentRequest =
  gpr_Id :: string

record ProcessPaymentRequest =
  ppr_OrderId :: string
  ppr_UserId :: string
  ppr_Amount :: float64

record PaymentV1 =
  pv_Id :: string
  pv_OrderId :: string
  pv_UserId :: string
  pv_Amount :: float64
  pv_Status :: string
  pv_CreatedAt :: int

subsection \<open>Carts\<close>

record CartProductV1 =
  cpv_ProductId :: string
  cpv_Name :: string
  cpv_Description :: string
  cpv_Price :: float64
  cpv_Quantity :: int32

record GetCartRequest =
  gcr_UserId :: string

record GetCartResponse =
  gc_Id :: string
  gc_UserId :: string
  gc_Products :: "CartProductV1 list"
  gc_TotalPrice :: float64

record AddProductToCartRequest =
  apr_UserId :: string
  apr_ProductId :: string
  apr_Quantity :: int32

record AddProductToCartResponse =
  aps_Id :: string
  aps_CartId :: string
  aps_ProductId :: string
  aps_Quantity :: int32
  aps_Price :: float64
  aps_AddedAt :: "int option"

record RemoveProductFromCartRequest =
  rpr_UserId :: string
  rpr_ProductId :: string

record ClearCartRequest =
  clr_UserId :: string

record DeleteCartRequest =
  dcr_UserId :: string

subsection \<open>Users\<close>

record UserV1 =
  uv_Id :: string
  uv_Username :: string
  uv_Email :: string
  uv_CreatedAt :: int
  uv_UpdatedAt :: "int option"

record CreateUserRequest =
  cur_Username :: string
  cur_Email :: string
  cur_Password :: string

record GetUserByIDRequest =
  gur_Id :: string

record AuthorizeUserRequest =
  aur_Email :: string
  aur_Password :: string

subsection \<open>Products\<close>

record ProductV1 =
  prv_Id :: string
  prv_CategoryId :: string
  prv_Name :: string
  prv_Description :: string
  prv_Price :: float64
  prv_StockQuantity :: int32
  prv_CreatedAt :: int
  prv_UpdatedAt :: "int option"

record StockUpdate =
  su_Id :: string
  su_Quantity :: int32

record UpdateStockBatchRequest =
  usb_Updates :: "StockUpdate list"

record CreateProductRequest =
  cpr_CategoryId :: string
  cpr_Name :: string
  cpr_Description :: string
  cpr_Price :: float64
  cpr_StockQuantity :: int32

record GetProductRequest =
  gpq_Id :: string

record GetProductsByIDsRequest =
  gpi_Ids :: "string list"

record ListProductsRequest =
  lpr_Limit :: int32
  lpr_Offset :: int32

record UpdateProductRequest =
  upr_Id :: string
  upr_CategoryId :: string
  upr_Name :: string
  upr_Description :: string
  upr_Price :: float64
  upr_StockQuantity :: int32

record DeleteProductRequest =
  dpr_Id :: string

record GetProductsByCategoryIDRequest =
  gpc_CategoryId :: string

subsection \<open>Categories\<close>

record CreateProductCategoryRequest =
  ccr_Name :: string
  ccr_Description :: string

record UpdateProductCategoryRequest =
  ucr_Id :: string
  ucr_Name :: string
  ucr_Description :: string

record DeleteProductCategoryRequest =
  dlr_Id :: string

record ProductCategoryV1 =
  pcv_Id :: string
  pcv_Name :: string
  pcv_Description :: string
  pcv_CreatedAt :: "int option"
  pcv_UpdatedAt :: "int option"

end
