(* ===== verification/OrderRepo.thy ===== *)
theory OrderRepo
  imports OutboxTable Api
begin

text \<open>
  The database of the order service: its tables (\<^verbatim>\<open>order-service/internal/db/migrations\<close>), the
  statements of \<^verbatim>\<open>internal/repository\<close> and the repositories built on them.
\<close>

subsection \<open>Tables\<close>

record OrderRow =
  or_ID :: uuid
  or_UserID :: uuid
  or_TotalAmount :: numeric
  or_Status :: uuid
  or_CreatedAt :: int

record OrderStatusRow =
  os_ID :: uuid
  os_Name :: string
  os_CreatedAt :: int

record GetOrderByIdRow =
  gor_ID :: uuid
  gor_UserID :: uuid
  gor_TotalAmount :: numeric
  gor_Status :: uuid

record GetOrderStatusByNameRow =
  gos_ID :: uuid
  gos_Name :: string

record order_db = db_env +
  od_statuses :: "OrderStatusRow list"
  od_orders :: "OrderRow list"
  od_outbox :: "OutboxRow list"

text \<open>The status of the outbox rows: the labels of the order service's enumeration.\<close>

definition order_outbox_labels :: "string list" where
  "order_outbox_labels = [''UNPUBLISHED'', ''PUBLISHED'', ''CANCELLED'']"

subsection \<open>Statements\<close>

text \<open>The trigger \<^verbatim>\<open>set_default_order_status\<close>: the order gets the status named \<open>CREATED\<close>.\<close>

definition insert_order :: "uuid \<Rightarrow> numeric \<Rightarrow> (order_db, OrderRow option) stmt" where
  "insert_order user amt n w =
     (case numeric_10_2 amt of
        Inl e \<Rightarrow> Inl e
      | Inr amount \<Rightarrow>
         (case find (\<lambda>s. os_Name s = ''CREATED'') (od_statuses w) of
            None \<Rightarrow> Inl (NotNullViolation ''status'')
          | Some s \<Rightarrow>
             if \<not> num_positive amount then Inl (CheckViolation ''orders_total_amount_check'')
             else if uuid_at w n \<in> or_ID ` set (od_orders w) then Inl (UniqueViolation ''orders_pkey'')
             else (let row = \<lparr>or_ID = uuid_at w n, or_UserID = user, or_TotalAmount = amount,
                     or_Status = os_ID s, or_CreatedAt = now w n\<rparr> in
                   Inr (Some row, w\<lparr>od_orders := od_orders w @ [row]\<rparr>))))"

definition CreateOrder_q :: "uuid \<Rightarrow> numeric \<Rightarrow> (order_db, go_error + OrderRow) state" where
  "CreateOrder_q user amt = query_row (insert_order user amt)"

definition GetOrderById :: "uuid \<Rightarrow> (order_db, go_error + GetOrderByIdRow) state" where
  "GetOrderById i = query_row (read_only (\<lambda>w. map_option
     (\<lambda>r. \<lparr>gor_ID = or_ID r, gor_UserID = or_UserID r, gor_TotalAmount = or_TotalAmount r,
        gor_Status = or_Status r\<rparr>)
     (find (\<lambda>r. or_ID r = i) (od_orders w))))"

definition GetOrderStatusByName ::
  "string \<Rightarrow> (order_db, go_error + GetOrderStatusByNameRow) state" where
  "GetOrderStatusByName name = query_row (read_only (\<lambda>w. map_option
     (\<lambda>s. \<lparr>gos_ID = os_ID s, gos_Name = os_Name s\<rparr>)
     (find (\<lambda>s. os_Name s = name) (od_statuses w))))"

text \<open>The foreign key of the status is checked if a row is updated.\<close>

definition set_order_status :: "uuid \<Rightarrow> uuid \<Rightarrow> (order_db, OrderRow option) stmt" where
  "set_order_status i st n w =
     (case find (\<lambda>r. or_ID r = i) (od_orders w) of
        None \<Rightarrow> Inr (None, w)
      | Some r \<Rightarrow>
         if st \<notin> os_ID ` set (od_statuses w) then Inl (ForeignKeyViolation ''orders_status_fkey'')
         else Inr (Some (r\<lparr>or_Status := st\<rparr>),
           w\<lparr>od_orders := map (\<lambda>r. if or_ID r = i then r\<lparr>or_Status := st\<rparr> else r) (od_orders w)\<rparr>))"

definition UpdateOrderStatus :: "uuid \<Rightarrow> uuid \<Rightarrow> (order_db, go_error + OrderRow) state" where
  "UpdateOrderStatus i st = query_row (set_order_status i st)"

definition CreateOutboxEvent_order :: "uuid \<Rightarrow> string \<Rightarrow> json \<Rightarrow> (order_db, go_error + unit) state" where
  "CreateOutboxEvent_order aggregate name payload = db_call (\<lambda>n w.
     (case insert_outbox True (uuid_at w n) (now w n) aggregate name payload (od_outbox w) of
        Inl e \<Rightarrow> Inl e | Inr rows \<Rightarrow> Inr ((), w\<lparr>od_outbox := rows\<rparr>)))"

definition CancelOutboxEventStatusByAggregateID :: "uuid \<Rightarrow> (order_db, go_error + unit) state" where
  "CancelOutboxEventStatusByAggregateID aggregate = db_call (\<lambda>n w.
     Inr ((), w\<lparr>od_outbox := map (\<lambda>r. if ob_AggregateID r = aggregate
       then r\<lparr>ob_Status := ''CANCELLED''\<rparr> else r) (od_outbox w)\<rparr>))"

definition GetUnpublishedOutboxEvents_order :: "int32 \<Rightarrow> (order_db, go_error + OutboxRow list) state" where
  "GetUnpublishedOutboxEvents_order limit = db_call (\<lambda>n w.
     (case unpublished_rows limit (od_outbox w) of Inl e \<Rightarrow> Inl e | Inr rows \<Rightarrow> Inr (rows, w)))"

definition UpdateOutboxEventStatus_order :: "uuid \<Rightarrow> string \<Rightarrow> (order_db, go_error + unit) state" where
  "UpdateOutboxEventStatus_order i st = db_call (\<lambda>n w.
     (case set_outbox_status order_outbox_labels i st (now w n) (od_outbox w) of
        Inl e \<Rightarrow> Inl e | Inr rows \<Rightarrow> Inr ((), w\<lparr>od_outbox := rows\<rparr>)))"

lemmas order_queries [queries] = CreateOrder_q_def GetOrderById_def GetOrderStatusByName_def
  UpdateOrderStatus_def CreateOutboxEvent_order_def CancelOutboxEventStatusByAggregateID_def
  GetUnpublishedOutboxEvents_order_def UpdateOutboxEventStatus_order_def

subsection \<open>The relayer's repository\<close>

definition outboxEventStatusPublished :: string where
  "outboxEventStatusPublished = ''PUBLISHED''"

definition GetUnpublished_order_relayer ::
  "ext \<Rightarrow> int32 \<Rightarrow> (order_db, go_error + OutboxEvent list) state" where
  "GetUnpublished_order_relayer X limit =
     attempt (GetUnpublishedOutboxEvents_order limit) id (\<lambda>rows. ok (map (row_event X) rows))"

definition parseIDStringToUUID :: "ext \<Rightarrow> string \<Rightarrow> go_error + uuid" where
  "parseIDStringToUUID X i = parse_uuid X i"

definition UpdateStatus_order_relayer :: "ext \<Rightarrow> string \<Rightarrow> (order_db, go_error + unit) state" where
  "UpdateStatus_order_relayer X i =
     attempt_pure (parseIDStringToUUID X i) id (\<lambda>u.
       UpdateOutboxEventStatus_order u outboxEventStatusPublished)"

subsection \<open>The order repository\<close>

definition orderCreatedEventName :: string where
  "orderCreatedEventName = ''order_created_exchange''"

definition execTx :: "(order_db, go_error + 'a) state \<Rightarrow> (order_db, go_error + 'a) state" where
  "execTx body = with_tx body"

definition mapStringToPgUUID :: "ext \<Rightarrow> string \<Rightarrow> go_error + uuid" where
  "mapStringToPgUUID X s = (case parse_uuid X s of
     Inl e \<Rightarrow> Inl (WrappedError ''invalid UUID'' e) | Inr u \<Rightarrow> Inr u)"

definition mapFloatToPgNumeric :: "ext \<Rightarrow> float64 \<Rightarrow> go_error + numeric" where
  "mapFloatToPgNumeric X v = (case parse_numeric X (sprintf_2f v) of
     Inl e \<Rightarrow> Inl (WrappedError ''failed to parse numeric'' e) | Inr n \<Rightarrow> Inr n)"

definition generateOrderCreatedEventPayload ::
  "string \<Rightarrow> string \<Rightarrow> string \<Rightarrow> CartProductV1 list \<Rightarrow> json" where
  "generateOrderCreatedEventPayload order user email products =
     enc_order_created \<lparr>oce_OrderID = order, oce_UserID = user, oce_UserEmail = email,
       oce_Products = Some (map (\<lambda>p. \<lparr>oi_ProductID = cpv_ProductId p, oi_Quantity = cpv_Quantity p\<rparr>)
         products)\<rparr>"

definition mapRepositoryToGRPC :: "ext \<Rightarrow> OrderRow \<Rightarrow> string \<Rightarrow> go_error + OrderV1" where
  "mapRepositoryToGRPC X o' st = (case numeric_float64 X (or_TotalAmount o') of
     Inl e \<Rightarrow> Inl e
   | Inr amt \<Rightarrow> Inr \<lparr>ov_Id = uuid_text X (or_ID o'), ov_UserId = uuid_text X (or_UserID o'),
       ov_TotalAmount = amt, ov_Status = st, ov_CreatedAt = or_CreatedAt o'\<rparr>)"

definition CreateOrder_repo ::
  "ext \<Rightarrow> string \<Rightarrow> string \<Rightarrow> float64 \<Rightarrow> CartProductV1 list \<Rightarrow> (order_db, go_error + OrderV1) state" where
  "CreateOrder_repo X userID userEmail totalAmount products = execTx (
     attempt_pure (mapStringToPgUUID X userID) id (\<lambda>user.
     attempt_pure (mapFloatToPgNumeric X totalAmount) id (\<lambda>amt.
     attempt (CreateOrder_q user amt) (WrappedError ''failed to create order'') (\<lambda>dbOrder.
     attempt (CreateOutboxEvent_order (or_ID dbOrder) orderCreatedEventName
         (generateOrderCreatedEventPayload (uuid_text X (or_ID dbOrder))
           (uuid_text X (or_UserID dbOrder)) userEmail products))
       (WrappedError ''failed to create outbox event'') (\<lambda>_.
     attempt (GetOrderStatusByName ''CREATED'') (WrappedError ''failed to get CREATED status'') (\<lambda>st.
     attempt_pure (mapRepositoryToGRPC X dbOrder (gos_Name st))
       (WrappedError ''failed to map order to gRPC model'') (\<lambda>o'. ok o')))))))"

definition CancelOrder_repo :: "ext \<Rightarrow> string \<Rightarrow> (order_db, go_error + unit) state" where
  "CancelOrder_repo X orderID = execTx (
     attempt_pure (mapStringToPgUUID X orderID) id (\<lambda>order.
     attempt (GetOrderStatusByName ''CANCELED'') (WrappedError ''failed to get CANCELED status'') (\<lambda>st.
     attempt (UpdateOrderStatus order (gos_ID st))
       (WrappedError ''failed to update order status to CANCELED'') (\<lambda>_.
     attempt (CancelOutboxEventStatusByAggregateID order)
       (WrappedError ''failed to cancel outbox event status'') (\<lambda>_. ok ())))))"

subsection \<open>Invariants\<close>

text \<open>What the migrations promise: the three statuses, keys, and rows that refer to them.\<close>

definition migrated :: "order_db \<Rightarrow> bool" where
  "migrated w \<longleftrightarrow> map os_Name (od_statuses w) = [''CREATED'', ''DELIVERED'', ''CANCELLED''] \<and>
     distinct (map os_ID (od_statuses w))"

definition order_tables_ok :: "order_db \<Rightarrow> bool" where
  "order_tables_ok w \<longleftrightarrow> migrated w \<and>
     distinct (map or_ID (od_orders w)) \<and>
     (\<forall>r \<in> set (od_orders w). or_Status r \<in> os_ID ` set (od_statuses w) \<and> num_positive (or_TotalAmount r)) \<and>
     distinct (map ob_ID (od_outbox w)) \<and>
     distinct (map ob_AggregateID (od_outbox w)) \<and>
     (\<forall>r \<in> set (od_outbox w). ob_Status r \<in> set order_outbox_labels)"

lemma of_tables_order_ok: "of_tables order_tables_ok"
  by (simp add: of_tables_def order_tables_ok_def migrated_def)


lemma failed_tables [simp]:
  "od_statuses (failed w) = od_statuses w" "od_orders (failed w) = od_orders w"
  "od_outbox (failed w) = od_outbox w"
  by (simp_all add: failed_def)

lemma map_if_ids: "map or_ID (map (\<lambda>r. if or_ID r = i then r\<lparr>or_Status := st\<rparr> else r) rs) = map or_ID rs"
  by (induction rs) auto

lemma stmt_set_order_status: "stmt_keeps order_tables_ok (set_order_status i st)"
proof (rule stmt_keepsI)
  fix n w x w' assume ok: "order_tables_ok w" and run: "set_order_status i st n w = Inr (x, w')"
  show "order_tables_ok w'"
  proof (cases "find (\<lambda>r. or_ID r = i) (od_orders w)")
    case None
    then show ?thesis using run ok by (simp add: set_order_status_def)
  next
    case (Some r)
    then have st: "st \<in> os_ID ` set (od_statuses w)" and w': "w' = w\<lparr>od_orders :=
        map (\<lambda>r. if or_ID r = i then r\<lparr>or_Status := st\<rparr> else r) (od_orders w)\<rparr>"
      using run by (auto simp: set_order_status_def split: if_splits)
    show ?thesis using ok st unfolding w' order_tables_ok_def migrated_def
      by (auto simp: map_if_ids simp del: map_map)
  qed
qed

lemma keeps_UpdateOrderStatus: "keeps order_tables_ok (UpdateOrderStatus i st)"
  unfolding UpdateOrderStatus_def
  by (intro keeps_query_row of_tables_order_ok stmt_set_order_status)

lemma keeps_GetOrder [keeps_intros]:
  "keeps order_tables_ok (GetOrderById i)" "keeps order_tables_ok (GetOrderStatusByName name)"
  unfolding GetOrderById_def GetOrderStatusByName_def
  by (intro keeps_query_row of_tables_order_ok stmt_keeps_read_only)+

lemma find_name_in: "find P xs = Some x \<Longrightarrow> f x \<in> f ` set xs"
  using find_Some_in by fastforce

lemma stmt_insert_order: "stmt_keeps order_tables_ok (insert_order user amt)"
proof (rule stmt_keepsI)
  fix n w x w' assume ok: "order_tables_ok w" and run: "insert_order user amt n w = Inr (x, w')"
  then obtain a s where "find (\<lambda>s. os_Name s = ''CREATED'') (od_statuses w) = Some s"
      "num_positive a" "uuid_at w n \<notin> or_ID ` set (od_orders w)"
      "w' = w\<lparr>od_orders := od_orders w @ [\<lparr>or_ID = uuid_at w n, or_UserID = user, or_TotalAmount = a,
                     or_Status = os_ID s, or_CreatedAt = now w n\<rparr>]\<rparr>"
    by (auto simp: insert_order_def Let_def split: sum.splits option.splits if_splits)
  then show "order_tables_ok w'" using ok
    by (auto simp: order_tables_ok_def migrated_def dest: find_Some_in)
qed

lemma keeps_CreateOrder_q: "keeps order_tables_ok (CreateOrder_q user amt)"
  unfolding CreateOrder_q_def by (intro keeps_query_row of_tables_order_ok stmt_insert_order)

lemma keeps_CreateOutboxEvent_order: "keeps order_tables_ok (CreateOutboxEvent_order a n b)"
  unfolding CreateOutboxEvent_order_def
  by (intro keeps_db_call of_tables_order_ok stmt_keepsI)
    (auto simp: order_tables_ok_def migrated_def insert_outbox_def order_outbox_labels_def
      split: if_splits)

lemma keeps_CancelOutbox: "keeps order_tables_ok (CancelOutboxEventStatusByAggregateID a)"
  unfolding CancelOutboxEventStatusByAggregateID_def
  by (intro keeps_db_call of_tables_order_ok stmt_keepsI)
    (auto simp: order_tables_ok_def migrated_def order_outbox_labels_def comp_def if_distrib
      cong: if_cong)

lemma keeps_UpdateOutbox: "keeps order_tables_ok (UpdateOutboxEventStatus_order i st)"
  unfolding UpdateOutboxEventStatus_order_def
proof (intro keeps_db_call of_tables_order_ok stmt_keepsI)
  fix n w x w'
  assume ok: "order_tables_ok w" and run: "(case set_outbox_status order_outbox_labels i st (now w n)
    (od_outbox w) of Inl e \<Rightarrow> Inl e | Inr rows \<Rightarrow> Inr ((), w\<lparr>od_outbox := rows\<rparr>)) = Inr (x, w')"
  then obtain rows where rows: "set_outbox_status order_outbox_labels i st (now w n) (od_outbox w) = Inr rows"
      "w' = w\<lparr>od_outbox := rows\<rparr>"
    by (auto split: sum.splits)
  moreover have "st \<in> set order_outbox_labels" using rows(1)
    by (auto simp: set_outbox_status_def split: if_splits)
  moreover obtain f where "rows = map f (od_outbox w)"
      "\<And>r. ob_Status (f r) = (if ob_ID r = i then st else ob_Status r)" "\<And>r. ob_ID (f r) = ob_ID r"
      "\<And>r. ob_AggregateID (f r) = ob_AggregateID r"
    using rows(1) by (rule set_status_map) blast
  ultimately show "order_tables_ok w'" using ok
    by (auto simp: order_tables_ok_def migrated_def comp_def)
qed

lemma keeps_GetUnpublished: "keeps order_tables_ok (GetUnpublishedOutboxEvents_order n)"
  unfolding GetUnpublishedOutboxEvents_order_def
  by (intro keeps_db_call of_tables_order_ok stmt_keepsI) (auto split: sum.splits)

lemmas keeps_order_queries = keeps_UpdateOrderStatus keeps_CreateOrder_q keeps_CreateOutboxEvent_order
  keeps_CancelOutbox keeps_UpdateOutbox keeps_GetUnpublished

declare keeps_order_queries [keeps_intros]

lemma keeps_CreateOrder_repo: "keeps order_tables_ok (CreateOrder_repo X u m t ps)"
  unfolding CreateOrder_repo_def execTx_def
  by (intro keeps_with_tx_body of_tables_order_ok keeps_intros)

lemma keeps_CancelOrder_repo: "keeps order_tables_ok (CancelOrder_repo X i)"
  unfolding CancelOrder_repo_def execTx_def
  by (intro keeps_with_tx_body of_tables_order_ok keeps_intros)

subsection \<open>The relayer's store\<close>

lemma run_UpdateStatus_order:
  assumes "run_state (UpdateStatus_order_relayer X i) s = (r, s')"
  shows "od_outbox s' = od_outbox s \<and> (\<exists>e. r = Inl e) \<or>
    (\<exists>u t rows. parse_uuid X i = Inr u \<and> od_outbox s' = rows \<and>
       set_outbox_status order_outbox_labels u ''PUBLISHED'' t (od_outbox s) = Inr rows)"
proof (cases "parse_uuid X i")
  case (Inl e)
  then show ?thesis using assms by (auto simp: UpdateStatus_order_relayer_def parseIDStringToUUID_def)
next
  case (Inr u)
  then have "run_state (UpdateOutboxEventStatus_order u ''PUBLISHED'') s = (r, s')"
    using assms by (simp add: UpdateStatus_order_relayer_def parseIDStringToUUID_def
        outboxEventStatusPublished_def)
  from this [unfolded UpdateOutboxEventStatus_order_def] show ?thesis
    by (cases rule: db_call_cases) (auto simp: Inr split: sum.splits)
qed

lemma run_GetUnpublished_order:
  assumes "run_state (GetUnpublished_order_relayer X n) s = (r, s')"
  shows "od_outbox s' = od_outbox s \<and>
    (\<forall>es. r = Inr es \<longrightarrow> (\<exists>rows. es = map (row_event X) rows \<and> unpublished_rows n (od_outbox s) = Inr rows))"
proof -
  obtain q s1 where q: "run_state (GetUnpublishedOutboxEvents_order n) s = (q, s1)" by force
  then have "s' = s1" and r: "r = (case q of Inl e \<Rightarrow> Inl e | Inr rows \<Rightarrow> Inr (map (row_event X) rows))"
    using assms by (auto simp: GetUnpublished_order_relayer_def split: sum.splits)
  moreover from q [unfolded GetUnpublishedOutboxEvents_order_def]
  have "od_outbox s1 = od_outbox s \<and> (\<forall>rows. q = Inr rows \<longrightarrow> unpublished_rows n (od_outbox s) = Inr rows)"
    by (cases rule: db_call_cases) (auto split: sum.splits)
  ultimately show ?thesis by (auto split: sum.splits)
qed

interpretation order_store: outbox_store "GetUnpublished_order_relayer X" "UpdateStatus_order_relayer X"
  "\<lambda>w. table_store_ok X (od_outbox w)" "\<lambda>w. row_msgs X (od_outbox w)" "\<lambda>w. published_msgs X (od_outbox w)"
  by (rule outbox_table_store [where ls = order_outbox_labels, OF run_GetUnpublished_order])
    (use run_UpdateStatus_order in blast)+

subsection \<open>What the repository does to the tables\<close>

text \<open>The tables after an order has been recorded: the order, with the status \<open>CREATED\<close>, and its
  event, unpublished.\<close>

definition recorded :: "ext \<Rightarrow> string \<Rightarrow> string \<Rightarrow> float64 \<Rightarrow> CartProductV1 list \<Rightarrow>
  order_db \<Rightarrow> OrderRow \<Rightarrow> OutboxRow \<Rightarrow> order_db \<Rightarrow> bool" where
  "recorded X user email amount products w row ev w' \<longleftrightarrow>
     od_statuses w' = od_statuses w \<and>
     od_orders w' = od_orders w @ [row] \<and>
     od_outbox w' = od_outbox w @ [ev] \<and>
     parse_uuid X user = Inr (or_UserID row) \<and>
     (\<exists>n. mapFloatToPgNumeric X amount = Inr n \<and> numeric_10_2 n = Inr (or_TotalAmount row)) \<and>
     num_positive (or_TotalAmount row) \<and>
     (\<exists>s. find (\<lambda>s. os_Name s = ''CREATED'') (od_statuses w) = Some s \<and> or_Status row = os_ID s) \<and>
     ob_AggregateID ev = or_ID row \<and> ob_EventName ev = orderCreatedEventName \<and>
     ob_Payload ev = generateOrderCreatedEventPayload (uuid_text X (or_ID row))
       (uuid_text X (or_UserID row)) email products \<and>
     ob_Status ev = ''UNPUBLISHED''"

definition same_order_tables :: "order_db \<Rightarrow> order_db \<Rightarrow> bool" where
  "same_order_tables w w' \<longleftrightarrow> od_statuses w' = od_statuses w \<and> od_orders w' = od_orders w \<and>
     od_outbox w' = od_outbox w"

lemma GetOrderStatusByName_Inr:
  "run_state (GetOrderStatusByName name) w = (Inr st, w') \<Longrightarrow>
     same_order_tables w w' \<and>
     (\<exists>s. find (\<lambda>s. os_Name s = name) (od_statuses w) = Some s \<and> gos_ID st = os_ID s \<and> gos_Name st = os_Name s)"
  by (auto simp: GetOrderStatusByName_def same_order_tables_def dest!: query_row_Inr)

lemma CreateOrder_q_Inr:
  assumes "run_state (CreateOrder_q user amt) w = (Inr row, w')"
  shows "od_statuses w' = od_statuses w \<and> od_outbox w' = od_outbox w \<and>
    od_orders w' = od_orders w @ [row] \<and> or_UserID row = user \<and>
    numeric_10_2 amt = Inr (or_TotalAmount row) \<and> num_positive (or_TotalAmount row) \<and>
    (\<exists>s. find (\<lambda>s. os_Name s = ''CREATED'') (od_statuses w) = Some s \<and> or_Status row = os_ID s)"
  using assms
  by (auto simp: CreateOrder_q_def insert_order_def Let_def dest!: query_row_Inr
      split: sum.splits option.splits if_splits)

lemma CreateOutboxEvent_order_Inr:
  assumes "run_state (CreateOutboxEvent_order a name payload) w = (Inr u, w')"
  shows "\<exists>ev. od_statuses w' = od_statuses w \<and> od_orders w' = od_orders w \<and>
    od_outbox w' = od_outbox w @ [ev] \<and> ob_AggregateID ev = a \<and> ob_EventName ev = name \<and>
    ob_Payload ev = payload \<and> ob_Status ev = ''UNPUBLISHED''"
  using assms
  by (auto simp: CreateOutboxEvent_order_def insert_outbox_def dest!: db_call_Inr
      split: sum.splits if_splits)

text \<open>Creating an order leaves the tables as they were or records the order and its event, both or
  none; it returns the order only if it is recorded. (An error may hide a commit whose reply was
  lost.)\<close>

lemma CreateOrder_repo_effect:
  assumes "run_state (CreateOrder_repo X u m t ps) w = (r, w')"
  shows "(\<exists>e. r = Inl e) \<and> same_order_tables w w' \<or>
    (\<exists>row ev o'. recorded X u m t ps w row ev w' \<and> mapRepositoryToGRPC X row ''CREATED'' = Inr o' \<and>
       (r = Inr o' \<or> (\<exists>e. r = Inl e)))"
  using assms unfolding CreateOrder_repo_def execTx_def
proof (cases rule: with_tx_cases)
  case (rolled_back e c)
  then show ?thesis by (simp add: same_order_tables_def)
next
  case (committed c tm o' w2 c')
  from committed(1) obtain user amt row w3 v w4 st where
    "mapStringToPgUUID X u = Inr user" "mapFloatToPgNumeric X t = Inr amt" and
    q: "run_state (CreateOrder_q user amt) (w\<lparr>calls := c, txn := InTx tm\<rparr>) = (Inr row, w3)" and
    ob: "run_state (CreateOutboxEvent_order (or_ID row) orderCreatedEventName
         (generateOrderCreatedEventPayload (uuid_text X (or_ID row))
           (uuid_text X (or_UserID row)) m ps)) w3 = (Inr v, w4)" and
    st: "run_state (GetOrderStatusByName ''CREATED'') w4 = (Inr st, w2)" and
    g: "mapRepositoryToGRPC X row (gos_Name st) = Inr o'"
    by (auto simp: attempt_Inr attempt_pure_Inr simp del: run_attempt run_attempt_pure)
  moreover have "parse_uuid X u = Inr user"
    using \<open>mapStringToPgUUID X u = Inr user\<close> by (auto simp: mapStringToPgUUID_def split: sum.splits)
  moreover have "gos_Name st = ''CREATED''"
    using GetOrderStatusByName_Inr [OF st] by (auto dest: find_Some_in)
  moreover obtain ev where "od_statuses w4 = od_statuses w3" "od_orders w4 = od_orders w3"
    "od_outbox w4 = od_outbox w3 @ [ev]" "ob_AggregateID ev = or_ID row"
    "ob_EventName ev = orderCreatedEventName" "ob_Status ev = ''UNPUBLISHED''"
    "ob_Payload ev = generateOrderCreatedEventPayload (uuid_text X (or_ID row))
           (uuid_text X (or_UserID row)) m ps"
    using CreateOutboxEvent_order_Inr [OF ob] by blast
  ultimately have "recorded X u m t ps w row ev w'"
    using CreateOrder_q_Inr [OF q] GetOrderStatusByName_Inr [OF st] committed(3)
    by (auto simp: recorded_def same_order_tables_def)
  then show ?thesis using committed(4) g \<open>gos_Name st = ''CREATED''\<close> by auto
qed

text \<open>On the migrated tables no status is called \<open>CANCELED\<close>: cancelling an order never succeeds
  and changes nothing.\<close>

lemma CancelOrder_repo_effect:
  assumes "migrated w" and "run_state (CancelOrder_repo X i) w = (r, w')"
  shows "(\<exists>e. r = Inl e) \<and> same_order_tables w w'"
  using assms(2) unfolding CancelOrder_repo_def execTx_def
proof (cases rule: with_tx_cases)
  case (rolled_back e c)
  then show ?thesis by (simp add: same_order_tables_def)
next
  case (committed c tm x w2 c')
  from committed(1) obtain st v where
    st: "run_state (GetOrderStatusByName ''CANCELED'') (w\<lparr>calls := c, txn := InTx tm\<rparr>) = (Inr st, v)"
    by (auto simp: attempt_Inr attempt_pure_Inr simp del: run_attempt run_attempt_pure)
  have "''CANCELED'' \<in> set (map os_Name (od_statuses w))"
    using GetOrderStatusByName_Inr [OF st] by (force dest: find_Some_in)
  moreover have "map os_Name (od_statuses w) = [''CREATED'', ''DELIVERED'', ''CANCELLED'']"
    using assms(1) by (simp add: migrated_def)
  ultimately have "''CANCELED'' \<in> set [''CREATED'', ''DELIVERED'', ''CANCELLED'']" by simp
  then show ?thesis by simp
qed

end
