(* ===== verification/OrderService.thy ===== *)
theory OrderService
  imports OrderRepo
begin

text \<open>
  The gRPC server of the order service (\<^verbatim>\<open>order-service/internal/grpc/order\<close>). Its repository and
  the clients of the cart, user and payment services are the operations of the record
  \<open>Server_order\<close>, over a state of which the server knows nothing. \<open>order_server\<close> is the server of
  \<^verbatim>\<open>main\<close>, on the repository of this service and clients that act on the rest of the state.
\<close>

record 'w Clients_order =
  cl_GetCart :: "GetCartRequest \<Rightarrow> ('w, go_error + GetCartResponse) state"
  cl_GetUserByID :: "GetUserByIDRequest \<Rightarrow> ('w, go_error + UserV1) state"
  cl_ProcessPayment :: "ProcessPaymentRequest \<Rightarrow> ('w, go_error + PaymentV1) state"

record 'w Server_order =
  sv_CreateOrder :: "string \<Rightarrow> string \<Rightarrow> float64 \<Rightarrow> CartProductV1 list \<Rightarrow> ('w, go_error + OrderV1) state"
  sv_CancelOrder :: "string \<Rightarrow> ('w, go_error + unit) state"
  sv_clients :: "'w Clients_order"

definition cart_error :: "ext \<Rightarrow> string \<Rightarrow> go_error \<Rightarrow> status" where
  "cart_error X userID e = (case st_code (status_convert X e) of
     NotFound \<Rightarrow> Errorf FailedPrecondition (''cannot create order: cart not found for user '' @ userID)
   | Unavailable \<Rightarrow> Errorf Unavailable (''cart service temporarily unavailable: '' @ err_text X e)
   | DeadlineExceeded \<Rightarrow> Errorf Unavailable (''cart service temporarily unavailable: '' @ err_text X e)
   | _ \<Rightarrow> Errorf Internal (''failed to get cart: '' @ err_text X e))"

definition getCart :: "ext \<Rightarrow> 'w Server_order \<Rightarrow> string \<Rightarrow> ('w, status + GetCartResponse) state" where
  "getCart X S userID =
     attempt (cl_GetCart (sv_clients S) \<lparr>gcr_UserId = userID\<rparr>) (cart_error X userID) (\<lambda>cart.
     ensure (gc_Products cart \<noteq> [])
       (Errorf FailedPrecondition (''cannot create order: cart is empty for user '' @ userID)) (
     ensure (\<not> fle_zero (gc_TotalPrice cart))
       (Errorf FailedPrecondition (''cannot create order: invalid cart total price '' @
          sprintf_2f (gc_TotalPrice cart))) (
     ok cart)))"

definition user_error :: "ext \<Rightarrow> string \<Rightarrow> go_error \<Rightarrow> status" where
  "user_error X userID e = (case st_code (status_convert X e) of
     NotFound \<Rightarrow> Errorf FailedPrecondition (''cannot create order: user not found '' @ userID)
   | Unavailable \<Rightarrow> Errorf Unavailable (''user service temporarily unavailable: '' @ err_text X e)
   | DeadlineExceeded \<Rightarrow> Errorf Unavailable (''user service temporarily unavailable: '' @ err_text X e)
   | _ \<Rightarrow> Errorf Internal (''failed to get user: '' @ err_text X e))"

definition getUserEmail :: "ext \<Rightarrow> 'w Server_order \<Rightarrow> string \<Rightarrow> ('w, status + string) state" where
  "getUserEmail X S userID =
     attempt (cl_GetUserByID (sv_clients S) \<lparr>gur_Id = userID\<rparr>) (user_error X userID)
       (\<lambda>user. ok (uv_Email user))"

definition payment_error :: "ext \<Rightarrow> string \<Rightarrow> go_error \<Rightarrow> status" where
  "payment_error X orderID e = (case st_code (status_convert X e) of
     FailedPrecondition \<Rightarrow>
       Errorf FailedPrecondition (''payment failed for order '' @ orderID @ '': '' @ err_text X e)
   | Unavailable \<Rightarrow> Errorf Unavailable (''payment service temporarily unavailable: '' @ err_text X e)
   | DeadlineExceeded \<Rightarrow> Errorf Unavailable (''payment service temporarily unavailable: '' @ err_text X e)
   | InvalidArgument \<Rightarrow>
       Errorf InvalidArgument (''invalid payment data for order '' @ orderID @ '': '' @ err_text X e)
   | _ \<Rightarrow> Errorf Internal (''failed to process payment: '' @ err_text X e))"

definition processPayment ::
  "ext \<Rightarrow> 'w Server_order \<Rightarrow> string \<Rightarrow> string \<Rightarrow> float64 \<Rightarrow> ('w, status + PaymentV1) state" where
  "processPayment X S orderID userID amount =
     attempt (cl_ProcessPayment (sv_clients S)
         \<lparr>ppr_OrderId = orderID, ppr_UserId = userID, ppr_Amount = amount\<rparr>)
       (payment_error X orderID) ok"

text \<open>The handler. The error of a failed cancellation is only logged: the caller gets the error of
  the payment in either case.\<close>

definition CreateOrder ::
  "ext \<Rightarrow> 'w Server_order \<Rightarrow> ctx_err option \<Rightarrow> CreateOrderRequest \<Rightarrow> ('w, status + OrderV1) state" where
  "CreateOrder X S ctx req = (case ctx of Some e \<Rightarrow> fail (ctx_status X e) | None \<Rightarrow>
     ensure (cor_UserId req \<noteq> []) (Errorf InvalidArgument ''user ID is required'') (
     attempt (getCart X S (cor_UserId req)) id (\<lambda>cart.
     attempt (getUserEmail X S (cor_UserId req)) id (\<lambda>email.
     attempt (sv_CreateOrder S (cor_UserId req) email (gc_TotalPrice cart) (gc_Products cart))
       (\<lambda>e. Errorf Internal (''failed to create order: '' @ err_text X e)) (\<lambda>order. do {
     p \<leftarrow> processPayment X S (ov_Id order) (cor_UserId req) (gc_TotalPrice cart);
     case p of
       Inl e \<Rightarrow> do { _ \<leftarrow> sv_CancelOrder S (ov_Id order); fail e }
     | Inr _ \<Rightarrow> ok order })))))"

text \<open>The server on its own database, with clients on the rest of the state.\<close>

definition on_db :: "('d, 'a) state \<Rightarrow> ('d \<times> 'c, 'a) state" where
  "on_db m = zoom fst (\<lambda>d w. (d, snd w)) m"

definition on_rest :: "('c, 'a) state \<Rightarrow> ('d \<times> 'c, 'a) state" where
  "on_rest m = zoom snd (\<lambda>c w. (fst w, c)) m"

definition order_server :: "ext \<Rightarrow> 'c Clients_order \<Rightarrow> (order_db \<times> 'c) Server_order" where
  "order_server X C = \<lparr>
     sv_CreateOrder = (\<lambda>u m t ps. on_db (CreateOrder_repo X u m t ps)),
     sv_CancelOrder = (\<lambda>i. on_db (CancelOrder_repo X i)),
     sv_clients = \<lparr>cl_GetCart = (\<lambda>r. on_rest (cl_GetCart C r)),
       cl_GetUserByID = (\<lambda>r. on_rest (cl_GetUserByID C r)),
       cl_ProcessPayment = (\<lambda>r. on_rest (cl_ProcessPayment C r))\<rparr>\<rparr>"

lemma run_on_db [simp]:
  "run_state (on_db m) w = (case run_state m (fst w) of (x, d) \<Rightarrow> (x, (d, snd w)))"
  by (simp add: on_db_def)

lemma run_on_rest [simp]:
  "run_state (on_rest m) w = (case run_state m (snd w) of (x, c) \<Rightarrow> (x, (fst w, c)))"
  by (simp add: on_rest_def)


subsection \<open>The steps of a successful order\<close>

lemma order_server_simps [simp]:
  "sv_CreateOrder (order_server X C) u m t ps = on_db (CreateOrder_repo X u m t ps)"
  "sv_CancelOrder (order_server X C) i = on_db (CancelOrder_repo X i)"
  "cl_GetCart (sv_clients (order_server X C)) q = on_rest (cl_GetCart C q)"
  "cl_GetUserByID (sv_clients (order_server X C)) g = on_rest (cl_GetUserByID C g)"
  "cl_ProcessPayment (sv_clients (order_server X C)) p = on_rest (cl_ProcessPayment C p)"
  by (simp_all add: order_server_def)

text \<open>The tables stay well formed, whatever the clients do.\<close>

lemma keeps_on [keeps_intros]:
  "keeps P m \<Longrightarrow> keeps (\<lambda>w. P (fst w)) (on_db m)" "keeps (\<lambda>w. P (fst w)) (on_rest n)"
  unfolding on_db_def on_rest_def by (auto simp: keeps_def split: prod.splits)

lemma tables_CreateOrder: "keeps (\<lambda>w. order_tables_ok (fst w)) (CreateOrder X (order_server X C) ctx req)"
  unfolding CreateOrder_def getCart_def getUserEmail_def processPayment_def order_server_simps
  by (intro keeps_intros keeps_CreateOrder_repo keeps_CancelOrder_repo)

lemma getCart_db:
  "run_state (getCart X (order_server X C) u) w = (r, w') \<Longrightarrow> fst w' = fst w"
  by (auto simp: getCart_def split: prod.splits sum.splits if_splits)

lemma getCart_Inr:
  "run_state (getCart X (order_server X C) u) w = (Inr cart, w') \<Longrightarrow>
     run_state (cl_GetCart C \<lparr>gcr_UserId = u\<rparr>) (snd w) = (Inr cart, snd w') \<and>
     gc_Products cart \<noteq> [] \<and> \<not> fle_zero (gc_TotalPrice cart)"
  by (auto simp: getCart_def split: prod.splits sum.splits if_splits)

lemma getUserEmail_db:
  "run_state (getUserEmail X (order_server X C) u) w = (r, w') \<Longrightarrow> fst w' = fst w"
  by (auto simp: getUserEmail_def split: prod.splits sum.splits)

lemma getUserEmail_Inr:
  "run_state (getUserEmail X (order_server X C) u) w = (Inr email, w') \<Longrightarrow>
     \<exists>user. run_state (cl_GetUserByID C \<lparr>gur_Id = u\<rparr>) (snd w) = (Inr user, snd w') \<and> email = uv_Email user"
  by (auto simp: getUserEmail_def split: prod.splits sum.splits)

lemma processPayment_db:
  "run_state (processPayment X (order_server X C) i u a) w = (r, w') \<Longrightarrow> fst w' = fst w"
  by (auto simp: processPayment_def split: prod.splits sum.splits)

lemma processPayment_Inr:
  "run_state (processPayment X (order_server X C) i u a) w = (Inr p, w') \<Longrightarrow>
     run_state (cl_ProcessPayment C \<lparr>ppr_OrderId = i, ppr_UserId = u, ppr_Amount = a\<rparr>) (snd w) = (Inr p, snd w')"
  by (auto simp: processPayment_def split: prod.splits sum.splits)

text \<open>The handler step by step: it stops before the repository is called, or at the repository,
  or it has recorded the order and asked for the payment.\<close>

text \<open>The end of \<open>CreateOrder\<close>, when the cart and the user have been fetched: the order is recorded, then paid or cancelled.\<close>

lemma CreateOrder_from:
  assumes "run_state (CreateOrder X (order_server X C) ctx req) w = (r, w')" and "ctx = None" and "cor_UserId req \<noteq> []"
    and "run_state (getCart X (order_server X C) (cor_UserId req)) w = (Inr cart, c1)"
    and "run_state (getUserEmail X (order_server X C) (cor_UserId req)) c1 = (Inr email, w1)"
  obtains (repo) e where
      "run_state (CreateOrder_repo X (cor_UserId req) email (gc_TotalPrice cart) (gc_Products cart)) (fst w1) = (Inl e, fst w')"
      "r = Inl (Errorf Internal (''failed to create order: '' @ err_text X e))" "snd w' = snd w1"
  | (paid) order d p where
      "run_state (CreateOrder_repo X (cor_UserId req) email (gc_TotalPrice cart) (gc_Products cart)) (fst w1) = (Inr order, d)"
      "run_state (processPayment X (order_server X C) (ov_Id order) (cor_UserId req) (gc_TotalPrice cart)) (d, snd w1) = (Inr p, w')"
      "r = Inr order"
  | (unpaid) order d s w2 q where
      "run_state (CreateOrder_repo X (cor_UserId req) email (gc_TotalPrice cart) (gc_Products cart)) (fst w1) = (Inr order, d)"
      "run_state (processPayment X (order_server X C) (ov_Id order) (cor_UserId req) (gc_TotalPrice cart)) (d, snd w1) = (Inl s, w2)"
      "run_state (CancelOrder_repo X (ov_Id order)) (fst w2) = (q, fst w')" "r = Inl s" "snd w' = snd w2"
proof -
  note run = assms(1) [unfolded CreateOrder_def] assms(2-5)
  obtain o' d where o': "run_state (CreateOrder_repo X (cor_UserId req) email (gc_TotalPrice cart) (gc_Products cart)) (fst w1) =
    (o', d)" by (rule run_pair)
  show ?thesis
  proof (cases o')
    case (Inl e)
    then show ?thesis using run o' by (intro repo [of e]) auto
  next
    case order: (Inr order)
    obtain p w2 where p: "run_state (processPayment X (order_server X C) (ov_Id order) (cor_UserId req) (gc_TotalPrice cart))
      (d, snd w1) = (p, w2)" by (rule run_pair)
    show ?thesis
    proof (cases p)
      case (Inl s)
      obtain q d2 where "run_state (CancelOrder_repo X (ov_Id order)) (fst w2) = (q, d2)" by (rule run_pair)
      then show ?thesis using run o' order p Inl by (intro unpaid [of order d s w2 q]) auto
    next
      case (Inr v)
      then show ?thesis using run o' order p by (intro paid [of order d v]) auto
    qed
  qed
qed

lemma CreateOrder_steps:
  assumes "run_state (CreateOrder X (order_server X C) ctx req) w = (r, w')"
  obtains (early) s where "r = Inl s" "fst w' = fst w"
      "w' = w \<or> (\<exists>a c1. run_state (getCart X (order_server X C) (cor_UserId req)) w = (a, c1) \<and>
         (w' = c1 \<or> (\<exists>b. run_state (getUserEmail X (order_server X C) (cor_UserId req)) c1 = (b, w'))))"
  | (repo) cart c1 email w1 e where
      "run_state (getCart X (order_server X C) (cor_UserId req)) w = (Inr cart, c1)"
      "run_state (getUserEmail X (order_server X C) (cor_UserId req)) c1 = (Inr email, w1)"
      "run_state (CreateOrder_repo X (cor_UserId req) email (gc_TotalPrice cart) (gc_Products cart))
         (fst w1) = (Inl e, fst w')"
      "r = Inl (Errorf Internal (''failed to create order: '' @ err_text X e))" "snd w' = snd w1"
  | (paid) cart c1 email w1 order d p where "ctx = None"
      "run_state (getCart X (order_server X C) (cor_UserId req)) w = (Inr cart, c1)"
      "run_state (getUserEmail X (order_server X C) (cor_UserId req)) c1 = (Inr email, w1)"
      "run_state (CreateOrder_repo X (cor_UserId req) email (gc_TotalPrice cart) (gc_Products cart))
         (fst w1) = (Inr order, d)"
      "run_state (processPayment X (order_server X C) (ov_Id order) (cor_UserId req) (gc_TotalPrice cart))
         (d, snd w1) = (Inr p, w')" "r = Inr order"
  | (unpaid) cart c1 email w1 order d s w2 q where "ctx = None"
      "run_state (getCart X (order_server X C) (cor_UserId req)) w = (Inr cart, c1)"
      "run_state (getUserEmail X (order_server X C) (cor_UserId req)) c1 = (Inr email, w1)"
      "run_state (CreateOrder_repo X (cor_UserId req) email (gc_TotalPrice cart) (gc_Products cart))
         (fst w1) = (Inr order, d)"
      "run_state (processPayment X (order_server X C) (ov_Id order) (cor_UserId req) (gc_TotalPrice cart))
         (d, snd w1) = (Inl s, w2)"
      "run_state (CancelOrder_repo X (ov_Id order)) (fst w2) = (q, fst w')" "r = Inl s" "snd w' = snd w2"
proof (cases "ctx = None \<and> cor_UserId req \<noteq> []")
  case False
  then have "(\<exists>s. r = Inl s) \<and> w' = w" using assms by (auto simp: CreateOrder_def split: option.splits)
  then show ?thesis using early by auto
next
  case True
  note run = assms [unfolded CreateOrder_def]
  obtain a c1 where a: "run_state (getCart X (order_server X C) (cor_UserId req)) w = (a, c1)" by (rule run_pair)
  note c1 = getCart_db [OF a]
  show ?thesis
  proof (cases a)
    case (Inl s)
    then show ?thesis using run True a c1 by (intro early [of s]) auto
  next
    case cart: (Inr cart)
    obtain b w1 where b: "run_state (getUserEmail X (order_server X C) (cor_UserId req)) c1 = (b, w1)" by (rule run_pair)
    note w1 = getUserEmail_db [OF b]
    show ?thesis
    proof (cases b)
      case (Inl s)
      then show ?thesis using run True a cart b c1 w1 by (intro early [of s]) auto
    next
      case email: (Inr email)
      show ?thesis
        by (rule CreateOrder_from [OF assms _ _ a [unfolded cart] b [unfolded email]]) (use True that(2-4) cart email a b in auto)
    qed
  qed
qed

lemma same_trans: "same_order_tables u v \<Longrightarrow> same_order_tables v w \<Longrightarrow> same_order_tables u w"
  by (simp add: same_order_tables_def)

lemma recorded_same: "recorded X u m t ps w row ev v \<Longrightarrow> same_order_tables v w' \<Longrightarrow>
    recorded X u m t ps w row ev w'"
  by (simp add: recorded_def same_order_tables_def)

subsection \<open>An instance\<close>

definition order_statuses_sample :: "OrderStatusRow list" where
  "order_statuses_sample = [\<lparr>os_ID = 1, os_Name = ''CREATED'', os_CreatedAt = 0\<rparr>,
     \<lparr>os_ID = 2, os_Name = ''DELIVERED'', os_CreatedAt = 0\<rparr>,
     \<lparr>os_ID = 3, os_Name = ''CANCELLED'', os_CreatedAt = 0\<rparr>]"

definition order_db_sample :: order_db where
  "order_db_sample = \<lparr>calls = 0, fault_at = (\<lambda>_. None), clock_at = int, uuid_at = (\<lambda>n. of_nat (100 + n)),
     txn = NoTx, od_statuses = order_statuses_sample, od_orders = [], od_outbox = []\<rparr>"

definition cart_sample :: GetCartResponse where
  "cart_sample = \<lparr>gc_Id = ''9'', gc_UserId = ''7'',
     gc_Products = [\<lparr>cpv_ProductId = ''5'', cpv_Name = ''tea'', cpv_Description = [],
        cpv_Price = Fin (5 / 2), cpv_Quantity = 2\<rparr>], gc_TotalPrice = Fin 5\<rparr>"

definition user_sample :: UserV1 where
  "user_sample = \<lparr>uv_Id = ''7'', uv_Username = ''ann'', uv_Email = ''a@b.c'', uv_CreatedAt = 0, uv_UpdatedAt = None\<rparr>"

text \<open>Clients that find the cart and the user, with a payment service that accepts or refuses.\<close>

definition clients_sample :: "bool \<Rightarrow> unit Clients_order" where
  "clients_sample pays = \<lparr>cl_GetCart = (\<lambda>_. ok cart_sample), cl_GetUserByID = (\<lambda>_. ok user_sample),
     cl_ProcessPayment = (\<lambda>q. if pays
       then ok \<lparr>pv_Id = ''1'', pv_OrderId = ppr_OrderId q, pv_UserId = ppr_UserId q,
         pv_Amount = ppr_Amount q, pv_Status = ''SUCCEEDED'', pv_CreatedAt = 0\<rparr>
       else fail (StatusError (Errorf FailedPrecondition ''insufficient funds'')))\<rparr>"

definition order_run :: "bool \<Rightarrow> (status + OrderV1) \<times> order_db \<times> unit" where
  "order_run pays = run_state (CreateOrder sample_ext (order_server sample_ext (clients_sample pays)) None
     \<lparr>cor_UserId = ''7''\<rparr>) (order_db_sample, ())"

lemma migrated_sample: "migrated order_db_sample"
  by (simp add: migrated_def order_db_sample_def order_statuses_sample_def)

lemma repo_sample:
  "\<exists>o' d. run_state (CreateOrder_repo sample_ext ''7'' (uv_Email user_sample)
     (gc_TotalPrice cart_sample) (gc_Products cart_sample)) order_db_sample = (Inr o', d)"
proof -
  have "case fst (run_state (CreateOrder_repo sample_ext ''7'' (uv_Email user_sample)
     (gc_TotalPrice cart_sample) (gc_Products cart_sample)) order_db_sample) of
     Inr _ \<Rightarrow> True | Inl _ \<Rightarrow> False" by code_simp
  then show ?thesis by (auto split: prod.splits sum.splits simp: fst_def)
qed

lemma getCart_sample:
  "run_state (getCart X (order_server X (clients_sample b)) u) (d, ()) = (Inr cart_sample, (d, ()))"
  by (simp add: getCart_def clients_sample_def) (simp add: cart_sample_def)

lemma getUserEmail_sample:
  "run_state (getUserEmail X (order_server X (clients_sample b)) u) (d, ()) = (Inr (uv_Email user_sample), (d, ()))"
  by (simp add: getUserEmail_def clients_sample_def)

subsection \<open>Properties\<close>

text \<open>Whatever happens, the handler records one order with its event or changes no table.\<close>

lemma CreateOrder_effect:
  assumes "migrated (fst w)"
    and "run_state (CreateOrder X (order_server X C) ctx req) w = (r, w')"
  shows "(\<exists>s. r = Inl s) \<and> same_order_tables (fst w) (fst w') \<or>
    (\<exists>email (cart :: GetCartResponse) row ev o'.
       recorded X (cor_UserId req) email (gc_TotalPrice cart) (gc_Products cart) (fst w) row ev (fst w') \<and>
       gc_Products cart \<noteq> [] \<and> \<not> fle_zero (gc_TotalPrice cart) \<and>
       mapRepositoryToGRPC X row ''CREATED'' = Inr o' \<and> (r = Inr o' \<or> (\<exists>s. r = Inl s)))"
  using assms(2)
proof (cases rule: CreateOrder_steps)
  case (early s)
  then show ?thesis by (simp add: same_order_tables_def)
next
  case (repo cart c1 email w1 e)
  have d: "fst w1 = fst w" using getCart_db [OF repo(1)] getUserEmail_db [OF repo(2)] by simp
  have r: "\<exists>s. r = Inl s" using repo(4) by blast
  note eff = CreateOrder_repo_effect [OF repo(3), unfolded d]
  note cart = getCart_Inr [OF repo(1)]
  from eff show ?thesis using cart r by (elim disjE conjE exE) blast+
next
  case (paid cart c1 email w1 order d p)
  have d: "fst w1 = fst w" "d = fst w'"
    using getCart_db [OF paid(2)] getUserEmail_db [OF paid(3)] processPayment_db [OF paid(5)] by simp_all
  show ?thesis
    using CreateOrder_repo_effect [OF paid(4)] getCart_Inr [OF paid(2)] paid(6) unfolding d by auto
next
  case (unpaid cart c1 email w1 order d s w2 q)
  have d: "fst w1 = fst w" "fst w2 = d"
    using getCart_db [OF unpaid(2)] getUserEmail_db [OF unpaid(3)] processPayment_db [OF unpaid(5)] by simp_all
  obtain row ev where rec: "recorded X (cor_UserId req) email (gc_TotalPrice cart) (gc_Products cart)
      (fst w) row ev d" "mapRepositoryToGRPC X row ''CREATED'' = Inr order"
    using CreateOrder_repo_effect [OF unpaid(4)] d by auto
  have "migrated d" using assms(1) rec(1) by (simp add: migrated_def recorded_def)
  then have "same_order_tables d (fst w')" using CancelOrder_repo_effect unpaid(6) d by blast
  then show ?thesis using recorded_same [OF rec(1)] rec(2) getCart_Inr [OF unpaid(2)] unpaid(7) by blast
qed

text \<open>C1. The outcome of \<open>CreateOrder\<close> on the migrated tables, whatever the clients and the database
  do: either it returns an error and the tables are unchanged, or exactly one order has been
  recorded, with the status \<open>CREATED\<close> and the total of a cart that has products and a total that
  is not at most zero, together with its unpublished event; an order that is returned is the recorded one.\<close>

theorem CreateOrder_outcome:
  assumes "migrated (fst w)"
    and "run_state (CreateOrder X (order_server X C) ctx req) w = (r, w')"
  shows "(\<exists>s. r = Inl s) \<and> same_order_tables (fst w) (fst w') \<or>
    (\<exists>email (cart :: GetCartResponse) row ev o'.
       recorded X (cor_UserId req) email (gc_TotalPrice cart) (gc_Products cart) (fst w) row ev (fst w') \<and>
       gc_Products cart \<noteq> [] \<and> \<not> fle_zero (gc_TotalPrice cart) \<and>
       mapRepositoryToGRPC X row ''CREATED'' = Inr o' \<and> (r = Inr o' \<or> (\<exists>s. r = Inl s)))"
  using CreateOrder_effect [OF assms] .

theorem CreateOrder_outcome_witness:
  "\<exists>o' w'. order_run True = (Inr o', w') \<and>
     (\<exists>row ev email (cart :: GetCartResponse). recorded sample_ext ''7'' email (gc_TotalPrice cart) (gc_Products cart)
        order_db_sample row ev (fst w'))"
proof -
  obtain o' d where "run_state (CreateOrder_repo sample_ext ''7'' (uv_Email user_sample)
     (gc_TotalPrice cart_sample) (gc_Products cart_sample)) order_db_sample = (Inr o', d)"
    using repo_sample by blast
  then have run: "order_run True = (Inr o', (d, ()))"
    by (simp add: order_run_def CreateOrder_def getCart_sample getUserEmail_sample processPayment_def)
      (simp add: clients_sample_def)
  from CreateOrder_outcome [OF _ this [unfolded order_run_def]] show ?thesis
    using migrated_sample run by (auto simp: order_run_def)
qed

text \<open>C19. When the payment fails the caller gets the payment's error, and the order stays
  recorded as \<open>CREATED\<close> with its event still to be published: the cancellation that should undo it
  looks for a status named \<open>CANCELED\<close>, which the migrations do not create, and never succeeds.\<close>

theorem failed_payment_keeps_order:
  assumes "migrated (fst w)"
    and "run_state (getCart X (order_server X C) (cor_UserId req)) w = (Inr cart, w1)"
    and "run_state (getUserEmail X (order_server X C) (cor_UserId req)) w1 = (Inr email, w2)"
    and "run_state (CreateOrder_repo X (cor_UserId req) email (gc_TotalPrice cart) (gc_Products cart))
      (fst w2) = (Inr order, d)"
    and "run_state (processPayment X (order_server X C) (ov_Id order) (cor_UserId req) (gc_TotalPrice cart))
      (d, snd w2) = (Inl s, w3)"
    and "cor_UserId req \<noteq> []"
  shows "fst (run_state (CreateOrder X (order_server X C) None req) w) = Inl s \<and>
    (\<exists>row ev. recorded X (cor_UserId req) email (gc_TotalPrice cart) (gc_Products cart) (fst w) row ev
       (fst (snd (run_state (CreateOrder X (order_server X C) None req) w))))"
proof -
  obtain q d2 where q: "run_state (CancelOrder_repo X (ov_Id order)) (fst w3) = (q, d2)" by (rule run_pair)
  have run: "run_state (CreateOrder X (order_server X C) None req) w = (Inl s, (d2, snd w3))"
    using assms(2-6) q by (simp add: CreateOrder_def)
  have d: "fst w2 = fst w" "fst w3 = d"
    using getCart_db [OF assms(2)] getUserEmail_db [OF assms(3)] processPayment_db [OF assms(5)] by simp_all
  obtain row ev where rec: "recorded X (cor_UserId req) email (gc_TotalPrice cart) (gc_Products cart)
      (fst w) row ev d"
    using CreateOrder_repo_effect [OF assms(4)] d by auto
  have "migrated d" using assms(1) rec by (simp add: migrated_def recorded_def)
  then have "same_order_tables d d2" using CancelOrder_repo_effect q d by metis
  then show ?thesis using recorded_same [OF rec] run by auto
qed


theorem failed_payment_keeps_order_witness:
  "\<exists>s row ev. fst (order_run False) = Inl s \<and>
     recorded sample_ext ''7'' (uv_Email user_sample) (gc_TotalPrice cart_sample)
       (gc_Products cart_sample) order_db_sample row ev (fst (snd (order_run False)))"
proof -
  obtain o' d where r: "run_state (CreateOrder_repo sample_ext ''7'' (uv_Email user_sample)
     (gc_TotalPrice cart_sample) (gc_Products cart_sample)) order_db_sample = (Inr o', d)"
    using repo_sample by blast
  have "\<exists>s w3. run_state (processPayment sample_ext (order_server sample_ext (clients_sample False))
      (ov_Id o') ''7'' (gc_TotalPrice cart_sample)) (d, ()) = (Inl s, w3)"
    by (simp add: processPayment_def clients_sample_def)
  then obtain s w3 where p: "run_state (processPayment sample_ext
      (order_server sample_ext (clients_sample False)) (ov_Id o') ''7'' (gc_TotalPrice cart_sample)) (d, ()) = (Inl s, w3)"
    by blast
  show ?thesis
    using failed_payment_keeps_order [of "(order_db_sample, ())" sample_ext "clients_sample False"
        "\<lparr>cor_UserId = ''7''\<rparr>" cart_sample _ "uv_Email user_sample" _ o' d s w3]
      migrated_sample getCart_sample getUserEmail_sample r p
    by (fastforce simp: order_run_def)
qed


text \<open>An order that is returned has been paid: the cart and the user were fetched for the
  requested user, the order was recorded with their total, products and address, and the payment
  service accepted a payment of that total for this order, as the last thing that happened.\<close>

theorem returned_order_is_paid:
  assumes "run_state (CreateOrder X (order_server X C) ctx req) w = (Inr order, w')"
  shows "\<exists>cart c1 user c2 row ev p.
    run_state (cl_GetCart C \<lparr>gcr_UserId = cor_UserId req\<rparr>) (snd w) = (Inr cart, c1) \<and>
    run_state (cl_GetUserByID C \<lparr>gur_Id = cor_UserId req\<rparr>) c1 = (Inr user, c2) \<and>
    recorded X (cor_UserId req) (uv_Email user) (gc_TotalPrice cart) (gc_Products cart) (fst w) row ev (fst w') \<and>
    mapRepositoryToGRPC X row ''CREATED'' = Inr order \<and>
    run_state (cl_ProcessPayment C \<lparr>ppr_OrderId = ov_Id order, ppr_UserId = cor_UserId req,
       ppr_Amount = gc_TotalPrice cart\<rparr>) c2 = (Inr p, snd w')"
  using assms
proof (cases rule: CreateOrder_steps)
  case (paid cart c1 email w1 order' d p)
  then have [simp]: "order' = order" by simp
  have d: "fst w1 = fst w" "d = fst w'"
    using getCart_db [OF paid(2)] getUserEmail_db [OF paid(3)] processPayment_db [OF paid(5)] by simp_all
  obtain row ev where "recorded X (cor_UserId req) email (gc_TotalPrice cart) (gc_Products cart)
      (fst w) row ev (fst w')" "mapRepositoryToGRPC X row ''CREATED'' = Inr order"
    using CreateOrder_repo_effect [OF paid(4)] unfolding d by auto
  then show ?thesis
    using getCart_Inr [OF paid(2)] getUserEmail_Inr [OF paid(3)] processPayment_Inr [OF paid(5)]
    by fastforce
qed simp_all

theorem returned_order_is_paid_witness:
  "\<exists>o' w' row ev. order_run True = (Inr o', w') \<and>
     recorded sample_ext ''7'' (uv_Email user_sample) (gc_TotalPrice cart_sample)
       (gc_Products cart_sample) order_db_sample row ev (fst w')"
proof -
  obtain o' d where "run_state (CreateOrder_repo sample_ext ''7'' (uv_Email user_sample)
     (gc_TotalPrice cart_sample) (gc_Products cart_sample)) order_db_sample = (Inr o', d)"
    using repo_sample by blast
  then have run: "order_run True = (Inr o', (d, ()))"
    by (simp add: order_run_def CreateOrder_def getCart_sample getUserEmail_sample processPayment_def)
      (simp add: clients_sample_def)
  have C: "run_state (cl_GetCart (clients_sample True) q) c = (Inr cart_sample, c)"
    "run_state (cl_GetUserByID (clients_sample True) g) c = (Inr user_sample, c)" for q g c
    by (simp_all add: clients_sample_def)
  from returned_order_is_paid [OF run [unfolded order_run_def]] show ?thesis
    using run by (auto simp: C)
qed

text \<open>With a live context and clients whose errors are statuses, \<open>CreateOrder\<close> fails with one
  of four codes only: \<open>InvalidArgument\<close>, \<open>FailedPrecondition\<close>, \<open>Unavailable\<close> or \<open>Internal\<close>.\<close>

theorem CreateOrder_error_codes:
  assumes "run_state (CreateOrder X S None req) w = (Inl s, w')"
  shows "st_code s \<in> {InvalidArgument, FailedPrecondition, Unavailable, Internal}"
  using assms
  by (auto simp: CreateOrder_def getCart_def getUserEmail_def processPayment_def cart_error_def
      user_error_def payment_error_def split: prod.splits sum.splits if_splits code.splits)

theorem CreateOrder_error_codes_witness:
  "st_code (Errorf InvalidArgument ''user ID is required'')
     \<in> {InvalidArgument, FailedPrecondition, Unavailable, Internal}"
proof (rule CreateOrder_error_codes)
  show "run_state (CreateOrder sample_ext (order_server sample_ext (clients_sample True)) None
      \<lparr>cor_UserId = []\<rparr>) (order_db_sample, ()) =
    (Inl (Errorf InvalidArgument ''user ID is required''), (order_db_sample, ()))"
    by (simp add: CreateOrder_def)
qed

text \<open>The event recorded with an order says the same as the order: its consumers decode the
  order's and the user's identifiers, the address and one item per product of the cart.\<close>

theorem recorded_event_decodes:
  assumes "recorded X user email amount products w row ev w'"
  shows "unmarshal_order_created (Some (ob_Payload ev)) = Inr
    \<lparr>oce_OrderID = uuid_text X (or_ID row), oce_UserID = uuid_text X (or_UserID row),
     oce_UserEmail = email,
     oce_Products = Some (map (\<lambda>p. \<lparr>oi_ProductID = cpv_ProductId p, oi_Quantity = cpv_Quantity p\<rparr>) products)\<rparr>"
  using assms order_created_decodes by (simp add: recorded_def generateOrderCreatedEventPayload_def)

theorem recorded_event_decodes_witness:
  "\<exists>row ev w'. recorded sample_ext ''7'' ''a@b.c'' (Fin 5) (gc_Products cart_sample) order_db_sample row ev w' \<and>
     unmarshal_order_created (Some (ob_Payload ev)) = Inr
       \<lparr>oce_OrderID = uuid_text sample_ext (or_ID row), oce_UserID = uuid_text sample_ext (or_UserID row),
        oce_UserEmail = ''a@b.c'', oce_Products = Some [\<lparr>oi_ProductID = ''5'', oi_Quantity = 2\<rparr>]\<rparr>"
proof -
  obtain o' d where r: "run_state (CreateOrder_repo sample_ext ''7'' ''a@b.c'' (Fin 5)
     (gc_Products cart_sample)) order_db_sample = (Inr o', d)"
    using repo_sample by (auto simp: user_sample_def) (simp add: cart_sample_def)
  from CreateOrder_repo_effect [OF this] obtain row ev
    where rec: "recorded sample_ext ''7'' ''a@b.c'' (Fin 5) (gc_Products cart_sample) order_db_sample row ev d"
    by auto
  from recorded_event_decodes [OF this] rec show ?thesis by (auto simp: cart_sample_def)
qed

text \<open>C17. The total stored with an order is the exact sum of its lines: when the cart adds up prices
  of whole cents in \<open>float64\<close>, over at most 100000 lines and below 100 million, the decimal
  the order stores is the sum in cents, although every addition rounds.\<close>

theorem order_total_exact:
  assumes "scans_cents X"
    and "\<forall>(c, q) \<in> set ls. 0 \<le> c \<and> 0 < sint q"
    and "0 < sum_list (map line_cents ls)" and "sum_list (map line_cents ls) < 10 ^ 10"
    and "length ls \<le> 100000"
  shows "mapFloatToPgNumeric X (foldl add_line (Fin 0) (map (map_prod cents_float id) ls)) =
      Inr (Num (of_int (sum_list (map line_cents ls)) / 100)) \<and>
    numeric_10_2 (Num (of_int (sum_list (map line_cents ls)) / 100)) =
      Inr (Num (of_int (sum_list (map line_cents ls)) / 100))"
proof -
  define S where "S = sum_list (map line_cents ls)"
  obtain v where v: "foldl add_line (Fin 0) (map (map_prod cents_float id) ls) = Fin v"
    and err: "\<bar>v - of_int S / 100\<bar> \<le> of_nat (length ls) / 33554432"
    using fold_lines_error [OF assms(2)] assms(4,5) by (auto simp: S_def)
  have "of_nat (length ls) \<le> (100000 :: rat)" using assms(5) of_nat_mono [of "length ls" 100000] by simp
  then have "\<bar>v - of_int S / 100\<bar> < 1 / 200" using err by linarith
  moreover have "0 < S" using assms(3) by (simp add: S_def)
  ultimately have "fixed_text 2 v = cents_text S"
    by (simp add: cents_text_def fixed_text_close)
  then have "mapFloatToPgNumeric X (Fin v) = Inr (Num (of_int S / 100))"
    using mapped_cents [OF assms(1)] by (simp add: mapFloatToPgNumeric_def)
  moreover have "\<bar>S\<bar> < 10 ^ 10" using \<open>0 < S\<close> assms(4) by (simp add: S_def)
  ultimately show ?thesis using v numeric_10_2_cents by (simp add: S_def [symmetric])
qed

theorem order_total_exact_witness:
  "mapFloatToPgNumeric sample_ext (foldl add_line (Fin 0) [(cents_float 10, 1), (cents_float 20, 1)]) =
     Inr (Num (3 / 10))"
  using order_total_exact [OF sample_scans, of "[(10, 1), (20, 1)]"] by (simp add: line_cents_def)

end
