(* ===== verification/Rabbit.thy ===== *)
theory Rabbit
  imports Outbox
begin

text \<open>
  The RabbitMQ wrapper of \<^verbatim>\<open>shared/rabbitmq\<close>: the connection manager with its retries and
  reconnections, the two publishers and the set-up of a subscription. The AMQP client is the
  environment: the n-th operation gets the answer \<open>rb_answer n\<close>, the n-th wait may be ended by
  the context (\<open>rb_wait n\<close>). \<open>rb_log\<close> lists the operations that took effect, in order; an
  operation whose call fails may still have taken effect. A publish is in the log when the
  client has taken the message: the code asks for no confirmation by the broker.
  Times are in milliseconds.
\<close>

datatype ExchangeType = ExchangeFanout | ExchangeTopic | ExchangeDirect

datatype broker_op =
    Dial | OpenChannel
  | Qos nat
  | ExchangeDeclare string ExchangeType
  | QueueDeclare string "string option"
  | QueueBind string string string
  | PublishMsg string string json
  | Consume string string

datatype amqp_answer = Done | Fails string bool bool

record rabbit =
  rb_connection :: "bool option"
  rb_channel :: "unit option"
  rb_log :: "broker_op list"
  rb_ops :: nat
  rb_answer :: "nat \<Rightarrow> amqp_answer"
  rb_waits :: nat
  rb_wait :: "nat \<Rightarrow> ctx_err option"
  rb_slept :: nat

record PublishOptions =
  po_Exchange :: string
  po_ExchangeType :: ExchangeType
  po_RoutingKey :: string
  po_Body :: json

record SubscribeOptions =
  so_Exchange :: string
  so_ExchangeType :: ExchangeType
  so_QueueName :: string
  so_ConsumerTag :: string
  so_BindingKey :: string

text \<open>An operation of the client: \<open>rb_connection\<close> is nil, or open (\<open>Some True\<close>), or closed.\<close>

definition not_open_text :: string where
  "not_open_text = ''Exception (504) Reason: \"channel/connection is not open\"''"

definition amqp :: "broker_op \<Rightarrow> (rabbit, go_error + unit) state" where
  "amqp op = State (\<lambda>w.
     let n = rb_ops w; v = w\<lparr>rb_ops := Suc n\<rparr>; done = v\<lparr>rb_log := rb_log w @ [op]\<rparr> in
     if op \<noteq> Dial \<and> op \<noteq> OpenChannel \<and> rb_connection w \<noteq> Some True
     then (Inl (BrokerError not_open_text), v)
     else case rb_answer w n of
       Done \<Rightarrow> (Inr (), done)
     | Fails t closes effect \<Rightarrow>
         (let v' = (if effect then done else v) in
          (Inl (BrokerError t), if closes then v'\<lparr>rb_connection := Some False\<rparr> else v')))"

subsection \<open>The connection manager\<close>

definition maxRetries :: nat where "maxRetries = 3"
definition retry_backoff :: nat where "retry_backoff = 100"

definition connect :: "(rabbit, go_error + unit) state" where
  "connect =
     attempt (amqp Dial) (WrappedError ''failed to connect to RabbitMQ'') (\<lambda>_.
     attempt (amqp OpenChannel) (WrappedError ''failed to open channel'') (\<lambda>_.
     State (\<lambda>w. (Inr (), w\<lparr>rb_connection := Some True, rb_channel := Some ()\<rparr>))))"

text \<open>\<^verbatim>\<open>select { case <-ctx.Done(): ...; case <-time.After(d): ... }\<close>\<close>

definition wait :: "nat \<Rightarrow> (rabbit, go_error + unit) state" where
  "wait d = State (\<lambda>w. let n = rb_waits w; v = w\<lparr>rb_waits := Suc n\<rparr> in
     case rb_wait w n of
       Some e \<Rightarrow> (Inl (CtxError e), v)
     | None \<Rightarrow> (Inr (), v\<lparr>rb_slept := rb_slept w + d\<rparr>))"

definition sleep :: "nat \<Rightarrow> (rabbit, unit) state" where
  "sleep d = State (\<lambda>w. ((), w\<lparr>rb_slept := rb_slept w + d\<rparr>))"

definition maxBackoff :: nat where "maxBackoff = 30000"
definition maxAttempts :: nat where "maxAttempts = 10"

definition next_backoff :: "nat \<Rightarrow> nat" where
  "next_backoff b = (if b * 2 > maxBackoff then maxBackoff else b * 2)"

text \<open>The loop of \<open>reconnect\<close>, entered with the number of attempts made so far.\<close>

function reconnect_loop :: "nat \<Rightarrow> nat \<Rightarrow> (rabbit, go_error + unit) state" where
  "reconnect_loop attempts b =
     (if Suc attempts > maxAttempts
      then fail (TextError (''max reconnection attempts reached: '' @ show_nat maxAttempts))
      else attempt (wait b) id (\<lambda>_. do {
        r \<leftarrow> connect;
        case r of
          Inl _ \<Rightarrow> reconnect_loop (Suc attempts) (next_backoff b)
        | Inr _ \<Rightarrow> ok () }))"
  by pat_completeness auto
termination by (relation "measure (\<lambda>(a, _). maxAttempts - a)") auto

declare reconnect_loop.simps [simp del]

definition reconnect :: "(rabbit, go_error + unit) state" where
  "reconnect = reconnect_loop 0 1000"

definition isConnectionError :: "ext \<Rightarrow> go_error \<Rightarrow> rabbit \<Rightarrow> bool" where
  "isConnectionError X e w \<longleftrightarrow>
     rb_connection w = None \<or> rb_connection w = Some False \<or> rb_channel w = None \<or>
     err_text X e = not_open_text \<or>
     err_text X e = ''Exception (320) Reason: \"CONNECTION_FORCED\"'' \<or>
     err_text X e = ''write tcp: broken pipe'' \<or>
     err_text X e = ''EOF''"

definition shouldReturn :: "ext \<Rightarrow> go_error \<Rightarrow> nat \<Rightarrow> rabbit \<Rightarrow> bool" where
  "shouldReturn X e n w \<longleftrightarrow> \<not> isConnectionError X e w \<or> n = maxRetries"

definition tryReconnect :: "(rabbit, go_error + unit) state" where
  "tryReconnect = attempt reconnect (WrappedError ''failed to reconnect'') ok"

function retry_from :: "ext \<Rightarrow> string \<Rightarrow> (rabbit, go_error + unit) state \<Rightarrow> nat \<Rightarrow>
  (rabbit, go_error + unit) state" where
  "retry_from X name operation n =
     (if n > maxRetries
      then fail (TextError (name @ '' failed after '' @ show_nat maxRetries @ '' retries''))
      else do {
        r \<leftarrow> operation;
        case r of
          Inr _ \<Rightarrow> ok ()
        | Inl e \<Rightarrow> do {
            w \<leftarrow> State_Monad.get;
            if shouldReturn X e n w then fail e
            else attempt tryReconnect id (\<lambda>_. do {
              _ \<leftarrow> sleep (retry_backoff * n);
              retry_from X name operation (Suc n) }) } })"
  by pat_completeness auto
termination by (relation "measure (\<lambda>(_, _, _, n). Suc maxRetries - n)") auto

declare retry_from.simps [simp del]

definition retryWithReconnect :: "ext \<Rightarrow> string \<Rightarrow> (rabbit, go_error + unit) state \<Rightarrow>
  (rabbit, go_error + unit) state" where
  "retryWithReconnect X name operation = retry_from X name operation 1"

definition newConnectionManager :: "(rabbit, go_error + unit) state" where
  "newConnectionManager = connect"

definition Close_rabbit :: "(rabbit, unit) state" where
  "Close_rabbit = State (\<lambda>w. ((), w\<lparr>rb_connection := map_option (\<lambda>_. False) (rb_connection w)\<rparr>))"

definition Ping_rabbit :: "rabbit \<Rightarrow> go_error + unit" where
  "Ping_rabbit w = (if rb_connection w = Some False then Inl (TextError ''rabbitmq connection is closed'')
     else Inr ())"

subsection \<open>Publishing\<close>

definition ensureFanoutExchange :: "string \<Rightarrow> (rabbit, go_error + unit) state" where
  "ensureFanoutExchange name = amqp (ExchangeDeclare name ExchangeFanout)"

definition publishFanoutMessage :: "string \<Rightarrow> json \<Rightarrow> (rabbit, go_error + unit) state" where
  "publishFanoutMessage exchange body = amqp (PublishMsg exchange [] body)"

definition attemptFanoutPublish :: "string \<Rightarrow> json \<Rightarrow> (rabbit, go_error + unit) state" where
  "attemptFanoutPublish exchange body =
     attempt (ensureFanoutExchange exchange) id (\<lambda>_. publishFanoutMessage exchange body)"

definition Publish_fanout :: "ext \<Rightarrow> string \<Rightarrow> json \<Rightarrow> (rabbit, go_error + unit) state" where
  "Publish_fanout X exchange body =
     retryWithReconnect X ''publish'' (attemptFanoutPublish exchange body)"

definition ensureExchange :: "string \<Rightarrow> ExchangeType \<Rightarrow> (rabbit, go_error + unit) state" where
  "ensureExchange name ty = amqp (ExchangeDeclare name ty)"

definition publishMessage :: "PublishOptions \<Rightarrow> (rabbit, go_error + unit) state" where
  "publishMessage opts = amqp (PublishMsg (po_Exchange opts) (po_RoutingKey opts) (po_Body opts))"

definition Publish_client :: "ext \<Rightarrow> PublishOptions \<Rightarrow> (rabbit, go_error + unit) state" where
  "Publish_client X opts = retryWithReconnect X ''publish''
     (attempt (ensureExchange (po_Exchange opts) (po_ExchangeType opts)) id
       (\<lambda>_. publishMessage opts))"

text \<open>\<^verbatim>\<open>strings.SplitN(s, ":", 2)\<close>: the parts around the first colon, if there is one.\<close>

definition split_colon :: "string \<Rightarrow> (string \<times> string) option" where
  "split_colon s = (if CHR '':'' \<in> set s
     then Some (takeWhile (\<lambda>c. c \<noteq> CHR '':'') s, tl (dropWhile (\<lambda>c. c \<noteq> CHR '':'') s))
     else None)"

text \<open>The publisher of the product service: topic exchange for a name with a colon, fan-out
  otherwise. Its two connections are two states.\<close>

definition Publish_delegating :: "ext \<Rightarrow> string \<Rightarrow> json \<Rightarrow> (rabbit \<times> rabbit, go_error + unit) state" where
  "Publish_delegating X name body =
     (case split_colon name of
        Some (exchange, key) \<Rightarrow>
          zoom snd (\<lambda>c w. (fst w, c)) (Publish_client X
            \<lparr>po_Exchange = exchange, po_ExchangeType = ExchangeTopic, po_RoutingKey = key, po_Body = body\<rparr>)
      | None \<Rightarrow> zoom fst (\<lambda>f w. (f, snd w)) (Publish_fanout X name body))"

subsection \<open>Subscriptions\<close>

definition setupFanoutSubscription :: "string \<Rightarrow> string \<Rightarrow> (rabbit, go_error + unit) state" where
  "setupFanoutSubscription exchange queue = (let dlx = exchange @ ''.dlx''; dlq = queue @ ''.dlq'' in
     attempt (amqp (Qos 10)) (WrappedError ''failed to set QoS'') (\<lambda>_.
     attempt (amqp (ExchangeDeclare dlx ExchangeFanout))
       (WrappedError (''failed to declare DLX '' @ dlx)) (\<lambda>_.
     attempt (amqp (QueueDeclare dlq None)) (WrappedError (''failed to declare DLQ '' @ dlq)) (\<lambda>_.
     attempt (amqp (QueueBind dlq [] dlx)) (WrappedError ''failed to bind DLQ to DLX'') (\<lambda>_.
     attempt (ensureFanoutExchange exchange)
       (WrappedError (''failed to declare main exchange '' @ exchange)) (\<lambda>_.
     attempt (amqp (QueueDeclare queue (Some dlx)))
       (WrappedError (''failed to declare queue '' @ queue)) (\<lambda>_.
     attempt (amqp (QueueBind queue [] exchange))
       (WrappedError ''failed to bind queue to exchange'') (\<lambda>_. ok ()))))))))"

definition setupSubscription :: "SubscribeOptions \<Rightarrow> (rabbit, go_error + unit) state" where
  "setupSubscription opts =
    (let dlx = so_Exchange opts @ ''.dlx''; dlq = so_QueueName opts @ ''.dlq'' in
     attempt (amqp (Qos 10)) (WrappedError ''failed to set QoS'') (\<lambda>_.
     attempt (amqp (ExchangeDeclare dlx ExchangeTopic))
       (WrappedError (''failed to declare DLX '' @ dlx)) (\<lambda>_.
     attempt (amqp (QueueDeclare dlq None)) (WrappedError (''failed to declare DLQ '' @ dlq)) (\<lambda>_.
     attempt (amqp (QueueBind dlq ''#'' dlx)) (WrappedError ''failed to bind DLQ to DLX'') (\<lambda>_.
     attempt (ensureExchange (so_Exchange opts) (so_ExchangeType opts))
       (WrappedError (''failed to declare main exchange '' @ so_Exchange opts)) (\<lambda>_.
     attempt (amqp (QueueDeclare (so_QueueName opts) (Some dlx)))
       (WrappedError (''failed to declare queue '' @ so_QueueName opts)) (\<lambda>_.
     attempt (amqp (QueueBind (so_QueueName opts) (so_BindingKey opts) (so_Exchange opts)))
       (WrappedError ''failed to bind queue to exchange'') (\<lambda>_. ok ()))))))))"

text \<open>What a consumer receives from its channel, and \<open>consumeMessages\<close>: every delivery starts a
  handler of its own (the list of the deliveries started), until the channel is closed or the
  context is done.\<close>

datatype 'd received = Delivery 'd | ChannelClosed | CtxDoneWith ctx_err

fun consumeMessages :: "string \<Rightarrow> 'd received list \<Rightarrow> 'd list \<times> go_error option" where
  "consumeMessages tag [] = ([], None)"
| "consumeMessages tag (CtxDoneWith e # _) = ([], Some (CtxError e))"
| "consumeMessages tag (ChannelClosed # _) =
     ([], Some (TextError (''rabbitmq channel closed for consumer '' @ tag)))"
| "consumeMessages tag (Delivery d # rs) = (case consumeMessages tag rs of (ds, e) \<Rightarrow> (d # ds, e))"

text \<open>The loop of \<open>Subscribe\<close>, given the set-up, with a bound on its iterations. A session is
  what one subscription receives, with \<open>ctx.Err()\<close> after it. The result is the error it returns
  (\<open>None\<close>: it is still running) and the deliveries whose handlers were started.\<close>

type_synonym 'd session = "'d received list \<times> ctx_err option"

fun Subscribe_loop ::
  "ext \<Rightarrow> string \<Rightarrow> (rabbit, go_error + unit) state \<Rightarrow> string \<Rightarrow> string \<Rightarrow> nat \<Rightarrow> 'd session list \<Rightarrow>
   'd list \<Rightarrow> (rabbit, go_error option \<times> 'd list) state" where
  "Subscribe_loop X what setup queue tag 0 ss acc = State_Monad.return (None, acc)"
| "Subscribe_loop X what setup queue tag (Suc n) ss acc = do {
     r \<leftarrow> setup;
     case r of
       Inl e \<Rightarrow> do {
         w \<leftarrow> State_Monad.get;
         if \<not> isConnectionError X e w
         then State_Monad.return (Some (WrappedError what e), acc)
         else do {
           rc \<leftarrow> reconnect;
           case rc of
             Inl e' \<Rightarrow> State_Monad.return
               (Some (WrappedError ''failed to reconnect during subscription setup'' e'), acc)
           | Inr _ \<Rightarrow> Subscribe_loop X what setup queue tag n ss acc } }
     | Inr _ \<Rightarrow> do {
         c \<leftarrow> amqp (Consume queue tag);
         case c of
           Inl e \<Rightarrow> State_Monad.return (Some (WrappedError ''failed to start consuming'' e), acc)
         | Inr _ \<Rightarrow>
            (case ss of
               [] \<Rightarrow> State_Monad.return (None, acc)
             | (received, ctx) # ss' \<Rightarrow>
                (case consumeMessages tag received of
                   (ds, None) \<Rightarrow> State_Monad.return (None, acc @ ds)
                 | (ds, Some _) \<Rightarrow>
                    (case ctx of
                       Some e \<Rightarrow> State_Monad.return (Some (CtxError e), acc @ ds)
                     | None \<Rightarrow> do {
                         rc \<leftarrow> reconnect;
                         case rc of
                           Inl e' \<Rightarrow> State_Monad.return
                             (Some (WrappedError ''failed to reconnect'' e'), acc @ ds)
                         | Inr _ \<Rightarrow> Subscribe_loop X what setup queue tag n ss' (acc @ ds) }))) } }"

definition Subscribe_fanout ::
  "ext \<Rightarrow> string \<Rightarrow> string \<Rightarrow> string \<Rightarrow> nat \<Rightarrow> 'd session list \<Rightarrow> (rabbit, go_error option \<times> 'd list) state" where
  "Subscribe_fanout X exchange queue tag n ss =
     Subscribe_loop X ''failed to setup fanout subscription'' (setupFanoutSubscription exchange queue)
       queue tag n ss []"

definition Subscribe_client ::
  "ext \<Rightarrow> SubscribeOptions \<Rightarrow> nat \<Rightarrow> 'd session list \<Rightarrow> (rabbit, go_error option \<times> 'd list) state" where
  "Subscribe_client X opts n ss =
     Subscribe_loop X ''failed to setup subscription'' (setupSubscription opts)
       (so_QueueName opts) (so_ConsumerTag opts) n ss []"

text \<open>How a handler settles a delivery: \<^verbatim>\<open>d.Ack(false)\<close> or \<^verbatim>\<open>d.Nack(false, requeue)\<close>. A delivery
  refused without requeueing goes to the dead-letter exchange.\<close>

datatype disposition = Ack | Nack bool

subsection \<open>What is sent\<close>

fun sent_of :: "broker_op list \<Rightarrow> ((string \<times> string) \<times> json) list" where
  "sent_of [] = []"
| "sent_of (PublishMsg x k b # ops) = ((x, k), b) # sent_of ops"
| "sent_of (_ # ops) = sent_of ops"

lemma sent_of_append [simp]: "sent_of (xs @ ys) = sent_of xs @ sent_of ys"
  by (induction xs rule: sent_of.induct) auto

definition sends_of :: "rabbit \<Rightarrow> ((string \<times> string) \<times> json) list" where
  "sends_of w = sent_of (rb_log w)"

text \<open>An operation that adds some copies of one message to the log, at least one if it succeeds;
  one that adds none.\<close>

definition adds :: "(string \<times> string) \<times> json \<Rightarrow> (rabbit, go_error + unit) state \<Rightarrow> bool" where
  "adds m operation \<longleftrightarrow> (\<forall>w r w'. run_state operation w = (r, w') \<longrightarrow>
     (\<exists>k. sends_of w' = sends_of w @ replicate k m \<and> (\<forall>u. r = Inr u \<longrightarrow> 0 < k)))"

definition quiet :: "(rabbit, 'a) state \<Rightarrow> bool" where
  "quiet operation \<longleftrightarrow> (\<forall>w. sends_of (snd (run_state operation w)) = sends_of w)"

lemma quietD: "quiet operation \<Longrightarrow> run_state operation w = (r, w') \<Longrightarrow> sends_of w' = sends_of w"
  unfolding quiet_def by (metis snd_conv)

lemma addsD: "adds m operation \<Longrightarrow> run_state operation w = (r, w') \<Longrightarrow>
    \<exists>k. sends_of w' = sends_of w @ replicate k m \<and> (\<forall>u. r = Inr u \<longrightarrow> 0 < k)"
  unfolding adds_def by blast

lemma quiet_amqp: "sent_of [op] = [] \<Longrightarrow> quiet (amqp op)"
  by (auto simp: quiet_def amqp_def Let_def sends_of_def split: amqp_answer.splits)

lemma adds_amqp: "adds ((x, k), b) (amqp (PublishMsg x k b))"
proof -
  have 1: "\<exists>n. [((x, k), b)] = replicate n ((x, k), b) \<and> 0 < n" by (rule exI [of _ 1]) simp
  have "\<exists>n. sends_of w' = sends_of w @ replicate n ((x, k), b) \<and> (\<forall>u. r = Inr u \<longrightarrow> 0 < n)"
    if "run_state (amqp (PublishMsg x k b)) w = (r, w')" for w r w'
    using that 1 by (auto simp: amqp_def Let_def sends_of_def
        split: if_splits amqp_answer.splits intro: exI [of _ 0])
  then show ?thesis unfolding adds_def by blast
qed

lemma quiet_bind: "quiet m \<Longrightarrow> (\<And>x. quiet (k x)) \<Longrightarrow> quiet (m \<bind> k)"
  by (auto simp: quiet_def split: prod.splits) (metis snd_conv)

lemma quiet_attempt: "quiet m \<Longrightarrow> (\<And>x. quiet (k x)) \<Longrightarrow> quiet (attempt m f k)"
  by (auto simp: quiet_def split: prod.splits sum.splits) (metis snd_conv)+

lemma quiet_return: "quiet (State_Monad.return x)"
  by (simp add: quiet_def)

lemma quiet_connect: "quiet connect"
  unfolding connect_def
  by (intro quiet_attempt quiet_amqp) (simp_all add: quiet_def sends_of_def)

lemma quiet_wait: "quiet (wait d)" "quiet (sleep d)"
  by (simp_all add: quiet_def wait_def sleep_def sends_of_def Let_def split: option.splits)

lemma quiet_reconnect: "quiet (reconnect_loop a b)"
proof (induction a b rule: reconnect_loop.induct)
  case (1 a b)
  show ?case
  proof (cases "Suc a > maxAttempts")
    case False
    then have "quiet (reconnect_loop (Suc a) (next_backoff b))" using 1 by blast
    then show ?thesis using False
      by (subst reconnect_loop.simps)
        (auto intro!: quiet_attempt quiet_wait quiet_bind quiet_connect quiet_return split: sum.splits)
  qed (simp add: reconnect_loop.simps quiet_return)
qed

lemma adds_quiet_attempt:
  assumes "quiet m" and "\<And>x. adds a (k x)"
  shows "adds a (attempt m f k)"
  unfolding adds_def
proof (intro allI impI)
  fix w r w' assume run: "run_state (attempt m f k) w = (r, w')"
  obtain x w1 where x: "run_state m w = (x, w1)" by force
  show "\<exists>n. sends_of w' = sends_of w @ replicate n a \<and> (\<forall>u. r = Inr u \<longrightarrow> 0 < n)"
  proof (cases x)
    case (Inl e)
    then show ?thesis using run x quietD [OF assms(1) x] by (intro exI [of _ 0]) auto
  next
    case (Inr y)
    then show ?thesis using run x quietD [OF assms(1) x] addsD [OF assms(2), of y w1 r w'] by auto
  qed
qed

lemma quiet_tryReconnect: "quiet tryReconnect"
  unfolding tryReconnect_def reconnect_def by (intro quiet_attempt quiet_reconnect quiet_return)

lemma retry_step:
  assumes "run_state (retry_from X name operation n) w = (r, w')"
  obtains (stopped) e where "n > maxRetries" "r = Inl e" "w' = w"
  | (ran) "n \<le> maxRetries" "run_state operation w = (r, w')"
  | (no_connection) e w1 e' where "run_state operation w = (Inl e, w1)"
      "run_state tryReconnect w1 = (Inl e', w')" "r = Inl e'"
  | (again) e w1 u w2 where "n < maxRetries" "\<not> shouldReturn X e n w1" "run_state operation w = (Inl e, w1)"
      "run_state tryReconnect w1 = (Inr u, w2)"
      "run_state (retry_from X name operation (Suc n)) (snd (run_state (sleep (retry_backoff * n)) w2)) = (r, w')"
proof (cases "n > maxRetries")
  case True
  then show ?thesis using assms by (auto simp: retry_from.simps intro: stopped)
next
  case False
  obtain x w1 where x: "run_state operation w = (x, w1)" by force
  show ?thesis
  proof (cases x)
    case (Inr u)
    then show ?thesis using assms x False by (auto simp: retry_from.simps [of _ _ _ n] intro: ran)
  next
    case (Inl e)
    obtain y w2 where y: "run_state tryReconnect w1 = (y, w2)" by force
    note unfolded = assms [unfolded retry_from.simps [of _ _ _ n]]
    show ?thesis
    proof (cases "shouldReturn X e n w1")
      case True
      then show ?thesis using unfolded x Inl False by (auto intro: ran)
    next
      case more: False
      then have n: "n < maxRetries" using False by (auto simp: shouldReturn_def)
      show ?thesis
      proof (cases y)
        case (Inl e')
        then show ?thesis using unfolded x \<open>x = Inl e\<close> y False more
          by (auto intro: no_connection [of e w1 e'])
      next
        case (Inr u)
        then show ?thesis using unfolded x Inl y False more n
          by (auto intro!: again [of e w1 u w2] split: prod.splits)
      qed
    qed
  qed
qed

lemma adds_retry:
  "adds m operation \<Longrightarrow> adds m (retry_from X name operation n)"
proof (induction X name operation n rule: retry_from.induct)
  case (1 X name operation n)
  show ?case unfolding adds_def
  proof (intro allI impI)
    fix w r w' assume run: "run_state (retry_from X name operation n) w = (r, w')"
    show "\<exists>k. sends_of w' = sends_of w @ replicate k m \<and> (\<forall>u. r = Inr u \<longrightarrow> 0 < k)"
      using run
    proof (cases rule: retry_step)
      case (stopped e)
      then show ?thesis by (intro exI [of _ 0]) simp
    next
      case ran
      show ?thesis using addsD [OF 1(2) ran(2)] by simp
    next
      case (no_connection e w1 e')
      then show ?thesis using addsD [OF 1(2), of w] quietD [OF quiet_tryReconnect] by fastforce
    next
      case (again e w1 u w2)
      obtain k where k: "sends_of w1 = sends_of w @ replicate k m"
        using addsD [OF 1(2) again(3)] by blast
      have w2: "sends_of w2 = sends_of w1" using again(4) by (rule quietD [OF quiet_tryReconnect])
      have "adds m (retry_from X name operation (Suc n))" using 1 again(1,2) by simp
      from addsD [OF this again(5)] obtain l
        where "sends_of w' = sends_of w2 @ replicate l m" "\<forall>u. r = Inr u \<longrightarrow> 0 < l"
        by (auto simp: sleep_def sends_of_def)
      then show ?thesis using k w2 by (intro exI [of _ "k + l"]) (simp add: replicate_add)
    qed
  qed
qed


text \<open>Both publishers keep the contract of the relayer.\<close>

lemma adds_fanout: "adds ((x, []), b) (Publish_fanout X x b)"
  unfolding Publish_fanout_def retryWithReconnect_def attemptFanoutPublish_def
    publishFanoutMessage_def ensureFanoutExchange_def
  by (intro adds_retry adds_quiet_attempt quiet_amqp adds_amqp) simp

lemma adds_client:
  "adds ((po_Exchange opts, po_RoutingKey opts), po_Body opts) (Publish_client X opts)"
  unfolding Publish_client_def retryWithReconnect_def publishMessage_def ensureExchange_def
  by (intro adds_retry adds_quiet_attempt quiet_amqp adds_amqp) simp

text \<open>The route of an event: its exchange and its routing key, on the connection it takes.\<close>

definition fanout_route :: "string \<Rightarrow> string \<times> string" where
  "fanout_route n = (n, [])"

definition delegating_route :: "string \<Rightarrow> string \<times> string" where
  "delegating_route n = (case split_colon n of Some p \<Rightarrow> p | None \<Rightarrow> (n, []))"

definition fanout_sends :: "rabbit \<Rightarrow> ((string \<times> string) \<times> json) multiset" where
  "fanout_sends w = mset (sends_of w)"

definition delegating_sends :: "rabbit \<times> rabbit \<Rightarrow> ((string \<times> string) \<times> json) multiset" where
  "delegating_sends w = mset (sends_of (fst w)) + mset (sends_of (snd w))"

interpretation fanout: publisher "Publish_fanout X" fanout_route fanout_sends
proof
  fix n b w r w' assume "run_state (Publish_fanout X n b) w = (r, w')"
  from addsD [OF adds_fanout this] show "\<exists>k. fanout_sends w' = fanout_sends w +
      replicate_mset k (fanout_route n, b) \<and> (\<forall>u. r = Inr u \<longrightarrow> 0 < k)"
    by (auto simp: fanout_sends_def fanout_route_def)
qed

interpretation delegating: publisher "Publish_delegating X" delegating_route delegating_sends
proof
  fix n b w r w' assume run: "run_state (Publish_delegating X n b) w = (r, w')"
  show "\<exists>k. delegating_sends w' = delegating_sends w +
      replicate_mset k (delegating_route n, b) \<and> (\<forall>u. r = Inr u \<longrightarrow> 0 < k)"
  proof (cases "split_colon n")
    case None
    then obtain f where f: "run_state (Publish_fanout X n b) (fst w) = (r, f)" "w' = (f, snd w)"
      using run by (auto simp: Publish_delegating_def split: prod.splits)
    from addsD [OF adds_fanout f(1)] show ?thesis
      by (auto simp: delegating_sends_def delegating_route_def None f(2))
  next
    case (Some p)
    obtain x k where p: "p = (x, k)" by force
    define opts where
      "opts = \<lparr>po_Exchange = x, po_ExchangeType = ExchangeTopic, po_RoutingKey = k, po_Body = b\<rparr>"
    obtain c where c: "run_state (Publish_client X opts) (snd w) = (r, c)" "w' = (fst w, c)"
      using run by (auto simp: Publish_delegating_def Some p opts_def split: prod.splits)
    from addsD [OF adds_client c(1)] show ?thesis
      by (auto simp: delegating_sends_def delegating_route_def Some p c(2) opts_def)
  qed
qed

subsection \<open>Bounds\<close>

text \<open>The time a reconnection waits, from the attempts made and the current delay.\<close>

fun backoff_sum :: "nat \<Rightarrow> nat \<Rightarrow> nat" where
  "backoff_sum 0 b = 0"
| "backoff_sum (Suc n) b = b + backoff_sum n (next_backoff b)"

lemma slept_amqp: "run_state (amqp op) w = (r, w') \<Longrightarrow> rb_slept w' = rb_slept w"
  by (auto simp: amqp_def Let_def split: if_splits amqp_answer.splits)

lemma slept_connect: "run_state connect w = (r, w') \<Longrightarrow> rb_slept w' = rb_slept w"
  by (auto simp: connect_def dest!: slept_amqp split: prod.splits sum.splits)

lemma reconnect_loop_slept:
  "run_state (reconnect_loop a b) w = (r, w') \<Longrightarrow>
     rb_slept w' \<le> rb_slept w + backoff_sum (maxAttempts - a) b"
proof (induction a b arbitrary: w r w' rule: reconnect_loop.induct)
  case (1 a b)
  show ?case
  proof (cases "Suc a > maxAttempts")
    case True
    then show ?thesis using 1(2) by (simp add: reconnect_loop.simps)
  next
    case False
    then obtain k where k: "maxAttempts - a = Suc k" "maxAttempts - Suc a = k"
      by (metis Suc_diff_Suc Suc_le_lessD not_less)
    note run = 1(2) [unfolded reconnect_loop.simps [of a]]
    obtain x w1 where x: "run_state (wait b) w = (x, w1)" by force
    then have w1: "rb_slept w1 \<le> rb_slept w + b"
      by (auto simp: wait_def Let_def split: option.splits)
    show ?thesis
    proof (cases x)
      case (Inl e)
      then show ?thesis using run False x w1 k by simp
    next
      case (Inr u)
      obtain y w2 where y: "run_state connect w1 = (y, w2)" by force
      show ?thesis
      proof (cases y)
        case (Inl e)
        then have "run_state (reconnect_loop (Suc a) (next_backoff b)) w2 = (r, w')"
          using run False x Inr y by simp
        then have "rb_slept w' \<le> rb_slept w2 + backoff_sum k (next_backoff b)"
          using 1(1) [OF False] k by simp
        then show ?thesis using w1 slept_connect [OF y] k by simp
      next
        case (Inr v)
        then show ?thesis using run False x \<open>x = Inr u\<close> y w1 slept_connect [OF y] k by simp
      qed
    qed
  qed
qed

lemma backoff_sum_rec: "0 < n \<Longrightarrow> backoff_sum n b = b + backoff_sum (n - 1) (next_backoff b)"
  by (cases n) auto

lemma backoff_sum_reconnect: "backoff_sum maxAttempts 1000 = 181000"
  by (simp add: maxAttempts_def backoff_sum_rec next_backoff_def maxBackoff_def)

lemma slept_tryReconnect:
  "run_state tryReconnect w = (r, w') \<Longrightarrow> rb_slept w' \<le> rb_slept w + 181000"
  using reconnect_loop_slept [of 0 1000] backoff_sum_reconnect
  by (auto simp: tryReconnect_def reconnect_def split: prod.splits sum.splits)

text \<open>An operation that does not wait itself is retried for a bounded time.\<close>

fun retry_bound :: "nat \<Rightarrow> nat \<Rightarrow> nat" where
  "retry_bound 0 n = 0"
| "retry_bound (Suc k) n = 181000 + retry_backoff * n + retry_bound k (Suc n)"

lemma retry_slept:
  assumes op: "\<And>w r w'. run_state operation w = (r, w') \<Longrightarrow> rb_slept w' = rb_slept w"
  shows "run_state (retry_from X name operation n) w = (r, w') \<Longrightarrow>
    rb_slept w' \<le> rb_slept w + retry_bound (maxRetries - n) n + 181000"
proof (induction "maxRetries - n" arbitrary: n w r w')
  case (0 n)
  from 0(2) show ?case
  proof (cases rule: retry_step)
    case (no_connection e w1 e')
    then show ?thesis using op [OF no_connection(1)] slept_tryReconnect [OF no_connection(2)] by linarith
  next
    case ran
    then show ?thesis using op [OF ran(2)] by linarith
  qed (use 0(1) in simp_all)
next
  case (Suc k)
  from Suc(3) show ?case
  proof (cases rule: retry_step)
    case (no_connection e w1 e')
    then show ?thesis using op [OF no_connection(1)] slept_tryReconnect [OF no_connection(2)] by linarith
  next
    case ran
    then show ?thesis using op [OF ran(2)] by linarith
  next
    case (again e w1 u w2)
    have k: "k = maxRetries - Suc n" using Suc(2) by simp
    from Suc(1) [OF k again(5)]
    have "rb_slept w' \<le> rb_slept w2 + retry_backoff * n + retry_bound k (Suc n) + 181000"
      using k by (simp add: sleep_def)
    then show ?thesis using Suc(2) [symmetric] op [OF again(3)] slept_tryReconnect [OF again(4)] by simp
  qed simp_all
qed

lemma slept_publish_attempt:
  "run_state (attemptFanoutPublish x b) w = (r, w') \<Longrightarrow> rb_slept w' = rb_slept w"
  by (auto simp: attemptFanoutPublish_def ensureFanoutExchange_def publishFanoutMessage_def
      dest!: slept_amqp split: prod.splits sum.splits)

text \<open>C31. A publish returns, and however the broker fails it has waited at most 543.3 seconds: three
  attempts, each but the first after a reconnection whose waits double from one second to thirty and
  a back-off of 100 ms times the attempt.\<close>

theorem publish_wait_bounded:
  assumes "run_state (Publish_fanout X x b) w = (r, w')"
  shows "rb_slept w' \<le> rb_slept w + 543300"
proof -
  have "rb_slept w' \<le> rb_slept w + retry_bound (maxRetries - 1) 1 + 181000"
    by (rule retry_slept [OF slept_publish_attempt])
      (use assms in \<open>simp_all add: Publish_fanout_def retryWithReconnect_def\<close>)
  moreover have "retry_bound (maxRetries - 1) 1 = 362300"
    by (simp add: maxRetries_def retry_backoff_def numeral_2_eq_2)
  ultimately show ?thesis by simp
qed

definition dead_rabbit_sample :: rabbit where
  "dead_rabbit_sample = \<lparr>rb_connection = Some False, rb_channel = Some (), rb_log = [], rb_ops = 0,
     rb_answer = (\<lambda>_. Fails ''EOF'' True False), rb_waits = 0, rb_wait = (\<lambda>_. None), rb_slept = 0\<rparr>"

theorem publish_wait_bounded_witness:
  "rb_slept (snd (run_state (Publish_fanout sample_ext ''e'' JNull) dead_rabbit_sample)) \<le> 543300"
  using publish_wait_bounded [of sample_ext "''e''" JNull dead_rabbit_sample, OF prod.collapse [symmetric]]
  by (simp add: dead_rabbit_sample_def)

subsection \<open>A broker that answers\<close>

definition broker_up :: "rabbit \<Rightarrow> bool" where
  "broker_up w \<longleftrightarrow> rb_connection w = Some True \<and> (\<forall>n. rb_answer w n = Done)"

lemma amqp_up: "broker_up w \<Longrightarrow> \<exists>w'. run_state (amqp op) w = (Inr (), w') \<and> broker_up w'"
  by (simp add: amqp_def Let_def broker_up_def)

lemma retry_up:
  assumes "\<exists>w'. run_state operation w = (Inr (), w') \<and> broker_up w'"
  shows "\<exists>w'. run_state (retryWithReconnect X name operation) w = (Inr (), w') \<and> broker_up w'"
proof -
  from assms obtain w' where "run_state operation w = (Inr (), w')" "broker_up w'" by blast
  then show ?thesis unfolding retryWithReconnect_def
    by (subst retry_from.simps) (simp add: maxRetries_def)
qed

lemma attempt_up:
  assumes "\<exists>v. run_state m w = (Inr (), v) \<and> broker_up v"
    and "\<And>v. broker_up v \<Longrightarrow> \<exists>w'. run_state n v = (Inr (), w') \<and> broker_up w'"
  shows "\<exists>w'. run_state (attempt m id (\<lambda>_. n)) w = (Inr (), w') \<and> broker_up w'"
proof -
  from assms(1) obtain v where "run_state m w = (Inr (), v)" "broker_up v" by blast
  then show ?thesis using assms(2) by simp
qed

lemma publish_up:
  "broker_up w \<Longrightarrow> \<exists>w'. run_state (Publish_fanout X x b) w = (Inr (), w') \<and> broker_up w'"
  "broker_up w \<Longrightarrow> \<exists>w'. run_state (Publish_client X opts) w = (Inr (), w') \<and> broker_up w'"
  unfolding Publish_fanout_def Publish_client_def attemptFanoutPublish_def ensureFanoutExchange_def
    publishFanoutMessage_def ensureExchange_def publishMessage_def
  by (intro retry_up attempt_up amqp_up; assumption)+

lemma delegating_up:
  assumes "broker_up (fst w)" and "broker_up (snd w)"
  shows "\<exists>w'. run_state (Publish_delegating X x b) w = (Inr (), w') \<and> broker_up (fst w') \<and> broker_up (snd w')"
proof (cases "split_colon x")
  case None
  then show ?thesis using publish_up(1) [OF assms(1), of X x b] assms(2)
    by (auto simp: Publish_delegating_def)
next
  case (Some p)
  obtain e k where p: "p = (e, k)" by force
  obtain v where "run_state (Publish_client X \<lparr>po_Exchange = e, po_ExchangeType = ExchangeTopic,
      po_RoutingKey = k, po_Body = b\<rparr>) (snd w) = (Inr (), v)" "broker_up v"
    using publish_up(2) [OF assms(2)] by blast
  then show ?thesis using assms(1) Some by (simp add: Publish_delegating_def p)
qed

end
