(* ===== verification/OrderConsumer.thy ===== *)
theory OrderConsumer
  imports OrderRepo Rabbit
begin

text \<open>
  The consumer of stock failures of the order service (\<^verbatim>\<open>internal/events/consumers\<close>): it cancels the
  order whose stock could not be taken. The handler's result is how it settles the delivery.
\<close>

definition sufc_exchangeName :: string where "sufc_exchangeName = ''stock_update_failed_exchange''"
definition sufc_queueName :: string where "sufc_queueName = ''order_stock_update_failed_queue''"
definition sufc_consumerName :: string where "sufc_consumerName = ''order_stock_update_failed_consumer''"
definition orderStatusCancelled :: string where "orderStatusCancelled = ''CANCELLED''"

text \<open>The identifier of the cancelled status is fetched once and kept.\<close>

definition initStatus :: "uuid option \<Rightarrow> (order_db, go_error + uuid option) state" where
  "initStatus st = (case st of
     Some _ \<Rightarrow> ok st
   | None \<Rightarrow> attempt (GetOrderStatusByName orderStatusCancelled)
       (WrappedError ''could not fetch CANCELLED order status ID'') (\<lambda>s. ok (Some (gos_ID s))))"

definition sufc_unmarshalEvent :: "json option \<Rightarrow> go_error + StockUpdateFailedEvent" where
  "sufc_unmarshalEvent body = unmarshal_stock_failed body"

definition parseOrderIDToUUID :: "ext \<Rightarrow> string \<Rightarrow> go_error + uuid" where
  "parseOrderIDToUUID X i = (case parse_uuid X i of
     Inl e \<Rightarrow> Inl (WrappedError ''invalid order ID format'' e) | Inr u \<Rightarrow> Inr u)"

definition cancelOrder :: "uuid option \<Rightarrow> uuid \<Rightarrow> (order_db, go_error + unit) state" where
  "cancelOrder st i = (case st of
     None \<Rightarrow> query_row (\<lambda>n w. if i \<in> or_ID ` set (od_orders w) then Inl (NotNullViolation ''status'')
       else Inr (None, w))
   | Some s \<Rightarrow> attempt (UpdateOrderStatus i s) id (\<lambda>_. ok ()))"

definition handleStockUpdateFailedEvent ::
  "ext \<Rightarrow> uuid option \<Rightarrow> json option \<Rightarrow> (order_db, disposition) state" where
  "handleStockUpdateFailedEvent X st body =
     (case sufc_unmarshalEvent body of
        Inl _ \<Rightarrow> State_Monad.return (Nack False)
      | Inr event \<Rightarrow>
         (case parseOrderIDToUUID X (sfe_OrderID event) of
            Inl _ \<Rightarrow> State_Monad.return (Nack False)
          | Inr i \<Rightarrow> do {
              r \<leftarrow> GetOrderById i;
              case r of
                Inl e \<Rightarrow> State_Monad.return (if is_no_rows e then Ack else Nack True)
              | Inr order \<Rightarrow>
                  if Some (gor_Status order) = st then State_Monad.return Ack
                  else do {
                    c \<leftarrow> cancelOrder st i;
                    State_Monad.return (case c of Inl _ \<Rightarrow> Nack True | Inr _ \<Rightarrow> Ack) } }))"

text \<open>\<open>Start\<close>: the status, then the subscription with this handler.\<close>

definition Start_sufc ::
  "ext \<Rightarrow> uuid option \<Rightarrow> nat \<Rightarrow> json option session list \<Rightarrow>
   (order_db \<times> rabbit, go_error + uuid option \<times> go_error option \<times> json option list) state" where
  "Start_sufc X st n ss =
     attempt (zoom fst (\<lambda>d w. (d, snd w)) (initStatus st)) id (\<lambda>st'. do {
       r \<leftarrow> zoom snd (\<lambda>b w. (fst w, b))
         (Subscribe_fanout X sufc_exchangeName sufc_queueName sufc_consumerName n ss);
       ok (st', r) })"

subsection \<open>The effect of the handler\<close>

lemma keeps_handleStockUpdateFailed:
  "keeps order_tables_ok (handleStockUpdateFailedEvent X (Some s) body)"
  unfolding handleStockUpdateFailedEvent_def cancelOrder_def by (intro keeps_intros) auto

lemma UpdateOrderStatus_effect:
  assumes "run_state (UpdateOrderStatus i s) w = (r, w')"
  shows "od_statuses w' = od_statuses w \<and> od_outbox w' = od_outbox w \<and>
    (od_orders w' = od_orders w \<or>
     od_orders w' = map (\<lambda>r. if or_ID r = i then r\<lparr>or_Status := s\<rparr> else r) (od_orders w))"
proof -
  obtain q where "run_state (db_call (set_order_status i s)) w = (q, w')"
    using assms by (auto simp: UpdateOrderStatus_def query_row_def split: prod.splits)
  then show ?thesis
    by (cases rule: db_call_cases)
      (auto simp: set_order_status_def split: option.splits if_splits)
qed

lemma read_tables:
  assumes "run_state (query_row (read_only f)) w = (r, w')"
  shows "same_order_tables w w'"
proof -
  obtain q where "run_state (db_call (read_only f)) w = (q, w')"
    using assms by (auto simp: query_row_def split: prod.splits)
  then show ?thesis by (cases rule: db_call_cases) (auto simp: same_order_tables_def)
qed

lemma handle_effect:
  assumes "run_state (handleStockUpdateFailedEvent X (Some s) body) w = (d, w')"
  shows "same_order_tables w w' \<or>
    (\<exists>event i. unmarshal_stock_failed body = Inr event \<and> parse_uuid X (sfe_OrderID event) = Inr i \<and>
       od_statuses w' = od_statuses w \<and> od_outbox w' = od_outbox w \<and>
       od_orders w' = map (\<lambda>r. if or_ID r = i then r\<lparr>or_Status := s\<rparr> else r) (od_orders w))"
proof (cases "sufc_unmarshalEvent body")
  case (Inl e)
  then show ?thesis using assms by (simp add: handleStockUpdateFailedEvent_def same_order_tables_def)
next
  case ev: (Inr event)
  show ?thesis
  proof (cases "parse_uuid X (sfe_OrderID event)")
    case (Inl e)
    then show ?thesis using assms ev
      by (simp add: handleStockUpdateFailedEvent_def parseOrderIDToUUID_def same_order_tables_def)
  next
    case i: (Inr i)
    obtain r w1 where r: "run_state (GetOrderById i) w = (r, w1)" by (rule run_pair)
    have w1: "same_order_tables w w1" using r unfolding GetOrderById_def by (rule read_tables)
    obtain q w2 where q: "run_state (UpdateOrderStatus i s) w1 = (q, w2)" by (rule run_pair)
    note eff = UpdateOrderStatus_effect [OF q]
    have "w' = w1 \<or> w' = w2" using assms ev i r q
      by (auto simp: handleStockUpdateFailedEvent_def parseOrderIDToUUID_def cancelOrder_def
          split: sum.splits if_splits prod.splits)
    then show ?thesis using w1 eff ev i by (auto simp: same_order_tables_def sufc_unmarshalEvent_def)
  qed
qed

subsection \<open>Properties\<close>

text \<open>A stock failure touches the order it names and no other row: whatever the message and the
  database do, the handler leaves the tables as they are or gives the one order its cancelled status.\<close>

theorem stock_failure_cancels_only_its_order:
  assumes "run_state (handleStockUpdateFailedEvent X (Some s) body) w = (d, w')"
    and "row \<in> set (od_orders w')" and "row \<notin> set (od_orders w)"
  shows "or_Status row = s \<and> (\<exists>event. unmarshal_stock_failed body = Inr event \<and>
    parse_uuid X (sfe_OrderID event) = Inr (or_ID row)) \<and> od_outbox w' = od_outbox w"
  using handle_effect [OF assms(1)] assms(2,3) by (auto simp: same_order_tables_def split: if_splits)

definition order_sample :: "uuid \<Rightarrow> OrderRow" where
  "order_sample st = \<lparr>or_ID = 9, or_UserID = 7, or_TotalAmount = Num 5, or_Status = st, or_CreatedAt = 0\<rparr>"

definition statuses_sample :: "OrderStatusRow list" where
  "statuses_sample = [\<lparr>os_ID = 1, os_Name = ''CREATED'', os_CreatedAt = 0\<rparr>,
     \<lparr>os_ID = 2, os_Name = ''DELIVERED'', os_CreatedAt = 0\<rparr>,
     \<lparr>os_ID = 3, os_Name = ''CANCELLED'', os_CreatedAt = 0\<rparr>]"

definition created_db_sample :: order_db where
  "created_db_sample = \<lparr>calls = 0, fault_at = (\<lambda>_. None), clock_at = int, uuid_at = of_nat,
     txn = NoTx, od_statuses = statuses_sample, od_orders = [order_sample 1], od_outbox = []\<rparr>"

definition failure_sample :: "json option" where
  "failure_sample = Some (enc_stock_failed \<lparr>sfe_OrderID = uuid_text sample_ext 9, sfe_Products = Some []\<rparr>)"

lemma failure_sample_run:
  "\<exists>w'. run_state (handleStockUpdateFailedEvent sample_ext (Some 3) failure_sample) created_db_sample =
     (Ack, w') \<and> od_orders w' = [order_sample 3]"
  using parse_uuid_text [OF sample_uuids, of 9]
  by (simp add: handleStockUpdateFailedEvent_def sufc_unmarshalEvent_def failure_sample_def
      stock_failed_decodes parseOrderIDToUUID_def GetOrderById_def run_query_row run_db_call
      created_db_sample_def order_sample_def cancelOrder_def UpdateOrderStatus_def set_order_status_def
      statuses_sample_def)

theorem stock_failure_cancels_only_its_order_witness:
  "\<exists>w'. run_state (handleStockUpdateFailedEvent sample_ext (Some 3) failure_sample) created_db_sample =
     (Ack, w') \<and> or_Status (order_sample 3) = 3 \<and> od_outbox w' = []"
proof -
  obtain w' where w': "run_state (handleStockUpdateFailedEvent sample_ext (Some 3) failure_sample)
      created_db_sample = (Ack, w')" "od_orders w' = [order_sample 3]"
    using failure_sample_run by blast
  from stock_failure_cancels_only_its_order [OF w'(1), of "order_sample 3"] show ?thesis
    using w' by (simp add: created_db_sample_def order_sample_def)
qed


text \<open>The handler when the database answers, by what it finds.\<close>

lemma run_GetOrderById:
  "fault_at w (calls w) = None \<Longrightarrow> txn w \<noteq> TxFailed \<Longrightarrow> run_state (GetOrderById i) w =
     (case find (\<lambda>r. or_ID r = i) (od_orders w) of None \<Rightarrow> Inl ErrNoRows
      | Some r \<Rightarrow> Inr \<lparr>gor_ID = or_ID r, gor_UserID = or_UserID r, gor_TotalAmount = or_TotalAmount r,
          gor_Status = or_Status r\<rparr>, w\<lparr>calls := Suc (calls w)\<rparr>)"
  by (simp add: GetOrderById_def run_query_row run_db_call split: option.splits)

lemma run_handle_known:
  assumes "unmarshal_stock_failed body = Inr event" and "parse_uuid X (sfe_OrderID event) = Inr i"
    and "\<forall>n. fault_at w n = None" and "txn w = NoTx" and "s \<in> os_ID ` set (od_statuses w)"
  shows "run_state (handleStockUpdateFailedEvent X (Some s) body) w =
    (Ack, case find (\<lambda>r. or_ID r = i) (od_orders w) of
       None \<Rightarrow> w\<lparr>calls := Suc (calls w)\<rparr>
     | Some r \<Rightarrow> if or_Status r = s then w\<lparr>calls := Suc (calls w)\<rparr>
         else w\<lparr>calls := Suc (Suc (calls w)),
           od_orders := map (\<lambda>r. if or_ID r = i then r\<lparr>or_Status := s\<rparr> else r) (od_orders w)\<rparr>)"
proof (cases "find (\<lambda>r. or_ID r = i) (od_orders w)")
  case None
  then show ?thesis using assms
    by (simp add: handleStockUpdateFailedEvent_def sufc_unmarshalEvent_def parseOrderIDToUUID_def
        run_GetOrderById)
next
  case (Some r)
  then show ?thesis using assms
    by (simp add: handleStockUpdateFailedEvent_def sufc_unmarshalEvent_def parseOrderIDToUUID_def
        run_GetOrderById cancelOrder_def UpdateOrderStatus_def run_query_row run_db_call
        set_order_status_def)
qed

text \<open>What the handler leaves: the first order with the identifier, which is the only one, has the status.\<close>

lemma cancelled_row:
  assumes "distinct (map or_ID rows)"
    and "row \<in> set (case find (\<lambda>r. or_ID r = i) rows of None \<Rightarrow> rows
      | Some r \<Rightarrow> if or_Status r = s then rows else map (\<lambda>r. if or_ID r = i then r\<lparr>or_Status := s\<rparr> else r) rows)"
    and "or_ID row = i"
  shows "or_Status row = s"
proof (cases "find (\<lambda>r. or_ID r = i) rows")
  case None
  then have "row \<in> set rows" "\<not> (\<exists>x. x \<in> set rows \<and> or_ID x = i)" using assms(2) unfolding find_None_iff by (simp_all add: None)
  then show ?thesis using assms(3) by blast
next
  case (Some r)
  have one: "x = r" if "or_ID x = i" "x \<in> set rows" for x
    using inj_onD [OF conjunct2 [OF assms(1) [unfolded distinct_map]], of x r] find_Some_in [OF Some] that by simp
  show ?thesis
  proof (cases "or_Status r = s")
    case True
    then show ?thesis using assms(2,3) one [of row] unfolding Some by simp
  next
    case False
    then have "row \<in> (\<lambda>x. if or_ID x = i then x\<lparr>or_Status := s\<rparr> else x) ` set rows" using assms(2) unfolding Some by simp
    then show ?thesis using assms(3) by (elim imageE) (simp split: if_splits)
  qed
qed

text \<open>C27. How a stock failure is settled when the database answers: a message that does not decode
  or names no identifier is refused for good, an unknown order is acknowledged, and a known order
  is acknowledged and has the cancelled status afterwards. Handling the message again changes
  nothing.\<close>

theorem stock_failure_settled:
  assumes "\<forall>n. fault_at w n = None" and "txn w = NoTx" and "order_tables_ok w"
    and "s \<in> os_ID ` set (od_statuses w)"
  shows "\<exists>w'. run_state (handleStockUpdateFailedEvent X (Some s) body) w =
    (case unmarshal_stock_failed body of Inl _ \<Rightarrow> Nack False | Inr event \<Rightarrow>
       (case parse_uuid X (sfe_OrderID event) of Inl _ \<Rightarrow> Nack False | Inr _ \<Rightarrow> Ack), w') \<and>
    (\<forall>event i. unmarshal_stock_failed body = Inr event \<longrightarrow> parse_uuid X (sfe_OrderID event) = Inr i \<longrightarrow>
       (\<forall>row \<in> set (od_orders w'). or_ID row = i \<longrightarrow> or_Status row = s)) \<and>
    map or_ID (od_orders w') = map or_ID (od_orders w) \<and> fault_at w' = fault_at w \<and> txn w' = NoTx \<and>
    (\<exists>w''. run_state (handleStockUpdateFailedEvent X (Some s) body) w' =
       (fst (run_state (handleStockUpdateFailedEvent X (Some s) body) w), w'') \<and> od_orders w'' = od_orders w')"
proof (cases "unmarshal_stock_failed body")
  case (Inl e)
  then show ?thesis using assms by (simp add: handleStockUpdateFailedEvent_def sufc_unmarshalEvent_def)
next
  case ev: (Inr event)
  show ?thesis
  proof (cases "parse_uuid X (sfe_OrderID event)")
    case (Inl e)
    then show ?thesis using assms ev
      by (simp add: handleStockUpdateFailedEvent_def sufc_unmarshalEvent_def parseOrderIDToUUID_def)
  next
    case i: (Inr i)
    obtain w' where r1: "run_state (handleStockUpdateFailedEvent X (Some s) body) w = (Ack, w')"
      and w': "w' = (case find (\<lambda>r. or_ID r = i) (od_orders w) of
         None \<Rightarrow> w\<lparr>calls := Suc (calls w)\<rparr>
       | Some r \<Rightarrow> if or_Status r = s then w\<lparr>calls := Suc (calls w)\<rparr>
           else w\<lparr>calls := Suc (Suc (calls w)),
             od_orders := map (\<lambda>r. if or_ID r = i then r\<lparr>or_Status := s\<rparr> else r) (od_orders w)\<rparr>)"
      using run_handle_known [OF ev i assms(1,2,4)] by blast
    have keep: "fault_at w' = fault_at w" "txn w' = NoTx" "od_statuses w' = od_statuses w"
      "map or_ID (od_orders w') = map or_ID (od_orders w)"
      using assms(2) by (simp_all add: w' map_if_ids split: option.split)
    have rows: "od_orders w' = (case find (\<lambda>r. or_ID r = i) (od_orders w) of None \<Rightarrow> od_orders w
       | Some r \<Rightarrow> if or_Status r = s then od_orders w
           else map (\<lambda>r. if or_ID r = i then r\<lparr>or_Status := s\<rparr> else r) (od_orders w))"
      by (simp add: w' split: option.split)
    have st: "or_Status row = s" if "row \<in> set (od_orders w')" "or_ID row = i" for row
      using cancelled_row [OF _ that(1) [unfolded rows] that(2)] assms(3) by (simp add: order_tables_ok_def)
    have "\<forall>n. fault_at w' n = None" "s \<in> os_ID ` set (od_statuses w')"
      using assms(1,4) keep by simp_all
    from run_handle_known [OF ev i this(1) keep(2) this(2)] st
    have "\<exists>w''. run_state (handleStockUpdateFailedEvent X (Some s) body) w' = (Ack, w'') \<and>
        od_orders w'' = od_orders w'"
      by (cases "find (\<lambda>r. or_ID r = i) (od_orders w')") (auto dest: find_Some_in)
    then show ?thesis using r1 keep st by (simp add: ev i)
  qed
qed

theorem stock_failure_settled_witness:
  "\<exists>w'. run_state (handleStockUpdateFailedEvent sample_ext (Some 3) failure_sample) created_db_sample = (Ack, w') \<and>
     {row \<in> set (od_orders w'). or_ID row = 9 \<and> or_Status row \<noteq> 3} = {}"
proof -
  have "\<forall>n. fault_at created_db_sample n = None" "txn created_db_sample = NoTx"
    "order_tables_ok created_db_sample" "3 \<in> os_ID ` set (od_statuses created_db_sample)"
    by (simp_all add: created_db_sample_def order_tables_ok_def migrated_def statuses_sample_def order_sample_def)
  from stock_failure_settled [OF this, of sample_ext failure_sample] show ?thesis
    using parse_uuid_text [OF sample_uuids, of 9]
    by (auto simp: failure_sample_def stock_failed_decodes)
qed

end
