(* ===== verification/ProductRepo.thy ===== *)
theory ProductRepo
  imports OutboxTable Api
begin

text \<open>
  The database of the product service: tables (\<^verbatim>\<open>product-service/internal/database/migrations\<close>),
  statements and the transactional repositories of \<^verbatim>\<open>internal/repository\<close>.
\<close>

subsection \<open>Tables\<close>

record ProductRow =
  pr_ID :: uuid
  pr_CategoryID :: "uuid option"
  pr_Name :: string
  pr_Description :: "string option"
  pr_Price :: numeric
  pr_StockQuantity :: int32
  pr_CreatedAt :: int
  pr_UpdatedAt :: "int option"

record ProductCategoryRow =
  pc_ID :: uuid
  pc_Name :: string
  pc_Description :: "string option"
  pc_CreatedAt :: int
  pc_UpdatedAt :: "int option"

record ProcessedEventRow =
  pd_ID :: uuid
  pd_AggregateID :: uuid
  pd_EventName :: string
  pd_ProcessedAt :: int

record product_db = db_env +
  pb_categories :: "ProductCategoryRow list"
  pb_products :: "ProductRow list"
  pb_processed :: "ProcessedEventRow list"
  pb_outbox :: "OutboxRow list"

definition product_outbox_labels :: "string list" where
  "product_outbox_labels = [''UNPUBLISHED'', ''PUBLISHED'']"

text \<open>The checks of a product's columns: the price fits, the stock is not negative, the category
  exists.\<close>

definition product_columns ::
  "uuid option \<Rightarrow> numeric \<Rightarrow> int32 \<Rightarrow> ProductCategoryRow list \<Rightarrow> pg_error + numeric" where
  "product_columns category price stock cats =
     (case numeric_10_2 price of
        Inl e \<Rightarrow> Inl e
      | Inr p \<Rightarrow>
         if sint stock < 0 then Inl (CheckViolation ''products_stock_quantity_check'')
         else if category \<noteq> None \<and> the category \<notin> pc_ID ` set cats
              then Inl (ForeignKeyViolation ''products_category_id_fkey'')
         else Inr p)"

subsection \<open>Products\<close>

record CreateProductParams =
  cpp_CategoryID :: "uuid option"
  cpp_Name :: string
  cpp_Description :: "string option"
  cpp_Price :: numeric
  cpp_StockQuantity :: int32

definition insert_product :: "CreateProductParams \<Rightarrow> (product_db, ProductRow option) stmt" where
  "insert_product a n w =
     (case product_columns (cpp_CategoryID a) (cpp_Price a) (cpp_StockQuantity a) (pb_categories w) of
        Inl e \<Rightarrow> Inl e
      | Inr price \<Rightarrow>
         if uuid_at w n \<in> pr_ID ` set (pb_products w) then Inl (UniqueViolation ''products_pkey'')
         else (let row = \<lparr>pr_ID = uuid_at w n, pr_CategoryID = cpp_CategoryID a, pr_Name = cpp_Name a,
                 pr_Description = cpp_Description a, pr_Price = price,
                 pr_StockQuantity = cpp_StockQuantity a, pr_CreatedAt = now w n, pr_UpdatedAt = None\<rparr> in
               Inr (Some row, w\<lparr>pb_products := pb_products w @ [row]\<rparr>)))"

definition CreateProduct_q :: "CreateProductParams \<Rightarrow> (product_db, go_error + ProductRow) state" where
  "CreateProduct_q a = query_row (insert_product a)"

definition DeleteProduct_q :: "uuid \<Rightarrow> (product_db, go_error + unit) state" where
  "DeleteProduct_q i = db_call (\<lambda>n w.
     Inr ((), w\<lparr>pb_products := filter (\<lambda>r. pr_ID r \<noteq> i) (pb_products w)\<rparr>))"

definition GetProduct_q :: "uuid \<Rightarrow> (product_db, go_error + ProductRow) state" where
  "GetProduct_q i = query_row (read_only (\<lambda>w. find (\<lambda>r. pr_ID r = i) (pb_products w)))"

definition GetProductsByCategoryID_q :: "uuid \<Rightarrow> (product_db, go_error + ProductRow list) state" where
  "GetProductsByCategoryID_q c = db_call (read_only (\<lambda>w.
     sort_key (\<lambda>r. uint (pr_ID r)) (filter (\<lambda>r. pr_CategoryID r = Some c) (pb_products w))))"

definition GetProductsByIDs_q :: "uuid list \<Rightarrow> (product_db, go_error + ProductRow list) state" where
  "GetProductsByIDs_q is = db_call (read_only (\<lambda>w. filter (\<lambda>r. pr_ID r \<in> set is) (pb_products w)))"

definition ListProductsPaginated :: "ext \<Rightarrow> int32 \<Rightarrow> int32 \<Rightarrow> (product_db, go_error + ProductRow list) state" where
  "ListProductsPaginated X limit offset = db_call (\<lambda>n w.
     if sint limit < 0 then Inl NegativeLimit
     else if sint offset < 0 then Inl NegativeOffset
     else Inr (take (nat (sint limit)) (drop (nat (sint offset))
       (sort_key (\<lambda>r. collate X (pr_Name r)) (pb_products w))), w))"

record UpdateProductParams = CreateProductParams +
  upp_ID :: uuid

definition update_product :: "UpdateProductParams \<Rightarrow> (product_db, ProductRow option) stmt" where
  "update_product a n w =
     (case find (\<lambda>r. pr_ID r = upp_ID a) (pb_products w) of
        None \<Rightarrow> Inr (None, w)
      | Some r \<Rightarrow>
         (case product_columns (cpp_CategoryID a) (cpp_Price a) (cpp_StockQuantity a) (pb_categories w) of
            Inl e \<Rightarrow> Inl e
          | Inr price \<Rightarrow>
             (let f = (\<lambda>r. r\<lparr>pr_CategoryID := cpp_CategoryID a, pr_Name := cpp_Name a,
                    pr_Description := cpp_Description a, pr_Price := price,
                    pr_StockQuantity := cpp_StockQuantity a, pr_UpdatedAt := Some (now w n)\<rparr>) in
              Inr (Some (f r),
                w\<lparr>pb_products := map (\<lambda>r. if pr_ID r = upp_ID a then f r else r) (pb_products w)\<rparr>))))"

definition UpdateProduct_q :: "UpdateProductParams \<Rightarrow> (product_db, go_error + ProductRow) state" where
  "UpdateProduct_q a = query_row (update_product a)"

subsection \<open>The batch update of the stock\<close>

text \<open>\<^verbatim>\<open>json_to_recordset($1::json) AS p("productId" uuid, quantity int)\<close>: one row per object, a
  column that is missing or null is NULL, a value that is not of the column's type is an error.\<close>

definition json_column :: "string \<Rightarrow> (string \<times> json) list \<Rightarrow> json" where
  "json_column k kvs = (case map_of (rev kvs) k of None \<Rightarrow> JNull | Some j \<Rightarrow> j)"

fun uuid_column :: "ext \<Rightarrow> json \<Rightarrow> pg_error + uuid option" where
  "uuid_column X JNull = Inr None"
| "uuid_column X (JStr s) = (case pg_uuid X s of
     None \<Rightarrow> Inl (InvalidInput ''invalid input syntax for type uuid'') | Some u \<Rightarrow> Inr (Some u))"
| "uuid_column X _ = Inl (InvalidInput ''invalid input syntax for type uuid'')"

fun int_column :: "json \<Rightarrow> pg_error + int option" where
  "int_column JNull = Inr None"
| "int_column (JInt n) = (if in_int32 n then Inr (Some n) else Inl IntegerOverflow)"
| "int_column (JStr s) = (case parse_int 32 s of
     None \<Rightarrow> Inl (InvalidInput ''invalid input syntax for type integer'') | Some n \<Rightarrow> Inr (Some n))"
| "int_column _ = Inl (InvalidInput ''invalid input syntax for type integer'')"

type_synonym stock_row = "uuid option \<times> int option"

fun stock_record :: "ext \<Rightarrow> json \<Rightarrow> pg_error + stock_row" where
  "stock_record X (JObj kvs) =
     (case uuid_column X (json_column ''productId'' kvs) of
        Inl e \<Rightarrow> Inl e
      | Inr u \<Rightarrow> (case int_column (json_column ''quantity'' kvs) of Inl e \<Rightarrow> Inl e | Inr q \<Rightarrow> Inr (u, q)))"
| "stock_record X _ = Inl (InvalidInput ''argument of json_to_recordset must be an array of objects'')"

fun stock_records :: "ext \<Rightarrow> json list \<Rightarrow> pg_error + stock_row list" where
  "stock_records X [] = Inr []"
| "stock_records X (j # js) = (case stock_record X j of
     Inl e \<Rightarrow> Inl e
   | Inr r \<Rightarrow> (case stock_records X js of Inl e \<Rightarrow> Inl e | Inr rs \<Rightarrow> Inr (r # rs)))"

fun recordset :: "ext \<Rightarrow> json \<Rightarrow> pg_error + stock_row list" where
  "recordset X (JArr js) = stock_records X js"
| "recordset X _ = Inl (InvalidInput ''argument of json_to_recordset must be an array'')"

text \<open>The row of the set a product joins with. PostgreSQL updates a row once, from one of the rows it
  joins with; which one is open, here it is the first.\<close>

definition stock_match :: "stock_row list \<Rightarrow> ProductRow \<Rightarrow> int option" where
  "stock_match rs p = (case find (\<lambda>(u, q). u = Some (pr_ID p) \<and> q \<noteq> None \<and>
       the q \<le> sint (pr_StockQuantity p)) rs of
     None \<Rightarrow> None | Some (u, q) \<Rightarrow> q)"

definition take_stock :: "int \<Rightarrow> stock_row list \<Rightarrow> ProductRow \<Rightarrow> ProductRow" where
  "take_stock t rs p = (case stock_match rs p of
     None \<Rightarrow> p
   | Some q \<Rightarrow> p\<lparr>pr_StockQuantity := word_of_int (sint (pr_StockQuantity p) - q),
       pr_UpdatedAt := Some t\<rparr>)"

definition update_stock :: "ext \<Rightarrow> json \<Rightarrow> (product_db, int64) stmt" where
  "update_stock X params n w =
     (case recordset X params of
        Inl e \<Rightarrow> Inl e
      | Inr rs \<Rightarrow>
         (let hit = filter (\<lambda>p. stock_match rs p \<noteq> None) (pb_products w) in
          if \<exists>p \<in> set hit. \<not> in_int32 (sint (pr_StockQuantity p) - the (stock_match rs p))
          then Inl IntegerOverflow
          else Inr (of_nat (length hit),
            w\<lparr>pb_products := map (take_stock (now w n) rs) (pb_products w)\<rparr>)))"

definition UpdateStockBatch_q :: "ext \<Rightarrow> json \<Rightarrow> (product_db, go_error + int64) state" where
  "UpdateStockBatch_q X params = db_call (update_stock X params)"

subsection \<open>Categories, processed events and the outbox\<close>

definition CreateProductCategory_q :: "string \<Rightarrow> string option \<Rightarrow> (product_db, go_error + ProductCategoryRow) state" where
  "CreateProductCategory_q name desc = query_row (\<lambda>n w.
     if uuid_at w n \<in> pc_ID ` set (pb_categories w) then Inl (UniqueViolation ''product_categories_pkey'')
     else (let row = \<lparr>pc_ID = uuid_at w n, pc_Name = name, pc_Description = desc,
             pc_CreatedAt = now w n, pc_UpdatedAt = None\<rparr> in
           Inr (Some row, w\<lparr>pb_categories := pb_categories w @ [row]\<rparr>)))"

text \<open>Deleting a category sets the category of its products to NULL.\<close>

definition DeleteProductCategory_q :: "uuid \<Rightarrow> (product_db, go_error + unit) state" where
  "DeleteProductCategory_q i = db_call (\<lambda>n w. Inr ((), w\<lparr>
     pb_categories := filter (\<lambda>c. pc_ID c \<noteq> i) (pb_categories w),
     pb_products := map (\<lambda>p. if pr_CategoryID p = Some i then p\<lparr>pr_CategoryID := None\<rparr> else p)
       (pb_products w)\<rparr>))"

definition GetProductCategories_q :: "ext \<Rightarrow> (product_db, go_error + ProductCategoryRow list) state" where
  "GetProductCategories_q X = db_call (read_only (\<lambda>w.
     sort_key (\<lambda>c. collate X (pc_Name c)) (pb_categories w)))"

definition UpdateProductCategory_q :: "uuid \<Rightarrow> string \<Rightarrow> string option \<Rightarrow> (product_db, go_error + unit) state" where
  "UpdateProductCategory_q i name desc = db_call (\<lambda>n w. Inr ((), w\<lparr>
     pb_categories := map (\<lambda>c. if pc_ID c = i
       then c\<lparr>pc_Name := name, pc_Description := desc, pc_UpdatedAt := Some (now w n)\<rparr> else c)
       (pb_categories w)\<rparr>))"

definition CreateProcessedEvent :: "uuid \<Rightarrow> string \<Rightarrow> (product_db, go_error + unit) state" where
  "CreateProcessedEvent aggregate name = db_call (\<lambda>n w.
     if uuid_at w n \<in> pd_ID ` set (pb_processed w) then Inl (UniqueViolation ''processed_events_pkey'')
     else Inr ((), w\<lparr>pb_processed := pb_processed w @
       [\<lparr>pd_ID = uuid_at w n, pd_AggregateID = aggregate, pd_EventName = name, pd_ProcessedAt = now w n\<rparr>]\<rparr>))"

definition GetProcessedEventByAggregateIDAndEventName ::
  "uuid \<Rightarrow> string \<Rightarrow> (product_db, go_error + ProcessedEventRow) state" where
  "GetProcessedEventByAggregateIDAndEventName aggregate name = query_row (read_only (\<lambda>w.
     find (\<lambda>r. pd_AggregateID r = aggregate \<and> pd_EventName r = name) (pb_processed w)))"

definition CreateOutboxEvent_product :: "uuid \<Rightarrow> string \<Rightarrow> json \<Rightarrow> (product_db, go_error + unit) state" where
  "CreateOutboxEvent_product aggregate name payload = db_call (\<lambda>n w.
     (case insert_outbox False (uuid_at w n) (now w n) aggregate name payload (pb_outbox w) of
        Inl e \<Rightarrow> Inl e | Inr rows \<Rightarrow> Inr ((), w\<lparr>pb_outbox := rows\<rparr>)))"

definition GetUnpublishedOutboxEvents_product :: "int32 \<Rightarrow> (product_db, go_error + OutboxRow list) state" where
  "GetUnpublishedOutboxEvents_product limit = db_call (\<lambda>n w.
     (case unpublished_rows limit (pb_outbox w) of Inl e \<Rightarrow> Inl e | Inr rows \<Rightarrow> Inr (rows, w)))"

definition UpdateOutboxEventStatus_product :: "uuid \<Rightarrow> (product_db, go_error + unit) state" where
  "UpdateOutboxEventStatus_product i = db_call (\<lambda>n w.
     (case set_outbox_status product_outbox_labels i ''PUBLISHED'' (now w n) (pb_outbox w) of
        Inl e \<Rightarrow> Inl e | Inr rows \<Rightarrow> Inr ((), w\<lparr>pb_outbox := rows\<rparr>)))"

end
