(* ===== verification/ProductTx.thy ===== *)
theory ProductTx
  imports ProductRepo
begin

text \<open>
  The repositories of the product service on its statements: \<open>ProductRepository\<close> (a product and its
  event in one transaction), the repository of the order consumer (stock, mark and failure
  event in one transaction), the repository of the relayer; and the invariants of the tables.
\<close>

subsection \<open>The product repository\<close>

definition withProductTx :: "(product_db, go_error + ProductRow) state \<Rightarrow> (product_db, go_error + ProductRow) state" where
  "withProductTx body = with_tx body"

definition withTx :: "(product_db, go_error + unit) state \<Rightarrow> (product_db, go_error + unit) state" where
  "withTx body = with_tx body"

definition addOutboxEvent :: "uuid \<Rightarrow> string \<Rightarrow> json \<Rightarrow> (product_db, go_error + unit) state" where
  "addOutboxEvent aggregate name payload = CreateOutboxEvent_product aggregate name payload"

text \<open>The price as \<^verbatim>\<open>Numeric.MarshalJSON\<close> prints it: quoted for a value that is no number; the code
  strips the quotes.\<close>

definition productToPayload :: "ext \<Rightarrow> ProductRow \<Rightarrow> go_error + json" where
  "productToPayload X p = Inr (enc_product
     \<lparr>pe_ID = uuid_text X (pr_ID p),
      pe_CategoryID = (case pr_CategoryID p of None \<Rightarrow> [] | Some c \<Rightarrow> uuid_text X c),
      pe_Name = pr_Name p,
      pe_Description = (case pr_Description p of None \<Rightarrow> [] | Some d \<Rightarrow> d),
      pe_Price = numeric_text X (pr_Price p),
      pe_StockQuantity = pr_StockQuantity p\<rparr>)"

definition CreateProduct_repo :: "ext \<Rightarrow> CreateProductParams \<Rightarrow> (product_db, go_error + ProductRow) state" where
  "CreateProduct_repo X a = withProductTx (
     attempt (CreateProduct_q a) id (\<lambda>p.
     attempt_pure (productToPayload X p) id (\<lambda>payload.
     attempt (addOutboxEvent (pr_ID p) ProductCreatedEventName payload) id (\<lambda>_. ok p))))"

definition UpdateProduct_repo :: "ext \<Rightarrow> UpdateProductParams \<Rightarrow> (product_db, go_error + ProductRow) state" where
  "UpdateProduct_repo X a = withProductTx (
     attempt (UpdateProduct_q a) id (\<lambda>p.
     attempt_pure (productToPayload X p) id (\<lambda>payload.
     attempt (addOutboxEvent (pr_ID p) ProductUpdatedEventName payload) id (\<lambda>_. ok p))))"

definition DeleteProduct_repo :: "ext \<Rightarrow> uuid \<Rightarrow> (product_db, go_error + unit) state" where
  "DeleteProduct_repo X i = withTx (
     attempt (DeleteProduct_q i) id (\<lambda>_.
     addOutboxEvent i ProductDeletedEventName
       (enc_product (zero_product_event\<lparr>pe_ID := uuid_text X i\<rparr>))))"

subsection \<open>The repository of the order consumer\<close>

definition occ_eventName :: string where "occ_eventName = ''order_created_exchange''"

definition marshalOrderItems :: "OrderCreatedEvent \<Rightarrow> json" where
  "marshalOrderItems event = JArr (map (\<lambda>p. enc_order_item
     \<lparr>oi_ProductID = oi_ProductID p, oi_Quantity = oi_Quantity p\<rparr>) (elems (oce_Products event)))"

definition parseOrderID :: "ext \<Rightarrow> string \<Rightarrow> go_error + uuid" where
  "parseOrderID X i = parse_uuid X i"

definition UpdateStockBatch_consumer ::
  "ext \<Rightarrow> OrderCreatedEvent \<Rightarrow> bool \<Rightarrow> string \<Rightarrow> json \<Rightarrow> (product_db, go_error + int64) state" where
  "UpdateStockBatch_consumer X event createOutboxEventOnFailure outboxName outboxPayload = with_tx (
     attempt (UpdateStockBatch_q X (marshalOrderItems event)) id (\<lambda>rowsAffected.
     attempt_pure (parseOrderID X (oce_OrderID event)) id (\<lambda>order.
     attempt (CreateProcessedEvent order occ_eventName) id (\<lambda>_.
     if rowsAffected \<noteq> of_nat (length (elems (oce_Products event))) \<and> createOutboxEventOnFailure
     then attempt (CreateOutboxEvent_product order outboxName outboxPayload) id (\<lambda>_. ok rowsAffected)
     else ok rowsAffected))))"

subsection \<open>The relayer's repository\<close>

definition GetUnpublished_product_relayer ::
  "ext \<Rightarrow> int32 \<Rightarrow> (product_db, go_error + OutboxEvent list) state" where
  "GetUnpublished_product_relayer X limit =
     attempt (GetUnpublishedOutboxEvents_product limit) id (\<lambda>rows. ok (map (row_event X) rows))"

definition parseIDStringToUUID_product :: "ext \<Rightarrow> string \<Rightarrow> go_error + uuid" where
  "parseIDStringToUUID_product X i = parse_uuid X i"

definition UpdateStatus_product_relayer :: "ext \<Rightarrow> string \<Rightarrow> (product_db, go_error + unit) state" where
  "UpdateStatus_product_relayer X i =
     attempt_pure (parseIDStringToUUID_product X i) id UpdateOutboxEventStatus_product"

subsection \<open>Invariants\<close>

definition product_tables_ok :: "product_db \<Rightarrow> bool" where
  "product_tables_ok w \<longleftrightarrow>
     distinct (map pr_ID (pb_products w)) \<and>
     (\<forall>p \<in> set (pb_products w). 0 \<le> sint (pr_StockQuantity p) \<and>
        (\<forall>c. pr_CategoryID p = Some c \<longrightarrow> c \<in> pc_ID ` set (pb_categories w))) \<and>
     distinct (map pc_ID (pb_categories w)) \<and>
     distinct (map pd_ID (pb_processed w)) \<and>
     distinct (map ob_ID (pb_outbox w)) \<and>
     (\<forall>r \<in> set (pb_outbox w). ob_Status r \<in> set product_outbox_labels)"

lemma of_tables_product_ok: "of_tables product_tables_ok"
  by (simp add: of_tables_def product_tables_ok_def)

lemma stmt_insert_product: "stmt_keeps product_tables_ok (insert_product a)"
proof (rule stmt_keepsI)
  fix n w x w' assume ok: "product_tables_ok w" and run: "insert_product a n w = Inr (x, w')"
  then obtain price where "product_columns (cpp_CategoryID a) (cpp_Price a) (cpp_StockQuantity a)
      (pb_categories w) = Inr price" "uuid_at w n \<notin> pr_ID ` set (pb_products w)"
    "w' = w\<lparr>pb_products := pb_products w @ [\<lparr>pr_ID = uuid_at w n, pr_CategoryID = cpp_CategoryID a,
       pr_Name = cpp_Name a, pr_Description = cpp_Description a, pr_Price = price,
       pr_StockQuantity = cpp_StockQuantity a, pr_CreatedAt = now w n, pr_UpdatedAt = None\<rparr>]\<rparr>"
    by (auto simp: insert_product_def Let_def split: sum.splits if_splits)
  then show "product_tables_ok w'" using ok
    by (auto simp: product_tables_ok_def product_columns_def split: sum.splits if_splits)
qed

lemma stmt_update_product: "stmt_keeps product_tables_ok (update_product a)"
proof (rule stmt_keepsI)
  fix n w x w' assume ok: "product_tables_ok w" and run: "update_product a n w = Inr (x, w')"
  show "product_tables_ok w'"
  proof (cases "find (\<lambda>r. pr_ID r = upp_ID a) (pb_products w)")
    case None
    then show ?thesis using run ok by (simp add: update_product_def)
  next
    case (Some r)
    then obtain price where col: "product_columns (cpp_CategoryID a) (cpp_Price a) (cpp_StockQuantity a)
        (pb_categories w) = Inr price"
      using run by (auto simp: update_product_def split: sum.splits)
    define g :: "ProductRow \<Rightarrow> ProductRow" where "g = (\<lambda>r. if pr_ID r = upp_ID a then
       r\<lparr>pr_CategoryID := cpp_CategoryID a, pr_Name := cpp_Name a, pr_Description := cpp_Description a,
         pr_Price := price, pr_StockQuantity := cpp_StockQuantity a, pr_UpdatedAt := Some (now w n)\<rparr> else r)"
    have w': "w' = w\<lparr>pb_products := map g (pb_products w)\<rparr>"
      using run Some col by (simp add: update_product_def Let_def g_def)
    have g: "pr_ID (g r) = pr_ID r"
      "0 \<le> sint (pr_StockQuantity r) \<Longrightarrow> 0 \<le> sint (pr_StockQuantity (g r))"
      "pr_CategoryID (g r) = Some c \<Longrightarrow> pr_CategoryID r = Some c \<or> c \<in> pc_ID ` set (pb_categories w)" for r c
      using col by (auto simp: g_def product_columns_def split: sum.splits if_splits)
    show ?thesis using ok g unfolding w' product_tables_ok_def by (simp add: comp_def) metis
  qed
qed

text \<open>The batch update keeps every stock at zero or above.\<close>

lemma stock_match_le: "stock_match rs p = Some q \<Longrightarrow> q \<le> sint (pr_StockQuantity p)"
  by (auto simp: stock_match_def dest!: find_Some_in split: option.splits)

lemma take_stock_row [simp]:
  "pr_ID (take_stock t rs p) = pr_ID p" "pr_CategoryID (take_stock t rs p) = pr_CategoryID p"
  by (simp_all add: take_stock_def split: option.splits)

lemma take_stock_quantity:
  "stock_match rs p = None \<Longrightarrow> take_stock t rs p = p"
  "stock_match rs p = Some q \<Longrightarrow> in_int32 (sint (pr_StockQuantity p) - q) \<Longrightarrow>
     sint (pr_StockQuantity (take_stock t rs p)) = sint (pr_StockQuantity p) - q"
  by (simp_all add: take_stock_def sint_minus_int32)

lemma update_stock_Inr:
  assumes "update_stock X params n w = Inr (k, w')"
  obtains rs where "recordset X params = Inr rs"
    "k = of_nat (length (filter (\<lambda>p. stock_match rs p \<noteq> None) (pb_products w)))"
    "w' = w\<lparr>pb_products := map (take_stock (now w n) rs) (pb_products w)\<rparr>"
    "\<And>p q. p \<in> set (pb_products w) \<Longrightarrow> stock_match rs p = Some q \<Longrightarrow>
       in_int32 (sint (pr_StockQuantity p) - q)"
proof -
  from assms obtain rs where rs: "recordset X params = Inr rs"
    by (auto simp: update_stock_def split: sum.splits)
  show ?thesis
  proof (rule that [OF rs])
    fix p q assume "p \<in> set (pb_products w)" "stock_match rs p = Some q"
    then show "in_int32 (sint (pr_StockQuantity p) - q)"
      using assms rs by (fastforce simp: update_stock_def Let_def split: if_splits)
  qed (use assms rs in \<open>simp_all add: update_stock_def Let_def split: if_splits\<close>)
qed

lemma stmt_update_stock: "stmt_keeps product_tables_ok (update_stock X params)"
proof (rule stmt_keepsI)
  fix n w x w' assume ok: "product_tables_ok w" and run: "update_stock X params n w = Inr (x, w')"
  from run obtain rs where w': "w' = w\<lparr>pb_products := map (take_stock (now w n) rs) (pb_products w)\<rparr>"
    and fits: "\<And>p q. p \<in> set (pb_products w) \<Longrightarrow> stock_match rs p = Some q \<Longrightarrow>
       in_int32 (sint (pr_StockQuantity p) - q)"
    by (rule update_stock_Inr) blast
  have "0 \<le> sint (pr_StockQuantity (take_stock t rs p))" if p: "p \<in> set (pb_products w)" for p t
  proof (cases "stock_match rs p")
    case None
    then show ?thesis using ok p by (simp add: take_stock_quantity product_tables_ok_def)
  next
    case (Some q)
    then show ?thesis using take_stock_quantity(2) [OF Some fits [OF p Some]] stock_match_le [OF Some] by simp
  qed
  then show "product_tables_ok w'" using ok unfolding w' product_tables_ok_def
    by (simp add: comp_def)
qed

lemma keeps_stock [keeps_intros]: "keeps product_tables_ok (UpdateStockBatch_q X params)"
  unfolding UpdateStockBatch_q_def by (intro keeps_db_call of_tables_product_ok stmt_update_stock)

lemma keeps_insert_update [keeps_intros]:
  "keeps product_tables_ok (CreateProduct_q a)" "keeps product_tables_ok (UpdateProduct_q b)"
  unfolding CreateProduct_q_def UpdateProduct_q_def
  by (intro keeps_query_row of_tables_product_ok stmt_insert_product stmt_update_product)+

lemma keeps_product_reads [keeps_intros]:
  "keeps product_tables_ok (GetProduct_q i)" "keeps product_tables_ok (GetProductsByCategoryID_q c)"
  "keeps product_tables_ok (GetProductsByIDs_q is)" "keeps product_tables_ok (GetProductCategories_q X)"
  "keeps product_tables_ok (GetProcessedEventByAggregateIDAndEventName a name)"
  unfolding GetProduct_q_def GetProductsByCategoryID_q_def GetProductsByIDs_q_def
    GetProductCategories_q_def GetProcessedEventByAggregateIDAndEventName_def
  by (intro keeps_query_row keeps_db_call of_tables_product_ok stmt_keeps_read_only)+

lemma keeps_ListProducts [keeps_intros]: "keeps product_tables_ok (ListProductsPaginated X l f)"
  unfolding ListProductsPaginated_def
  by (intro keeps_db_call of_tables_product_ok stmt_keepsI) (auto split: if_splits)

lemma distinct_map_filter': "distinct (map f xs) \<Longrightarrow> distinct (map f (filter P xs))"
  by (induction xs) auto

lemma keeps_DeleteProduct_q [keeps_intros]: "keeps product_tables_ok (DeleteProduct_q i)"
  unfolding DeleteProduct_q_def
  by (intro keeps_db_call of_tables_product_ok stmt_keepsI)
    (auto simp: product_tables_ok_def distinct_map_filter')

lemma keeps_CreateProductCategory_q [keeps_intros]: "keeps product_tables_ok (CreateProductCategory_q m d)"
  unfolding CreateProductCategory_q_def
  by (intro keeps_query_row of_tables_product_ok stmt_keepsI)
    (auto simp: product_tables_ok_def Let_def split: if_splits)

lemma keeps_DeleteProductCategory_q [keeps_intros]: "keeps product_tables_ok (DeleteProductCategory_q i)"
  unfolding DeleteProductCategory_q_def
  by (intro keeps_db_call of_tables_product_ok stmt_keepsI)
    (fastforce simp: product_tables_ok_def comp_def if_distrib distinct_map_filter' cong: if_cong)

lemma keeps_UpdateProductCategory_q [keeps_intros]: "keeps product_tables_ok (UpdateProductCategory_q i m d)"
  unfolding UpdateProductCategory_q_def
proof (intro keeps_db_call of_tables_product_ok stmt_keepsI)
  fix n w and x :: unit and w'
  assume ok: "product_tables_ok w" and run: "Inr ((), w\<lparr>pb_categories := map (\<lambda>c. if pc_ID c = i
    then c\<lparr>pc_Name := m, pc_Description := d, pc_UpdatedAt := Some (now w n)\<rparr> else c) (pb_categories w)\<rparr>)
    = (Inr (x, w') :: pg_error + unit \<times> product_db)"
  define f :: "ProductCategoryRow \<Rightarrow> ProductCategoryRow" where "f = (\<lambda>c. if pc_ID c = i
    then c\<lparr>pc_Name := m, pc_Description := d, pc_UpdatedAt := Some (now w n)\<rparr> else c)"
  have "pc_ID (f c) = pc_ID c" for c by (simp add: f_def)
  moreover have "w' = w\<lparr>pb_categories := map f (pb_categories w)\<rparr>" using run by (simp add: f_def)
  ultimately show "product_tables_ok w'" using ok
    by (simp add: product_tables_ok_def comp_def image_image)
qed

lemma keeps_CreateProcessedEvent [keeps_intros]: "keeps product_tables_ok (CreateProcessedEvent a m)"
  unfolding CreateProcessedEvent_def
  by (intro keeps_db_call of_tables_product_ok stmt_keepsI)
    (auto simp: product_tables_ok_def split: if_splits)

lemma keeps_CreateOutboxEvent_product [keeps_intros]: "keeps product_tables_ok (CreateOutboxEvent_product a m b)"
  unfolding CreateOutboxEvent_product_def
  by (intro keeps_db_call of_tables_product_ok stmt_keepsI)
    (auto simp: product_tables_ok_def insert_outbox_def product_outbox_labels_def
      split: if_splits)

lemma keeps_product_relayer [keeps_intros]:
  "keeps product_tables_ok (GetUnpublishedOutboxEvents_product n)"
  "keeps product_tables_ok (UpdateOutboxEventStatus_product i)"
proof -
  show "keeps product_tables_ok (GetUnpublishedOutboxEvents_product n)"
    unfolding GetUnpublishedOutboxEvents_product_def
    by (intro keeps_db_call of_tables_product_ok stmt_keepsI) (auto split: sum.splits)
  have "product_tables_ok (w\<lparr>pb_outbox := rows\<rparr>)"
    if ok: "product_tables_ok w"
      and st: "set_outbox_status product_outbox_labels i ''PUBLISHED'' t (pb_outbox w) = Inr rows"
    for w :: product_db and t rows
  proof -
    obtain f where "rows = map f (pb_outbox w)"
      "\<And>r. ob_Status (f r) = (if ob_ID r = i then ''PUBLISHED'' else ob_Status r)" "\<And>r. ob_ID (f r) = ob_ID r"
      using st by (rule set_status_map) blast
    then show ?thesis using ok
      by (auto simp: product_tables_ok_def comp_def product_outbox_labels_def)
  qed
  then show "keeps product_tables_ok (UpdateOutboxEventStatus_product i)"
    unfolding UpdateOutboxEventStatus_product_def
    by (intro keeps_db_call of_tables_product_ok stmt_keepsI) (auto split: sum.splits)
qed

lemma keeps_product_repo [keeps_intros]:
  "keeps product_tables_ok (CreateProduct_repo X a)" "keeps product_tables_ok (UpdateProduct_repo X b)"
  "keeps product_tables_ok (DeleteProduct_repo X i)"
  unfolding CreateProduct_repo_def UpdateProduct_repo_def DeleteProduct_repo_def withProductTx_def
    withTx_def addOutboxEvent_def
  by (intro keeps_with_tx_body of_tables_product_ok keeps_intros)+

lemma keeps_UpdateStockBatch_consumer [keeps_intros]:
  "keeps product_tables_ok (UpdateStockBatch_consumer X e b n p)"
  unfolding UpdateStockBatch_consumer_def
  by (intro keeps_with_tx_body of_tables_product_ok keeps_intros)

subsection \<open>The relayer's store\<close>

lemma failed_product_tables [simp]:
  "pb_categories (failed w) = pb_categories w" "pb_products (failed w) = pb_products w"
  "pb_processed (failed w) = pb_processed w" "pb_outbox (failed w) = pb_outbox w"
  by (simp_all add: failed_def)

lemma run_UpdateStatus_product:
  assumes "run_state (UpdateStatus_product_relayer X i) s = (r, s')"
  shows "pb_outbox s' = pb_outbox s \<and> (\<exists>e. r = Inl e) \<or>
    (\<exists>u t. parse_uuid X i = Inr u \<and>
       set_outbox_status product_outbox_labels u ''PUBLISHED'' t (pb_outbox s) = Inr (pb_outbox s'))"
proof (cases "parse_uuid X i")
  case (Inl e)
  then show ?thesis using assms
    by (auto simp: UpdateStatus_product_relayer_def parseIDStringToUUID_product_def)
next
  case (Inr u)
  then have "run_state (UpdateOutboxEventStatus_product u) s = (r, s')"
    using assms by (simp add: UpdateStatus_product_relayer_def parseIDStringToUUID_product_def)
  from this [unfolded UpdateOutboxEventStatus_product_def] show ?thesis
    by (cases rule: db_call_cases) (auto simp: Inr split: sum.splits)
qed

lemma run_GetUnpublished_product:
  assumes "run_state (GetUnpublished_product_relayer X n) s = (r, s')"
  shows "pb_outbox s' = pb_outbox s \<and>
    (\<forall>es. r = Inr es \<longrightarrow> (\<exists>rows. es = map (row_event X) rows \<and> unpublished_rows n (pb_outbox s) = Inr rows))"
proof -
  obtain q s1 where q: "run_state (GetUnpublishedOutboxEvents_product n) s = (q, s1)" by (rule run_pair)
  then have "s' = s1" and r: "r = (case q of Inl e \<Rightarrow> Inl e | Inr rows \<Rightarrow> Inr (map (row_event X) rows))"
    using assms by (auto simp: GetUnpublished_product_relayer_def split: sum.splits)
  moreover from q [unfolded GetUnpublishedOutboxEvents_product_def]
  have "pb_outbox s1 = pb_outbox s \<and> (\<forall>rows. q = Inr rows \<longrightarrow> unpublished_rows n (pb_outbox s) = Inr rows)"
    by (cases rule: db_call_cases) (auto split: sum.splits)
  ultimately show ?thesis by (auto split: sum.splits)
qed

interpretation product_store: outbox_store "GetUnpublished_product_relayer X" "UpdateStatus_product_relayer X"
  "\<lambda>w. table_store_ok X (pb_outbox w)" "\<lambda>w. row_msgs X (pb_outbox w)" "\<lambda>w. published_msgs X (pb_outbox w)"
  by (rule outbox_table_store [where ls = product_outbox_labels, OF run_GetUnpublished_product])
    (use run_UpdateStatus_product in blast)+

end
