(* ===== verification/Redis.thy ===== *)
theory Redis
  imports Json
begin

text \<open>
  The Redis client the services cache with. A key holds a text, a JSON text (as its tree) or a
  hash, with the time at which it expires, if any. The n-th command may fail: \<open>RdBefore\<close> leaves
  the store alone, \<open>RdAfter\<close> has executed the command and loses the reply. Reading a key of
  another kind is an error. Times are in nanoseconds, \<open>rd_clock\<close> gives the time of a command.
\<close>

datatype redis_value = RText string | RJson json | RHash "(string \<times> string) list"

datatype redis_fault = RdBefore string | RdAfter string

record redis =
  rd_data :: "string \<Rightarrow> (redis_value \<times> int option) option"
  rd_calls :: nat
  rd_fault :: "nat \<Rightarrow> redis_fault option"
  rd_clock :: "nat \<Rightarrow> int"

text \<open>What a key holds at a time.\<close>

definition rd_lookup :: "redis \<Rightarrow> int \<Rightarrow> string \<Rightarrow> redis_value option" where
  "rd_lookup r t k = (case rd_data r k of
     None \<Rightarrow> None
   | Some (v, None) \<Rightarrow> Some v
   | Some (v, Some e) \<Rightarrow> if t < e then Some v else None)"

definition redis_call :: "(int \<Rightarrow> redis \<Rightarrow> (string + 'a) \<times> redis) \<Rightarrow> (redis, go_error + 'a) state" where
  "redis_call c = State (\<lambda>r. let n = rd_calls r; s = r\<lparr>rd_calls := Suc n\<rparr> in
     (case rd_fault r n of
        Some (RdBefore t) \<Rightarrow> (Inl (RedisError t), s)
      | Some (RdAfter t) \<Rightarrow> (Inl (RedisError t), snd (c (rd_clock r n) s))
      | None \<Rightarrow> (case c (rd_clock r n) s of
          (Inl t, s') \<Rightarrow> (Inl (RedisError t), s') | (Inr x, s') \<Rightarrow> (Inr x, s'))))"

text \<open>\<open>HGETALL\<close>: no fields for a key that is not there.\<close>

definition rd_hgetall :: "string \<Rightarrow> (redis, go_error + (string \<times> string) list) state" where
  "rd_hgetall k = redis_call (\<lambda>t r. (case rd_lookup r t k of
     None \<Rightarrow> Inr [] | Some (RHash fs) \<Rightarrow> Inr fs | Some _ \<Rightarrow> Inl ''WRONGTYPE'', r))"

text \<open>\<open>GET\<close>: \<open>redis.Nil\<close> for a key that is not there.\<close>

definition rd_get :: "string \<Rightarrow> (redis, go_error + redis_value) state" where
  "rd_get k = do {
     r \<leftarrow> redis_call (\<lambda>t r. (case rd_lookup r t k of
       None \<Rightarrow> Inr None | Some (RHash fs) \<Rightarrow> Inl ''WRONGTYPE'' | Some v \<Rightarrow> Inr (Some v), r));
     State_Monad.return (case r of Inl e \<Rightarrow> Inl e | Inr None \<Rightarrow> Inl RedisNil | Inr (Some v) \<Rightarrow> Inr v) }"

definition rd_put :: "string \<Rightarrow> (redis_value \<times> int option) option \<Rightarrow> redis \<Rightarrow> redis" where
  "rd_put k v r = r\<lparr>rd_data := (rd_data r)(k := v)\<rparr>"

definition rd_set :: "string \<Rightarrow> redis_value \<Rightarrow> int \<Rightarrow> (redis, go_error + unit) state" where
  "rd_set k v ttl = redis_call (\<lambda>t r. (Inr (), rd_put k (Some (v, Some (t + ttl))) r))"

text \<open>\<open>HSET\<close> sets the given fields and keeps the others and the expiry of the key.\<close>

definition hash_update :: "(string \<times> string) list \<Rightarrow> (string \<times> string) list \<Rightarrow> (string \<times> string) list" where
  "hash_update new old = filter (\<lambda>(f, _). f \<notin> fst ` set new) old @ new"

definition rd_hset :: "string \<Rightarrow> (string \<times> string) list \<Rightarrow> (redis, go_error + unit) state" where
  "rd_hset k new = redis_call (\<lambda>t r. (case rd_lookup r t k of
     None \<Rightarrow> (Inr (), rd_put k (Some (RHash new, None)) r)
   | Some (RHash old) \<Rightarrow>
       (Inr (), rd_put k (Some (RHash (hash_update new old), Option.bind (rd_data r k) snd)) r)
   | Some _ \<Rightarrow> (Inl ''WRONGTYPE'', r)))"

definition rd_expire :: "string \<Rightarrow> int \<Rightarrow> (redis, go_error + unit) state" where
  "rd_expire k ttl = redis_call (\<lambda>t r. (Inr (), case rd_lookup r t k of
     None \<Rightarrow> r | Some v \<Rightarrow> rd_put k (Some (v, Some (t + ttl))) r))"

definition rd_del :: "string \<Rightarrow> (redis, go_error + unit) state" where
  "rd_del k = redis_call (\<lambda>t r. (Inr (), rd_put k None r))"

text \<open>A pipeline sends its commands together; every command runs, and the first error is the
  pipeline's.\<close>

fun pipeline :: "('w, go_error + 'a) state list \<Rightarrow> ('w, (go_error + 'a) list) state" where
  "pipeline [] = State_Monad.return []"
| "pipeline (c # cs) = do { x \<leftarrow> c; xs \<leftarrow> pipeline cs; State_Monad.return (x # xs) }"

fun first_error :: "(go_error + 'a) list \<Rightarrow> go_error option" where
  "first_error [] = None"
| "first_error (Inl e # _) = Some e"
| "first_error (Inr _ # rs) = first_error rs"

definition exec_pipe :: "('w, go_error + 'a) state list \<Rightarrow> ('w, go_error + 'a list) state" where
  "exec_pipe cs = do { rs \<leftarrow> pipeline cs; State_Monad.return (case first_error rs of
     Some e \<Rightarrow> Inl e | None \<Rightarrow> Inr (List.map_filter (case_sum Map.empty Some) rs)) }"

subsection \<open>Fields of a cached hash\<close>

text \<open>A time in seconds, a Go map's value for a key (the empty text without one), and the error of a field that is no number.\<close>

definition unix_seconds :: "int \<Rightarrow> int" where
  "unix_seconds t = t div 10 ^ 9"

text \<open>The time of a nil timestamp is the epoch.\<close>

definition as_time :: "int option \<Rightarrow> int" where
  "as_time t = (case t of None \<Rightarrow> 0 | Some t \<Rightarrow> t)"

definition map_get :: "(string \<times> string) list \<Rightarrow> string \<Rightarrow> string" where
  "map_get d k = (case map_of d k of None \<Rightarrow> [] | Some v \<Rightarrow> v)"

definition syntax_error :: go_error where
  "syntax_error = TextError ''strconv: invalid syntax''"

subsection \<open>Runs\<close>

lemma run_redis_call:
  "rd_fault r (rd_calls r) = None \<Longrightarrow> run_state (redis_call c) r =
     (case c (rd_clock r (rd_calls r)) (r\<lparr>rd_calls := Suc (rd_calls r)\<rparr>) of
        (Inl t, s') \<Rightarrow> (Inl (RedisError t), s') | (Inr x, s') \<Rightarrow> (Inr x, s'))"
  by (simp add: redis_call_def Let_def)

lemma redis_call_cases:
  assumes "run_state (redis_call c) r = (x, r')"
  obtains (unsent) e where "x = Inl e" "r' = r\<lparr>rd_calls := Suc (rd_calls r)\<rparr>"
  | (sent) y where "c (rd_clock r (rd_calls r)) (r\<lparr>rd_calls := Suc (rd_calls r)\<rparr>) = (y, r')"
      "(\<exists>e. x = Inl e) \<or> (\<exists>v. x = Inr v \<and> y = Inr v)"
proof (cases "rd_fault r (rd_calls r)")
  case None
  then show ?thesis using assms
    by (cases "c (rd_clock r (rd_calls r)) (r\<lparr>rd_calls := Suc (rd_calls r)\<rparr>)")
      (auto simp: redis_call_def Let_def intro: sent split: sum.splits)
next
  case (Some f)
  then show ?thesis using assms
    by (cases "c (rd_clock r (rd_calls r)) (r\<lparr>rd_calls := Suc (rd_calls r)\<rparr>)"; cases f)
      (auto simp: redis_call_def Let_def intro: sent unsent)
qed

text \<open>What the commands do to a key.\<close>

lemma rd_data_put [simp]: "rd_data (rd_put k v r) = (rd_data r)(k := v)"
  by (simp add: rd_put_def)

lemma reads_data:
  "run_state (rd_hgetall k) r = (x, r') \<Longrightarrow> rd_data r' = rd_data r"
  by (auto simp: rd_hgetall_def elim!: redis_call_cases)

lemma get_data: "run_state (rd_get k) r = (x, r') \<Longrightarrow> rd_data r' = rd_data r"
  by (auto simp: rd_get_def elim!: redis_call_cases split: prod.splits)

lemma del_data:
  "run_state (rd_del k) r = (x, r') \<Longrightarrow>
     rd_data r' = rd_data r \<and> (\<exists>e. x = Inl e) \<or> rd_data r' = (rd_data r)(k := None)"
  by (auto simp: rd_del_def elim!: redis_call_cases)

lemma set_data:
  "run_state (rd_set k v ttl) r = (x, r') \<Longrightarrow>
     rd_data r' = rd_data r \<and> (\<exists>e. x = Inl e) \<or> (\<exists>e. rd_data r' = (rd_data r)(k \<mapsto> (v, Some e)))"
  by (auto simp: rd_set_def elim!: redis_call_cases)

end
