(* ===== verification/ProductConsumer.thy ===== *)
theory ProductConsumer
  imports ProductTx Redis Rabbit
begin

text \<open>
  The product service's state (database, cache and the goroutines it has started) and its consumer
  of created orders (\<^verbatim>\<open>internal/events/consumers\<close>): it takes the ordered quantities from the stock
  once per order and reports a shortage through the outbox. Handlers of different deliveries run
  concurrently: the check for an order that is already processed and the update are two steps, and
  the handler is their composition.
\<close>

datatype product_task =
    CacheProductTask string ProductV1
  | InvalidateStocksTask "string list"
  | InvalidateItemsTask "OrderItem list"
  | DeleteCategoriesCacheTask
  | CacheCategoriesTask "ProductCategoryV1 list"

record product_world =
  pw_db :: product_db
  pw_redis :: redis
  pw_tasks :: "product_task list"

definition p_db :: "(product_db, 'a) state \<Rightarrow> (product_world, 'a) state" where
  "p_db m = zoom pw_db (\<lambda>d w. w\<lparr>pw_db := d\<rparr>) m"

definition p_redis :: "(redis, 'a) state \<Rightarrow> (product_world, 'a) state" where
  "p_redis m = zoom pw_redis (\<lambda>r w. w\<lparr>pw_redis := r\<rparr>) m"

text \<open>\<^verbatim>\<open>go f(x)\<close>: the goroutine is started now and runs later.\<close>

definition p_go :: "product_task \<Rightarrow> (product_world, unit) state" where
  "p_go t = State (\<lambda>w. ((), w\<lparr>pw_tasks := pw_tasks w @ [t]\<rparr>))"

lemma run_p [simp]:
  "run_state (p_db m) w = (case run_state m (pw_db w) of (x, d) \<Rightarrow> (x, w\<lparr>pw_db := d\<rparr>))"
  "run_state (p_redis n) w = (case run_state n (pw_redis w) of (y, r) \<Rightarrow> (y, w\<lparr>pw_redis := r\<rparr>))"
  "run_state (p_go t) w = ((), w\<lparr>pw_tasks := pw_tasks w @ [t]\<rparr>)"
  by (simp_all add: p_db_def p_redis_def p_go_def)

definition occ_exchangeName :: string where "occ_exchangeName = ''order_created_exchange''"
definition occ_queueName :: string where "occ_queueName = ''product_queue''"
definition occ_consumerName :: string where "occ_consumerName = ''product_order_created_consumer''"
definition stockUpdateFailedEventName :: string where
  "stockUpdateFailedEventName = ''stock_update_failed_exchange''"

definition occ_unmarshalEvent :: "json option \<Rightarrow> go_error + OrderCreatedEvent" where
  "occ_unmarshalEvent body = unmarshal_order_created body"

definition isEventProcessed :: "ext \<Rightarrow> string \<Rightarrow> string \<Rightarrow> (product_db, go_error + bool) state" where
  "isEventProcessed X aggregate name =
     attempt_pure (parse_uuid X aggregate) id (\<lambda>u. do {
       r \<leftarrow> GetProcessedEventByAggregateIDAndEventName u name;
       State_Monad.return (case r of
         Inl e \<Rightarrow> if is_no_rows e then Inr False else Inl e
       | Inr row \<Rightarrow> Inr True) })"

text \<open>\<open>Some d\<close>: the delivery has been settled by \<open>d\<close>, the handler returns.\<close>

definition shouldSkipProcessing :: "ext \<Rightarrow> string \<Rightarrow> (product_world, disposition option) state" where
  "shouldSkipProcessing X orderID = do {
     r \<leftarrow> p_db (isEventProcessed X orderID occ_exchangeName);
     State_Monad.return (case r of
       Inl _ \<Rightarrow> Some (Nack True)
     | Inr True \<Rightarrow> Some Ack
     | Inr False \<Rightarrow> None) }"

definition validateStockUpdate :: "OrderCreatedEvent \<Rightarrow> int64 \<Rightarrow> disposition option" where
  "validateStockUpdate event rowsAffected =
     (if rowsAffected \<noteq> of_nat (length (elems (oce_Products event))) then Some (Nack False) else None)"

text \<open>The handler after the check.\<close>

definition processOrderCreated :: "ext \<Rightarrow> OrderCreatedEvent \<Rightarrow> (product_world, disposition) state" where
  "processOrderCreated X event = do {
     r \<leftarrow> p_db (UpdateStockBatch_consumer X event True stockUpdateFailedEventName
       (enc_stock_failed \<lparr>sfe_OrderID = oce_OrderID event, sfe_Products = oce_Products event\<rparr>));
     case r of
       Inl _ \<Rightarrow> State_Monad.return (Nack True)
     | Inr rowsAffected \<Rightarrow>
        (case validateStockUpdate event rowsAffected of
           Some d \<Rightarrow> State_Monad.return d
         | None \<Rightarrow> do {
             _ \<leftarrow> p_go (InvalidateItemsTask (elems (oce_Products event)));
             State_Monad.return Ack }) }"

definition handleOrderCreatedEvent :: "ext \<Rightarrow> json option \<Rightarrow> (product_world, disposition) state" where
  "handleOrderCreatedEvent X body = (case occ_unmarshalEvent body of
     Inl _ \<Rightarrow> State_Monad.return (Nack False)
   | Inr event \<Rightarrow> do {
       skip \<leftarrow> shouldSkipProcessing X (oce_OrderID event);
       case skip of
         Some d \<Rightarrow> State_Monad.return d
       | None \<Rightarrow> processOrderCreated X event })"

text \<open>The goroutine that drops the cached products: one pipeline of deletions.\<close>

definition invalidateCacheForUpdatedProducts :: "OrderItem list \<Rightarrow> (redis, go_error + unit list) state" where
  "invalidateCacheForUpdatedProducts products =
     exec_pipe (map (\<lambda>p. rd_del (''product:'' @ oi_ProductID p)) products)"

definition Start_occ ::
  "ext \<Rightarrow> nat \<Rightarrow> json option session list \<Rightarrow> (rabbit, go_error option \<times> json option list) state" where
  "Start_occ X n ss = Subscribe_fanout X occ_exchangeName occ_queueName occ_consumerName n ss"

subsection \<open>What the handler does\<close>

text \<open>The rows of the items, as the statement reads them back.\<close>

definition item_row :: "ext \<Rightarrow> OrderItem \<Rightarrow> stock_row option" where
  "item_row X i = map_option (\<lambda>u. (Some u, Some (sint (oi_Quantity i)))) (pg_uuid X (oi_ProductID i))"

lemma stock_record_item:
  "stock_record X (enc_order_item i) = (case item_row X i of
     None \<Rightarrow> Inl (InvalidInput ''invalid input syntax for type uuid'') | Some r \<Rightarrow> Inr r)"
  by (simp add: enc_order_item_def json_column_def enc_int32_def item_row_def sint_in_int32
      split: option.splits)

lemma stock_records_items:
  "stock_records X (map enc_order_item is) = Inr rs \<longleftrightarrow> all_some (map (item_row X) is) = Some rs"
proof (induction "is" arbitrary: rs)
  case (Cons i "is")
  show ?case
  proof (cases "item_row X i")
    case None
    then show ?thesis by (simp add: stock_record_item del: stock_record.simps)
  next
    case (Some r)
    show ?thesis
    proof (cases "stock_records X (map enc_order_item is)")
      case (Inl e)
      then have "all_some (map (item_row X) is) = None" using Cons.IH by (cases "all_some (map (item_row X) is)") auto
      then show ?thesis using Inl Some by (simp add: stock_record_item del: stock_record.simps)
    next
      case (Inr rs')
      then have "all_some (map (item_row X) is) = Some rs'" using Cons.IH by simp
      then show ?thesis using Inr Some by (auto simp: stock_record_item simp del: stock_record.simps)
    qed
  qed
qed simp

lemma marshal_items: "marshalOrderItems event = JArr (map enc_order_item (elems (oce_Products event)))"
  by (simp add: marshalOrderItems_def enc_order_item_def)

text \<open>The tables after the transaction of one order.\<close>

definition stock_taken :: "ext \<Rightarrow> OrderCreatedEvent \<Rightarrow> product_db \<Rightarrow> int64 \<Rightarrow> product_db \<Rightarrow> bool" where
  "stock_taken X event w k w' \<longleftrightarrow> (\<exists>rs t u p.
     all_some (map (item_row X) (elems (oce_Products event))) = Some rs \<and>
     parse_uuid X (oce_OrderID event) = Inr u \<and>
     k = of_nat (length (filter (\<lambda>p. stock_match rs p \<noteq> None) (pb_products w))) \<and>
     pb_products w' = map (take_stock t rs) (pb_products w) \<and>
     (\<forall>x q. x \<in> set (pb_products w) \<longrightarrow> stock_match rs x = Some q \<longrightarrow>
        in_int32 (sint (pr_StockQuantity x) - q)) \<and>
     pb_categories w' = pb_categories w \<and>
     pb_processed w' = pb_processed w @ [p] \<and> pd_AggregateID p = u \<and> pd_EventName p = occ_eventName \<and>
     (if k = of_nat (length (elems (oce_Products event))) then pb_outbox w' = pb_outbox w
      else \<exists>ev. pb_outbox w' = pb_outbox w @ [ev] \<and> ob_AggregateID ev = u \<and>
        ob_EventName ev = stockUpdateFailedEventName \<and> ob_Status ev = ''UNPUBLISHED'' \<and>
        ob_Payload ev = enc_stock_failed \<lparr>sfe_OrderID = oce_OrderID event, sfe_Products = oce_Products event\<rparr>))"

definition same_product_tables :: "product_db \<Rightarrow> product_db \<Rightarrow> bool" where
  "same_product_tables w w' \<longleftrightarrow> pb_categories w' = pb_categories w \<and> pb_products w' = pb_products w \<and>
     pb_processed w' = pb_processed w \<and> pb_outbox w' = pb_outbox w"

lemma CreateProcessedEvent_Inr:
  "run_state (CreateProcessedEvent a m) w = (Inr u, w') \<Longrightarrow>
     \<exists>p. pb_processed w' = pb_processed w @ [p] \<and> pd_AggregateID p = a \<and> pd_EventName p = m \<and>
       pb_products w' = pb_products w \<and> pb_categories w' = pb_categories w \<and> pb_outbox w' = pb_outbox w"
  by (auto simp: CreateProcessedEvent_def dest!: db_call_Inr split: if_splits)

lemma CreateOutboxEvent_product_Inr:
  "run_state (CreateOutboxEvent_product a m b) w = (Inr u, w') \<Longrightarrow>
     \<exists>ev. pb_outbox w' = pb_outbox w @ [ev] \<and> ob_AggregateID ev = a \<and> ob_EventName ev = m \<and>
       ob_Payload ev = b \<and> ob_Status ev = ''UNPUBLISHED'' \<and> pb_products w' = pb_products w \<and>
       pb_categories w' = pb_categories w \<and> pb_processed w' = pb_processed w"
  by (auto simp: CreateOutboxEvent_product_def insert_outbox_def dest!: db_call_Inr split: sum.splits if_splits)

lemma UpdateStockBatch_q_Inr:
  assumes "run_state (UpdateStockBatch_q X params) w = (Inr k, w')"
  shows "\<exists>rs t. recordset X params = Inr rs \<and>
    k = of_nat (length (filter (\<lambda>p. stock_match rs p \<noteq> None) (pb_products w))) \<and>
    pb_products w' = map (take_stock t rs) (pb_products w) \<and>
    (\<forall>p q. p \<in> set (pb_products w) \<longrightarrow> stock_match rs p = Some q \<longrightarrow> in_int32 (sint (pr_StockQuantity p) - q)) \<and>
    pb_categories w' = pb_categories w \<and> pb_processed w' = pb_processed w \<and> pb_outbox w' = pb_outbox w"
proof -
  from db_call_Inr [OF assms [unfolded UpdateStockBatch_q_def]]
  have "update_stock X params (calls w) (w\<lparr>calls := Suc (calls w)\<rparr>) = Inr (k, w')" by blast
  then show ?thesis by (rule update_stock_Inr) auto
qed

text \<open>The transaction happens as a whole or not at all. (An error may hide a commit whose reply was
  lost.)\<close>

text \<open>The statements of a transaction that ran to its end.\<close>

lemma stock_taken_steps:
  assumes st: "run_state (UpdateStockBatch_q X (marshalOrderItems event)) v = (Inr k, w3)"
    and u: "parse_uuid X (oce_OrderID event) = Inr u"
    and pe: "run_state (CreateProcessedEvent u occ_eventName) w3 = (Inr y, w4)"
    and ob: "if k = of_nat (length (elems (oce_Products event))) then w2 = w4
      else \<exists>x. run_state (CreateOutboxEvent_product u stockUpdateFailedEventName
        (enc_stock_failed \<lparr>sfe_OrderID = oce_OrderID event, sfe_Products = oce_Products event\<rparr>)) w4 = (Inr x, w2)"
    and v: "v = w\<lparr>calls := c, txn := InTx t\<rparr>" and w': "w' = w2\<lparr>calls := c', txn := NoTx\<rparr>"
  shows "stock_taken X event w k w'"
proof -
  obtain rs t' where rs: "recordset X (marshalOrderItems event) = Inr rs"
    "k = of_nat (length (filter (\<lambda>p. stock_match rs p \<noteq> None) (pb_products v)))"
    "pb_products w3 = map (take_stock t' rs) (pb_products v)"
    "\<forall>p q. p \<in> set (pb_products v) \<longrightarrow> stock_match rs p = Some q \<longrightarrow> in_int32 (sint (pr_StockQuantity p) - q)"
    "pb_categories w3 = pb_categories v" "pb_processed w3 = pb_processed v" "pb_outbox w3 = pb_outbox v"
    using UpdateStockBatch_q_Inr [OF st] by blast
  obtain p where p: "pb_processed w4 = pb_processed w3 @ [p]" "pd_AggregateID p = u"
    "pd_EventName p = occ_eventName" "pb_products w4 = pb_products w3" "pb_categories w4 = pb_categories w3"
    "pb_outbox w4 = pb_outbox w3"
    using CreateProcessedEvent_Inr [OF pe] by blast
  have items: "all_some (map (item_row X) (elems (oce_Products event))) = Some rs"
    using rs(1) by (simp add: marshal_items stock_records_items)
  show ?thesis
  proof (cases "k = of_nat (length (elems (oce_Products event)))")
    case True
    then show ?thesis using ob p rs items u v w' unfolding stock_taken_def
      by (intro exI [of _ rs] exI [of _ t'] exI [of _ u] exI [of _ p]) auto
  next
    case False
    then obtain x where "run_state (CreateOutboxEvent_product u stockUpdateFailedEventName
        (enc_stock_failed \<lparr>sfe_OrderID = oce_OrderID event, sfe_Products = oce_Products event\<rparr>)) w4 = (Inr x, w2)"
      using ob by auto
    from CreateOutboxEvent_product_Inr [OF this] show ?thesis
      using False p rs items u v w' unfolding stock_taken_def
      by (intro exI [of _ rs] exI [of _ t'] exI [of _ u] exI [of _ p]) auto
  qed
qed

lemma UpdateStockBatch_consumer_effect:
  assumes "run_state (UpdateStockBatch_consumer X event True stockUpdateFailedEventName
    (enc_stock_failed \<lparr>sfe_OrderID = oce_OrderID event, sfe_Products = oce_Products event\<rparr>)) w = (r, w')"
  shows "(\<exists>e. r = Inl e) \<and> same_product_tables w w' \<or>
    (\<exists>k. stock_taken X event w k w' \<and> (r = Inr k \<or> (\<exists>e. r = Inl e)))"
  using assms unfolding UpdateStockBatch_consumer_def
proof (cases rule: with_tx_cases)
  case (rolled_back e c)
  then show ?thesis by (simp add: same_product_tables_def)
next
  case (committed c t k w2 c')
  let ?w = "w\<lparr>calls := c, txn := InTx t\<rparr>"
  from committed(1) obtain u w3 v w4 where
    st: "run_state (UpdateStockBatch_q X (marshalOrderItems event)) ?w = (Inr k, w3)" and
    u: "parse_uuid X (oce_OrderID event) = Inr u" and
    pe: "run_state (CreateProcessedEvent u occ_eventName) w3 = (Inr v, w4)" and
    ob: "if k = of_nat (length (elems (oce_Products event))) then w2 = w4
      else \<exists>x. run_state (CreateOutboxEvent_product u stockUpdateFailedEventName
        (enc_stock_failed \<lparr>sfe_OrderID = oce_OrderID event, sfe_Products = oce_Products event\<rparr>)) w4 = (Inr x, w2)"
    by (auto simp: attempt_Inr attempt_pure_Inr parseOrderID_def simp del: run_attempt run_attempt_pure
        split: if_splits)
  from stock_taken_steps [OF st u pe ob refl committed(3)] show ?thesis using committed(4) by blast
qed

lemma GetProcessed_effect:
  "run_state (GetProcessedEventByAggregateIDAndEventName a m) w = (r, w') \<Longrightarrow>
     same_product_tables w w' \<and> fault_at w' = fault_at w \<and> clock_at w' = clock_at w \<and> uuid_at w' = uuid_at w"
  unfolding GetProcessedEventByAggregateIDAndEventName_def query_row_def
  by (auto split: prod.splits elim!: db_call_cases simp: same_product_tables_def failed_def)

lemma isEventProcessed_effect:
  "run_state (isEventProcessed X i m) w = (r, w') \<Longrightarrow> same_product_tables w w'"
  by (auto simp: isEventProcessed_def same_product_tables_def dest!: GetProcessed_effect
      split: sum.splits prod.splits)

lemma shouldSkip_effect:
  "run_state (shouldSkipProcessing X i) w = (r, w') \<Longrightarrow> same_product_tables (pw_db w) (pw_db w')"
  by (auto simp: shouldSkipProcessing_def dest!: isEventProcessed_effect split: prod.splits)

lemma stock_taken_same: "same_product_tables w v \<Longrightarrow> stock_taken X event v k w' \<Longrightarrow> stock_taken X event w k w'"
  unfolding stock_taken_def same_product_tables_def by (elim conjE) (simp only:)

text \<open>How the part after the check settles a delivery.\<close>

lemma process_effect:
  assumes "run_state (processOrderCreated X event) w = (d, w')"
  shows "d = Nack True \<and> (same_product_tables (pw_db w) (pw_db w') \<or>
      (\<exists>k. stock_taken X event (pw_db w) k (pw_db w'))) \<or>
    (\<exists>k. stock_taken X event (pw_db w) k (pw_db w') \<and>
      d = (if k = of_nat (length (elems (oce_Products event))) then Ack else Nack False))"
proof -
  obtain r d1 where r: "run_state (UpdateStockBatch_consumer X event True stockUpdateFailedEventName
    (enc_stock_failed \<lparr>sfe_OrderID = oce_OrderID event, sfe_Products = oce_Products event\<rparr>)) (pw_db w) = (r, d1)"
    by (rule run_pair)
  note eff = UpdateStockBatch_consumer_effect [OF r]
  show ?thesis
  proof (cases r)
    case (Inl e)
    then have "d = Nack True" "pw_db w' = d1" using assms r by (auto simp: processOrderCreated_def)
    then show ?thesis using eff by auto
  next
    case (Inr k)
    then have "d = (if k = of_nat (length (elems (oce_Products event))) then Ack else Nack False)"
      "pw_db w' = d1"
      using assms r by (auto simp: processOrderCreated_def validateStockUpdate_def split: if_splits)
    then show ?thesis using eff Inr by auto
  qed
qed

lemma handle_order_steps:
  assumes "run_state (handleOrderCreatedEvent X body) w = (d, w')"
  shows "same_product_tables (pw_db w) (pw_db w') \<or>
    (\<exists>event w1. unmarshal_order_created body = Inr event \<and> same_product_tables (pw_db w) (pw_db w1) \<and>
       run_state (processOrderCreated X event) w1 = (d, w'))"
proof (cases "occ_unmarshalEvent body")
  case (Inl e)
  then show ?thesis using assms by (simp add: handleOrderCreatedEvent_def same_product_tables_def)
next
  case (Inr event)
  obtain s w1 where s: "run_state (shouldSkipProcessing X (oce_OrderID event)) w = (s, w1)" by (rule run_pair)
  then show ?thesis using assms Inr shouldSkip_effect [OF s]
    by (cases s) (auto simp: handleOrderCreatedEvent_def occ_unmarshalEvent_def)
qed

text \<open>When as many products changed as there are items, and the items name different products, every
  item was taken in full.\<close>

lemma all_some_nth: "all_some ys = Some zs \<Longrightarrow> length zs = length ys \<and> (\<forall>i < length ys. ys ! i = Some (zs ! i))"
proof (induction ys arbitrary: zs)
  case (Cons y ys)
  then show ?case by (cases y; cases "all_some ys") (auto simp: nth_Cons split: nat.splits)
qed simp

lemma stock_match_in:
  "stock_match rs p = Some q \<Longrightarrow> (Some (pr_ID p), Some q) \<in> set rs"
  by (force simp: stock_match_def dest!: find_Some_in split: option.splits)

lemma taken_in_full:
  assumes ids: "distinct (map fst rs)" and rows: "\<And>r. r \<in> set rs \<Longrightarrow> \<exists>u q. r = (Some u, Some q)"
    and pids: "distinct (map pr_ID ps)"
    and all: "length (filter (\<lambda>p. stock_match rs p \<noteq> None) ps) = length rs"
    and r: "(Some u, Some q) \<in> set rs"
  shows "\<exists>p \<in> set ps. pr_ID p = u \<and> stock_match rs p = Some q"
proof -
  let ?hit = "filter (\<lambda>p. stock_match rs p \<noteq> None) ps"
  have sub: "(\<lambda>p. Some (pr_ID p)) ` set ?hit \<subseteq> fst ` set rs"
    using stock_match_in by force
  have "card ((\<lambda>p. Some (pr_ID p)) ` set ?hit) = length ?hit"
  proof -
    have "distinct (map pr_ID ?hit)" using pids by (rule distinct_map_filter')
    then have "distinct ?hit" "inj_on pr_ID (set ?hit)" by (simp_all add: distinct_map)
    then have "inj_on (\<lambda>p. Some (pr_ID p)) (set ?hit)" by (simp add: inj_on_def)
    then show ?thesis using \<open>distinct ?hit\<close> by (metis card_image distinct_card)
  qed
  moreover have "card (fst ` set rs) = length rs" using ids by (metis distinct_card length_map set_map)
  ultimately have "(\<lambda>p. Some (pr_ID p)) ` set ?hit = fst ` set rs"
    using all sub by (intro card_subset_eq) simp_all
  moreover have "Some u \<in> fst ` set rs" using r by force
  ultimately have "Some u \<in> (\<lambda>p. Some (pr_ID p)) ` set ?hit" by simp
  then obtain p where p: "p \<in> set ?hit" "pr_ID p = u" by blast
  then obtain q' where q': "stock_match rs p = Some q'" by auto
  then have "(Some u, Some q') \<in> set rs" using stock_match_in p(2) by blast
  then have "q' = q" using eq_key_imp_eq_value [OF ids _ r] by blast
  then show ?thesis using p q' by auto
qed


lemma taken_exactly:
  assumes ok: "product_tables_ok w" and taken: "stock_taken X event w k w'"
    and k: "k = of_nat (length (elems (oce_Products event)))"
    and small: "length (pb_products w) < 2 ^ 63" "length (elems (oce_Products event)) < 2 ^ 63"
    and ids: "distinct (map (\<lambda>i. pg_uuid X (oi_ProductID i)) (elems (oce_Products event)))"
    and i: "i \<in> set (elems (oce_Products event))"
  shows "\<exists>u p p'. pg_uuid X (oi_ProductID i) = Some u \<and> p \<in> set (pb_products w) \<and> p' \<in> set (pb_products w') \<and>
    pr_ID p = u \<and> pr_ID p' = u \<and> sint (oi_Quantity i) \<le> sint (pr_StockQuantity p) \<and>
    sint (pr_StockQuantity p') = sint (pr_StockQuantity p) - sint (oi_Quantity i)"
proof -
  let ?is = "elems (oce_Products event)"
  obtain rs t where rs: "all_some (map (item_row X) ?is) = Some rs"
    and n: "k = of_nat (length (filter (\<lambda>p. stock_match rs p \<noteq> None) (pb_products w)))"
    and w': "pb_products w' = map (take_stock t rs) (pb_products w)"
    and fits: "\<forall>x q. x \<in> set (pb_products w) \<longrightarrow> stock_match rs x = Some q \<longrightarrow>
        in_int32 (sint (pr_StockQuantity x) - q)"
    using taken unfolding stock_taken_def by blast
  have len: "length rs = length ?is" and nth: "j < length ?is \<Longrightarrow> item_row X (?is ! j) = Some (rs ! j)" for j
    using all_some_nth [OF rs] by auto
  have row: "rs ! j = (pg_uuid X (oi_ProductID (?is ! j)), Some (sint (oi_Quantity (?is ! j)))) \<and>
      pg_uuid X (oi_ProductID (?is ! j)) \<noteq> None" if "j < length ?is" for j
    using nth [OF that] by (auto simp: item_row_def)
  have "map fst rs = map (\<lambda>i. pg_uuid X (oi_ProductID i)) ?is"
    using row len by (intro nth_equalityI) auto
  then have d: "distinct (map fst rs)" using ids by simp
  have rows: "\<exists>u q. r = (Some u, Some q)" if "r \<in> set rs" for r
    using that row len by (auto simp: in_set_conv_nth)
  have "length (filter (\<lambda>p. stock_match rs p \<noteq> None) (pb_products w)) < 2 ^ 63"
    using length_filter_le [of "\<lambda>p. stock_match rs p \<noteq> None" "pb_products w"] small(1) by linarith
  then have all: "length (filter (\<lambda>p. stock_match rs p \<noteq> None) (pb_products w)) = length rs"
    using n k small(2) len by (metis of_nat_eq_small)
  obtain j where j: "j < length ?is" "i = ?is ! j" using i by (auto simp: in_set_conv_nth)
  then obtain u where u: "pg_uuid X (oi_ProductID i) = Some u" using row by blast
  have "rs ! j \<in> set rs" using j(1) len by simp
  then have "(Some u, Some (sint (oi_Quantity i))) \<in> set rs" using row [OF j(1)] j(2) u by simp
  from taken_in_full [OF d rows _ all this] ok obtain p where p: "p \<in> set (pb_products w)" "pr_ID p = u"
    "stock_match rs p = Some (sint (oi_Quantity i))" by (auto simp: product_tables_ok_def)
  have "take_stock t rs p \<in> set (pb_products w')" using p(1) by (simp add: w')
  moreover have "sint (pr_StockQuantity (take_stock t rs p)) = sint (pr_StockQuantity p) - sint (oi_Quantity i)"
    using take_stock_quantity(2) [OF p(3)] fits p by blast
  ultimately show ?thesis using u p stock_match_le [OF p(3)] by (metis take_stock_row(1))
qed

text \<open>The invariant of the tables, seen from the service's state.\<close>

definition product_ok :: "product_world \<Rightarrow> bool" where
  "product_ok w \<longleftrightarrow> product_tables_ok (pw_db w)"

lemma keeps_p [keeps_intros]:
  "keeps product_tables_ok m \<Longrightarrow> keeps product_ok (p_db m)"
  "keeps product_ok (p_redis n)" "keeps product_ok (p_go t)"
  unfolding p_db_def by (auto simp: keeps_def product_ok_def split: prod.splits)

lemma keeps_shouldSkip [keeps_intros]: "keeps product_ok (shouldSkipProcessing X i)"
  unfolding shouldSkipProcessing_def isEventProcessed_def by (intro keeps_intros)

lemma keeps_processOrderCreated [keeps_intros]: "keeps product_ok (processOrderCreated X event)"
  unfolding processOrderCreated_def by (intro keeps_intros)

lemma keeps_handleOrderCreated: "keeps product_ok (handleOrderCreatedEvent X body)"
  unfolding handleOrderCreatedEvent_def by (intro keeps_intros)

subsection \<open>An instance\<close>

definition product_row_sample :: "uuid \<Rightarrow> int32 \<Rightarrow> ProductRow" where
  "product_row_sample i q = \<lparr>pr_ID = i, pr_CategoryID = None, pr_Name = ''tea'', pr_Description = None,
     pr_Price = Num (5 / 2), pr_StockQuantity = q, pr_CreatedAt = 0, pr_UpdatedAt = None\<rparr>"

definition product_db_sample :: product_db where
  "product_db_sample = \<lparr>calls = 0, fault_at = (\<lambda>_. None), clock_at = int, uuid_at = of_nat, txn = NoTx,
     pb_categories = [], pb_products = [product_row_sample 5 7, product_row_sample 6 0],
     pb_processed = [], pb_outbox = []\<rparr>"

definition product_world_sample :: product_world where
  "product_world_sample = \<lparr>pw_db = product_db_sample,
     pw_redis = \<lparr>rd_data = Map.empty, rd_calls = 0, rd_fault = (\<lambda>_. None), rd_clock = int\<rparr>, pw_tasks = []\<rparr>"

text \<open>An order of two pieces of each of the given products.\<close>

definition order_event_sample :: "uuid list \<Rightarrow> OrderCreatedEvent" where
  "order_event_sample is = \<lparr>oce_OrderID = uuid_text sample_ext 9, oce_UserID = uuid_text sample_ext 7,
     oce_UserEmail = ''a@b.c'', oce_Products = Some (map (\<lambda>i. \<lparr>oi_ProductID = uuid_text sample_ext i, oi_Quantity = 2\<rparr>) is)\<rparr>"

lemma sample_item_row: "item_row sample_ext \<lparr>oi_ProductID = uuid_text sample_ext i, oi_Quantity = q\<rparr> =
    Some (Some i, Some (sint q))"
  using sample_pg_uuids by (simp add: item_row_def pg_reads_uuids_def)

lemma sample_records: "all_some (map (item_row sample_ext) (elems (oce_Products (order_event_sample is)))) =
    Some (map (\<lambda>i. (Some i, Some 2)) is)"
  by (induction "is") (simp_all add: order_event_sample_def sample_item_row)

lemma sample_recordset: "recordset sample_ext (marshalOrderItems (order_event_sample is)) =
    Inr (map (\<lambda>i. (Some i, Some 2)) is)"
  using sample_records [of "is"] by (simp add: marshal_items stock_records_items)

lemma product_sample_ok: "product_tables_ok product_db_sample"
  by (simp add: product_tables_ok_def product_db_sample_def product_row_sample_def)

lemma sample_parse: "parse_uuid sample_ext (oce_OrderID (order_event_sample is)) = Inr 9"
  using parse_uuid_text [OF sample_uuids, of 9] by (simp add: order_event_sample_def)

subsection \<open>Runs without faults\<close>

definition hits :: "stock_row list \<Rightarrow> product_db \<Rightarrow> ProductRow list" where
  "hits rs w = filter (\<lambda>p. stock_match rs p \<noteq> None) (pb_products w)"

definition fits :: "stock_row list \<Rightarrow> product_db \<Rightarrow> bool" where
  "fits rs w \<longleftrightarrow> (\<forall>p \<in> set (hits rs w). in_int32 (sint (pr_StockQuantity p) - the (stock_match rs p)))"

lemma run_UpdateStockBatch_q:
  assumes "fault_at w (calls w) = None" "txn w \<noteq> TxFailed" "recordset X j = Inr rs" "fits rs w"
  shows "run_state (UpdateStockBatch_q X j) w = (Inr (of_nat (length (hits rs w))),
    w\<lparr>calls := Suc (calls w), pb_products := map (take_stock (now w (calls w)) rs) (pb_products w)\<rparr>)"
  using assms by (simp add: UpdateStockBatch_q_def run_db_call update_stock_def hits_def fits_def now_def
      cong: tx_state.case_cong)

lemma run_CreateProcessedEvent:
  assumes "fault_at w (calls w) = None" "txn w \<noteq> TxFailed" "uuid_at w (calls w) \<notin> pd_ID ` set (pb_processed w)"
  shows "run_state (CreateProcessedEvent u m) w = (Inr (), w\<lparr>calls := Suc (calls w),
    pb_processed := pb_processed w @ [\<lparr>pd_ID = uuid_at w (calls w), pd_AggregateID = u, pd_EventName = m,
       pd_ProcessedAt = now w (calls w)\<rparr>]\<rparr>)"
  using assms by (simp add: CreateProcessedEvent_def run_db_call now_def cong: tx_state.case_cong)

lemma run_CreateOutboxEvent_product:
  assumes "fault_at w (calls w) = None" "txn w \<noteq> TxFailed" "uuid_at w (calls w) \<notin> ob_ID ` set (pb_outbox w)"
    "length m \<le> 150"
  shows "run_state (CreateOutboxEvent_product u m b) w = (Inr (), w\<lparr>calls := Suc (calls w),
    pb_outbox := pb_outbox w @ [\<lparr>ob_ID = uuid_at w (calls w), ob_AggregateID = u, ob_EventName = m,
       ob_Payload = b, ob_Status = ''UNPUBLISHED'', ob_CreatedAt = now w (calls w), ob_PublishedAt = None\<rparr>]\<rparr>)"
  using assms by (simp add: CreateOutboxEvent_product_def run_db_call insert_outbox_def now_def
      cong: tx_state.case_cong)

text \<open>The transaction of one order when the database answers.\<close>

definition after_order ::
  "stock_row list \<Rightarrow> uuid \<Rightarrow> OrderCreatedEvent \<Rightarrow> json \<Rightarrow> product_db \<Rightarrow> product_db" where
  "after_order rs u event payload w = (let c = calls w; t = clock_at w c;
     full = (length (hits rs w) = length (elems (oce_Products event)));
     v = w\<lparr>pb_products := map (take_stock t rs) (pb_products w),
       pb_processed := pb_processed w @ [\<lparr>pd_ID = uuid_at w (c + 2), pd_AggregateID = u,
         pd_EventName = occ_eventName, pd_ProcessedAt = t\<rparr>]\<rparr> in
     if full then v\<lparr>calls := c + 4\<rparr>
     else v\<lparr>calls := c + 5, pb_outbox := pb_outbox w @ [\<lparr>ob_ID = uuid_at w (c + 3), ob_AggregateID = u,
       ob_EventName = stockUpdateFailedEventName, ob_Payload = payload, ob_Status = ''UNPUBLISHED'',
       ob_CreatedAt = t, ob_PublishedAt = None\<rparr>]\<rparr>)"

lemma run_UpdateStockBatch_consumer:
  assumes "\<forall>n. fault_at w n = None" and "txn w = NoTx"
    and "recordset X (marshalOrderItems event) = Inr rs" and "fits rs w"
    and "parse_uuid X (oce_OrderID event) = Inr u"
    and "uuid_at w (calls w + 2) \<notin> pd_ID ` set (pb_processed w)"
    and "uuid_at w (calls w + 3) \<notin> ob_ID ` set (pb_outbox w)"
    and "length (pb_products w) < 2 ^ 63" "length (elems (oce_Products event)) < 2 ^ 63"
  shows "run_state (UpdateStockBatch_consumer X event True stockUpdateFailedEventName payload) w =
    (Inr (of_nat (length (hits rs w))), after_order rs u event payload w)"
proof -
  have "length (hits rs w) < 2 ^ 63"
    using length_filter_le [of "\<lambda>p. stock_match rs p \<noteq> None" "pb_products w"] assms(8)
    unfolding hits_def by linarith
  then have k: "(of_nat (length (hits rs w)) :: int64) = of_nat (length (elems (oce_Products event)))
      \<longleftrightarrow> length (hits rs w) = length (elems (oce_Products event))"
    using of_nat_eq_iff_small [OF _ assms(9)] by blast
  let ?c = "calls w"
  let ?t = "clock_at w ?c"
  have n: "?c + 2 = Suc (Suc ?c)" "?c + 3 = Suc (Suc (Suc ?c))" "?c + 4 = Suc (Suc (Suc (Suc ?c)))"
    "?c + 5 = Suc (Suc (Suc (Suc (Suc ?c))))" by simp_all
  let ?w1 = "w\<lparr>calls := Suc ?c, txn := InTx ?t\<rparr>"
  let ?w2 = "?w1\<lparr>calls := Suc (Suc ?c), pb_products := map (take_stock ?t rs) (pb_products w)\<rparr>"
  let ?w3 = "?w2\<lparr>calls := Suc (Suc (Suc ?c)), pb_processed := pb_processed w @
    [\<lparr>pd_ID = uuid_at w (Suc (Suc ?c)), pd_AggregateID = u, pd_EventName = occ_eventName, pd_ProcessedAt = ?t\<rparr>]\<rparr>"
  let ?w4 = "?w3\<lparr>calls := Suc (Suc (Suc (Suc ?c))), pb_outbox := pb_outbox w @
    [\<lparr>ob_ID = uuid_at w (Suc (Suc (Suc ?c))), ob_AggregateID = u, ob_EventName = stockUpdateFailedEventName,
      ob_Payload = payload, ob_Status = ''UNPUBLISHED'', ob_CreatedAt = ?t, ob_PublishedAt = None\<rparr>]\<rparr>"
  have f: "fits rs ?w1" "hits rs ?w1 = hits rs w" using assms(4) by (simp_all add: fits_def hits_def)
  have r1: "run_state (UpdateStockBatch_q X (marshalOrderItems event)) ?w1 =
      (Inr (of_nat (length (hits rs w))), ?w2)"
    using run_UpdateStockBatch_q [OF _ _ assms(3) f(1)] assms(1) f(2) by (simp add: now_def)
  have r2: "run_state (CreateProcessedEvent u occ_eventName) ?w2 = (Inr (), ?w3)"
    using run_CreateProcessedEvent [of ?w2 u occ_eventName] assms(1) assms(6) [unfolded n]
    by (simp add: now_def)
  have r3: "run_state (CreateOutboxEvent_product u stockUpdateFailedEventName payload) ?w3 = (Inr (), ?w4)"
    using run_CreateOutboxEvent_product [of ?w3 stockUpdateFailedEventName u payload] assms(1) assms(7) [unfolded n]
    by (simp add: now_def stockUpdateFailedEventName_def)
  have body: "run_state (UpdateStockBatch_consumer X event True stockUpdateFailedEventName payload) w =
    (case (if length (hits rs w) = length (elems (oce_Products event)) then ?w3 else ?w4) of
      v \<Rightarrow> (Inr (of_nat (length (hits rs w))), v\<lparr>calls := Suc (calls v), txn := NoTx\<rparr>))"
    using assms(1,2,5) k r1 r2 r3
    by (simp add: UpdateStockBatch_consumer_def run_with_tx parseOrderID_def run_tx_commit)
  show ?thesis unfolding body after_order_def Let_def n using assms(2) by simp
qed

lemma run_shouldSkip:
  assumes "\<forall>n. fault_at (pw_db w) n = None" and "txn (pw_db w) = NoTx" and "parse_uuid X i = Inr u"
  shows "run_state (shouldSkipProcessing X i) w =
    (if \<exists>r \<in> set (pb_processed (pw_db w)). pd_AggregateID r = u \<and> pd_EventName r = occ_exchangeName
     then Some Ack else None, w\<lparr>pw_db := (pw_db w)\<lparr>calls := Suc (calls (pw_db w))\<rparr>\<rparr>)"
proof (cases "find (\<lambda>r. pd_AggregateID r = u \<and> pd_EventName r = occ_exchangeName) (pb_processed (pw_db w))")
  case None
  then have "\<not> (\<exists>r \<in> set (pb_processed (pw_db w)). pd_AggregateID r = u \<and> pd_EventName r = occ_exchangeName)"
    unfolding find_None_iff by blast
  then show ?thesis using assms None
    by (simp add: shouldSkipProcessing_def isEventProcessed_def
        GetProcessedEventByAggregateIDAndEventName_def run_query_row run_db_call)
next
  case (Some r)
  then have "\<exists>r \<in> set (pb_processed (pw_db w)). pd_AggregateID r = u \<and> pd_EventName r = occ_exchangeName"
    using find_Some_in by fastforce
  then show ?thesis using assms Some
    by (simp add: shouldSkipProcessing_def isEventProcessed_def
        GetProcessedEventByAggregateIDAndEventName_def run_query_row run_db_call)
qed

end
