(* ===== verification/Consumers.thy ===== *)
theory Consumers
  imports Rabbit
begin

text \<open>
  The contract two consumers of created orders share (\<^verbatim>\<open>internal/events/consumers/order_created_consumer.go\<close> of the
  product service and \<^verbatim>\<open>internal/events/order_created_consumer.go\<close> of the cart service): a delivery is
  decoded, the mark of its order is looked up, and the order is processed and marked in one transaction. The
  broker may deliver an order any number of times; the locale derives from the contract that deliveries that
  follow each other take effect at most once per order. The services interpret it on their handlers.
\<close>

text \<open>The deliveries of a sequence that are about an order and change the state.\<close>

fun effective_deliveries ::
  "(json option \<Rightarrow> ('w, disposition) state) \<Rightarrow> ('w \<Rightarrow> 'w \<Rightarrow> bool) \<Rightarrow> (json option \<Rightarrow> bool) \<Rightarrow> json option list \<Rightarrow> 'w \<Rightarrow> nat" where
  "effective_deliveries handle same about [] w = 0"
| "effective_deliveries handle same about (b # bs) w =
     (let w' = snd (run_state (handle b) w) in
      (if about b \<and> \<not> same w w' then 1 else 0) + effective_deliveries handle same about bs w')"

definition about_order :: "ext \<Rightarrow> uuid \<Rightarrow> json option \<Rightarrow> bool" where
  "about_order X u body = (case unmarshal_order_created body of
     Inl _ \<Rightarrow> False | Inr event \<Rightarrow> parse_uuid X (oce_OrderID event) = Inr u)"

locale once_consumer =
  fixes X :: ext
    and check :: "string \<Rightarrow> ('w, disposition option) state"
    and process :: "OrderCreatedEvent \<Rightarrow> ('w, disposition) state"
    and handle :: "json option \<Rightarrow> ('w, disposition) state"
    and marked :: "uuid \<Rightarrow> 'w \<Rightarrow> bool"
    and same :: "'w \<Rightarrow> 'w \<Rightarrow> bool"
  assumes handle: "handle body = (case unmarshal_order_created body of
      Inl _ \<Rightarrow> State_Monad.return (Nack False)
    | Inr event \<Rightarrow> do { skip \<leftarrow> check (oce_OrderID event);
        case skip of Some d \<Rightarrow> State_Monad.return d | None \<Rightarrow> process event })"
    and same_refl: "same w w"
    and same_trans: "same w v \<Longrightarrow> same v v' \<Longrightarrow> same w v'"
    and same_marked: "same w v \<Longrightarrow> marked u v = marked u w"
    and check_same: "run_state (check i) w = (s, w') \<Longrightarrow> same w w'"
    and check_marked: "run_state (check i) w = (s, w') \<Longrightarrow> parse_uuid X i = Inr u \<Longrightarrow> marked u w \<Longrightarrow> s \<noteq> None"
    and process_marks: "run_state (process event) w = (d, w') \<Longrightarrow> same w w' \<or>
      (\<exists>u. parse_uuid X (oce_OrderID event) = Inr u \<and> marked u w')"
    and process_keeps: "run_state (process event) w = (d, w') \<Longrightarrow> marked u w \<Longrightarrow> marked u w'"
begin

lemma once_cases:
  assumes "run_state (handle body) w = (d, w')"
  obtains (unchanged) "same w w'"
  | (processed) event w1 where "unmarshal_order_created body = Inr event"
      "run_state (check (oce_OrderID event)) w = (None, w1)" "run_state (process event) w1 = (d, w')"
proof (cases "unmarshal_order_created body")
  case (Inl e)
  then show ?thesis using assms same_refl that(1) by (simp add: handle)
next
  case (Inr event)
  obtain s w1 where s: "run_state (check (oce_OrderID event)) w = (s, w1)" by (rule run_pair)
  then show ?thesis using assms Inr check_same that by (cases s) (auto simp: handle)
qed

lemma handle_keeps: "run_state (handle body) w = (d, w') \<Longrightarrow> marked u w \<Longrightarrow> marked u w'"
proof (erule once_cases)
  show "same w w' \<Longrightarrow> marked u w \<Longrightarrow> marked u w'" by (simp add: same_marked)
  show "marked u w'" if "run_state (check (oce_OrderID event)) w = (None, w1)" "run_state (process event) w1 = (d, w')"
    "marked u w" for event w1
    using process_keeps [OF that(2)] check_same [OF that(1)] that(3) by (simp add: same_marked)
qed

text \<open>A delivery that changes the state marks its order.\<close>

lemma handle_marks:
  assumes "run_state (handle body) w = (d, w')" and "about_order X u body" and "\<not> same w w'"
  shows "marked u w'"
  using assms(1)
proof (cases rule: once_cases)
  case unchanged
  then show ?thesis using assms(3) by simp
next
  case (processed event w1)
  have "\<not> same w1 w'" using check_same [OF processed(2)] same_trans assms(3) by blast
  then show ?thesis using process_marks [OF processed(3)] assms(2) processed(1) by (auto simp: about_order_def)
qed

text \<open>A delivery of an order that is marked changes nothing, whatever the calls in it return.\<close>

lemma redelivery:
  assumes "run_state (handle body) w = (d, w')" and "about_order X u body" and "marked u w"
  shows "same w w'"
  using assms(1)
proof (cases rule: once_cases)
  case (processed event w1)
  then show ?thesis using check_marked [OF processed(2) _ assms(3)] assms(2) by (simp add: about_order_def)
qed

lemma marked_no_effect: "marked u w \<Longrightarrow> effective_deliveries handle same (about_order X u) bs w = 0"
proof (induction bs arbitrary: w)
  case (Cons b bs)
  obtain d w' where run: "run_state (handle b) w = (d, w')" by (rule run_pair)
  show ?case using Cons.IH handle_keeps [OF run Cons.prems] redelivery [OF run _ Cons.prems] run by simp
qed simp

lemma at_most_once: "effective_deliveries handle same (about_order X u) bs w \<le> 1"
proof (induction bs arbitrary: w)
  case (Cons b bs)
  obtain d w' where run: "run_state (handle b) w = (d, w')" by (rule run_pair)
  show ?case using Cons.IH [of w'] marked_no_effect [OF handle_marks [OF run]] run by simp
qed simp

end

end
