(* ===== verification/ProductEvents.thy ===== *)
theory ProductEvents
  imports ProductConsumer Consumers
begin

text \<open>
  What the product service's consumer of created orders guarantees: a single delivery, a
  redelivery, and deliveries that run at the same time. Concurrent deliveries are the step relation
  \<open>consuming\<close>: each delivery checks and updates in two steps, and the steps of different deliveries
  interleave in any order.
\<close>

subsection \<open>A delivery that is acknowledged\<close>

definition processed_mark :: "uuid \<Rightarrow> ProcessedEventRow \<Rightarrow> bool" where
  "processed_mark u r \<longleftrightarrow> pd_AggregateID r = u \<and> pd_EventName r = occ_eventName"

definition already_processed :: "ext \<Rightarrow> OrderCreatedEvent \<Rightarrow> product_db \<Rightarrow> bool" where
  "already_processed X event w \<longleftrightarrow> (\<exists>u. parse_uuid X (oce_OrderID event) = Inr u \<and>
     (\<exists>r \<in> set (pb_processed w). processed_mark u r))"

lemma event_names: "occ_exchangeName = occ_eventName"
  by (simp add: occ_exchangeName_def occ_eventName_def)

lemma shouldSkip_Ack:
  assumes "run_state (shouldSkipProcessing X (oce_OrderID event)) w = (Some Ack, w')"
  shows "already_processed X event (pw_db w)"
proof -
  obtain u row d where "parse_uuid X (oce_OrderID event) = Inr u"
    and q: "run_state (GetProcessedEventByAggregateIDAndEventName u occ_exchangeName) (pw_db w) = (Inr row, d)"
    using assms by (auto simp: shouldSkipProcessing_def isEventProcessed_def
        split: sum.splits prod.splits if_splits bool.splits)
  moreover have "find (\<lambda>r. pd_AggregateID r = u \<and> pd_EventName r = occ_exchangeName)
      (pb_processed (pw_db w)) = Some row"
    using query_row_Inr [OF q [unfolded GetProcessedEventByAggregateIDAndEventName_def]] by simp
  ultimately show ?thesis
    unfolding already_processed_def processed_mark_def event_names by (blast dest: find_Some_in)
qed

lemma handle_cases:
  assumes "unmarshal_order_created body = Inr event" and "run_state (handleOrderCreatedEvent X body) w = (d, w')"
  obtains (skipped) "run_state (shouldSkipProcessing X (oce_OrderID event)) w = (Some d, w')"
  | (done_now) w1 where "run_state (shouldSkipProcessing X (oce_OrderID event)) w = (None, w1)"
      "run_state (processOrderCreated X event) w1 = (d, w')"
proof -
  obtain s w1 where s: "run_state (shouldSkipProcessing X (oce_OrderID event)) w = (s, w1)" by (rule run_pair)
  then show ?thesis using assms that
    by (cases s) (auto simp: handleOrderCreatedEvent_def occ_unmarshalEvent_def)
qed

lemma stock_taken_unlisted:
  assumes "stock_taken X event w k w'" and "p \<in> set (pb_products w)"
    and "pr_ID p \<notin> (\<lambda>i. the (pg_uuid X (oi_ProductID i))) ` set (elems (oce_Products event))"
  shows "p \<in> set (pb_products w')"
proof -
  let ?is = "elems (oce_Products event)"
  obtain rs t where rs: "all_some (map (item_row X) ?is) = Some rs"
    and w': "pb_products w' = map (take_stock t rs) (pb_products w)"
    using assms(1) unfolding stock_taken_def by blast
  have "stock_match rs p = None"
  proof (rule ccontr)
    assume "stock_match rs p \<noteq> None"
    then obtain q where "(Some (pr_ID p), Some q) \<in> set rs" using stock_match_in by blast
    then obtain j where j: "j < length rs" "rs ! j = (Some (pr_ID p), Some q)" by (auto simp: in_set_conv_nth)
    then have "item_row X (?is ! j) = Some (Some (pr_ID p), Some q)" "j < length ?is"
      using all_some_nth [OF rs] by auto
    then show False using assms(3) by (auto simp: item_row_def intro!: image_eqI [of _ _ "?is ! j"])
  qed
  then show ?thesis using assms(2) unfolding w' by (force simp: take_stock_quantity(1))
qed

text \<open>C6. A delivery that is acknowledged for an order not processed before has taken every item of the
  order from the stock, each in its full quantity and only where the stock was sufficient, has left all
  other products alone, and has written no failure event.\<close>

theorem acknowledged_order_is_taken:
  assumes "run_state (handleOrderCreatedEvent X body) w = (Ack, w')"
    and "unmarshal_order_created body = Inr event" and "product_ok w"
    and "\<not> already_processed X event (pw_db w)"
    and "length (pb_products (pw_db w)) < 2 ^ 63" "length (elems (oce_Products event)) < 2 ^ 63"
    and "distinct (map (\<lambda>i. pg_uuid X (oi_ProductID i)) (elems (oce_Products event)))"
  shows "(\<forall>i \<in> set (elems (oce_Products event)). \<exists>u p p'. pg_uuid X (oi_ProductID i) = Some u \<and>
      p \<in> set (pb_products (pw_db w)) \<and> p' \<in> set (pb_products (pw_db w')) \<and> pr_ID p = u \<and> pr_ID p' = u \<and>
      sint (oi_Quantity i) \<le> sint (pr_StockQuantity p) \<and>
      sint (pr_StockQuantity p') = sint (pr_StockQuantity p) - sint (oi_Quantity i)) \<and>
    (\<forall>p \<in> set (pb_products (pw_db w)).
      pr_ID p \<notin> (\<lambda>i. the (pg_uuid X (oi_ProductID i))) ` set (elems (oce_Products event)) \<longrightarrow>
      p \<in> set (pb_products (pw_db w'))) \<and>
    pb_outbox (pw_db w') = pb_outbox (pw_db w) \<and> already_processed X event (pw_db w')"
proof -
  from assms(2,1) obtain w1 where w1: "run_state (shouldSkipProcessing X (oce_OrderID event)) w = (None, w1)"
    and pr: "run_state (processOrderCreated X event) w1 = (Ack, w')"
    by (cases rule: handle_cases) (use assms(4) shouldSkip_Ack in blast)+
  have same: "same_product_tables (pw_db w) (pw_db w1)" by (rule shouldSkip_effect [OF w1])
  from process_effect [OF pr] obtain k where t1: "stock_taken X event (pw_db w1) k (pw_db w')"
    and k: "k = of_nat (length (elems (oce_Products event)))"
    by (auto split: if_splits)
  have t: "stock_taken X event (pw_db w) k (pw_db w')" by (rule stock_taken_same [OF same t1])
  have out: "pb_outbox (pw_db w') = pb_outbox (pw_db w)" "already_processed X event (pw_db w')"
    using t k unfolding stock_taken_def already_processed_def processed_mark_def by auto
  have taken: "\<forall>i \<in> set (elems (oce_Products event)). \<exists>u p p'. pg_uuid X (oi_ProductID i) = Some u \<and>
      p \<in> set (pb_products (pw_db w)) \<and> p' \<in> set (pb_products (pw_db w')) \<and> pr_ID p = u \<and> pr_ID p' = u \<and>
      sint (oi_Quantity i) \<le> sint (pr_StockQuantity p) \<and>
      sint (pr_StockQuantity p') = sint (pr_StockQuantity p) - sint (oi_Quantity i)"
    using taken_exactly [OF _ t k assms(5,6,7)] assms(3) unfolding product_ok_def by blast
  show ?thesis using taken stock_taken_unlisted [OF t] out by blast
qed

subsection \<open>Runs without faults\<close>

text \<open>What the transaction of an order needs from the database to run to its end: it answers, the
  items are read back as \<open>rs\<close>, the new quantities fit, and the new rows have new identifiers.\<close>

definition order_ready :: "ext \<Rightarrow> OrderCreatedEvent \<Rightarrow> stock_row list \<Rightarrow> uuid \<Rightarrow> product_db \<Rightarrow> bool" where
  "order_ready X event rs u w \<longleftrightarrow> (\<forall>n. fault_at w n = None) \<and> txn w = NoTx \<and>
     recordset X (marshalOrderItems event) = Inr rs \<and> fits rs w \<and> parse_uuid X (oce_OrderID event) = Inr u \<and>
     uuid_at w (calls w + 2) \<notin> pd_ID ` set (pb_processed w) \<and>
     uuid_at w (calls w + 3) \<notin> ob_ID ` set (pb_outbox w) \<and>
     length (pb_products w) < 2 ^ 63 \<and> length (elems (oce_Products event)) < 2 ^ 63"

definition failure_of :: "OrderCreatedEvent \<Rightarrow> json" where
  "failure_of event = enc_stock_failed \<lparr>sfe_OrderID = oce_OrderID event, sfe_Products = oce_Products event\<rparr>"

lemma run_process:
  assumes "order_ready X event rs u (pw_db w)"
  shows "run_state (processOrderCreated X event) w =
    (if length (hits rs (pw_db w)) = length (elems (oce_Products event))
     then (Ack, w\<lparr>pw_db := after_order rs u event (failure_of event) (pw_db w),
       pw_tasks := pw_tasks w @ [InvalidateItemsTask (elems (oce_Products event))]\<rparr>)
     else (Nack False, w\<lparr>pw_db := after_order rs u event (failure_of event) (pw_db w)\<rparr>))"
proof -
  let ?w = "pw_db w"
  have small: "length (hits rs ?w) < 2 ^ 63" "length (elems (oce_Products event)) < 2 ^ 63"
    using assms length_filter_le [of "\<lambda>p. stock_match rs p \<noteq> None" "pb_products ?w"]
    unfolding order_ready_def hits_def by linarith+
  have run: "run_state (UpdateStockBatch_consumer X event True stockUpdateFailedEventName (failure_of event)) ?w =
      (Inr (of_nat (length (hits rs ?w))), after_order rs u event (failure_of event) ?w)"
    by (rule run_UpdateStockBatch_consumer) (use assms in \<open>simp_all add: order_ready_def\<close>)
  show ?thesis
    using of_nat_eq_iff_small [OF small] run
    by (simp add: processOrderCreated_def validateStockUpdate_def failure_of_def)
qed

lemma after_order_env [simp]:
  "txn (after_order rs u event b w) = txn w" "fault_at (after_order rs u event b w) = fault_at w"
  "uuid_at (after_order rs u event b w) = uuid_at w" "clock_at (after_order rs u event b w) = clock_at w"
  "pb_products (after_order rs u event b w) = map (take_stock (clock_at w (calls w)) rs) (pb_products w)"
  "pb_categories (after_order rs u event b w) = pb_categories w"
  by (simp_all add: after_order_def Let_def)

lemma run_check:
  assumes "\<forall>n. fault_at (pw_db w) n = None" "txn (pw_db w) = NoTx" "parse_uuid X i = Inr u"
    and "\<forall>r \<in> set (pb_processed (pw_db w)). \<not> processed_mark u r"
  shows "run_state (shouldSkipProcessing X i) w = (None, w\<lparr>pw_db := (pw_db w)\<lparr>calls := Suc (calls (pw_db w))\<rparr>\<rparr>)"
  using run_shouldSkip [OF assms(1-3)] assms(4) by (auto simp: event_names processed_mark_def)

lemma run_check_done:
  assumes "\<forall>n. fault_at (pw_db w) n = None" "txn (pw_db w) = NoTx" "parse_uuid X i = Inr u"
    and "r \<in> set (pb_processed (pw_db w))" "processed_mark u r"
  shows "run_state (shouldSkipProcessing X i) w = (Some Ack, w\<lparr>pw_db := (pw_db w)\<lparr>calls := Suc (calls (pw_db w))\<rparr>\<rparr>)"
  using run_shouldSkip [OF assms(1-3)] assms(4,5) by (auto simp: event_names processed_mark_def)

text \<open>The database after the call of the check.\<close>

definition after_check :: "product_db \<Rightarrow> product_db" where
  "after_check w = w\<lparr>calls := Suc (calls w)\<rparr>"

lemma after_check_tables [simp]:
  "pb_products (after_check w) = pb_products w" "pb_processed (after_check w) = pb_processed w"
  "pb_outbox (after_check w) = pb_outbox w" "hits rs (after_check w) = hits rs w"
  "fault_at (after_check w) = fault_at w" "txn (after_check w) = txn w" "fits rs (after_check w) = fits rs w"
  by (simp_all add: after_check_def hits_def fits_def)

lemma run_handle_order:
  assumes "unmarshal_order_created body = Inr event" and "order_ready X event rs u (after_check (pw_db w))"
    and "\<not> already_processed X event (pw_db w)"
  shows "run_state (handleOrderCreatedEvent X body) w =
    (if length (hits rs (pw_db w)) = length (elems (oce_Products event))
     then (Ack, w\<lparr>pw_db := after_order rs u event (failure_of event) (after_check (pw_db w)),
       pw_tasks := pw_tasks w @ [InvalidateItemsTask (elems (oce_Products event))]\<rparr>)
     else (Nack False, w\<lparr>pw_db := after_order rs u event (failure_of event) (after_check (pw_db w))\<rparr>))"
proof -
  have ready: "order_ready X event rs u (pw_db (w\<lparr>pw_db := after_check (pw_db w)\<rparr>))"
    using assms(2) by simp
  have "run_state (shouldSkipProcessing X (oce_OrderID event)) w = (None, w\<lparr>pw_db := after_check (pw_db w)\<rparr>)"
    unfolding after_check_def
    by (rule run_check) (use assms(2,3) in \<open>auto simp: order_ready_def already_processed_def\<close>)
  then show ?thesis
    using run_process [OF ready] assms(1) by (simp add: handleOrderCreatedEvent_def occ_unmarshalEvent_def)
qed

text \<open>The sample order of \<open>is\<close> on the sample database.\<close>

lemma sample_ready:
  assumes "length is < 2 ^ 63"
  shows "order_ready sample_ext (order_event_sample is) (map (\<lambda>i. (Some i, Some 2)) is) 9 (product_db_sample\<lparr>calls := c\<rparr>)"
proof -
  have "in_int32 (sint (pr_StockQuantity p) - the (stock_match (map (\<lambda>i. (Some i, Some 2)) is) p))"
    if "p \<in> set (hits (map (\<lambda>i. (Some i, Some 2)) is) (product_db_sample\<lparr>calls := c\<rparr>))" for p
  proof -
    have p: "p \<in> {product_row_sample 5 7, product_row_sample 6 0}"
      using that unfolding hits_def set_filter by (simp add: product_db_sample_def)
    have "stock_match (map (\<lambda>i. (Some i, Some 2)) is) p \<noteq> None"
      using that unfolding hits_def set_filter by blast
    then obtain q where q: "stock_match (map (\<lambda>i. (Some i, Some 2)) is) p = Some q" by auto
    then have "(Some (pr_ID p), Some q) \<in> set (map (\<lambda>i. (Some i, Some 2)) is)" by (rule stock_match_in)
    then have "q = 2" by auto
    then show ?thesis using p q by (auto simp: product_row_sample_def in_int32_def)
  qed
  then show ?thesis using assms sample_recordset [of "is"] sample_parse [of "is"]
    by (simp add: order_ready_def fits_def) (simp add: product_db_sample_def order_event_sample_def)
qed

definition order_body_sample :: "uuid list \<Rightarrow> json option" where
  "order_body_sample is = Some (enc_order_created (order_event_sample is))"

lemma sample_body: "unmarshal_order_created (order_body_sample is) = Inr (order_event_sample is)"
  by (simp add: order_body_sample_def order_created_decodes)

lemma sample_not_processed: "\<not> already_processed sample_ext event product_db_sample"
  by (simp add: already_processed_def product_db_sample_def)

lemma sample_items: "elems (oce_Products (order_event_sample is)) =
    map (\<lambda>i. \<lparr>oi_ProductID = uuid_text sample_ext i, oi_Quantity = 2\<rparr>) is"
  by (simp add: order_event_sample_def)

lemma sample_hits:
  "length (hits [(Some 5, Some 2)] product_db_sample) = 1"
  "length (hits [(Some 5, Some 2), (Some 6, Some 2)] product_db_sample) = 1"
  by (simp_all add: hits_def product_db_sample_def product_row_sample_def stock_match_def)

lemma sample_pg [simp]: "pg_uuid sample_ext (uuid_text sample_ext u) = Some u"
  using sample_pg_uuids by (simp add: pg_reads_uuids_def)

lemma sample_after_check: "after_check product_db_sample = product_db_sample\<lparr>calls := 1\<rparr>"
  by (simp add: after_check_def product_db_sample_def)

lemma sample_handle:
  "run_state (handleOrderCreatedEvent sample_ext (order_body_sample [5])) product_world_sample =
     (Ack, product_world_sample\<lparr>pw_db := after_order [(Some 5, Some 2)] 9 (order_event_sample [5])
        (failure_of (order_event_sample [5])) (product_db_sample\<lparr>calls := 1\<rparr>),
       pw_tasks := [InvalidateItemsTask (elems (oce_Products (order_event_sample [5])))]\<rparr>)"
  "run_state (handleOrderCreatedEvent sample_ext (order_body_sample [5, 6])) product_world_sample =
     (Nack False, product_world_sample\<lparr>pw_db := after_order [(Some 5, Some 2), (Some 6, Some 2)] 9
        (order_event_sample [5, 6]) (failure_of (order_event_sample [5, 6])) (product_db_sample\<lparr>calls := 1\<rparr>)\<rparr>)"
  using run_handle_order [OF sample_body, of sample_ext "[5]" "[(Some 5, Some 2)]" 9 product_world_sample]
    run_handle_order [OF sample_body, of sample_ext "[5, 6]" "[(Some 5, Some 2), (Some 6, Some 2)]" 9
      product_world_sample]
    sample_ready [of "[5]" 1] sample_ready [of "[5, 6]" 1] sample_hits
  by (simp_all add: product_world_sample_def sample_not_processed sample_items sample_after_check)

theorem acknowledged_order_is_taken_witness:
  "\<exists>w'. run_state (handleOrderCreatedEvent sample_ext (order_body_sample [5])) product_world_sample = (Ack, w') \<and>
     (\<exists>p \<in> set (pb_products (pw_db product_world_sample)). \<exists>p' \<in> set (pb_products (pw_db w')).
        pr_ID p = 5 \<and> pr_ID p' = 5 \<and> sint (pr_StockQuantity p') = sint (pr_StockQuantity p) - 2)"
proof -
  let ?w = "product_world_sample"
  have ok: "product_ok ?w" "\<not> already_processed sample_ext (order_event_sample [5]) (pw_db ?w)"
    "length (pb_products (pw_db ?w)) < 2 ^ 63" "length (elems (oce_Products (order_event_sample [5]))) < 2 ^ 63"
    "distinct (map (\<lambda>i. pg_uuid sample_ext (oi_ProductID i)) (elems (oce_Products (order_event_sample [5]))))"
    by (simp_all add: product_ok_def product_sample_ok product_world_sample_def sample_not_processed sample_items)
      (simp add: product_db_sample_def)
  from acknowledged_order_is_taken [OF sample_handle(1) sample_body ok, THEN conjunct1] show ?thesis
    unfolding sample_handle(1) sample_items by (simp only: list.map list.set ball_simps) fastforce
qed

subsection \<open>Short orders, poison messages and redeliveries\<close>

text \<open>C35. An order the stock cannot cover is not refused as a whole: the transaction that records the
  failure event keeps the quantities it did take. Every product with enough stock is reduced, the
  event that makes the order service cancel the order is written, the delivery goes to the dead letters,
  and nothing gives the pieces back.\<close>

theorem short_order_keeps_partial_stock:
  assumes "unmarshal_order_created body = Inr event" and "order_ready X event rs u (after_check (pw_db w))"
    and "\<not> already_processed X event (pw_db w)"
    and "length (hits rs (pw_db w)) \<noteq> length (elems (oce_Products event))"
    and "p \<in> set (pb_products (pw_db w))" and "stock_match rs p = Some q"
  shows "\<exists>w' p' ev. run_state (handleOrderCreatedEvent X body) w = (Nack False, w') \<and>
    p' \<in> set (pb_products (pw_db w')) \<and> pr_ID p' = pr_ID p \<and>
    sint (pr_StockQuantity p') = sint (pr_StockQuantity p) - q \<and>
    pb_outbox (pw_db w') = pb_outbox (pw_db w) @ [ev] \<and> ob_AggregateID ev = u \<and>
    ob_EventName ev = stockUpdateFailedEventName \<and> ob_Payload ev = failure_of event \<and> ob_Status ev = ''UNPUBLISHED''"
proof -
  let ?d = "after_check (pw_db w)"
  let ?t = "clock_at ?d (calls ?d)"
  have "in_int32 (sint (pr_StockQuantity p) - q)"
    using assms(2,5,6) by (auto simp: order_ready_def fits_def hits_def)
  then have "sint (pr_StockQuantity (take_stock ?t rs p)) = sint (pr_StockQuantity p) - q"
    using assms(6) by (simp add: take_stock_quantity)
  then show ?thesis
    using run_handle_order [OF assms(1-3)] assms(4,5)
    by (intro exI [of _ "w\<lparr>pw_db := after_order rs u event (failure_of event) ?d\<rparr>"]
        exI [of _ "take_stock ?t rs p"]) (simp add: after_order_def Let_def)
qed

theorem short_order_keeps_partial_stock_witness:
  "\<exists>w' p'. run_state (handleOrderCreatedEvent sample_ext (order_body_sample [5, 6])) product_world_sample =
     (Nack False, w') \<and> p' \<in> set (pb_products (pw_db w')) \<and> pr_ID p' = 5 \<and> sint (pr_StockQuantity p') = 5"
proof -
  let ?rs = "[(Some 5, Some 2), (Some 6, Some 2)] :: stock_row list"
  have ready: "order_ready sample_ext (order_event_sample [5, 6]) ?rs 9 (after_check (pw_db product_world_sample))"
    using sample_ready [of "[5, 6]" 1] by (simp add: product_world_sample_def sample_after_check)
  have rest: "\<not> already_processed sample_ext (order_event_sample [5, 6]) (pw_db product_world_sample)"
    "length (hits ?rs (pw_db product_world_sample)) \<noteq> length (elems (oce_Products (order_event_sample [5, 6])))"
    "product_row_sample 5 7 \<in> set (pb_products (pw_db product_world_sample))"
    "stock_match ?rs (product_row_sample 5 7) = Some 2"
    by (simp_all add: product_world_sample_def sample_not_processed sample_items sample_hits)
      (simp_all add: product_db_sample_def product_row_sample_def stock_match_def)
  from short_order_keeps_partial_stock [OF sample_body ready rest] show ?thesis
    by (force simp: product_row_sample_def)
qed

text \<open>A message whose order identifier is no UUID goes back to the queue at once and changes
  nothing, whatever the state: it is delivered again for ever.\<close>

theorem unparsable_order_requeued:
  assumes "unmarshal_order_created body = Inr event" and "parse_uuid X (oce_OrderID event) = Inl e"
  shows "run_state (handleOrderCreatedEvent X body) w = (Nack True, w)"
  using assms by (simp add: handleOrderCreatedEvent_def occ_unmarshalEvent_def shouldSkipProcessing_def
      isEventProcessed_def)

theorem unparsable_order_requeued_witness:
  "run_state (handleOrderCreatedEvent sample_ext
     (Some (enc_order_created ((order_event_sample [5])\<lparr>oce_OrderID := ''x''\<rparr>)))) product_world_sample =
   (Nack True, product_world_sample)"
proof -
  have "\<exists>e. parse_uuid sample_ext ''x'' = Inl e"
    by (simp add: parse_uuid_def sample_ext_def parse_nat_def digit_val_def)
  then obtain e where "parse_uuid sample_ext (oce_OrderID ((order_event_sample [5])\<lparr>oce_OrderID := ''x''\<rparr>)) = Inl e"
    by auto
  from unparsable_order_requeued [OF order_created_decodes this] show ?thesis .
qed

text \<open>Once a delivery has changed the tables, every later delivery of the same order to a database that answers
  finds its mark, is acknowledged and changes no table.\<close>

theorem redelivered_order_changes_nothing:
  assumes "run_state (handleOrderCreatedEvent X body) w = (d, w')"
    and "unmarshal_order_created body = Inr event" and "\<not> same_product_tables (pw_db w) (pw_db w')"
    and "set (pb_processed (pw_db w')) \<subseteq> set (pb_processed (pw_db v))"
    and "\<forall>n. fault_at (pw_db v) n = None" and "txn (pw_db v) = NoTx"
  shows "\<exists>v'. run_state (handleOrderCreatedEvent X body) v = (Ack, v') \<and> same_product_tables (pw_db v) (pw_db v')"
proof -
  from handle_order_steps [OF assms(1)] assms(2,3) obtain w1
    where same: "same_product_tables (pw_db w) (pw_db w1)"
      and pr: "run_state (processOrderCreated X event) w1 = (d, w')" by auto
  from process_effect [OF pr] obtain k where "stock_taken X event (pw_db w1) k (pw_db w')"
    using same assms(3) by (auto simp: same_product_tables_def)
  then obtain u r where u: "parse_uuid X (oce_OrderID event) = Inr u"
    and r: "r \<in> set (pb_processed (pw_db w'))" "processed_mark u r"
    unfolding stock_taken_def processed_mark_def by auto
  have "run_state (shouldSkipProcessing X (oce_OrderID event)) v =
      (Some Ack, v\<lparr>pw_db := (pw_db v)\<lparr>calls := Suc (calls (pw_db v))\<rparr>\<rparr>)"
    by (rule run_check_done [OF assms(5,6) u _ r(2)]) (use r(1) assms(4) in blast)
  then show ?thesis using assms(2)
    by (simp add: handleOrderCreatedEvent_def occ_unmarshalEvent_def same_product_tables_def)
qed

theorem redelivered_order_changes_nothing_witness:
  "\<exists>w' v'. run_state (handleOrderCreatedEvent sample_ext (order_body_sample [5])) product_world_sample = (Ack, w') \<and>
     run_state (handleOrderCreatedEvent sample_ext (order_body_sample [5])) w' = (Ack, v') \<and>
     pb_products (pw_db v') = pb_products (pw_db w')"
proof -
  let ?w = "snd (run_state (handleOrderCreatedEvent sample_ext (order_body_sample [5])) product_world_sample)"
  have run: "run_state (handleOrderCreatedEvent sample_ext (order_body_sample [5])) product_world_sample = (Ack, ?w)"
    by (simp add: sample_handle)
  have "\<not> same_product_tables (pw_db product_world_sample) (pw_db ?w)"
    "\<forall>n. fault_at (pw_db ?w) n = None" "txn (pw_db ?w) = NoTx"
    unfolding sample_handle snd_conv
    by (simp_all add: same_product_tables_def product_world_sample_def)
      (simp_all add: after_order_def product_db_sample_def Let_def)
  from redelivered_order_changes_nothing [OF run sample_body this(1) subset_refl this(2,3)]
  obtain v' where "run_state (handleOrderCreatedEvent sample_ext (order_body_sample [5])) ?w = (Ack, v')"
    "pb_products (pw_db v') = pb_products (pw_db ?w)"
    unfolding same_product_tables_def by blast
  then show ?thesis using run by blast
qed

text \<open>The contract of a consumer that takes every order once.\<close>

definition product_marked :: "uuid \<Rightarrow> product_world \<Rightarrow> bool" where
  "product_marked u w \<longleftrightarrow> (\<exists>r \<in> set (pb_processed (pw_db w)). processed_mark u r)"

definition same_product_world :: "product_world \<Rightarrow> product_world \<Rightarrow> bool" where
  "same_product_world w w' \<longleftrightarrow> same_product_tables (pw_db w) (pw_db w')"

lemma same_product_world:
  "same_product_world w w" "same_product_world w v \<Longrightarrow> same_product_world v v' \<Longrightarrow> same_product_world w v'"
  "same_product_world w v \<Longrightarrow> product_marked u v = product_marked u w"
  "run_state (shouldSkipProcessing X i) w = (r, w') \<Longrightarrow> same_product_world w w'"
  by (simp_all add: same_product_world_def same_product_tables_def product_marked_def)
    (auto dest: shouldSkip_effect simp: same_product_tables_def)

lemma check_unmarked:
  assumes "run_state (shouldSkipProcessing X i) w = (None, w')" and "parse_uuid X i = Inr u"
  shows "\<not> product_marked u w"
proof -
  obtain e d where q: "run_state (GetProcessedEventByAggregateIDAndEventName u occ_exchangeName) (pw_db w) = (Inl e, d)"
    and "is_no_rows e"
    using assms by (auto simp: shouldSkipProcessing_def isEventProcessed_def split: sum.splits prod.splits if_splits bool.splits)
  then have "find (\<lambda>r. pd_AggregateID r = u \<and> pd_EventName r = occ_exchangeName) (pb_processed (pw_db w)) = None"
    using query_row_no_rows unfolding GetProcessedEventByAggregateIDAndEventName_def by fastforce
  then show ?thesis unfolding find_None_iff by (auto simp: product_marked_def processed_mark_def event_names)
qed

lemma process_marks_order:
  assumes "run_state (processOrderCreated X event) w = (d, w')"
  shows "same_product_world w w' \<or> (\<exists>u. parse_uuid X (oce_OrderID event) = Inr u \<and> product_marked u w')"
    and "product_marked u w \<Longrightarrow> product_marked u w'"
  using process_effect [OF assms]
  unfolding stock_taken_def same_product_world_def same_product_tables_def product_marked_def processed_mark_def
  by (fastforce, fastforce)

interpretation product_once: once_consumer X "shouldSkipProcessing X" "processOrderCreated X" "handleOrderCreatedEvent X"
  product_marked same_product_world
proof unfold_locales
  show "handleOrderCreatedEvent X body = (case unmarshal_order_created body of
      Inl _ \<Rightarrow> State_Monad.return (Nack False)
    | Inr event \<Rightarrow> do { skip \<leftarrow> shouldSkipProcessing X (oce_OrderID event);
        case skip of Some d \<Rightarrow> State_Monad.return d | None \<Rightarrow> processOrderCreated X event })" for body
    by (simp add: handleOrderCreatedEvent_def occ_unmarshalEvent_def)
  show "d \<noteq> None" if "run_state (shouldSkipProcessing X i) w = (d, w')" "parse_uuid X i = Inr u" "product_marked u w" for i w d w' u
    using that by (cases d) (auto dest: check_unmarked)
qed (rule same_product_world(1) | erule same_product_world(3,4) process_marks_order(1) | erule (1) same_product_world(2) process_marks_order(2))+

text \<open>C7. An order is taken at most once by deliveries that follow each other: however often the broker delivers the
  messages of a queue, in whatever order and whatever the database answers, at most one delivery of each order
  changes the tables of the product service.\<close>

theorem order_taken_at_most_once:
  "effective_deliveries (handleOrderCreatedEvent X) same_product_world (about_order X u) bodies w \<le> 1"
  by (rule product_once.at_most_once)

subsection \<open>Deliveries that run at the same time\<close>

datatype delivery = Waiting "json option" | Checked OrderCreatedEvent | Settled disposition

inductive consuming :: "ext \<Rightarrow> delivery list \<times> product_world \<Rightarrow> delivery list \<times> product_world \<Rightarrow> bool"
  for X where
  refuse: "i < length ds \<Longrightarrow> ds ! i = Waiting body \<Longrightarrow> occ_unmarshalEvent body = Inl e \<Longrightarrow>
     consuming X (ds, w) (ds[i := Settled (Nack False)], w)"
| skip: "i < length ds \<Longrightarrow> ds ! i = Waiting body \<Longrightarrow> occ_unmarshalEvent body = Inr event \<Longrightarrow>
     run_state (shouldSkipProcessing X (oce_OrderID event)) w = (Some d, w') \<Longrightarrow>
     consuming X (ds, w) (ds[i := Settled d], w')"
| check: "i < length ds \<Longrightarrow> ds ! i = Waiting body \<Longrightarrow> occ_unmarshalEvent body = Inr event \<Longrightarrow>
     run_state (shouldSkipProcessing X (oce_OrderID event)) w = (None, w') \<Longrightarrow>
     consuming X (ds, w) (ds[i := Checked event], w')"
| update: "i < length ds \<Longrightarrow> ds ! i = Checked event \<Longrightarrow>
     run_state (processOrderCreated X event) w = (d, w') \<Longrightarrow>
     consuming X (ds, w) (ds[i := Settled d], w')"

inductive_cases consuming_step: "consuming X (ds, w) (ds', w')"

text \<open>A handler that runs alone takes these steps.\<close>

lemma handler_steps:
  assumes "i < length ds" and "ds ! i = Waiting body" and "run_state (handleOrderCreatedEvent X body) w = (d, w')"
  shows "(consuming X)\<^sup>*\<^sup>* (ds, w) (ds[i := Settled d], w')"
proof (cases "occ_unmarshalEvent body")
  case (Inl e)
  then have "d = Nack False" "w' = w" using assms(3) by (simp_all add: handleOrderCreatedEvent_def)
  then show ?thesis using consuming.refuse [OF assms(1,2) Inl] by (simp add: r_into_rtranclp)
next
  case (Inr event)
  then have "unmarshal_order_created body = Inr event" by (simp add: occ_unmarshalEvent_def)
  then show ?thesis using assms(3)
  proof (cases rule: handle_cases)
    case skipped
    then show ?thesis using consuming.skip [OF assms(1,2) Inr] by blast
  next
    case (done_now w1)
    have 1: "consuming X (ds, w) (ds[i := Checked event], w1)"
      by (rule consuming.check [OF assms(1,2) Inr done_now(1)])
    have "consuming X (ds[i := Checked event], w1) (ds[i := Checked event, i := Settled d], w')"
      by (rule consuming.update [OF _ _ done_now(2)]) (use assms(1) in simp_all)
    then show ?thesis using 1 by (simp add: converse_rtranclp_into_rtranclp r_into_rtranclp)
  qed
qed

lemma consuming_keeps: "consuming X (ds, w) (ds', w') \<Longrightarrow> product_ok w \<Longrightarrow> product_ok w'"
  by (erule consuming_step)
    (auto dest: keepsD [OF keeps_shouldSkip] keepsD [OF keeps_processOrderCreated])

text \<open>C22. However the deliveries of created orders interleave, and whatever the database answers, the
  tables stay well formed: identifiers are unique, no stock falls below zero, every category that
  is named exists, every outbox status is a label.\<close>

theorem concurrent_deliveries_keep_tables:
  assumes "(consuming X)\<^sup>*\<^sup>* (ds, w) (ds', w')" and "product_ok w"
  shows "product_ok w'"
  using assms by (induction rule: rtranclp_induct2) (auto intro: consuming_keeps)

text \<open>Two deliveries of one order that both check before either updates. The stock covers the order twice.\<close>

definition covers_twice :: "stock_row list \<Rightarrow> product_db \<Rightarrow> bool" where
  "covers_twice rs d \<longleftrightarrow> (\<forall>p \<in> set (hits rs d). 0 < the (stock_match rs p) \<and> 2 * the (stock_match rs p) \<le> sint (pr_StockQuantity p))"

text \<open>A product still joins with the same row of the order after the first delivery has taken its pieces.\<close>

lemma stock_match_again:
  assumes "stock_match rs p = Some q" and "0 < q" and "2 * q \<le> sint (pr_StockQuantity p)"
  shows "stock_match rs (take_stock t rs p) = Some q" and "sint (pr_StockQuantity (take_stock t rs p)) = sint (pr_StockQuantity p) - q"
proof -
  have "in_int32 (sint (pr_StockQuantity p) - q)" using assms(2,3) sint_in_int32 [of "pr_StockQuantity p"] by (simp add: in_int32_def)
  from take_stock_quantity(2) [OF assms(1) this] show stock: "sint (pr_StockQuantity (take_stock t rs p)) = sint (pr_StockQuantity p) - q" .
  let ?Q = "\<lambda>s (u, k). u = Some (pr_ID p) \<and> k \<noteq> None \<and> the k \<le> s"
  have again: "find (?Q (s - q)) rs = Some (u, Some q)"
    if "find (?Q s) rs = Some (u, Some q)" "2 * q \<le> s" for s u and rs :: "stock_row list"
    using that assms(2) by (induction rs) (auto split: if_splits)
  obtain u where "find (?Q (sint (pr_StockQuantity p))) rs = Some (u, Some q)"
    using assms(1) by (fastforce simp: stock_match_def dest: find_Some_in split: option.splits)
  from again [OF this assms(3)] show "stock_match rs (take_stock t rs p) = Some q"
    by (simp add: stock_match_def stock)
qed

lemma twice_taken:
  assumes "covers_twice rs d"
  shows "map (\<lambda>p. stock_match rs (take_stock t rs p)) (pb_products d) = map (stock_match rs) (pb_products d)"
    and "map (\<lambda>p. sint (pr_StockQuantity (take_stock t' rs (take_stock t rs p)))) (pb_products d) =
      map (\<lambda>p. sint (pr_StockQuantity p) - (case stock_match rs p of None \<Rightarrow> 0 | Some q \<Rightarrow> 2 * q)) (pb_products d)"
proof -
  have "stock_match rs (take_stock t rs p) = stock_match rs p \<and>
      sint (pr_StockQuantity (take_stock t' rs (take_stock t rs p))) =
      sint (pr_StockQuantity p) - (case stock_match rs p of None \<Rightarrow> 0 | Some q \<Rightarrow> 2 * q)" if p: "p \<in> set (pb_products d)" for p
  proof (cases "stock_match rs p")
    case None
    then show ?thesis by (simp add: take_stock_quantity(1))
  next
    case (Some q)
    then have q: "0 < q" "2 * q \<le> sint (pr_StockQuantity p)" using assms p by (auto simp: covers_twice_def hits_def)
    note first = stock_match_again [OF Some q, of t]
    have "in_int32 (sint (pr_StockQuantity (take_stock t rs p)) - q)"
      using q first(2) sint_in_int32 [of "pr_StockQuantity p"] by (simp add: in_int32_def)
    from take_stock_quantity(2) [OF first(1) this] show ?thesis using Some first by simp
  qed
  then show "map (\<lambda>p. stock_match rs (take_stock t rs p)) (pb_products d) = map (stock_match rs) (pb_products d)"
    "map (\<lambda>p. sint (pr_StockQuantity (take_stock t' rs (take_stock t rs p)))) (pb_products d) =
      map (\<lambda>p. sint (pr_StockQuantity p) - (case stock_match rs p of None \<Rightarrow> 0 | Some q \<Rightarrow> 2 * q)) (pb_products d)"
    by simp_all
qed

text \<open>The second delivery finds a database that is ready for it.\<close>

lemma ready_again:
  fixes event :: OrderCreatedEvent
  assumes "order_ready X event rs u d" and "covers_twice rs d"
    and "length (hits rs d) = length (elems (oce_Products event))"
    and "uuid_at d (calls d + 6) \<notin> insert (uuid_at d (calls d + 2)) (pd_ID ` set (pb_processed d))"
    and "uuid_at d (calls d + 7) \<notin> ob_ID ` set (pb_outbox d)"
  defines "d1 \<equiv> after_order rs u event (failure_of event) d"
  shows "order_ready X event rs u d1" and "length (hits rs d1) = length (elems (oce_Products event))"
    and "pb_products d1 = map (take_stock (clock_at d (calls d)) rs) (pb_products d)"
proof -
  let ?t = "clock_at d (calls d)"
  have d1: "pb_products d1 = map (take_stock ?t rs) (pb_products d)" "calls d1 = calls d + 4" "pb_outbox d1 = pb_outbox d"
    "pb_processed d1 = pb_processed d @ [\<lparr>pd_ID = uuid_at d (calls d + 2), pd_AggregateID = u, pd_EventName = occ_eventName, pd_ProcessedAt = ?t\<rparr>]"
    "fault_at d1 = fault_at d" "txn d1 = txn d" "uuid_at d1 = uuid_at d"
    using assms(3) by (simp_all add: d1_def after_order_def Let_def)
  show "pb_products d1 = map (take_stock ?t rs) (pb_products d)" by (rule d1)
  have same: "stock_match rs (take_stock ?t rs p) = stock_match rs p" if "p \<in> set (pb_products d)" for p
    using twice_taken(1) [OF assms(2), of ?t] that by simp
  have h: "hits rs d1 = map (take_stock ?t rs) (hits rs d)"
    using same by (auto simp: hits_def d1 filter_map comp_def cong: filter_cong)
  then show "length (hits rs d1) = length (elems (oce_Products event))" using assms(3) by simp
  have "fits rs d1" unfolding fits_def
  proof
    fix p' assume "p' \<in> set (hits rs d1)"
    then obtain p where p: "p \<in> set (hits rs d)" "p' = take_stock ?t rs p" by (auto simp: h)
    then obtain q where q: "p \<in> set (pb_products d)" "stock_match rs p = Some q" by (auto simp: hits_def)
    then have "0 < q" "2 * q \<le> sint (pr_StockQuantity p)" using assms(2) p(1) by (auto simp: covers_twice_def)
    then show "in_int32 (sint (pr_StockQuantity p') - the (stock_match rs p'))"
      using stock_match_again [OF q(2), of ?t] sint_in_int32 [of "pr_StockQuantity p"] by (simp add: p(2) in_int32_def)
  qed
  then show "order_ready X event rs u d1" using assms(1,4,5)
    by (simp add: order_ready_def d1 add.commute)
qed

text \<open>C36. The mark of a processed order is not unique and is checked outside the transaction that sets it: two
  deliveries of one order that both check before either updates take its pieces twice. For every order that is not
  processed yet, whose products all exist and are in stock twice, on a database that answers, the deliveries can
  interleave such that both are acknowledged and every ordered product has lost twice its quantity.\<close>

theorem concurrent_redelivery_takes_twice:
  fixes d :: product_db
  assumes "unmarshal_order_created body = Inr event" and "\<not> already_processed X event (pw_db w)"
    and "d = (pw_db w)\<lparr>calls := calls (pw_db w) + 2\<rparr>" and "order_ready X event rs u d"
    and "length (hits rs d) = length (elems (oce_Products event))" and "covers_twice rs d"
    and "uuid_at d (calls d + 6) \<notin> insert (uuid_at d (calls d + 2)) (pd_ID ` set (pb_processed d))"
    and "uuid_at d (calls d + 7) \<notin> ob_ID ` set (pb_outbox d)"
  shows "\<exists>w'. (consuming X)\<^sup>*\<^sup>* ([Waiting body, Waiting body], w) ([Settled Ack, Settled Ack], w') \<and>
    map (\<lambda>p. (pr_ID p, sint (pr_StockQuantity p))) (pb_products (pw_db w')) =
    map (\<lambda>p. (pr_ID p, sint (pr_StockQuantity p) - (case stock_match rs p of None \<Rightarrow> 0 | Some q \<Rightarrow> 2 * q))) (pb_products (pw_db w))"
proof -
  let ?v = "w\<lparr>pw_db := after_check (pw_db w)\<rparr>" and ?w = "w\<lparr>pw_db := d\<rparr>"
  define d1 where "d1 = after_order rs u event (failure_of event) d"
  have parse: "parse_uuid X (oce_OrderID event) = Inr u" and db: "\<forall>n. fault_at (pw_db w) n = None" "txn (pw_db w) = NoTx"
    using assms(3,4) by (simp_all add: order_ready_def)
  have fresh: "\<forall>r \<in> set (pb_processed (pw_db w)). \<not> processed_mark u r"
    using assms(2) parse by (auto simp: already_processed_def)
  have body: "occ_unmarshalEvent body = Inr event" by (simp add: occ_unmarshalEvent_def assms(1))
  have c1: "run_state (shouldSkipProcessing X (oce_OrderID event)) w = (None, ?v)"
    using run_check [OF db parse fresh] by (simp add: after_check_def)
  have c2: "run_state (shouldSkipProcessing X (oce_OrderID event)) ?v = (None, ?w)"
    using run_check [of ?v, OF _ _ parse] db fresh by (simp add: after_check_def assms(3))
  have "order_ready X event rs u (pw_db ?w)" using assms(4) by simp
  from run_process [OF this] assms(5) obtain w1 where p1: "run_state (processOrderCreated X event) ?w = (Ack, w1)" "pw_db w1 = d1"
    by (simp add: d1_def)
  note second = ready_again [OF assms(4,6,5,7,8), folded d1_def]
  have "order_ready X event rs u (pw_db w1)" using second(1) p1(2) by simp
  from run_process [OF this] second(2) p1(2) obtain w2 where p2: "run_state (processOrderCreated X event) w1 = (Ack, w2)"
    "pw_db w2 = after_order rs u event (failure_of event) d1" by simp
  have s1: "consuming X ([Waiting body, Waiting body], w) ([Checked event, Waiting body], ?v)"
    using consuming.check [of 0 "[Waiting body, Waiting body]" body event X, OF _ _ body c1] by simp
  have s2: "consuming X ([Checked event, Waiting body], ?v) ([Checked event, Checked event], ?w)"
    using consuming.check [of 1 "[Checked event, Waiting body]" body event X, OF _ _ body c2] by simp
  have s3: "consuming X ([Checked event, Checked event], ?w) ([Settled Ack, Checked event], w1)"
    using consuming.update [of 0 "[Checked event, Checked event]" event X, OF _ _ p1(1)] by simp
  have s4: "consuming X ([Settled Ack, Checked event], w1) ([Settled Ack, Settled Ack], w2)"
    using consuming.update [of 1 "[Settled Ack, Checked event]" event X, OF _ _ p2(1)] by simp
  have run: "(consuming X)\<^sup>*\<^sup>* ([Waiting body, Waiting body], w) ([Settled Ack, Settled Ack], w2)"
    by (rule converse_rtranclp_into_rtranclp [OF s1 converse_rtranclp_into_rtranclp [OF s2
        converse_rtranclp_into_rtranclp [OF s3 r_into_rtranclp [of "consuming X", OF s4]]]])
  have "pb_products (pw_db w2) = map (take_stock (clock_at d1 (calls d1)) rs) (map (take_stock (clock_at d (calls d)) rs) (pb_products d))"
    by (simp add: p2(2) after_order_def Let_def second(3))
  then have "map (\<lambda>p. (pr_ID p, sint (pr_StockQuantity p))) (pb_products (pw_db w2)) =
      map (\<lambda>p. (pr_ID p, sint (pr_StockQuantity p) - (case stock_match rs p of None \<Rightarrow> 0 | Some q \<Rightarrow> 2 * q))) (pb_products (pw_db w))"
    using twice_taken(2) [OF assms(6), of "clock_at d1 (calls d1)" "clock_at d (calls d)"] by (simp add: assms(3))
  then show ?thesis using run by blast
qed

text \<open>An order of two pieces of a product with seven: three remain.\<close>

theorem concurrent_redelivery_takes_twice_witness:
  "\<exists>w'. (consuming sample_ext)\<^sup>*\<^sup>*
      ([Waiting (order_body_sample [5]), Waiting (order_body_sample [5])], product_world_sample)
      ([Settled Ack, Settled Ack], w') \<and>
    map (\<lambda>p. (pr_ID p, sint (pr_StockQuantity p))) (pb_products (pw_db w')) = [(5, 3), (6, 0)]"
proof -
  let ?d = "(pw_db product_world_sample)\<lparr>calls := calls (pw_db product_world_sample) + 2\<rparr>" and ?rs = "[(Some 5, Some 2)] :: stock_row list"
  have d: "?d = product_db_sample\<lparr>calls := 2\<rparr>" by (simp add: product_world_sample_def product_db_sample_def)
  have ready: "order_ready sample_ext (order_event_sample [5]) ?rs 9 ?d" using sample_ready [of "[5]" 2] unfolding d by simp
  have new: "\<not> already_processed sample_ext (order_event_sample [5]) (pw_db product_world_sample)"
    by (simp add: product_world_sample_def sample_not_processed)
  have h: "hits ?rs ?d = [product_row_sample 5 7]" unfolding d
    by (simp add: hits_def product_db_sample_def product_row_sample_def stock_match_def)
  have full: "length (hits ?rs ?d) = length (elems (oce_Products (order_event_sample [5])))" unfolding h by (simp add: sample_items)
  have twice: "covers_twice ?rs ?d" unfolding covers_twice_def h by (simp add: product_row_sample_def stock_match_def)
  have ids: "uuid_at ?d (calls ?d + 6) \<notin> insert (uuid_at ?d (calls ?d + 2)) (pd_ID ` set (pb_processed ?d))"
    "uuid_at ?d (calls ?d + 7) \<notin> ob_ID ` set (pb_outbox ?d)"
    unfolding d by (simp_all add: product_db_sample_def)
  from concurrent_redelivery_takes_twice [OF sample_body new refl ready full twice ids] show ?thesis
    by (simp add: product_world_sample_def product_db_sample_def product_row_sample_def stock_match_def)
qed

theorem concurrent_deliveries_keep_tables_witness:
  "product_ok (snd (run_state (handleOrderCreatedEvent sample_ext (order_body_sample [5])) product_world_sample))"
proof -
  have "(consuming sample_ext)\<^sup>*\<^sup>* ([Waiting (order_body_sample [5])], product_world_sample)
    ([Settled (fst (run_state (handleOrderCreatedEvent sample_ext (order_body_sample [5])) product_world_sample))],
     snd (run_state (handleOrderCreatedEvent sample_ext (order_body_sample [5])) product_world_sample))"
    using handler_steps [of 0 "[Waiting (order_body_sample [5])]" "order_body_sample [5]" sample_ext
        product_world_sample] by simp
  from concurrent_deliveries_keep_tables [OF this] show ?thesis
    by (simp add: product_ok_def product_sample_ok product_world_sample_def)
qed

end
