(* ===== verification/Relay.thy ===== *)
theory Relay
  imports OrderRepo ProductTx Rabbit
begin

text \<open>
  The relayers the order and the product service run: the worker of \<^verbatim>\<open>shared/events/worker\<close> on each
  service's outbox table and publisher. The contract of \<open>relayer\<close> is discharged by interpretation; the
  properties are its lemmas on the services' own definitions.
\<close>

definition order_batch :: "ext \<Rightarrow> int32 \<Rightarrow> (order_db \<times> rabbit, go_error + unit) state" where
  "order_batch X batch = processEvents (\<lambda>n. zoom fst (\<lambda>s w. (s, snd w)) (GetUnpublished_order_relayer X n))
     (\<lambda>n b. zoom snd (\<lambda>b w. (fst w, b)) (Publish_fanout X n b))
     (\<lambda>i. zoom fst (\<lambda>s w. (s, snd w)) (UpdateStatus_order_relayer X i)) batch"

definition product_batch :: "ext \<Rightarrow> int32 \<Rightarrow> (product_db \<times> rabbit \<times> rabbit, go_error + unit) state" where
  "product_batch X batch = processEvents (\<lambda>n. zoom fst (\<lambda>s w. (s, snd w)) (GetUnpublished_product_relayer X n))
     (\<lambda>n b. zoom snd (\<lambda>b w. (fst w, b)) (Publish_delegating X n b))
     (\<lambda>i. zoom fst (\<lambda>s w. (s, snd w)) (UpdateStatus_product_relayer X i)) batch"

interpretation order_relay: relayer "GetUnpublished_order_relayer X" "UpdateStatus_order_relayer X"
  "\<lambda>w. table_store_ok X (od_outbox w)" "\<lambda>w. row_msgs X (od_outbox w)" "\<lambda>w. published_msgs X (od_outbox w)"
  "Publish_fanout X" fanout_route fanout_sends
  by unfold_locales

interpretation product_relay: relayer "GetUnpublished_product_relayer X" "UpdateStatus_product_relayer X"
  "\<lambda>w. table_store_ok X (pb_outbox w)" "\<lambda>w. row_msgs X (pb_outbox w)" "\<lambda>w. published_msgs X (pb_outbox w)"
  "Publish_delegating X" delegating_route delegating_sends
  by unfold_locales

text \<open>C20. Whatever the database and the broker do, an event of an order that its table says is published
  has been handed to the broker, on the fan-out exchange that is its name: the relayer never marks
  an event first.\<close>

theorem published_orders_were_sent:
  assumes "run_state (Start_relayer (order_batch X batch) signals) w = (u, w')"
    and "table_store_ok X (od_outbox (fst w))"
    and "\<forall>m \<in> published_msgs X (od_outbox (fst w)). (fanout_route (fst (snd m)), snd (snd m)) \<in># fanout_sends (snd w)"
  shows "\<forall>m \<in> published_msgs X (od_outbox (fst w')). (fanout_route (fst (snd m)), snd (snd m)) \<in># fanout_sends (snd w')"
  using keepsD [OF order_relay.worker_sound, of X w batch signals u w'] assms
  by (simp add: order_relay.sound_def order_relay.handed_def order_relay.in_store_def
      order_relay.in_broker_def order_batch_def)

lemma mark_known_product:
  assumes "table_store_ok X (pb_outbox s)" and "(\<forall>n. fault_at s n = None) \<and> txn s = NoTx" and "i \<in> fst ` row_msgs X (pb_outbox s)"
  shows "\<exists>s'. run_state (UpdateStatus_product_relayer X i) s = (Inr (), s') \<and> (\<forall>n. fault_at s' n = None) \<and> txn s' = NoTx"
proof -
  from assms(3) obtain v where "i = uuid_text X v" by (auto simp: row_msgs_def)
  then have "parse_uuid X i = Inr v" using assms(1) by (simp add: table_store_ok_def parse_uuid_text)
  then show ?thesis using assms(2)
    by (simp add: UpdateStatus_product_relayer_def parseIDStringToUUID_product_def UpdateOutboxEventStatus_product_def
        run_db_call set_outbox_status_def product_outbox_labels_def)
qed

text \<open>When a row is either waiting or published, the messages of the table are those of the two kinds of rows.\<close>

lemma row_msgs_published:
  assumes "\<forall>r \<in> set rows. ob_Status r \<in> {''UNPUBLISHED'', ''PUBLISHED''}"
  shows "row_msgs X rows =
    msg ` set (map (row_event X) (sort_key ob_CreatedAt (filter (\<lambda>r. ob_Status r = ''UNPUBLISHED'') rows))) \<union> published_msgs X rows"
proof -
  have "set rows = set (filter (\<lambda>r. ob_Status r = ''UNPUBLISHED'') rows) \<union> set (filter (\<lambda>r. ob_Status r = ''PUBLISHED'') rows)"
    using assms by auto
  then show ?thesis unfolding row_msgs_def published_msgs_def by (simp only: set_map set_sort image_image image_Un)
qed

text \<open>C21. While the database and both connections to the broker work, one tick of the product relayer
  hands over and marks every unpublished event, if no more than a batch of them wait.\<close>

theorem product_tick_publishes_all:
  assumes "\<forall>n. fault_at (fst w) n = None" and "txn (fst w) = NoTx" and "product_tables_ok (fst w)"
    and "uuid_round_trip X" and "broker_up (fst (snd w))" and "broker_up (snd (snd w))"
    and "\<forall>m \<in> published_msgs X (pb_outbox (fst w)).
      (delegating_route (fst (snd m)), snd (snd m)) \<in># delegating_sends (snd w)"
    and "int (length (filter (\<lambda>r. ob_Status r = ''UNPUBLISHED'') (pb_outbox (fst w)))) \<le> sint batch"
    and "run_state (product_batch X batch) w = (r, w')"
  shows "r = Inr () \<and> row_msgs X (pb_outbox (fst w')) = row_msgs X (pb_outbox (fst w)) \<and>
    published_msgs X (pb_outbox (fst w')) = row_msgs X (pb_outbox (fst w')) \<and>
    (\<forall>m \<in> row_msgs X (pb_outbox (fst w')). (delegating_route (fst (snd m)), snd (snd m)) \<in># delegating_sends (snd w'))"
proof -
  let ?up = "\<lambda>s :: product_db. (\<forall>n. fault_at s n = None) \<and> txn s = NoTx"
  let ?rows = "pb_outbox (fst w)"
  let ?es = "sort_key ob_CreatedAt (filter (\<lambda>r. ob_Status r = ''UNPUBLISHED'') ?rows)"
  have ok: "table_store_ok X ?rows" using assms(3,4) by (simp add: table_store_ok_def product_tables_ok_def)
  have sound: "product_relay.sound X w"
    using ok assms(7) by (simp add: product_relay.sound_def product_relay.handed_def)
  have "unpublished_rows batch ?rows = Inr ?es"
    using assms(8) by (simp add: unpublished_rows_def)
  then have get: "run_state (GetUnpublished_product_relayer X batch) (fst w) =
      (Inr (map (row_event X) ?es), (fst w)\<lparr>calls := Suc (calls (fst w))\<rparr>)"
    using assms(1,2) by (simp add: GetUnpublished_product_relayer_def
        GetUnpublishedOutboxEvents_product_def run_db_call)
  have run: "run_state (product_relay.process X batch) w = (r, w')"
    using assms(9) by (simp add: product_batch_def product_relay.in_store_def product_relay.in_broker_def)
  have done_all: "r = Inr () \<and> msg ` set (map (row_event X) ?es) \<subseteq> published_msgs X (pb_outbox (fst w')) \<and>
      published_msgs X ?rows \<subseteq> published_msgs X (pb_outbox (fst w')) \<and>
      row_msgs X (pb_outbox (fst w')) = row_msgs X ?rows"
    by (rule product_relay.process_complete [where up = ?up and live = "\<lambda>b. broker_up (fst b) \<and> broker_up (snd b)",
          OF sound _ _ get _ run]) (use assms(1,2,5,6) mark_known_product delegating_up in auto)
  have "\<forall>r \<in> set ?rows. ob_Status r \<in> {''UNPUBLISHED'', ''PUBLISHED''}"
    using assms(3) by (auto simp: product_tables_ok_def product_outbox_labels_def)
  moreover have "published_msgs X (pb_outbox (fst w')) \<subseteq> row_msgs X (pb_outbox (fst w'))"
    by (auto simp: published_msgs_def row_msgs_def)
  ultimately have all: "published_msgs X (pb_outbox (fst w')) = row_msgs X (pb_outbox (fst w'))"
    using done_all row_msgs_published [of ?rows X] by blast
  have "product_relay.sound X w'" by (rule keepsD [OF product_relay.process_sound sound run])
  then show ?thesis using done_all all
    by (simp add: product_relay.sound_def product_relay.handed_def)
qed

subsection \<open>Instances\<close>

definition rabbit_sample :: rabbit where
  "rabbit_sample = \<lparr>rb_connection = Some True, rb_channel = Some (), rb_log = [], rb_ops = 0,
     rb_answer = (\<lambda>_. Done), rb_waits = 0, rb_wait = (\<lambda>_. None), rb_slept = 0\<rparr>"

definition outbox_row_sample :: "string \<Rightarrow> OutboxRow" where
  "outbox_row_sample name = \<lparr>ob_ID = 1, ob_AggregateID = 2, ob_EventName = name, ob_Payload = JNull,
     ob_Status = ''UNPUBLISHED'', ob_CreatedAt = 0, ob_PublishedAt = None\<rparr>"

definition order_relay_sample :: order_db where
  "order_relay_sample = \<lparr>calls = 0, fault_at = (\<lambda>n. if n = 2 then Some (Before ''connection reset'') else None),
     clock_at = int, uuid_at = of_nat, txn = NoTx, od_statuses = [], od_orders = [],
     od_outbox = [outbox_row_sample orderCreatedEventName]\<rparr>"

definition product_relay_sample :: product_db where
  "product_relay_sample = \<lparr>calls = 0, fault_at = (\<lambda>_. None), clock_at = int, uuid_at = of_nat, txn = NoTx,
     pb_categories = [], pb_products = [], pb_processed = [],
     pb_outbox = [outbox_row_sample ProductCreatedEventName]\<rparr>"

theorem published_orders_were_sent_witness:
  "(\<lambda>m. (fanout_route (fst (snd m)), snd (snd m))) ` published_msgs sample_ext (od_outbox (fst (snd (run_state
      (Start_relayer (order_batch sample_ext 10) [Tick, Tick]) (order_relay_sample, rabbit_sample))))) \<subseteq>
   set_mset (fanout_sends (snd (snd (run_state
      (Start_relayer (order_batch sample_ext 10) [Tick, Tick]) (order_relay_sample, rabbit_sample)))))"
  using published_orders_were_sent [of sample_ext 10 "[Tick, Tick]" "(order_relay_sample, rabbit_sample)",
      OF prod.collapse [symmetric]]
  by (force simp: table_store_ok_def sample_uuids order_relay_sample_def published_msgs_def row_msgs_def
      outbox_row_sample_def)

theorem product_tick_publishes_all_witness:
  "\<exists>w'. run_state (product_batch sample_ext 10) (product_relay_sample, rabbit_sample, rabbit_sample) = (Inr (), w') \<and>
     published_msgs sample_ext (pb_outbox (fst w')) = {(uuid_text sample_ext 1, ProductCreatedEventName, JNull)}"
proof -
  let ?w = "(product_relay_sample, rabbit_sample, rabbit_sample)"
  obtain r w' where run: "run_state (product_batch sample_ext 10) ?w = (r, w')" by (rule run_pair)
  have "\<forall>n. fault_at (fst ?w) n = None" "txn (fst ?w) = NoTx" "product_tables_ok (fst ?w)" "uuid_round_trip sample_ext"
    "broker_up (fst (snd ?w))" "broker_up (snd (snd ?w))"
    "\<forall>m \<in> published_msgs sample_ext (pb_outbox (fst ?w)).
      (delegating_route (fst (snd m)), snd (snd m)) \<in># delegating_sends (snd ?w)"
    "int (length (filter (\<lambda>r. ob_Status r = ''UNPUBLISHED'') (pb_outbox (fst ?w)))) \<le> sint (10 :: int32)"
    by (simp_all add: sample_uuids product_relay_sample_def published_msgs_def row_msgs_def outbox_row_sample_def
        broker_up_def rabbit_sample_def product_tables_ok_def product_outbox_labels_def)
  from product_tick_publishes_all [OF this run] show ?thesis using run
    by (simp add: product_relay_sample_def row_msgs_def) (simp add: outbox_row_sample_def)
qed

end
