(* ===== verification/ProductService.thy ===== *)
theory ProductService
  imports ProductConsumer
begin

text \<open>
  The gRPC server of the product service (\<^verbatim>\<open>product-service/internal/grpc\<close>): the conversion of rows and
  of cached hashes, the goroutines that fill and drop the cache, and the handlers. A handler runs on the
  database, the cache and the list of goroutines it has started (\<open>product_world\<close>).
\<close>

subsection \<open>Conversions\<close>

definition productToMap :: "ext \<Rightarrow> ProductV1 \<Rightarrow> (string \<times> string) list" where
  "productToMap X p = [
     (''id'', prv_Id p),
     (''categoryId'', prv_CategoryId p),
     (''name'', prv_Name p),
     (''description'', prv_Description p),
     (''price'', redis_float X (prv_Price p)),
     (''stockQuantity'', show_int (sint (prv_StockQuantity p))),
     (''createdAt'', show_int (unix_seconds (prv_CreatedAt p))),
     (''updatedAt'', show_int (unix_seconds (as_time (prv_UpdatedAt p))))]"

definition mapToProduct :: "(string \<times> string) list \<Rightarrow> go_error + ProductV1" where
  "mapToProduct d = (case parse_float (map_get d ''price'') of None \<Rightarrow> Inl syntax_error | Some price \<Rightarrow>
     (case parse_int 32 (map_get d ''stockQuantity'') of None \<Rightarrow> Inl syntax_error | Some stock \<Rightarrow>
     (case parse_int 64 (map_get d ''createdAt'') of None \<Rightarrow> Inl syntax_error | Some created \<Rightarrow>
     (case parse_int 64 (map_get d ''updatedAt'') of None \<Rightarrow> Inl syntax_error | Some updated \<Rightarrow>
       Inr \<lparr>prv_Id = map_get d ''id'', prv_CategoryId = map_get d ''categoryId'',
         prv_Name = map_get d ''name'', prv_Description = map_get d ''description'',
         prv_Price = price, prv_StockQuantity = word_of_int stock,
         prv_CreatedAt = created * 10 ^ 9, prv_UpdatedAt = Some (updated * 10 ^ 9)\<rparr>))))"

text \<open>A stored price that cannot be parsed becomes 0. (\<^verbatim>\<open>NUMERIC(10, 2)\<close> is never out of range.)\<close>

definition toGRPCProduct :: "ext \<Rightarrow> ProductRow \<Rightarrow> ProductV1" where
  "toGRPCProduct X p = \<lparr>
     prv_Id = uuid_text X (pr_ID p),
     prv_CategoryId = (case pr_CategoryID p of None \<Rightarrow> [] | Some c \<Rightarrow> uuid_text X c),
     prv_Name = pr_Name p,
     prv_Description = (case pr_Description p of None \<Rightarrow> [] | Some d \<Rightarrow> d),
     prv_Price = (case parse_float (numeric_text X (pr_Price p)) of None \<Rightarrow> Fin 0 | Some v \<Rightarrow> v),
     prv_StockQuantity = pr_StockQuantity p,
     prv_CreatedAt = pr_CreatedAt p,
     prv_UpdatedAt = pr_UpdatedAt p\<rparr>"

definition ToGRPCProducts :: "ext \<Rightarrow> ProductRow list \<Rightarrow> ProductV1 list" where
  "ToGRPCProducts X ps = map (toGRPCProduct X) ps"

subsection \<open>The cache\<close>

definition productCachePrefix :: string where "productCachePrefix = ''product:''"
definition product_cacheExpirationTime :: int where "product_cacheExpirationTime = 10 * 60 * 10 ^ 9"

definition cacheProduct :: "ext \<Rightarrow> string \<Rightarrow> ProductV1 \<Rightarrow> (redis, go_error + unit list) state" where
  "cacheProduct X i p = exec_pipe [
     rd_hset (productCachePrefix @ i) (productToMap X p),
     rd_expire (productCachePrefix @ i) product_cacheExpirationTime]"

definition deleteProductCache :: "string \<Rightarrow> (redis, go_error + unit) state" where
  "deleteProductCache i = rd_del (productCachePrefix @ i)"

fun invaliteCacheForUpdatedStocks :: "string list \<Rightarrow> (redis, unit) state" where
  "invaliteCacheForUpdatedStocks [] = State_Monad.return ()"
| "invaliteCacheForUpdatedStocks (i # is) = do {
     _ \<leftarrow> deleteProductCache i; invaliteCacheForUpdatedStocks is }"

fun cacheProducts :: "ProductV1 list \<Rightarrow> (product_world, unit) state" where
  "cacheProducts [] = State_Monad.return ()"
| "cacheProducts (p # ps) = do { _ \<leftarrow> p_go (CacheProductTask (prv_Id p) p); cacheProducts ps }"

subsection \<open>Reads\<close>

definition GetProduct :: "ext \<Rightarrow> ctx_err option \<Rightarrow> GetProductRequest \<Rightarrow> (product_world, status + ProductV1) state" where
  "GetProduct X ctx req = (case ctx of Some e \<Rightarrow> fail (ctx_status X e) | None \<Rightarrow> do {
     cached \<leftarrow> p_redis (rd_hgetall (productCachePrefix @ gpq_Id req));
     case (case cached of Inl _ \<Rightarrow> Inl syntax_error
         | Inr d \<Rightarrow> if d = [] then Inl syntax_error else mapToProduct d) of
       Inr p \<Rightarrow> ok p
     | Inl _ \<Rightarrow>
         attempt_pure (parse_uuid X (gpq_Id req))
           (\<lambda>_. Errorf InvalidArgument (''invalid product id format: '' @ gpq_Id req)) (\<lambda>u.
         attempt (p_db (GetProduct_q u))
           (\<lambda>e. if e = ErrNoRows then Errorf NotFound ''product not found''
              else Errorf Internal (''failed to get product: '' @ err_text X e)) (\<lambda>row. do {
         _ \<leftarrow> p_go (CacheProductTask (gpq_Id req) (toGRPCProduct X row));
         ok (toGRPCProduct X row) })) })"

definition split_cached ::
  "string list \<Rightarrow> (string \<times> string) list list \<Rightarrow> ProductV1 list \<times> string list" where
  "split_cached ids cmds =
     (List.map_filter (\<lambda>d. if d \<noteq> [] then (case mapToProduct d of Inr p \<Rightarrow> Some p | Inl _ \<Rightarrow> None) else None) cmds,
      map fst (filter (\<lambda>(i, d). d = []) (zip ids cmds)))"

definition getProductsFromCache :: "string list \<Rightarrow> (redis, ProductV1 list \<times> string list) state" where
  "getProductsFromCache ids = do {
     r \<leftarrow> exec_pipe (map (\<lambda>i. rd_hgetall (productCachePrefix @ i)) ids);
     State_Monad.return (case r of Inl _ \<Rightarrow> ([], ids) | Inr cmds \<Rightarrow> split_cached ids cmds) }"

fun convertToUUIDs :: "ext \<Rightarrow> string list \<Rightarrow> status + uuid list" where
  "convertToUUIDs X [] = Inr []"
| "convertToUUIDs X (i # is) = (case parse_uuid X i of
     Inl _ \<Rightarrow> Inl (Errorf InvalidArgument (''invalid product id format: '' @ i))
   | Inr u \<Rightarrow> (case convertToUUIDs X is of Inl e \<Rightarrow> Inl e | Inr us \<Rightarrow> Inr (u # us)))"

definition getProductsFromDB :: "ext \<Rightarrow> string list \<Rightarrow> (product_world, status + ProductV1 list) state" where
  "getProductsFromDB X missed =
     attempt_pure (convertToUUIDs X missed) id (\<lambda>us.
     attempt (p_db (GetProductsByIDs_q us)) (\<lambda>e. Errorf Internal (''failed to get products: '' @ err_text X e))
       (\<lambda>rows. ok (map (toGRPCProduct X) rows)))"

definition GetProductsByIDs ::
  "ext \<Rightarrow> GetProductsByIDsRequest \<Rightarrow> (product_world, status + ProductV1 list) state" where
  "GetProductsByIDs X req = (if gpi_Ids req = [] then ok [] else do {
     (products, missed) \<leftarrow> p_redis (getProductsFromCache (gpi_Ids req));
     if missed = [] then ok products
     else attempt (getProductsFromDB X missed) id (\<lambda>fresh. do {
       _ \<leftarrow> cacheProducts fresh; ok (products @ fresh) }) })"

definition ListProducts ::
  "ext \<Rightarrow> ctx_err option \<Rightarrow> ListProductsRequest \<Rightarrow> (product_world, status + ProductV1 list) state" where
  "ListProducts X ctx req = (case ctx of Some e \<Rightarrow> fail (ctx_status X e) | None \<Rightarrow>
     attempt (p_db (ListProductsPaginated X (lpr_Limit req) (lpr_Offset req)))
       (\<lambda>e. Errorf Internal (''failed to list products: '' @ err_text X e))
       (\<lambda>rows. ok (map (toGRPCProduct X) rows)))"

definition GetProductsByCategoryID ::
  "ext \<Rightarrow> ctx_err option \<Rightarrow> GetProductsByCategoryIDRequest \<Rightarrow> (product_world, status + ProductV1 list) state" where
  "GetProductsByCategoryID X ctx req = (case ctx of Some e \<Rightarrow> fail (ctx_status X e) | None \<Rightarrow>
     attempt_pure (parse_uuid X (gpc_CategoryId req))
       (\<lambda>_. Errorf InvalidArgument (''invalid category id format: '' @ gpc_CategoryId req)) (\<lambda>u.
     attempt (p_db (GetProductsByCategoryID_q u))
       (\<lambda>e. if is_no_rows e then Errorf NotFound (''no products found for category id: '' @ gpc_CategoryId req)
          else Errorf Internal (''failed to get products by category id: '' @ err_text X e))
       (\<lambda>rows. ok (ToGRPCProducts X rows))))"

subsection \<open>Writes\<close>

definition CreateProduct ::
  "ext \<Rightarrow> ctx_err option \<Rightarrow> CreateProductRequest \<Rightarrow> (product_world, status + ProductV1) state" where
  "CreateProduct X ctx req = (case ctx of Some e \<Rightarrow> fail (ctx_status X e) | None \<Rightarrow>
     attempt_pure (parse_uuid X (cpr_CategoryId req))
       (\<lambda>e. Errorf InvalidArgument (''invalid category ID: '' @ err_text X e)) (\<lambda>category.
     attempt_pure (parse_numeric X (sprintf_f 6 (cpr_Price req)))
       (\<lambda>e. Errorf InvalidArgument (''invalid price: '' @ err_text X e)) (\<lambda>price.
     attempt (p_db (CreateProduct_repo X \<lparr>cpp_CategoryID = Some category, cpp_Name = cpr_Name req,
         cpp_Description = Some (cpr_Description req), cpp_Price = price,
         cpp_StockQuantity = cpr_StockQuantity req\<rparr>))
       (\<lambda>e. Errorf Internal (''failed to create product: '' @ err_text X e)) (\<lambda>row. do {
     _ \<leftarrow> p_go (CacheProductTask (prv_Id (toGRPCProduct X row)) (toGRPCProduct X row));
     ok (toGRPCProduct X row) }))))"

definition UpdateProduct ::
  "ext \<Rightarrow> ctx_err option \<Rightarrow> UpdateProductRequest \<Rightarrow> (product_world, status + ProductV1) state" where
  "UpdateProduct X ctx req = (case ctx of Some e \<Rightarrow> fail (ctx_status X e) | None \<Rightarrow>
     attempt_pure (parse_uuid X (upr_Id req))
       (\<lambda>_. Errorf InvalidArgument (''invalid product id format: '' @ upr_Id req)) (\<lambda>u.
     attempt_pure (parse_uuid X (upr_CategoryId req))
       (\<lambda>e. Errorf InvalidArgument (''invalid category ID: '' @ err_text X e)) (\<lambda>category.
     attempt_pure (parse_numeric X (sprintf_f 6 (upr_Price req)))
       (\<lambda>e. Errorf InvalidArgument (''invalid price: '' @ err_text X e)) (\<lambda>price.
     attempt (p_db (UpdateProduct_repo X \<lparr>cpp_CategoryID = Some category, cpp_Name = upr_Name req,
         cpp_Description = Some (upr_Description req), cpp_Price = price,
         cpp_StockQuantity = upr_StockQuantity req, upp_ID = u\<rparr>))
       (\<lambda>e. if e = ErrNoRows then Errorf NotFound ''product not found''
          else Errorf Internal (''failed to update product: '' @ err_text X e)) (\<lambda>row. do {
     _ \<leftarrow> p_go (CacheProductTask (upr_Id req) (toGRPCProduct X row));
     ok (toGRPCProduct X row) })))))"

text \<open>The product is looked up and deleted in two statements; an error of the cache is logged only.\<close>

definition DeleteProduct ::
  "ext \<Rightarrow> ctx_err option \<Rightarrow> DeleteProductRequest \<Rightarrow> (product_world, status + unit) state" where
  "DeleteProduct X ctx req = (case ctx of Some e \<Rightarrow> fail (ctx_status X e) | None \<Rightarrow>
     attempt_pure (parse_uuid X (dpr_Id req))
       (\<lambda>_. Errorf InvalidArgument (''invalid product id format: '' @ dpr_Id req)) (\<lambda>u.
     attempt (p_db (GetProduct_q u))
       (\<lambda>e. if e = ErrNoRows then Errorf NotFound ''product not found''
          else Errorf Internal (''failed to get product: '' @ err_text X e)) (\<lambda>_.
     attempt (p_db (DeleteProduct_repo X u))
       (\<lambda>e. Errorf Internal (''failed to delete product: '' @ err_text X e)) (\<lambda>_. do {
     _ \<leftarrow> p_redis (deleteProductCache (dpr_Id req));
     ok () }))))"

text \<open>\<^verbatim>\<open>json.Marshal\<close> of the generated struct \<^verbatim>\<open>StockUpdate\<close>: its tags are \<^verbatim>\<open>id,omitempty\<close> and
  \<^verbatim>\<open>quantity,omitempty\<close>.\<close>

definition enc_stock_update :: "StockUpdate \<Rightarrow> json" where
  "enc_stock_update u = JObj ((if su_Id u = [] then [] else [(''id'', JStr (su_Id u))]) @
     (if su_Quantity u = 0 then [] else [(''quantity'', enc_int32 (su_Quantity u))]))"

definition UpdateStockBatch ::
  "ext \<Rightarrow> ctx_err option \<Rightarrow> UpdateStockBatchRequest \<Rightarrow> (product_world, status + unit) state" where
  "UpdateStockBatch X ctx req = (case ctx of Some e \<Rightarrow> fail (ctx_status X e) | None \<Rightarrow>
     ensure (usb_Updates req \<noteq> []) (Errorf InvalidArgument ''no updates provided'') (
     attempt (p_db (UpdateStockBatch_q X (JArr (map enc_stock_update (usb_Updates req)))))
       (\<lambda>e. Errorf Internal (''failed to update stock batch: '' @ err_text X e)) (\<lambda>_. do {
     _ \<leftarrow> p_go (InvalidateStocksTask (map su_Id (usb_Updates req)));
     ok () })))"

end
