(* ===== verification/CategoryService.thy ===== *)
theory CategoryService
  imports ProductService
begin

text \<open>
  The gRPC server of the product categories (\<^verbatim>\<open>product-service/internal/grpc/category\<close>). All
  categories are cached under one key as a JSON text; its timestamps are structs of seconds and
  nanoseconds, and a field with a zero value is left out.
\<close>

definition allProductCategoriesCacheKey :: string where
  "allProductCategoriesCacheKey = ''product_categories:all''"
definition category_cacheExpirationTime :: int where "category_cacheExpirationTime = 60 * 60 * 10 ^ 9"

definition deleteProductCategoriesCache :: "(redis, go_error + unit) state" where
  "deleteProductCategoriesCache = rd_del allProductCategoriesCacheKey"

definition toGrpcProductCategory :: "ext \<Rightarrow> ProductCategoryRow \<Rightarrow> ProductCategoryV1" where
  "toGrpcProductCategory X c = \<lparr>pcv_Id = uuid_text X (pc_ID c), pcv_Name = pc_Name c,
     pcv_Description = (case pc_Description c of None \<Rightarrow> [] | Some d \<Rightarrow> d),
     pcv_CreatedAt = Some (pc_CreatedAt c), pcv_UpdatedAt = pc_UpdatedAt c\<rparr>"

definition toGrpcProductCategories :: "ext \<Rightarrow> ProductCategoryRow list \<Rightarrow> ProductCategoryV1 list" where
  "toGrpcProductCategories X cs = map (toGrpcProductCategory X) cs"

subsection \<open>The cached text\<close>

definition enc_timestamp :: "int \<Rightarrow> json" where
  "enc_timestamp t = JObj ((if t div 10 ^ 9 = 0 then [] else [(''seconds'', JInt (t div 10 ^ 9))]) @
     (if t mod 10 ^ 9 = 0 then [] else [(''nanos'', JInt (t mod 10 ^ 9))]))"

definition enc_time_field :: "string \<Rightarrow> int option \<Rightarrow> (string \<times> json) list" where
  "enc_time_field k t = (case t of None \<Rightarrow> [] | Some t \<Rightarrow> [(k, enc_timestamp t)])"

definition enc_category :: "ProductCategoryV1 \<Rightarrow> json" where
  "enc_category c = JObj (opt_field ''id'' (pcv_Id c = []) (JStr (pcv_Id c)) @
     opt_field ''name'' (pcv_Name c = []) (JStr (pcv_Name c)) @
     opt_field ''description'' (pcv_Description c = []) (JStr (pcv_Description c)) @
     enc_time_field ''created_at'' (pcv_CreatedAt c) @ enc_time_field ''updated_at'' (pcv_UpdatedAt c))"

definition into_timestamp_fields :: "(int \<times> int) decoder" where
  "into_timestamp_fields = into_struct
     [(''seconds'', fld (into_int in_int64) fst (\<lambda>x p. (x, snd p))),
      (''nanos'', fld (into_int in_int32) snd (\<lambda>x p. (fst p, x)))]"

text \<open>A pointer: \<^verbatim>\<open>null\<close> makes it nil, an object is decoded into what it points to.\<close>

definition into_timestamp :: "int option decoder" where
  "into_timestamp j old = (if j = JNull then Some None else
     map_option (\<lambda>(s, n). Some (s * 10 ^ 9 + n))
       (into_timestamp_fields j (case old of None \<Rightarrow> (0, 0) | Some t \<Rightarrow> (t div 10 ^ 9, t mod 10 ^ 9))))"

definition zero_category :: ProductCategoryV1 where
  "zero_category = \<lparr>pcv_Id = [], pcv_Name = [], pcv_Description = [], pcv_CreatedAt = None, pcv_UpdatedAt = None\<rparr>"

definition into_category :: "ProductCategoryV1 decoder" where
  "into_category = into_struct
     [(''id'', fld into_string pcv_Id (\<lambda>x. pcv_Id_update (\<lambda>_. x))),
      (''name'', fld into_string pcv_Name (\<lambda>x. pcv_Name_update (\<lambda>_. x))),
      (''description'', fld into_string pcv_Description (\<lambda>x. pcv_Description_update (\<lambda>_. x))),
      (''created_at'', fld into_timestamp pcv_CreatedAt (\<lambda>x. pcv_CreatedAt_update (\<lambda>_. x))),
      (''updated_at'', fld into_timestamp pcv_UpdatedAt (\<lambda>x. pcv_UpdatedAt_update (\<lambda>_. x)))]"

definition getProductCategoriesFromCache :: "(redis, go_error + ProductCategoryV1 list) state" where
  "getProductCategoriesFromCache = attempt (rd_get allProductCategoriesCacheKey) id (\<lambda>v.
     attempt_pure (unmarshal (into_slice into_category zero_category) (Some [])
         (case v of RJson j \<Rightarrow> Some j | _ \<Rightarrow> None)) id (\<lambda>cs. ok (elems cs)))"

definition getProductCategoriesFromDB :: "ext \<Rightarrow> (product_world, status + ProductCategoryV1 list) state" where
  "getProductCategoriesFromDB X = attempt (p_db (GetProductCategories_q X))
     (\<lambda>e. Errorf Internal (''failed to get product categories: '' @ err_text X e))
     (\<lambda>rows. ok (toGrpcProductCategories X rows))"

definition cacheProductCategories :: "ProductCategoryV1 list \<Rightarrow> (redis, unit) state" where
  "cacheProductCategories cs = do {
     _ \<leftarrow> rd_set allProductCategoriesCacheKey (RJson (JArr (map enc_category cs))) category_cacheExpirationTime;
     State_Monad.return () }"

subsection \<open>Handlers\<close>

definition GetProductCategories ::
  "ext \<Rightarrow> ctx_err option \<Rightarrow> (product_world, status + ProductCategoryV1 list) state" where
  "GetProductCategories X ctx = (case ctx of Some e \<Rightarrow> fail (ctx_status X e) | None \<Rightarrow> do {
     cached \<leftarrow> p_redis getProductCategoriesFromCache;
     case cached of
       Inr cs \<Rightarrow> ok cs
     | Inl _ \<Rightarrow>
         attempt (getProductCategoriesFromDB X)
           (\<lambda>e. Errorf Internal (''failed to get product categories: '' @ err_text X (StatusError e))) (\<lambda>cs. do {
         _ \<leftarrow> p_go (CacheCategoriesTask cs);
         ok cs }) })"

definition CreateProductCategory ::
  "ext \<Rightarrow> ctx_err option \<Rightarrow> CreateProductCategoryRequest \<Rightarrow> (product_world, status + ProductCategoryV1) state" where
  "CreateProductCategory X ctx req = (case ctx of Some e \<Rightarrow> fail (ctx_status X e) | None \<Rightarrow>
     ensure (ccr_Name req \<noteq> []) (Errorf InvalidArgument ''category name is required'') (
     attempt (p_db (CreateProductCategory_q (ccr_Name req)
         (if ccr_Description req = [] then None else Some (ccr_Description req))))
       (\<lambda>e. if e = ErrNoRows then Errorf NotFound (''related resource not found: '' @ err_text X e)
          else Errorf Internal (''failed to create product category: '' @ err_text X e)) (\<lambda>row. do {
     _ \<leftarrow> p_go DeleteCategoriesCacheTask;
     ok (toGrpcProductCategory X row) })))"

definition category_error :: "ext \<Rightarrow> string \<Rightarrow> go_error \<Rightarrow> status" where
  "category_error X verb e = (if e = ErrNoRows then Errorf NotFound (''product category not found: '' @ err_text X e)
     else if e = ErrTooManyRows
          then Errorf Internal (''multiple product categories found with the same ID: '' @ err_text X e)
     else Errorf Internal (''failed to '' @ verb @ '' product category: '' @ err_text X e))"

definition DeleteProductCategory ::
  "ext \<Rightarrow> ctx_err option \<Rightarrow> DeleteProductCategoryRequest \<Rightarrow> (product_world, status + unit) state" where
  "DeleteProductCategory X ctx req = (case ctx of Some e \<Rightarrow> fail (ctx_status X e) | None \<Rightarrow>
     ensure (dlr_Id req \<noteq> []) (Errorf InvalidArgument ''category ID is required'') (
     attempt_pure (parse_uuid X (dlr_Id req))
       (\<lambda>e. Errorf InvalidArgument (''invalid category ID: '' @ err_text X e)) (\<lambda>u.
     attempt (p_db (DeleteProductCategory_q u)) (category_error X ''delete'') (\<lambda>_. do {
     _ \<leftarrow> p_redis deleteProductCategoriesCache;
     ok () }))))"

definition UpdateProductCategory ::
  "ext \<Rightarrow> ctx_err option \<Rightarrow> UpdateProductCategoryRequest \<Rightarrow> (product_world, status + unit) state" where
  "UpdateProductCategory X ctx req = (case ctx of Some e \<Rightarrow> fail (ctx_status X e) | None \<Rightarrow>
     ensure (ucr_Id req \<noteq> []) (Errorf InvalidArgument ''category ID is required'') (
     attempt_pure (parse_uuid X (ucr_Id req))
       (\<lambda>e. Errorf InvalidArgument (''invalid category ID: '' @ err_text X e)) (\<lambda>u.
     attempt (p_db (UpdateProductCategory_q u (ucr_Name req) (Some (ucr_Description req))))
       (category_error X ''update'') (\<lambda>_. do {
     _ \<leftarrow> p_go DeleteCategoriesCacheTask;
     ok () }))))"

text \<open>What the goroutines of the service do when they run.\<close>

fun run_task :: "ext \<Rightarrow> product_task \<Rightarrow> (redis, unit) state" where
  "run_task X (CacheProductTask i p) = do { _ \<leftarrow> cacheProduct X i p; State_Monad.return () }"
| "run_task X (InvalidateStocksTask is) = invaliteCacheForUpdatedStocks is"
| "run_task X (InvalidateItemsTask ps) = do { _ \<leftarrow> invalidateCacheForUpdatedProducts ps; State_Monad.return () }"
| "run_task X DeleteCategoriesCacheTask = do { _ \<leftarrow> deleteProductCategoriesCache; State_Monad.return () }"
| "run_task X (CacheCategoriesTask cs) = cacheProductCategories cs"

end
