(* ===== verification/ProductSpec.thy ===== *)
theory ProductSpec
  imports CategoryService
begin

text \<open>
  Properties of the product service's handlers: the tables, the events of the catalogue, the batch
  update of the stock, the cache.
\<close>

subsection \<open>The tables\<close>

lemma keeps_cacheProducts [keeps_intros]: "keeps product_ok (cacheProducts ps)"
  by (induction ps) (auto intro!: keeps_intros)

lemma keeps_getProductsFromDB [keeps_intros]: "keeps product_ok (getProductsFromDB X is)"
  unfolding getProductsFromDB_def by (intro keeps_intros)

lemma keeps_getCategoriesFromDB [keeps_intros]: "keeps product_ok (getProductCategoriesFromDB X)"
  unfolding getProductCategoriesFromDB_def by (intro keeps_intros)

text \<open>The structure of the handlers carries the invariant of the tables.\<close>

lemma keeps_product_handlers:
  "keeps product_ok (CreateProduct X ctx r1) \<and> keeps product_ok (UpdateProduct X ctx r2) \<and>
   keeps product_ok (DeleteProduct X ctx r3) \<and> keeps product_ok (UpdateStockBatch X ctx r4) \<and>
   keeps product_ok (GetProduct X ctx r5) \<and> keeps product_ok (GetProductsByIDs X r6) \<and>
   keeps product_ok (ListProducts X ctx r7) \<and> keeps product_ok (GetProductsByCategoryID X ctx r8) \<and>
   keeps product_ok (CreateProductCategory X ctx r9) \<and> keeps product_ok (UpdateProductCategory X ctx r10) \<and>
   keeps product_ok (DeleteProductCategory X ctx r11) \<and> keeps product_ok (GetProductCategories X ctx) \<and>
   keeps product_ok (handleOrderCreatedEvent X body)"
  unfolding CreateProduct_def UpdateProduct_def DeleteProduct_def UpdateStockBatch_def GetProduct_def
    GetProductsByIDs_def ListProducts_def GetProductsByCategoryID_def CreateProductCategory_def
    UpdateProductCategory_def DeleteProductCategory_def GetProductCategories_def
  by (intro conjI keeps_intros keeps_handleOrderCreated)

subsection \<open>The batch update of the stock\<close>

lemma stock_update_record: "\<exists>q. stock_record X (enc_stock_update u) = Inr (None, q)"
  by (cases "su_Id u = []"; cases "su_Quantity u = 0")
    (simp_all add: enc_stock_update_def json_column_def enc_int32_def sint_in_int32)

lemma stock_update_records: "\<exists>rs. stock_records X (map enc_stock_update us) = Inr rs \<and> fst ` set rs \<subseteq> {None}"
proof (induction us)
  case (Cons u us)
  obtain q where "stock_record X (enc_stock_update u) = Inr (None, q)" using stock_update_record by blast
  then show ?case using Cons.IH by (auto simp del: stock_record.simps)
qed simp

lemma no_match: "fst ` set rs \<subseteq> {None} \<Longrightarrow> stock_match rs p = None"
  using stock_match_in [of rs p] by (cases "stock_match rs p") force+

text \<open>The batch update of the gRPC interface updates no stock: the request is encoded with the key
  \<^verbatim>\<open>id\<close>, the statement reads the key \<^verbatim>\<open>productId\<close>, so no row of it names a product. With a
  database that answers, the caller is told of success.\<close>

theorem stock_batch_updates_nothing:
  assumes "run_state (UpdateStockBatch X ctx req) w = (r, w')"
  shows "pb_products (pw_db w') = pb_products (pw_db w) \<and>
    (ctx = None \<and> usb_Updates req \<noteq> [] \<and> (\<forall>n. fault_at (pw_db w) n = None) \<and> txn (pw_db w) = NoTx \<longrightarrow> r = Inr ())"
proof -
  let ?j = "JArr (map enc_stock_update (usb_Updates req))"
  obtain rs where rs: "recordset X ?j = Inr rs" "fst ` set rs \<subseteq> {None}"
    using stock_update_records by fastforce
  have none: "stock_match rs p = None" for p by (rule no_match [OF rs(2)])
  have step: "update_stock X ?j n v = Inr (0, v)" for n v
    using rs(1) none by (simp add: update_stock_def take_stock_def map_idI)
  have call: "pb_products v' = pb_products v \<and>
      ((\<forall>n. fault_at v n = None) \<and> txn v = NoTx \<longrightarrow> (\<exists>x. q = Inr x))"
    if "run_state (UpdateStockBatch_q X ?j) v = (q, v')" for v q v'
    using that unfolding UpdateStockBatch_q_def
    by (cases rule: db_call_cases) (use that in \<open>auto simp: step UpdateStockBatch_q_def run_db_call\<close>)
  obtain q v where q: "run_state (UpdateStockBatch_q X ?j) (pw_db w) = (q, v)" by (rule run_pair)
  show ?thesis using assms call [OF q] q
    by (auto simp: UpdateStockBatch_def split: option.splits if_splits sum.splits)
qed

theorem stock_batch_updates_nothing_witness:
  "fst (run_state (UpdateStockBatch sample_ext None
     \<lparr>usb_Updates = [\<lparr>su_Id = uuid_text sample_ext 5, su_Quantity = 2\<rparr>]\<rparr>) product_world_sample) = Inr () \<and>
   pb_products (pw_db (snd (run_state (UpdateStockBatch sample_ext None
     \<lparr>usb_Updates = [\<lparr>su_Id = uuid_text sample_ext 5, su_Quantity = 2\<rparr>]\<rparr>) product_world_sample))) =
   [product_row_sample 5 7, product_row_sample 6 0]"
  using stock_batch_updates_nothing [of sample_ext None "\<lparr>usb_Updates = [\<lparr>su_Id = uuid_text sample_ext 5,
      su_Quantity = 2\<rparr>]\<rparr>" product_world_sample, OF prod.collapse [symmetric]]
  by (simp add: product_world_sample_def product_db_sample_def)

subsection \<open>Changes of the catalogue\<close>

text \<open>The event of a row under a routing name, as the outbox records it.\<close>

definition product_event :: "ext \<Rightarrow> ProductRow \<Rightarrow> ProductEvent" where
  "product_event X p = \<lparr>pe_ID = uuid_text X (pr_ID p),
     pe_CategoryID = (case pr_CategoryID p of None \<Rightarrow> [] | Some c \<Rightarrow> uuid_text X c),
     pe_Name = pr_Name p, pe_Description = (case pr_Description p of None \<Rightarrow> [] | Some d \<Rightarrow> d),
     pe_Price = numeric_text X (pr_Price p), pe_StockQuantity = pr_StockQuantity p\<rparr>"

definition event_added :: "uuid \<Rightarrow> string \<Rightarrow> ProductEvent \<Rightarrow> product_db \<Rightarrow> product_db \<Rightarrow> bool" where
  "event_added u name e w w' \<longleftrightarrow> (\<exists>ev. pb_outbox w' = pb_outbox w @ [ev] \<and> ob_AggregateID ev = u \<and>
     ob_EventName ev = name \<and> ob_Status ev = ''UNPUBLISHED'' \<and> unmarshal_product (Some (ob_Payload ev)) = Inr e)"

text \<open>A transaction of a change and its event happens as a whole or not at all.\<close>

lemma change_with_event:
  assumes run: "run_state (with_tx (attempt m id (\<lambda>p. attempt_pure (productToPayload X p) id (\<lambda>payload.
      attempt (addOutboxEvent (pr_ID p) name payload) id (\<lambda>_. ok p))))) w = (r, w')"
    and m: "\<And>v p v'. run_state m v = (Inr p, v') \<Longrightarrow> pb_outbox v' = pb_outbox v \<and> P v p v'"
    and P: "\<And>v p v' c t c' t' b. P (v\<lparr>calls := c, txn := t\<rparr>) p v' \<Longrightarrow>
      P v p (v'\<lparr>calls := c', txn := t', pb_outbox := b\<rparr>)"
  shows "(\<exists>e. r = Inl e) \<and> same_product_tables w w' \<or>
    (\<exists>p. P w p w' \<and> event_added (pr_ID p) name (product_event X p) w w' \<and> (r = Inr p \<or> (\<exists>e. r = Inl e)))"
  using run
proof (cases rule: with_tx_cases)
  case (rolled_back e c)
  then show ?thesis by (simp add: same_product_tables_def)
next
  case (committed c t x w2 c')
  from committed(1) obtain p v u where p: "run_state m (w\<lparr>calls := c, txn := InTx t\<rparr>) = (Inr p, v)" "x = p"
    and ob: "run_state (CreateOutboxEvent_product (pr_ID p) name (enc_product (product_event X p))) v = (Inr u, w2)"
    by (auto simp: attempt_Inr attempt_pure_Inr productToPayload_def addOutboxEvent_def product_event_def
        simp del: run_attempt run_attempt_pure)
  obtain ev where ev: "pb_outbox w2 = pb_outbox v @ [ev]" "ob_AggregateID ev = pr_ID p" "ob_EventName ev = name"
    "ob_Payload ev = enc_product (product_event X p)" "ob_Status ev = ''UNPUBLISHED''"
    using CreateOutboxEvent_product_Inr [OF ob] by blast
  have w2: "\<exists>b c. w2 = v\<lparr>calls := c, pb_outbox := b\<rparr>"
    using db_call_Inr [OF ob [unfolded CreateOutboxEvent_product_def]]
    by (auto split: sum.splits)
  note mp = m [OF p(1)]
  from w2 obtain b k where "w2 = v\<lparr>calls := k, pb_outbox := b\<rparr>" by blast
  then have "w' = v\<lparr>calls := c', txn := NoTx, pb_outbox := b\<rparr>" using committed(3) by (cases v) simp
  then have "P w p w'" using P [OF conjunct2 [OF mp]] by simp
  moreover have "event_added (pr_ID p) name (product_event X p) w w'"
    using ev mp committed(3) by (auto simp: event_added_def product_decodes)
  ultimately show ?thesis using committed(4) p(2) by blast
qed

lemma create_effect:
  assumes "run_state (CreateProduct X ctx req) w = (r, w')"
  shows "(\<exists>e. r = Inl e) \<and> same_product_tables (pw_db w) (pw_db w') \<or>
    (\<exists>row. pb_products (pw_db w') = pb_products (pw_db w) @ [row] \<and> pr_Name row = cpr_Name req \<and>
       pr_Description row = Some (cpr_Description req) \<and> pr_StockQuantity row = cpr_StockQuantity req \<and>
       (\<exists>price. parse_numeric X (sprintf_f 6 (cpr_Price req)) = Inr price \<and> numeric_10_2 price = Inr (pr_Price row)) \<and>
       parse_uuid X (cpr_CategoryId req) = Inr (the (pr_CategoryID row)) \<and>
       event_added (pr_ID row) ProductCreatedEventName (product_event X row) (pw_db w) (pw_db w') \<and>
       (r = Inr (toGRPCProduct X row) \<or> (\<exists>e. r = Inl e)))"
proof -
  have early: ?thesis if "\<exists>e. r = Inl e" "w' = w" using that by (simp add: same_product_tables_def)
  show ?thesis
  proof (cases "ctx = None \<and> (\<exists>c p. parse_uuid X (cpr_CategoryId req) = Inr c \<and>
      parse_numeric X (sprintf_f 6 (cpr_Price req)) = Inr p)")
    case False
    then show ?thesis using assms early
      by (auto simp: CreateProduct_def split: option.splits sum.splits)
  next
    case True
    then obtain c p where c: "ctx = None" "parse_uuid X (cpr_CategoryId req) = Inr c"
      "parse_numeric X (sprintf_f 6 (cpr_Price req)) = Inr p" by blast
    let ?a = "\<lparr>cpp_CategoryID = Some c, cpp_Name = cpr_Name req, cpp_Description = Some (cpr_Description req),
      cpp_Price = p, cpp_StockQuantity = cpr_StockQuantity req\<rparr>"
    let ?P = "\<lambda>v row v'. pb_products v' = pb_products v @ [row] \<and> pr_Name row = cpr_Name req \<and>
       pr_Description row = Some (cpr_Description req) \<and> pr_StockQuantity row = cpr_StockQuantity req \<and>
       numeric_10_2 p = Inr (pr_Price row) \<and> pr_CategoryID row = Some c"
    have ins: "pb_outbox v' = pb_outbox v \<and> ?P v row v'" if "run_state (CreateProduct_q ?a) v = (Inr row, v')" for v row v'
      using query_row_Inr [OF that [unfolded CreateProduct_q_def]]
      by (auto simp: insert_product_def product_columns_def Let_def split: sum.splits if_splits)
    obtain q d where q: "run_state (CreateProduct_repo X ?a) (pw_db w) = (q, d)" by (rule run_pair)
    from change_with_event [OF q [unfolded CreateProduct_repo_def withProductTx_def], of ?P] ins
    have "(\<exists>e. q = Inl e) \<and> same_product_tables (pw_db w) d \<or>
      (\<exists>row. ?P (pw_db w) row d \<and> event_added (pr_ID row) ProductCreatedEventName (product_event X row) (pw_db w) d \<and>
        (q = Inr row \<or> (\<exists>e. q = Inl e)))" by simp
    moreover have "pw_db w' = d" "r = (case q of Inl e \<Rightarrow> Inl (Errorf Internal (''failed to create product: '' @ err_text X e))
        | Inr row \<Rightarrow> Inr (toGRPCProduct X row))"
      using assms c q by (auto simp: CreateProduct_def split: sum.splits)
    ultimately show ?thesis using c(2,3) by (cases q) auto
  qed
qed

text \<open>C25. Creating a product through the handler leaves the tables as they were, or adds the product with the
  requested data (its price as the column \<^verbatim>\<open>NUMERIC(10, 2)\<close> keeps the requested one) and its unpublished \<^verbatim>\<open>product.created\<close> event, both or none; a product that is returned is
  the one that was added. (An error may hide a commit whose reply was lost.)\<close>

theorem created_product_has_event:
  assumes "run_state (CreateProduct X ctx req) w = (r, w')"
  shows "(\<exists>e. r = Inl e) \<and> same_product_tables (pw_db w) (pw_db w') \<or>
    (\<exists>row. pb_products (pw_db w') = pb_products (pw_db w) @ [row] \<and> pr_Name row = cpr_Name req \<and>
       pr_Description row = Some (cpr_Description req) \<and> pr_StockQuantity row = cpr_StockQuantity req \<and>
       (\<exists>price. parse_numeric X (sprintf_f 6 (cpr_Price req)) = Inr price \<and> numeric_10_2 price = Inr (pr_Price row)) \<and>
       parse_uuid X (cpr_CategoryId req) = Inr (the (pr_CategoryID row)) \<and>
       event_added (pr_ID row) ProductCreatedEventName (product_event X row) (pw_db w) (pw_db w') \<and>
       (r = Inr (toGRPCProduct X row) \<or> (\<exists>e. r = Inl e)))"
  using create_effect [OF assms] .

definition catalogue_sample :: product_world where
  "catalogue_sample = product_world_sample\<lparr>pw_db := product_db_sample\<lparr>pb_categories :=
     [\<lparr>pc_ID = 3, pc_Name = ''drinks'', pc_Description = None, pc_CreatedAt = 0, pc_UpdatedAt = None\<rparr>]\<rparr>\<rparr>"

definition create_sample :: CreateProductRequest where
  "create_sample = \<lparr>cpr_CategoryId = uuid_text sample_ext 3, cpr_Name = ''cup'', cpr_Description = [],
     cpr_Price = Fin (5 / 2), cpr_StockQuantity = 4\<rparr>"

lemma sample_price: "parse_numeric sample_ext (fixed_text 6 (5 / 2)) = Inr (Num (5 / 2))"
proof -
  have "round_half_even (10 ^ 6 * \<bar>5 / 2 :: rat\<bar>) = 2500000" using round_half_even_int [of 2500000] by simp
  from parse_fixed_text [OF _ this] have p: "parse_decimal (fixed_text 6 (5 / 2)) = Some (5 / 2)" by simp
  moreover have "parse_decimal ''NaN'' = None" by code_simp
  ultimately have "fixed_text 6 (5 / 2) \<noteq> ''NaN''" by force
  then show ?thesis by (simp add: parse_numeric_def sample_ext_def p)
qed

lemma sample_numeric: "round_half_away 250 = 250"
  by (simp add: round_half_away_def) linarith

lemma sample_create: "\<exists>p. fst (run_state (CreateProduct sample_ext None create_sample) catalogue_sample) = Inr p"
  using parse_uuid_text [OF sample_uuids, of 3]
  by (simp add: CreateProduct_def create_sample_def sample_price catalogue_sample_def product_world_sample_def
      product_db_sample_def CreateProduct_repo_def withProductTx_def run_with_tx CreateProduct_q_def run_query_row
      run_db_call insert_product_def product_columns_def sample_numeric Let_def productToPayload_def
      addOutboxEvent_def CreateOutboxEvent_product_def insert_outbox_def ProductCreatedEventName_def
      ProductExchangeName_def ProductCreatedRoutingKey_def product_row_sample_def run_tx_commit cong: tx_state.case_cong)

theorem created_product_has_event_witness:
  "\<exists>row w'. run_state (CreateProduct sample_ext None create_sample) catalogue_sample =
       (Inr (toGRPCProduct sample_ext row), w') \<and>
     pb_products (pw_db w') = [product_row_sample 5 7, product_row_sample 6 0, row] \<and> pr_Name row = ''cup''"
proof -
  obtain r w' where run: "run_state (CreateProduct sample_ext None create_sample) catalogue_sample = (r, w')"
    by (rule run_pair)
  from created_product_has_event [OF run] sample_create show ?thesis
    unfolding run by (auto simp: catalogue_sample_def product_db_sample_def create_sample_def)
qed

end
