(* ===== verification/ProductLog.thy ===== *)
theory ProductLog
  imports ProductSpec
begin

text \<open>
  The outbox of the product service as a log of the catalogue. Replaying its product events in the order in which they
  were recorded, the way a reader of the events does (set on \<^verbatim>\<open>product.created\<close> and \<^verbatim>\<open>product.updated\<close>, drop on
  \<^verbatim>\<open>product.deleted\<close>), gives the products of the table. The stock is left out, because orders take it without a
  product event, and the category of a product whose category was deleted, because that sets it to NULL without one.
\<close>

subsection \<open>The replay\<close>

definition replay_row :: "(string \<rightharpoonup> ProductEvent) \<Rightarrow> OutboxRow \<Rightarrow> (string \<rightharpoonup> ProductEvent)" where
  "replay_row m r = (case unmarshal_product (Some (ob_Payload r)) of
     Inl _ \<Rightarrow> m
   | Inr e \<Rightarrow>
      if ob_EventName r = ProductCreatedEventName \<or> ob_EventName r = ProductUpdatedEventName then m(pe_ID e \<mapsto> e)
      else if ob_EventName r = ProductDeletedEventName then m(pe_ID e := None)
      else m)"

definition replay :: "OutboxRow list \<Rightarrow> (string \<rightharpoonup> ProductEvent)" where
  "replay rows = foldl replay_row Map.empty rows"

text \<open>The row a reader would list from an event.\<close>

definition listed_as :: "ext \<Rightarrow> ProductRow \<Rightarrow> ProductEvent \<Rightarrow> bool" where
  "listed_as X p e \<longleftrightarrow> pe_Name e = pr_Name p \<and> pe_Description e = (case pr_Description p of None \<Rightarrow> [] | Some d \<Rightarrow> d) \<and>
     pe_Price e = numeric_text X (pr_Price p) \<and> (\<forall>c. pr_CategoryID p = Some c \<longrightarrow> pe_CategoryID e = uuid_text X c)"

definition in_step :: "ext \<Rightarrow> product_db \<Rightarrow> bool" where
  "in_step X d \<longleftrightarrow> dom (replay (pb_outbox d)) = (\<lambda>p. uuid_text X (pr_ID p)) ` set (pb_products d) \<and>
     (\<forall>p \<in> set (pb_products d). \<exists>e. replay (pb_outbox d) (uuid_text X (pr_ID p)) = Some e \<and> listed_as X p e)"

lemma replay_snoc: "replay (rows @ [r]) = replay_row (replay rows) r"
  by (simp add: replay_def)

lemma replay_map:
  assumes "\<And>r. ob_EventName (f r) = ob_EventName r" and "\<And>r. ob_Payload (f r) = ob_Payload r"
  shows "replay (map f rows) = replay rows"
  by (induction rows rule: rev_induct) (simp_all add: replay_def replay_row_def assms split: sum.split)

lemma replay_status:
  assumes "set_outbox_status ls i st t rows = Inr rs" shows "replay rs = replay rows"
  using assms by (auto simp: set_outbox_status_def intro!: replay_map split: if_splits)

lemma event_names_distinct:
  "ProductDeletedEventName \<noteq> ProductCreatedEventName" "ProductDeletedEventName \<noteq> ProductUpdatedEventName"
  "stockUpdateFailedEventName \<notin> {ProductCreatedEventName, ProductUpdatedEventName, ProductDeletedEventName}"
  by code_simp+




lemma in_step_rows:
  assumes "in_step X d" and "replay (pb_outbox d') = replay (pb_outbox d)" and "pb_products d' = map f (pb_products d)"
    and "\<And>p. pr_ID (f p) = pr_ID p" and "\<And>p e. listed_as X p e \<Longrightarrow> listed_as X (f p) e"
  shows "in_step X d'"
  using assms(1) unfolding in_step_def assms(2,3) by (simp add: assms(4) image_image) (use assms(5) in blast)

lemma in_step_same:
  "in_step X d \<Longrightarrow> replay (pb_outbox d') = replay (pb_outbox d) \<Longrightarrow> pb_products d' = pb_products d \<Longrightarrow> in_step X d'"
  by (simp add: in_step_def)

lemma of_tables_in_step: "of_tables (in_step X)"
  by (simp add: of_tables_def in_step_def)

subsection \<open>The statements and transactions\<close>







text \<open>Statements that move only one of the two, or neither.\<close>

lemma stmt_in_step:
  assumes "\<And>n w x w'. s n w = Inr (x, w') \<Longrightarrow> replay (pb_outbox w') = replay (pb_outbox w) \<and>
    (\<exists>f. pb_products w' = map f (pb_products w) \<and>
      (\<forall>p. pr_ID (f p) = pr_ID p \<and> (\<forall>e. listed_as X p e \<longrightarrow> listed_as X (f p) e)))"
  shows "stmt_keeps (in_step X) s"
proof (rule stmt_keepsI)
  fix n w x w' assume w: "in_step X w" and run: "s n w = Inr (x, w')"
  from assms [OF run] obtain f where "replay (pb_outbox w') = replay (pb_outbox w)" "pb_products w' = map f (pb_products w)"
    "\<And>p. pr_ID (f p) = pr_ID p" "\<And>p e. listed_as X p e \<Longrightarrow> listed_as X (f p) e" by blast
  from in_step_rows [OF w this] show "in_step X w'" .
qed

lemma stmt_in_step_same:
  assumes "\<And>n w x w'. s n w = Inr (x, w') \<Longrightarrow> replay (pb_outbox w') = replay (pb_outbox w) \<and> pb_products w' = pb_products w"
  shows "stmt_keeps (in_step X) s"
  by (rule stmt_keepsI) (use assms in_step_same in metis)

lemma keeps_step_stock [keeps_intros]: "keeps (in_step X) (UpdateStockBatch_q Y params)"
  unfolding UpdateStockBatch_q_def
proof (intro keeps_db_call of_tables_in_step stmt_in_step)
  fix n w x w' assume run: "update_stock Y params n w = Inr (x, w')"
  then obtain rs where w': "w' = w\<lparr>pb_products := map (take_stock (now w n) rs) (pb_products w)\<rparr>"
    by (rule update_stock_Inr)
  show "replay (pb_outbox w') = replay (pb_outbox w) \<and> (\<exists>f. pb_products w' = map f (pb_products w) \<and>
      (\<forall>p. pr_ID (f p) = pr_ID p \<and> (\<forall>e. listed_as X p e \<longrightarrow> listed_as X (f p) e)))"
    unfolding w' by (intro conjI exI [of _ "take_stock (now w n) rs"])
      (simp_all add: take_stock_def listed_as_def split: option.split)
qed

lemma keeps_step_category [keeps_intros]:
  "keeps (in_step X) (DeleteProductCategory_q i)" "keeps (in_step X) (CreateProductCategory_q m b)"
  "keeps (in_step X) (UpdateProductCategory_q i m b)"
proof -
  define f :: "ProductRow \<Rightarrow> ProductRow" where "f p = (if pr_CategoryID p = Some i then p\<lparr>pr_CategoryID := None\<rparr> else p)" for p
  show "keeps (in_step X) (DeleteProductCategory_q i)" unfolding DeleteProductCategory_q_def
    by (intro keeps_db_call of_tables_in_step stmt_in_step)
      (auto simp: listed_as_def f_def [abs_def] intro!: exI [of _ f] split: if_splits)
  show "keeps (in_step X) (CreateProductCategory_q m b)" unfolding CreateProductCategory_q_def
    by (intro keeps_query_row of_tables_in_step stmt_in_step_same) (auto simp: Let_def split: if_splits)
  show "keeps (in_step X) (UpdateProductCategory_q i m b)" unfolding UpdateProductCategory_q_def
    by (intro keeps_db_call of_tables_in_step stmt_in_step_same) auto
qed

lemma keeps_step_reads [keeps_intros]:
  "keeps (in_step X) (GetProduct_q i)" "keeps (in_step X) (GetProductsByCategoryID_q c)"
  "keeps (in_step X) (GetProductsByIDs_q is)" "keeps (in_step X) (GetProductCategories_q Y)"
  "keeps (in_step X) (GetProcessedEventByAggregateIDAndEventName a name)"
  "keeps (in_step X) (ListProductsPaginated Y l k)" "keeps (in_step X) (CreateProcessedEvent a name)"
  "keeps (in_step X) (GetUnpublishedOutboxEvents_product j)" "keeps (in_step X) (UpdateOutboxEventStatus_product i)"
  unfolding GetProduct_q_def GetProductsByCategoryID_q_def GetProductsByIDs_q_def GetProductCategories_q_def
    GetProcessedEventByAggregateIDAndEventName_def ListProductsPaginated_def CreateProcessedEvent_def
    GetUnpublishedOutboxEvents_product_def UpdateOutboxEventStatus_product_def
  by (intro keeps_query_row keeps_db_call of_tables_in_step stmt_in_step_same stmt_keeps_read_only;
      auto simp: read_only_def replay_status split: if_splits sum.splits)+

text \<open>The failure event of the order consumer is no event of a product.\<close>

lemma keeps_step_failure [keeps_intros]:
  "keeps (in_step X) (CreateOutboxEvent_product i stockUpdateFailedEventName payload)"
  unfolding CreateOutboxEvent_product_def
  by (intro keeps_db_call of_tables_in_step stmt_in_step_same)
    (use event_names_distinct(3) in \<open>auto simp: insert_outbox_def replay_snoc replay_row_def split: if_splits sum.splits\<close>)

lemma keeps_step_order [keeps_intros]:
  "keeps (in_step X) (UpdateStockBatch_consumer Y e b stockUpdateFailedEventName payload)"
  unfolding UpdateStockBatch_consumer_def by (intro keeps_with_tx_body of_tables_in_step keeps_intros)

subsection \<open>The service\<close>

lemma keeps_step_p [keeps_intros]:
  "keeps I m \<Longrightarrow> keeps (\<lambda>w. I (pw_db w)) (p_db m)"
  "keeps (\<lambda>w. I (pw_db w)) (p_redis n)" "keeps (\<lambda>w. I (pw_db w)) (p_go t)"
  by (auto simp: keeps_def split: prod.splits)

lemma keeps_step_parts [keeps_intros]:
  "keeps (\<lambda>w. in_step X (pw_db w)) (cacheProducts ps)" "keeps (\<lambda>w. in_step X (pw_db w)) (getProductsFromDB Y is)"
  "keeps (\<lambda>w. in_step X (pw_db w)) (getProductCategoriesFromDB Y)"
proof -
  show "keeps (\<lambda>w. in_step X (pw_db w)) (cacheProducts ps)" by (induction ps) (auto intro!: keeps_intros)
qed (unfold getProductsFromDB_def getProductCategoriesFromDB_def, (intro keeps_intros)+)



end
