(* ===== verification/PaymentService.thy ===== *)
theory PaymentService
  imports Db Api
begin

text \<open>
  The payment service: its tables (\<^verbatim>\<open>internal/db/migrations\<close>), its statements
  (\<^verbatim>\<open>internal/repository\<close>) and its gRPC server (\<^verbatim>\<open>internal/grpc/payment\<close>). A payment is inserted and
  then marked as succeeded by statements of their own, not in one transaction.
\<close>

subsection \<open>Tables and statements\<close>

record PaymentRow =
  py_ID :: uuid
  py_OrderID :: uuid
  py_UserID :: uuid
  py_Amount :: numeric
  py_Status :: uuid
  py_CreatedAt :: int

record PaymentStatusRow =
  ps_ID :: uuid
  ps_Name :: string
  ps_CreatedAt :: int

record payment_db = db_env +
  pd_statuses :: "PaymentStatusRow list"
  pd_payments :: "PaymentRow list"

record CreatePaymentParams =
  cpm_OrderID :: uuid
  cpm_UserID :: uuid
  cpm_Amount :: numeric

text \<open>The trigger \<^verbatim>\<open>set_default_payment_status\<close> gives a new payment the status \<open>PROCESSING\<close>.\<close>

definition insert_payment :: "CreatePaymentParams \<Rightarrow> (payment_db, PaymentRow option) stmt" where
  "insert_payment a n w =
     (case numeric_10_2 (cpm_Amount a) of
        Inl e \<Rightarrow> Inl e
      | Inr amount \<Rightarrow>
         (case find (\<lambda>s. ps_Name s = ''PROCESSING'') (pd_statuses w) of
            None \<Rightarrow> Inl (NotNullViolation ''status'')
          | Some s \<Rightarrow>
             if \<not> num_positive amount then Inl (CheckViolation ''payments_amount_check'')
             else if uuid_at w n \<in> py_ID ` set (pd_payments w) then Inl (UniqueViolation ''payments_pkey'')
             else if cpm_OrderID a \<in> py_OrderID ` set (pd_payments w)
                  then Inl (UniqueViolation ''payments_order_id_key'')
             else (let row = \<lparr>py_ID = uuid_at w n, py_OrderID = cpm_OrderID a, py_UserID = cpm_UserID a,
                     py_Amount = amount, py_Status = ps_ID s, py_CreatedAt = now w n\<rparr> in
                   Inr (Some row, w\<lparr>pd_payments := pd_payments w @ [row]\<rparr>))))"

definition CreatePayment :: "CreatePaymentParams \<Rightarrow> (payment_db, go_error + PaymentRow) state" where
  "CreatePayment a = query_row (insert_payment a)"

definition GetPaymentByID :: "uuid \<Rightarrow> (payment_db, go_error + PaymentRow) state" where
  "GetPaymentByID i = query_row (read_only (\<lambda>w. find (\<lambda>r. py_ID r = i) (pd_payments w)))"

definition GetPaymentStatusByName :: "string \<Rightarrow> (payment_db, go_error + uuid) state" where
  "GetPaymentStatusByName name = query_row (read_only (\<lambda>w.
     map_option ps_ID (find (\<lambda>s. ps_Name s = name) (pd_statuses w))))"

record UpdatePaymentStatusParams =
  ups_ID :: uuid
  ups_Status :: uuid

definition set_payment_status :: "UpdatePaymentStatusParams \<Rightarrow> (payment_db, PaymentRow option) stmt" where
  "set_payment_status a n w =
     (case find (\<lambda>r. py_ID r = ups_ID a) (pd_payments w) of
        None \<Rightarrow> Inr (None, w)
      | Some r \<Rightarrow>
         if ups_Status a \<notin> ps_ID ` set (pd_statuses w) then Inl (ForeignKeyViolation ''payments_status_fkey'')
         else Inr (Some (r\<lparr>py_Status := ups_Status a\<rparr>), w\<lparr>pd_payments :=
           map (\<lambda>r. if py_ID r = ups_ID a then r\<lparr>py_Status := ups_Status a\<rparr> else r) (pd_payments w)\<rparr>))"

definition UpdatePaymentStatus :: "UpdatePaymentStatusParams \<Rightarrow> (payment_db, go_error + PaymentRow) state" where
  "UpdatePaymentStatus a = query_row (set_payment_status a)"

subsection \<open>The server\<close>

definition mapPaymentToGRPC :: "ext \<Rightarrow> PaymentRow \<Rightarrow> go_error + PaymentV1" where
  "mapPaymentToGRPC X p = (case numeric_float64 X (py_Amount p) of
     Inl e \<Rightarrow> Inl (WrappedError ''failed to convert amount to float64'' e)
   | Inr amount \<Rightarrow> Inr \<lparr>pv_Id = uuid_text X (py_ID p), pv_OrderId = uuid_text X (py_OrderID p),
       pv_UserId = uuid_text X (py_UserID p), pv_Amount = amount,
       pv_Status = uuid_text X (py_Status p), pv_CreatedAt = py_CreatedAt p\<rparr>)"

text \<open>\<open>if req.Amount <= 0\<close> is false for a NaN.\<close>

definition validateProcessPaymentRequest :: "ext \<Rightarrow> ProcessPaymentRequest \<Rightarrow> status + CreatePaymentParams" where
  "validateProcessPaymentRequest X req =
     (case parse_uuid X (ppr_OrderId req) of
        Inl _ \<Rightarrow> Inl (Errorf InvalidArgument (''invalid order id format: '' @ ppr_OrderId req))
      | Inr order \<Rightarrow>
     (case parse_uuid X (ppr_UserId req) of
        Inl _ \<Rightarrow> Inl (Errorf InvalidArgument (''invalid user id format: '' @ ppr_UserId req))
      | Inr user \<Rightarrow>
     (case parse_numeric X (sprintf_2f (ppr_Amount req)) of
        Inl _ \<Rightarrow> Inl (Errorf InvalidArgument (''invalid amount format: '' @ sprintf_f 6 (ppr_Amount req)))
      | Inr amount \<Rightarrow>
         if fle_zero (ppr_Amount req)
         then Inl (Errorf InvalidArgument (''amount must be positive: '' @ sprintf_f 6 (ppr_Amount req)))
         else Inr \<lparr>cpm_OrderID = order, cpm_UserID = user, cpm_Amount = amount\<rparr>)))"

definition createDBPayment :: "ext \<Rightarrow> CreatePaymentParams \<Rightarrow> (payment_db, status + PaymentRow) state" where
  "createDBPayment X v = attempt (CreatePayment v)
     (\<lambda>e. Errorf Internal (''failed to create payment: '' @ err_text X e)) ok"

definition updateDBPaymentStatus :: "ext \<Rightarrow> PaymentRow \<Rightarrow> (payment_db, status + PaymentRow) state" where
  "updateDBPaymentStatus X p =
     attempt (GetPaymentStatusByName ''SUCCEEDED'')
       (\<lambda>e. Errorf Internal (''failed to get 'SUCCEEDED' status ID: '' @ err_text X e)) (\<lambda>s.
     attempt (UpdatePaymentStatus \<lparr>ups_ID = py_ID p, ups_Status = s\<rparr>)
       (\<lambda>e. Errorf Internal (''failed to update payment status: '' @ err_text X e)) ok)"

definition processCreateAndUpdatePayment ::
  "ext \<Rightarrow> CreatePaymentParams \<Rightarrow> (payment_db, status + PaymentRow) state" where
  "processCreateAndUpdatePayment X v = attempt (createDBPayment X v) id (updateDBPaymentStatus X)"

definition ProcessPayment ::
  "ext \<Rightarrow> ctx_err option \<Rightarrow> ProcessPaymentRequest \<Rightarrow> (payment_db, status + PaymentV1) state" where
  "ProcessPayment X ctx req = (case ctx of Some e \<Rightarrow> fail (ctx_status X e) | None \<Rightarrow>
     attempt_pure (validateProcessPaymentRequest X req) id (\<lambda>v.
     attempt (processCreateAndUpdatePayment X v) id (\<lambda>p.
     attempt_pure (mapPaymentToGRPC X p)
       (\<lambda>e. Errorf Internal (''failed to convert payment: '' @ err_text X e)) ok)))"

definition GetPayment ::
  "ext \<Rightarrow> ctx_err option \<Rightarrow> GetPaymentRequest \<Rightarrow> (payment_db, status + PaymentV1) state" where
  "GetPayment X ctx req = (case ctx of Some e \<Rightarrow> fail (ctx_status X e) | None \<Rightarrow>
     attempt_pure (parse_uuid X (gpr_Id req))
       (\<lambda>_. Errorf InvalidArgument (''invalid payment id format: '' @ gpr_Id req)) (\<lambda>u.
     attempt (GetPaymentByID u)
       (\<lambda>e. if is_no_rows e then Errorf NotFound (''payment with id '' @ gpr_Id req @ '' not found'')
          else Errorf Internal (''failed to retrieve payment: '' @ err_text X e)) (\<lambda>p.
     attempt_pure (mapPaymentToGRPC X p)
       (\<lambda>e. Errorf Internal (''failed to convert payment: '' @ err_text X e)) ok)))"

subsection \<open>Invariant\<close>

definition payment_statuses_seeded :: "payment_db \<Rightarrow> bool" where
  "payment_statuses_seeded w \<longleftrightarrow> map ps_Name (pd_statuses w) = [''PROCESSING'', ''SUCCEEDED'', ''REJECTED''] \<and>
     distinct (map ps_ID (pd_statuses w))"

definition payment_tables_ok :: "payment_db \<Rightarrow> bool" where
  "payment_tables_ok w \<longleftrightarrow> payment_statuses_seeded w \<and>
     distinct (map py_ID (pd_payments w)) \<and> distinct (map py_OrderID (pd_payments w)) \<and>
     (\<forall>p \<in> set (pd_payments w). num_positive (py_Amount p) \<and> py_Status p \<in> ps_ID ` set (pd_statuses w))"

lemma of_tables_payment_ok: "of_tables payment_tables_ok"
  by (simp add: of_tables_def payment_tables_ok_def payment_statuses_seeded_def)

lemma insert_payment_Inr:
  assumes "insert_payment a n w = Inr (x, w')"
  shows "\<exists>row s. x = Some row \<and> w' = w\<lparr>pd_payments := pd_payments w @ [row]\<rparr> \<and>
    find (\<lambda>s. ps_Name s = ''PROCESSING'') (pd_statuses w) = Some s \<and> py_Status row = ps_ID s \<and>
    numeric_10_2 (cpm_Amount a) = Inr (py_Amount row) \<and> num_positive (py_Amount row) \<and>
    py_OrderID row = cpm_OrderID a \<and> py_UserID row = cpm_UserID a \<and>
    py_ID row \<notin> py_ID ` set (pd_payments w) \<and> cpm_OrderID a \<notin> py_OrderID ` set (pd_payments w)"
  using assms by (auto simp: insert_payment_def Let_def split: sum.splits option.splits if_splits)

lemma stmt_insert_payment: "stmt_keeps payment_tables_ok (insert_payment a)"
proof (rule stmt_keepsI)
  fix n w x w' assume ok: "payment_tables_ok w" and "insert_payment a n w = Inr (x, w')"
  from insert_payment_Inr [OF this(2)] obtain row s where w': "w' = w\<lparr>pd_payments := pd_payments w @ [row]\<rparr>"
    and s: "find (\<lambda>s. ps_Name s = ''PROCESSING'') (pd_statuses w) = Some s" "py_Status row = ps_ID s"
    and row: "num_positive (py_Amount row)" "py_OrderID row = cpm_OrderID a"
      "py_ID row \<notin> py_ID ` set (pd_payments w)" "cpm_OrderID a \<notin> py_OrderID ` set (pd_payments w)" by blast
  have "py_Status row \<in> ps_ID ` set (pd_statuses w)" using find_Some_in [OF s(1)] s(2) by simp
  then show "payment_tables_ok w'" using ok row by (simp add: w' payment_tables_ok_def payment_statuses_seeded_def)
qed

lemma stmt_set_payment_status: "stmt_keeps payment_tables_ok (set_payment_status a)"
proof (rule stmt_keepsI)
  fix n w x w' assume ok: "payment_tables_ok w" and run: "set_payment_status a n w = Inr (x, w')"
  define f :: "PaymentRow \<Rightarrow> PaymentRow"
    where "f = (\<lambda>r. if py_ID r = ups_ID a then r\<lparr>py_Status := ups_Status a\<rparr> else r)"
  have f: "py_ID (f r) = py_ID r" "py_OrderID (f r) = py_OrderID r" "py_Amount (f r) = py_Amount r"
    "py_Status (f r) = py_Status r \<or> py_Status (f r) = ups_Status a" for r
    by (simp_all add: f_def)
  from run consider "w' = w" | "ups_Status a \<in> ps_ID ` set (pd_statuses w)" "w' = w\<lparr>pd_payments := map f (pd_payments w)\<rparr>"
    by (cases "find (\<lambda>r. py_ID r = ups_ID a) (pd_payments w)"; cases "ups_Status a \<in> ps_ID ` set (pd_statuses w)")
      (simp_all add: set_payment_status_def f_def)
  then show "payment_tables_ok w'"
  proof cases
    case 2
    have "py_Status (f r) \<in> ps_ID ` set (pd_statuses w)" if "r \<in> set (pd_payments w)" for r
      using f(4) [of r] 2(1) ok that by (auto simp: payment_tables_ok_def)
    then show ?thesis using ok f by (simp add: 2(2) payment_tables_ok_def payment_statuses_seeded_def comp_def)
  qed (use ok in simp)
qed

lemma keeps_payment_queries [keeps_intros]:
  "keeps payment_tables_ok (CreatePayment a)" "keeps payment_tables_ok (UpdatePaymentStatus b)"
  "keeps payment_tables_ok (GetPaymentByID i)" "keeps payment_tables_ok (GetPaymentStatusByName m)"
  unfolding CreatePayment_def UpdatePaymentStatus_def GetPaymentByID_def GetPaymentStatusByName_def
  by (intro keeps_query_row of_tables_payment_ok stmt_insert_payment stmt_set_payment_status stmt_keeps_read_only)+

subsection \<open>The outcome of a payment\<close>

lemma failed_payment_tables [simp]:
  "pd_statuses (failed w) = pd_statuses w" "pd_payments (failed w) = pd_payments w"
  by (simp_all add: failed_def)

definition same_payment_tables :: "payment_db \<Rightarrow> payment_db \<Rightarrow> bool" where
  "same_payment_tables w w' \<longleftrightarrow> pd_statuses w' = pd_statuses w \<and> pd_payments w' = pd_payments w"

definition payment_added :: "CreatePaymentParams \<Rightarrow> PaymentRow \<Rightarrow> payment_db \<Rightarrow> payment_db \<Rightarrow> bool" where
  "payment_added a row w w' \<longleftrightarrow> pd_statuses w' = pd_statuses w \<and> pd_payments w' = pd_payments w @ [row] \<and>
     (\<exists>s \<in> set (pd_statuses w). ps_Name s = ''PROCESSING'' \<and> py_Status row = ps_ID s) \<and>
     numeric_10_2 (cpm_Amount a) = Inr (py_Amount row) \<and> py_OrderID row = cpm_OrderID a \<and>
     py_UserID row = cpm_UserID a \<and> py_ID row \<notin> py_ID ` set (pd_payments w)"

lemma CreatePayment_effect:
  assumes "run_state (CreatePayment a) w = (r, w')"
  shows "(\<exists>e. r = Inl e) \<and> same_payment_tables w w' \<or>
    (\<exists>row. payment_added a row w w' \<and> (r = Inr row \<or> (\<exists>e. r = Inl e)))"
proof -
  have ins: "\<exists>row. x = Some row \<and> payment_added a row w v \<and> payment_added a row w (failed v)"
    if st: "insert_payment a (calls w) (w\<lparr>calls := Suc (calls w)\<rparr>) = Inr (x, v)" for x v
  proof -
    from insert_payment_Inr [OF st] obtain row s where row: "x = Some row"
      "v = w\<lparr>calls := Suc (calls w), pd_payments := pd_payments w @ [row]\<rparr>"
      "find (\<lambda>s. ps_Name s = ''PROCESSING'') (pd_statuses w) = Some s" "py_Status row = ps_ID s"
      "numeric_10_2 (cpm_Amount a) = Inr (py_Amount row)" "py_OrderID row = cpm_OrderID a"
      "py_UserID row = cpm_UserID a" "py_ID row \<notin> py_ID ` set (pd_payments w)"
      by auto
    have "\<exists>s \<in> set (pd_statuses w). ps_Name s = ''PROCESSING'' \<and> py_Status row = ps_ID s"
      using find_Some_in [OF row(3)] row(4) by blast
    then show ?thesis using row by (simp add: payment_added_def)
  qed
  from assms [unfolded CreatePayment_def] show ?thesis
  proof (cases rule: query_row_cases)
    case (failed e)
    then show ?thesis by (simp add: same_payment_tables_def)
  next
    case (lost e x v)
    then show ?thesis using ins [OF lost(2)] by blast
  next
    case none
    then show ?thesis using ins [OF none(2)] by blast
  next
    case (row x)
    then show ?thesis using ins [OF row(2)] by blast
  qed
qed

definition mark_payment :: "uuid \<Rightarrow> uuid \<Rightarrow> PaymentRow list \<Rightarrow> PaymentRow list" where
  "mark_payment i st ps = map (\<lambda>r. if py_ID r = i then r\<lparr>py_Status := st\<rparr> else r) ps"

lemma mark_new:
  assumes "py_ID row \<notin> py_ID ` set ps"
  shows "mark_payment (py_ID row) st (ps @ [row]) = ps @ [row\<lparr>py_Status := st\<rparr>]"
    "find (\<lambda>r. py_ID r = py_ID row) (ps @ [row]) = Some row"
  using assms by (induction ps) (auto simp: mark_payment_def)

text \<open>Marking the payment that was added last.\<close>

lemma UpdatePaymentStatus_effect:
  assumes run: "run_state (UpdatePaymentStatus \<lparr>ups_ID = py_ID row, ups_Status = st\<rparr>) w = (r, w')"
    and w: "pd_payments w = ps @ [row]" "py_ID row \<notin> py_ID ` set ps"
  shows "pd_statuses w' = pd_statuses w \<and> ((\<exists>e. r = Inl e) \<and> pd_payments w' = ps @ [row] \<or>
    pd_payments w' = ps @ [row\<lparr>py_Status := st\<rparr>] \<and> (r = Inr (row\<lparr>py_Status := st\<rparr>) \<or> (\<exists>e. r = Inl e)))"
proof -
  let ?a = "\<lparr>ups_ID = py_ID row, ups_Status = st\<rparr>"
  have upd: "x = Some (row\<lparr>py_Status := st\<rparr>) \<and> pd_statuses v = pd_statuses w \<and> pd_payments v = ps @ [row\<lparr>py_Status := st\<rparr>]"
    if "set_payment_status ?a (calls w) (w\<lparr>calls := Suc (calls w)\<rparr>) = Inr (x, v)" for x v
    using that mark_new [OF w(2)] w(1) by (auto simp: set_payment_status_def mark_payment_def split: if_splits)
  from run [unfolded UpdatePaymentStatus_def] show ?thesis
  proof (cases rule: query_row_cases)
    case (lost e x v)
    then show ?thesis using upd [OF lost(2)] by simp
  next
    case none
    then show ?thesis using upd [OF none(2)] by simp
  next
    case (row x)
    then show ?thesis using upd [OF row(2)] by simp
  qed (simp add: w(1))
qed

lemma GetPaymentStatusByName_effect:
  assumes "run_state (GetPaymentStatusByName name) w = (r, w')"
  shows "same_payment_tables w w' \<and> (\<forall>u. r = Inr u \<longrightarrow> (\<exists>s \<in> set (pd_statuses w). ps_Name s = name \<and> u = ps_ID s))"
  using assms [unfolded GetPaymentStatusByName_def]
  by (cases rule: query_row_cases) (auto simp: same_payment_tables_def dest: find_Some_in)

definition payment_recorded :: "CreatePaymentParams \<Rightarrow> string \<Rightarrow> PaymentRow \<Rightarrow> payment_db \<Rightarrow> payment_db \<Rightarrow> bool" where
  "payment_recorded a name row w w' \<longleftrightarrow> pd_statuses w' = pd_statuses w \<and> pd_payments w' = pd_payments w @ [row] \<and>
     numeric_10_2 (cpm_Amount a) = Inr (py_Amount row) \<and> py_OrderID row = cpm_OrderID a \<and> py_UserID row = cpm_UserID a \<and>
     (\<exists>s \<in> set (pd_statuses w). ps_Name s = name \<and> py_Status row = ps_ID s)"

lemma updateDBPaymentStatus_effect:
  assumes run: "run_state (updateDBPaymentStatus X row) w1 = (r, w')" and add: "payment_added a row w w1"
  shows "(\<exists>e. r = Inl e) \<and> payment_recorded a ''PROCESSING'' row w w' \<or>
    (\<exists>row'. payment_recorded a ''SUCCEEDED'' row' w w' \<and> (r = Inr row' \<or> (\<exists>e. r = Inl e)))"
proof -
  obtain t w2 where t: "run_state (GetPaymentStatusByName ''SUCCEEDED'') w1 = (t, w2)" by (rule run_pair)
  note w2 = GetPaymentStatusByName_effect [OF t]
  have rec: "payment_recorded a ''PROCESSING'' row w v"
    if "pd_statuses v = pd_statuses w1" "pd_payments v = pd_payments w @ [row]" for v
    using add that unfolding payment_added_def payment_recorded_def by simp
  show ?thesis
  proof (cases t)
    case (Inl e)
    then have "(\<exists>e. r = Inl e) \<and> w' = w2" using run t by (auto simp: updateDBPaymentStatus_def)
    then show ?thesis using rec [of w2] w2 add by (simp add: same_payment_tables_def payment_added_def)
  next
    case (Inr u)
    then obtain s where s: "s \<in> set (pd_statuses w)" "ps_Name s = ''SUCCEEDED''" "u = ps_ID s"
      using w2 add by (auto simp: payment_added_def)
    obtain z w3 where z: "run_state (UpdatePaymentStatus \<lparr>ups_ID = py_ID row, ups_Status = u\<rparr>) w2 = (z, w3)" by (rule run_pair)
    have fin: "w' = w3" "\<forall>e. z = Inl e \<longrightarrow> (\<exists>e. r = Inl e)" "\<forall>p. z = Inr p \<longrightarrow> r = Inr p"
      using run t z Inr by (auto simp: updateDBPaymentStatus_def split: sum.splits)
    have ps: "pd_payments w2 = pd_payments w @ [row]" "py_ID row \<notin> py_ID ` set (pd_payments w)" "pd_statuses w2 = pd_statuses w1"
      using w2 add by (auto simp: same_payment_tables_def payment_added_def)
    have ok: "payment_recorded a ''SUCCEEDED'' (row\<lparr>py_Status := u\<rparr>) w w3"
      if "pd_payments w3 = pd_payments w @ [row\<lparr>py_Status := u\<rparr>]" "pd_statuses w3 = pd_statuses w2"
      using that add s ps(3) unfolding payment_added_def payment_recorded_def by auto
    from UpdatePaymentStatus_effect [OF z ps(1,2)] show ?thesis
      using fin ok rec [of w3] ps(3) by metis
  qed
qed

subsection \<open>A sample\<close>

definition payment_db_sample :: payment_db where
  "payment_db_sample = \<lparr>calls = 0, fault_at = (\<lambda>n. None), clock_at = int, uuid_at = (\<lambda>n. of_nat (100 + n)),
     txn = NoTx,
     pd_statuses = [\<lparr>ps_ID = 1, ps_Name = ''PROCESSING'', ps_CreatedAt = 0\<rparr>,
       \<lparr>ps_ID = 2, ps_Name = ''SUCCEEDED'', ps_CreatedAt = 0\<rparr>, \<lparr>ps_ID = 3, ps_Name = ''REJECTED'', ps_CreatedAt = 0\<rparr>],
     pd_payments = [\<lparr>py_ID = 50, py_OrderID = 9, py_UserID = 7, py_Amount = Num 5, py_Status = 1, py_CreatedAt = 0\<rparr>]\<rparr>"

lemma payment_sample_ok: "payment_tables_ok payment_db_sample" "payment_statuses_seeded payment_db_sample"
  by (simp_all add: payment_tables_ok_def payment_statuses_seeded_def payment_db_sample_def)

definition payment_request_sample :: ProcessPaymentRequest where
  "payment_request_sample = \<lparr>ppr_OrderId = uuid_text sample_ext 8, ppr_UserId = uuid_text sample_ext 7, ppr_Amount = Fin (5 / 2)\<rparr>"

lemma payment_sample_amount: "sprintf_2f (Fin (5 / 2)) = cents_text 250"
  by (simp add: cents_text_def)

subsection \<open>The properties\<close>

text \<open>What a payment leaves behind.\<close>

lemma ProcessPayment_effect:
  assumes "run_state (ProcessPayment X ctx req) w = (r, w')"
  shows "(\<exists>e. r = Inl e) \<and> same_payment_tables w w' \<or>
    (\<exists>a. validateProcessPaymentRequest X req = Inr a \<and>
       ((\<exists>e row. r = Inl e \<and> payment_recorded a ''PROCESSING'' row w w') \<or>
        (\<exists>row. payment_recorded a ''SUCCEEDED'' row w w' \<and>
           ((\<exists>p. r = Inr p \<and> mapPaymentToGRPC X row = Inr p) \<or> (\<exists>e. r = Inl e)))))"
proof (cases "ctx = None \<and> (\<exists>v. validateProcessPaymentRequest X req = Inr v)")
  case False
  then have "(\<exists>e. r = Inl e) \<and> w' = w" using assms by (auto simp: ProcessPayment_def split: option.splits sum.splits)
  then show ?thesis by (simp add: same_payment_tables_def)
next
  case True
  then obtain v where v: "ctx = None" "validateProcessPaymentRequest X req = Inr v" by blast
  obtain q w1 where q: "run_state (CreatePayment v) w = (q, w1)" by (rule run_pair)
  show ?thesis
  proof (cases q)
    case (Inl e)
    then have "(\<exists>e. r = Inl e) \<and> w' = w1" using assms v q
      by (auto simp: ProcessPayment_def processCreateAndUpdatePayment_def createDBPayment_def)
    moreover have "payment_recorded v ''PROCESSING'' row w w1" if "payment_added v row w w1" for row
      using that by (simp add: payment_added_def payment_recorded_def)
    ultimately show ?thesis using CreatePayment_effect [OF q] v(2) by blast
  next
    case (Inr row)
    then have add: "payment_added v row w w1" using CreatePayment_effect [OF q] by auto
    obtain u w2 where u: "run_state (updateDBPaymentStatus X row) w1 = (u, w2)" by (rule run_pair)
    then have "w' = w2 \<and> (\<forall>e. u = Inl e \<longrightarrow> (\<exists>e. r = Inl e)) \<and>
        (\<forall>p. u = Inr p \<longrightarrow> (\<exists>g. r = Inr g \<and> mapPaymentToGRPC X p = Inr g) \<or> (\<exists>e. r = Inl e))"
      using assms v q Inr
      by (auto simp: ProcessPayment_def processCreateAndUpdatePayment_def createDBPayment_def split: sum.splits)
    then show ?thesis using updateDBPaymentStatus_effect [OF u add] v(2) by metis
  qed
qed

text \<open>C13. What a payment leaves behind, whatever the database does: nothing and an error; or the payment of the
  request, still \<^verbatim>\<open>PROCESSING\<close>, and an error; or the payment with the status \<^verbatim>\<open>SUCCEEDED\<close>. A payment that is
  returned is recorded as succeeded. (An error may hide a change whose reply was lost.)\<close>

theorem ProcessPayment_outcome:
  assumes "run_state (ProcessPayment X ctx req) w = (r, w')"
  shows "(\<exists>e. r = Inl e) \<and> same_payment_tables w w' \<or>
    (\<exists>a. validateProcessPaymentRequest X req = Inr a \<and>
       ((\<exists>e row. r = Inl e \<and> payment_recorded a ''PROCESSING'' row w w') \<or>
        (\<exists>row. payment_recorded a ''SUCCEEDED'' row w w' \<and>
           ((\<exists>p. r = Inr p \<and> mapPaymentToGRPC X row = Inr p) \<or> (\<exists>e. r = Inl e)))))"
  using ProcessPayment_effect [OF assms] .

theorem ProcessPayment_outcome_witness:
  "\<exists>e. run_state (ProcessPayment sample_ext (Some CtxCanceled) payment_request_sample) payment_db_sample =
       (Inl e, payment_db_sample) \<and> same_payment_tables payment_db_sample payment_db_sample"
proof -
  have "run_state (ProcessPayment sample_ext (Some CtxCanceled) payment_request_sample) payment_db_sample =
      (Inl (ctx_status sample_ext CtxCanceled), payment_db_sample)"
    by (simp add: ProcessPayment_def)
  from ProcessPayment_outcome [OF this] this show ?thesis by (auto simp: payment_recorded_def)
qed

text \<open>An order is paid at most once: a payment for an order that has one, in whatever status, fails and changes
  no table. So a payment that was left \<^verbatim>\<open>PROCESSING\<close> by a failure between the two statements is never
  completed: every retry fails too.\<close>

theorem second_payment_refused:
  assumes "run_state (ProcessPayment X ctx req) w = (r, w')"
    and "parse_uuid X (ppr_OrderId req) = Inr i" and "i \<in> py_OrderID ` set (pd_payments w)"
  shows "(\<exists>e. r = Inl e) \<and> same_payment_tables w w'"
proof (cases "ctx = None \<and> (\<exists>v. validateProcessPaymentRequest X req = Inr v)")
  case False
  then have "(\<exists>e. r = Inl e) \<and> w' = w" using assms(1)
    by (auto simp: ProcessPayment_def split: option.splits sum.splits)
  then show ?thesis by (simp add: same_payment_tables_def)
next
  case True
  then obtain v where v: "ctx = None" "validateProcessPaymentRequest X req = Inr v" by blast
  then have i: "cpm_OrderID v = i" using assms(2)
    by (auto simp: validateProcessPaymentRequest_def split: sum.splits if_splits)
  have no: "insert_payment v n (w\<lparr>calls := c\<rparr>) \<noteq> Inr (x, u)" for n c x u
    using insert_payment_Inr [of v n "w\<lparr>calls := c\<rparr>" x u] i assms(3) by auto
  obtain q w1 where q: "run_state (CreatePayment v) w = (q, w1)" by (rule run_pair)
  from q [unfolded CreatePayment_def] have "(\<exists>e. q = Inl e) \<and> same_payment_tables w w1"
    by (cases rule: query_row_cases) (use no in \<open>auto simp: same_payment_tables_def\<close>)
  then show ?thesis using assms(1) v q
    by (auto simp: ProcessPayment_def processCreateAndUpdatePayment_def createDBPayment_def)
qed

theorem second_payment_refused_witness:
  "\<exists>e w'. run_state (ProcessPayment sample_ext None \<lparr>ppr_OrderId = uuid_text sample_ext 9, ppr_UserId = uuid_text sample_ext 7,
       ppr_Amount = Fin (5 / 2)\<rparr>) payment_db_sample = (Inl e, w') \<and> same_payment_tables payment_db_sample w'"
proof -
  let ?r = "\<lparr>ppr_OrderId = uuid_text sample_ext 9, ppr_UserId = uuid_text sample_ext 7, ppr_Amount = Fin (5 / 2)\<rparr>"
  obtain r w' where run: "run_state (ProcessPayment sample_ext None ?r) payment_db_sample = (r, w')" by (rule run_pair)
  have "parse_uuid sample_ext (ppr_OrderId ?r) = Inr 9" using parse_uuid_text [OF sample_uuids] by simp
  from second_payment_refused [OF run this] run show ?thesis by (auto simp: payment_db_sample_def)
qed

text \<open>A payment with a database that answers, for any amount its column takes.\<close>

lemma ProcessPayment_run:
  assumes "\<forall>n. fault_at w n = None" and "txn w = NoTx" and "payment_statuses_seeded w" and "uuid_round_trip X"
    and req: "req = \<lparr>ppr_OrderId = uuid_text X i, ppr_UserId = uuid_text X u, ppr_Amount = amount\<rparr>"
    and am: "parse_numeric X (sprintf_2f amount) = Inr n" "\<not> fle_zero amount" "numeric_10_2 n = Inr n" "num_positive n"
      "numeric_float64 X n = Inr a"
    and new: "i \<notin> py_OrderID ` set (pd_payments w)" "uuid_at w (calls w) \<notin> py_ID ` set (pd_payments w)"
  shows "\<exists>p w' w'' s row. run_state (ProcessPayment X None req) w = (Inr p, w') \<and> pv_Amount p = a \<and>
    pv_OrderId p = uuid_text X i \<and> pv_UserId p = uuid_text X u \<and>
    s \<in> set (pd_statuses w) \<and> ps_Name s = ''SUCCEEDED'' \<and> pv_Status p = uuid_text X (ps_ID s) \<and>
    pd_payments w' = pd_payments w @ [row] \<and> py_Amount row = n \<and>
    run_state (GetPayment X None \<lparr>gpr_Id = pv_Id p\<rparr>) w' = (Inr p, w'')"
proof -
  obtain s0 s1 s2 where st: "pd_statuses w = [s0, s1, s2]" "ps_Name s0 = ''PROCESSING''" "ps_Name s1 = ''SUCCEEDED''"
    using assms(3) by (auto simp: payment_statuses_seeded_def map_eq_Cons_conv)
  let ?v = "\<lparr>cpm_OrderID = i, cpm_UserID = u, cpm_Amount = n\<rparr>"
  let ?row = "\<lparr>py_ID = uuid_at w (calls w), py_OrderID = i, py_UserID = u, py_Amount = n,
    py_Status = ps_ID s0, py_CreatedAt = now w (calls w)\<rparr>"
  let ?w1 = "w\<lparr>calls := Suc (calls w), pd_payments := pd_payments w @ [?row]\<rparr>"
  have v: "validateProcessPaymentRequest X req = Inr ?v"
    using am(1,2) parse_uuid_text [OF assms(4)] by (simp add: req validateProcessPaymentRequest_def)
  have "now (w\<lparr>calls := k\<rparr>) m = now w m" for k m
    by (simp add: now_def cong: tx_state.case_cong)
  then have ins: "insert_payment ?v (calls w) (w\<lparr>calls := Suc (calls w)\<rparr>) = Inr (Some ?row, ?w1)"
    using am(3,4) st new by (simp add: insert_payment_def Let_def)
  have create: "run_state (createDBPayment X ?v) w = (Inr ?row, ?w1)"
    using assms(1,2) ins by (simp add: createDBPayment_def CreatePayment_def run_query_row run_db_call)
  let ?done = "?row\<lparr>py_Status := ps_ID s1\<rparr>"
  let ?w2 = "w\<lparr>calls := Suc (Suc (Suc (calls w))), pd_payments := pd_payments w @ [?done]\<rparr>"
  have upd: "run_state (updateDBPaymentStatus X ?row) ?w1 = (Inr ?done, ?w2)"
    using assms(1,2) st mark_new [of ?row "pd_payments w", OF, unfolded mark_payment_def] new(2)
    by (simp add: updateDBPaymentStatus_def GetPaymentStatusByName_def UpdatePaymentStatus_def run_query_row
        run_db_call set_payment_status_def)
  let ?p = "\<lparr>pv_Id = uuid_text X (uuid_at w (calls w)), pv_OrderId = uuid_text X i, pv_UserId = uuid_text X u,
    pv_Amount = a, pv_Status = uuid_text X (ps_ID s1), pv_CreatedAt = now w (calls w)\<rparr>"
  have m: "mapPaymentToGRPC X ?done = Inr ?p" using am(5) by (simp add: mapPaymentToGRPC_def)
  have "run_state (ProcessPayment X None req) w = (Inr ?p, ?w2)"
    using v create upd m by (simp add: ProcessPayment_def processCreateAndUpdatePayment_def)
  moreover have "find (\<lambda>r. py_ID r = uuid_at w (calls w)) (pd_payments w @ [?done]) = Some ?done"
    using mark_new(2) [of ?done "pd_payments w"] new(2) by simp
  then have "\<exists>w''. run_state (GetPayment X None \<lparr>gpr_Id = pv_Id ?p\<rparr>) ?w2 = (Inr ?p, w'')"
    using assms(1,2) m parse_uuid_text [OF assms(4)]
    by (simp add: GetPayment_def GetPaymentByID_def run_query_row run_db_call)
  moreover from this obtain w'' where "run_state (GetPayment X None \<lparr>gpr_Id = pv_Id ?p\<rparr>) ?w2 = (Inr ?p, w'')" by blast
  moreover have "s1 \<in> set (pd_statuses w)" by (simp add: st(1))
  ultimately show ?thesis using st(3)
    by (intro exI [of _ ?p] exI [of _ ?w2] exI [of _ w''] exI [of _ s1] exI [of _ ?done] conjI) simp_all
qed

text \<open>C40. With a database that answers, the first payment of an order succeeds with exactly the requested
  amount of cents, the identifiers of the request and the status \<^verbatim>\<open>SUCCEEDED\<close>, and it can be read back.\<close>

theorem payment_read_back:
  assumes "\<forall>n. fault_at w n = None" and "txn w = NoTx" and "payment_statuses_seeded w"
    and "uuid_round_trip X" and "scans_cents X" and "floats_cents X"
    and "req = \<lparr>ppr_OrderId = uuid_text X i, ppr_UserId = uuid_text X u, ppr_Amount = amount\<rparr>"
    and "sprintf_2f amount = cents_text c" and "\<not> fle_zero amount" and "0 < c" and "c < 10 ^ 10"
    and "i \<notin> py_OrderID ` set (pd_payments w)" and "uuid_at w (calls w) \<notin> py_ID ` set (pd_payments w)"
  shows "\<exists>p w' w'' s. run_state (ProcessPayment X None req) w = (Inr p, w') \<and> pv_Amount p = cents_float c \<and>
    pv_OrderId p = uuid_text X i \<and> pv_UserId p = uuid_text X u \<and>
    s \<in> set (pd_statuses w) \<and> ps_Name s = ''SUCCEEDED'' \<and> pv_Status p = uuid_text X (ps_ID s) \<and>
    run_state (GetPayment X None \<lparr>gpr_Id = pv_Id p\<rparr>) w' = (Inr p, w'')"
proof -
  have "parse_numeric X (sprintf_2f amount) = Inr (Num (of_int c / 100))"
    using mapped_cents [OF assms(5)] assms(8) by simp
  moreover have "numeric_float64 X (Num (of_int c / 100)) = Inr (cents_float c)"
    using assms(6,10,11) by (simp add: numeric_float64_def floats_cents_def)
  ultimately show ?thesis
    using ProcessPayment_run [OF assms(1-4,7) _ assms(9) _ _ _ assms(12,13)] numeric_10_2_cents [of c] assms(10,11)
    by fastforce
qed

theorem payment_read_back_witness:
  "\<exists>p w' w''. run_state (ProcessPayment sample_ext None payment_request_sample) payment_db_sample = (Inr p, w') \<and>
     pv_Amount p = cents_float 250 \<and> pv_Status p = uuid_text sample_ext 2 \<and>
     run_state (GetPayment sample_ext None \<lparr>gpr_Id = pv_Id p\<rparr>) w' = (Inr p, w'')"
proof -
  have "\<exists>p w' w'' s. run_state (ProcessPayment sample_ext None payment_request_sample) payment_db_sample = (Inr p, w') \<and>
    pv_Amount p = cents_float 250 \<and> pv_OrderId p = uuid_text sample_ext 8 \<and> pv_UserId p = uuid_text sample_ext 7 \<and>
    s \<in> set (pd_statuses payment_db_sample) \<and> ps_Name s = ''SUCCEEDED'' \<and> pv_Status p = uuid_text sample_ext (ps_ID s) \<and>
    run_state (GetPayment sample_ext None \<lparr>gpr_Id = pv_Id p\<rparr>) w' = (Inr p, w'')"
    by (rule payment_read_back [OF _ _ payment_sample_ok(2) sample_uuids sample_scans sample_floats
        payment_request_sample_def payment_sample_amount])
      (simp_all add: payment_db_sample_def)
  then show ?thesis by (fastforce simp: payment_db_sample_def)
qed

text \<open>A payment of \<^verbatim>\<open>NaN\<close> succeeds: the check for a positive amount lets it pass, and so does the constraint
  of the table, for which \<^verbatim>\<open>NaN\<close> is greater than every number.\<close>

theorem NaN_payment_succeeds:
  assumes "\<forall>n. fault_at w n = None" and "txn w = NoTx" and "payment_statuses_seeded w" and "uuid_round_trip X"
    and "scan_numeric X ''NaN'' = Inr NumNaN" and "numeric_float X NumNaN = Inr NaN"
    and "req = \<lparr>ppr_OrderId = uuid_text X i, ppr_UserId = uuid_text X u, ppr_Amount = NaN\<rparr>"
    and "i \<notin> py_OrderID ` set (pd_payments w)" and "uuid_at w (calls w) \<notin> py_ID ` set (pd_payments w)"
  shows "\<exists>p w' row. run_state (ProcessPayment X None req) w = (Inr p, w') \<and> pv_Amount p = NaN \<and>
    pd_payments w' = pd_payments w @ [row] \<and> py_Amount row = NumNaN"
  using ProcessPayment_run [OF assms(1-4,7) _ _ _ _ _ assms(8,9), of NumNaN NaN] assms(5,6)
  by (fastforce simp: parse_numeric_def numeric_float64_def)

theorem NaN_payment_succeeds_witness:
  "\<exists>p w' row. run_state (ProcessPayment sample_ext None \<lparr>ppr_OrderId = uuid_text sample_ext 8, ppr_UserId = uuid_text sample_ext 7,
       ppr_Amount = NaN\<rparr>) payment_db_sample = (Inr p, w') \<and> pv_Amount p = NaN \<and>
     pd_payments w' = pd_payments payment_db_sample @ [row] \<and> py_Amount row = NumNaN"
  by (rule NaN_payment_succeeds [OF _ _ payment_sample_ok(2) sample_uuids _ _ refl])
    (simp_all add: payment_db_sample_def sample_ext_def)

end
