(* ===== verification/CartRepo.thy ===== *)
theory CartRepo
  imports Db Events
begin

text \<open>
  The database of the cart service: its tables with the constraints of the migrations, its statements
  (\<^verbatim>\<open>internal/repository\<close>), and the transaction of the consumer of created orders. A query that
  returns several rows gives them in the order of the table; the code relies on no order.
\<close>

subsection \<open>Tables\<close>

record CartRow =
  ct_ID :: uuid
  ct_UserID :: uuid
  ct_CreatedAt :: "int option"

record CartsProductRow =
  cp_ID :: uuid
  cp_CartID :: uuid
  cp_ProductID :: uuid
  cp_Quantity :: int32
  cp_Price :: numeric
  cp_AddedAt :: int

record CartProcessedEventRow =
  ce_ID :: uuid
  ce_AggregateID :: uuid
  ce_EventName :: string
  ce_ProcessedAt :: int

record cart_db = db_env +
  cd_carts :: "CartRow list"
  cd_products :: "CartsProductRow list"
  cd_processed :: "CartProcessedEventRow list"

subsection \<open>Statements on carts\<close>

definition insert_cart :: "uuid \<Rightarrow> (cart_db, CartRow option) stmt" where
  "insert_cart user n w =
     (if uuid_at w n \<in> ct_ID ` set (cd_carts w) then Inl (UniqueViolation ''carts_pkey'')
      else if user \<in> ct_UserID ` set (cd_carts w) then Inl (UniqueViolation ''carts_user_id_key'')
      else (let row = \<lparr>ct_ID = uuid_at w n, ct_UserID = user, ct_CreatedAt = Some (now w n)\<rparr> in
        Inr (Some row, w\<lparr>cd_carts := cd_carts w @ [row]\<rparr>)))"

definition CreateCart :: "uuid \<Rightarrow> (cart_db, go_error + CartRow) state" where
  "CreateCart user = query_row (insert_cart user)"

text \<open>Deleting a cart deletes its products (\<^verbatim>\<open>ON DELETE CASCADE\<close>).\<close>

definition delete_carts :: "uuid \<Rightarrow> (cart_db, unit) stmt" where
  "delete_carts user n w = (let gone = ct_ID ` {c \<in> set (cd_carts w). ct_UserID c = user} in
     Inr ((), w\<lparr>cd_carts := filter (\<lambda>c. ct_UserID c \<noteq> user) (cd_carts w),
       cd_products := filter (\<lambda>p. cp_CartID p \<notin> gone) (cd_products w)\<rparr>))"

definition DeleteCartByUserID :: "uuid \<Rightarrow> (cart_db, go_error + unit) state" where
  "DeleteCartByUserID user = db_call (delete_carts user)"

definition GetCartByUserID :: "uuid \<Rightarrow> (cart_db, go_error + CartRow) state" where
  "GetCartByUserID user = query_row (read_only (\<lambda>w. find (\<lambda>c. ct_UserID c = user) (cd_carts w)))"

subsection \<open>Statements on the products of a cart\<close>

record AddOrUpdateProductInCartParams =
  aop_CartID :: uuid
  aop_ProductID :: uuid
  aop_Quantity :: int32
  aop_Price :: numeric

text \<open>A product that is already in the cart gets the new quantity and keeps its price.\<close>

definition upsert_product :: "AddOrUpdateProductInCartParams \<Rightarrow> (cart_db, CartsProductRow option) stmt" where
  "upsert_product a n w =
     (case numeric_10_2 (aop_Price a) of
        Inl e \<Rightarrow> Inl e
      | Inr price \<Rightarrow>
         if sint (aop_Quantity a) \<le> 0 then Inl (CheckViolation ''carts_products_quantity_check'')
         else (case find (\<lambda>p. cp_CartID p = aop_CartID a \<and> cp_ProductID p = aop_ProductID a) (cd_products w) of
           Some p \<Rightarrow> Inr (Some (p\<lparr>cp_Quantity := aop_Quantity a\<rparr>), w\<lparr>cd_products :=
             map (\<lambda>p. if cp_CartID p = aop_CartID a \<and> cp_ProductID p = aop_ProductID a
                then p\<lparr>cp_Quantity := aop_Quantity a\<rparr> else p) (cd_products w)\<rparr>)
         | None \<Rightarrow>
             if uuid_at w n \<in> cp_ID ` set (cd_products w) then Inl (UniqueViolation ''carts_products_pkey'')
             else if aop_CartID a \<notin> ct_ID ` set (cd_carts w)
                  then Inl (ForeignKeyViolation ''carts_products_cart_id_fkey'')
             else (let row = \<lparr>cp_ID = uuid_at w n, cp_CartID = aop_CartID a, cp_ProductID = aop_ProductID a,
                     cp_Quantity = aop_Quantity a, cp_Price = price, cp_AddedAt = now w n\<rparr> in
               Inr (Some row, w\<lparr>cd_products := cd_products w @ [row]\<rparr>))))"

definition AddOrUpdateProductInCart ::
  "AddOrUpdateProductInCartParams \<Rightarrow> (cart_db, go_error + CartsProductRow) state" where
  "AddOrUpdateProductInCart a = query_row (upsert_product a)"

text \<open>\<^verbatim>\<open>cart_id = (SELECT id FROM carts WHERE user_id = $1)\<close>: at most one row, and no match without one.\<close>

definition cart_of :: "uuid \<Rightarrow> cart_db \<Rightarrow> uuid option" where
  "cart_of user w = map_option ct_ID (find (\<lambda>c. ct_UserID c = user) (cd_carts w))"

definition ClearCartProductsByUserID :: "uuid \<Rightarrow> (cart_db, go_error + unit) state" where
  "ClearCartProductsByUserID user = db_call (\<lambda>n w. Inr ((), w\<lparr>cd_products :=
     filter (\<lambda>p. Some (cp_CartID p) \<noteq> cart_of user w) (cd_products w)\<rparr>))"

record RemoveProductFromCartParams =
  rpp_UserID :: uuid
  rpp_ProductID :: uuid

definition RemoveProductFromCart_q :: "RemoveProductFromCartParams \<Rightarrow> (cart_db, go_error + unit) state" where
  "RemoveProductFromCart_q a = db_call (\<lambda>n w. Inr ((), w\<lparr>cd_products :=
     filter (\<lambda>p. \<not> (Some (cp_CartID p) = cart_of (rpp_UserID a) w \<and> cp_ProductID p = rpp_ProductID a))
       (cd_products w)\<rparr>))"

record GetCartProductsByCartIDRow =
  gcp_ProductID :: uuid
  gcp_Quantity :: int32
  gcp_Price :: numeric

definition cart_lines :: "uuid \<Rightarrow> cart_db \<Rightarrow> GetCartProductsByCartIDRow list" where
  "cart_lines cart w = map (\<lambda>p. \<lparr>gcp_ProductID = cp_ProductID p, gcp_Quantity = cp_Quantity p, gcp_Price = cp_Price p\<rparr>)
     (filter (\<lambda>p. cp_CartID p = cart) (cd_products w))"

definition GetCartProductsByCartID :: "uuid \<Rightarrow> (cart_db, go_error + GetCartProductsByCartIDRow list) state" where
  "GetCartProductsByCartID cart = db_call (read_only (cart_lines cart))"

subsection \<open>Processed events\<close>

text \<open>An order is marked at most once for an event: \<^verbatim>\<open>UNIQUE(aggregate_id, event_name)\<close>.\<close>

definition insert_processed :: "uuid \<Rightarrow> string \<Rightarrow> (cart_db, unit) stmt" where
  "insert_processed aggregate name n w =
     (if uuid_at w n \<in> ce_ID ` set (cd_processed w) then Inl (UniqueViolation ''processed_events_pkey'')
      else if \<exists>r \<in> set (cd_processed w). ce_AggregateID r = aggregate \<and> ce_EventName r = name
           then Inl (UniqueViolation ''processed_events_aggregate_id_event_name_key'')
      else Inr ((), w\<lparr>cd_processed := cd_processed w @
        [\<lparr>ce_ID = uuid_at w n, ce_AggregateID = aggregate, ce_EventName = name, ce_ProcessedAt = now w n\<rparr>]\<rparr>))"

definition CreateProcessedEvent_cart :: "uuid \<Rightarrow> string \<Rightarrow> (cart_db, go_error + unit) state" where
  "CreateProcessedEvent_cart aggregate name = db_call (insert_processed aggregate name)"

definition GetProcessedEvent_cart :: "uuid \<Rightarrow> string \<Rightarrow> (cart_db, go_error + CartProcessedEventRow) state" where
  "GetProcessedEvent_cart aggregate name = query_row (read_only (\<lambda>w.
     find (\<lambda>r. ce_AggregateID r = aggregate \<and> ce_EventName r = name) (cd_processed w)))"

text \<open>The transaction of a created order. The error of the deletion is ignored by the code; within a transaction the
  database remembers it.\<close>

definition DeleteCartAndCreateProcessedEvent ::
  "ext \<Rightarrow> OrderCreatedEvent \<Rightarrow> string \<Rightarrow> (cart_db, go_error + unit) state" where
  "DeleteCartAndCreateProcessedEvent X event name = with_tx (
     attempt_pure (parse_uuid X (oce_UserID event)) (WrappedError ''failed to scan user ID'') (\<lambda>user. do {
     _ \<leftarrow> DeleteCartByUserID user;
     attempt_pure (parse_uuid X (oce_OrderID event)) (WrappedError ''failed to scan order ID'') (\<lambda>order.
     attempt (CreateProcessedEvent_cart order name) (WrappedError ''failed to create processed event'') ok) }))"

subsection \<open>Invariant\<close>

text \<open>A price that the column \<^verbatim>\<open>NUMERIC(10, 2)\<close> can hold.\<close>

definition price_in_range :: "numeric \<Rightarrow> bool" where
  "price_in_range p \<longleftrightarrow> (case p of Num r \<Rightarrow> \<bar>r\<bar> < 10 ^ 8 | _ \<Rightarrow> True)"

lemma numeric_10_2_range: "numeric_10_2 x = Inr p \<Longrightarrow> price_in_range p"
proof (cases x)
  case (Num r)
  assume "numeric_10_2 x = Inr p"
  then have p: "\<bar>round_half_away (r * 100)\<bar> < 10 ^ 10" "p = Num (of_int (round_half_away (r * 100)) / 100)"
    using Num by (auto simp: Let_def split: if_splits)
  have "\<bar>of_int c / 100 :: rat\<bar> < 10 ^ 8" if "\<bar>c\<bar> < 10 ^ 10" for c :: int
    using that of_int_less_iff [of "\<bar>c\<bar>" "10 ^ 10", where 'a = rat] by simp
  then show ?thesis using p by (simp add: price_in_range_def)
qed (auto simp: price_in_range_def)

lemma price_in_range_cents: "price_in_range (Num (of_int c / 100)) \<Longrightarrow> \<bar>c\<bar> < 10 ^ 10"
  using of_int_less_iff [of "\<bar>c\<bar>" "10 ^ 10", where 'a = rat] by (simp add: price_in_range_def)

definition cart_tables_ok :: "cart_db \<Rightarrow> bool" where
  "cart_tables_ok w \<longleftrightarrow> distinct (map ct_ID (cd_carts w)) \<and> distinct (map ct_UserID (cd_carts w)) \<and>
     (\<forall>c \<in> set (cd_carts w). ct_CreatedAt c \<noteq> None) \<and>
     distinct (map cp_ID (cd_products w)) \<and>
     distinct (map (\<lambda>p. (cp_CartID p, cp_ProductID p)) (cd_products w)) \<and>
     (\<forall>p \<in> set (cd_products w). 0 < sint (cp_Quantity p) \<and> price_in_range (cp_Price p) \<and> cp_CartID p \<in> ct_ID ` set (cd_carts w)) \<and>
     distinct (map ce_ID (cd_processed w)) \<and>
     distinct (map (\<lambda>r. (ce_AggregateID r, ce_EventName r)) (cd_processed w))"

lemma of_tables_cart_ok: "of_tables cart_tables_ok"
  by (simp add: of_tables_def cart_tables_ok_def)

lemma stmt_insert_cart: "stmt_keeps cart_tables_ok (insert_cart u)"
  by (rule stmt_keepsI) (auto simp: insert_cart_def cart_tables_ok_def Let_def split: if_splits)

lemma stmt_delete_carts: "stmt_keeps cart_tables_ok (delete_carts u)"
proof (rule stmt_keepsI)
  fix n w x w' assume ok: "cart_tables_ok w" and "delete_carts u n w = Inr (x, w')"
  then have w': "w' = w\<lparr>cd_carts := filter (\<lambda>c. ct_UserID c \<noteq> u) (cd_carts w), cd_products :=
      filter (\<lambda>p. cp_CartID p \<notin> ct_ID ` {c \<in> set (cd_carts w). ct_UserID c = u}) (cd_products w)\<rparr>"
    by (simp add: delete_carts_def Let_def)
  have "cp_CartID p \<in> ct_ID ` {c \<in> set (cd_carts w). ct_UserID c \<noteq> u}"
    if "p \<in> set (cd_products w)" "cp_CartID p \<notin> ct_ID ` {c \<in> set (cd_carts w). ct_UserID c = u}" for p
    using ok that unfolding cart_tables_ok_def by blast
  then show "cart_tables_ok w'"
    using ok by (simp add: w' cart_tables_ok_def distinct_map_filter)
qed

lemma stmt_filter_products: "stmt_keeps cart_tables_ok (\<lambda>n w. Inr ((), w\<lparr>cd_products := filter (P w) (cd_products w)\<rparr>))"
  by (rule stmt_keepsI) (auto simp: cart_tables_ok_def distinct_map_filter)

lemma stmt_insert_processed: "stmt_keeps cart_tables_ok (insert_processed a m)"
  by (rule stmt_keepsI) (auto simp: insert_processed_def cart_tables_ok_def split: if_splits)

lemma stmt_upsert_product: "stmt_keeps cart_tables_ok (upsert_product a)"
proof (rule stmt_keepsI)
  fix n w x w' assume ok: "cart_tables_ok w" and run: "upsert_product a n w = Inr (x, w')"
  let ?P = "\<lambda>p. cp_CartID p = aop_CartID a \<and> cp_ProductID p = aop_ProductID a"
  define f where "f p = (if ?P p then p\<lparr>cp_Quantity := aop_Quantity a\<rparr> else p)" for p :: CartsProductRow
  have f: "cp_Price (f p) = cp_Price p" "cp_ID (f p) = cp_ID p" "cp_CartID (f p) = cp_CartID p" "cp_ProductID (f p) = cp_ProductID p"
    "cp_Quantity (f p) = (if ?P p then aop_Quantity a else cp_Quantity p)" for p
    by (simp_all add: f_def)
  from run obtain price where price: "numeric_10_2 (aop_Price a) = Inr price" and q: "0 < sint (aop_Quantity a)"
    by (auto simp: upsert_product_def split: sum.splits if_splits)
  show "cart_tables_ok w'"
  proof (cases "find ?P (cd_products w)")
    case (Some p)
    then have "w' = w\<lparr>cd_products := map f (cd_products w)\<rparr>"
      using run price q by (simp add: upsert_product_def f_def [abs_def])
    then show ?thesis using ok q by (simp add: cart_tables_ok_def f comp_def)
  next
    case None
    then have "(aop_CartID a, aop_ProductID a) \<notin> (\<lambda>p. (cp_CartID p, cp_ProductID p)) ` set (cd_products w)"
      by (auto simp: find_None_iff')
    then show ?thesis using run price q ok None numeric_10_2_range [OF price]
      by (auto simp: upsert_product_def cart_tables_ok_def Let_def split: if_splits)
  qed
qed

lemma keeps_cart_queries [keeps_intros]:
  "keeps cart_tables_ok (CreateCart u)" "keeps cart_tables_ok (DeleteCartByUserID u)"
  "keeps cart_tables_ok (GetCartByUserID u)" "keeps cart_tables_ok (AddOrUpdateProductInCart a)"
  "keeps cart_tables_ok (ClearCartProductsByUserID u)" "keeps cart_tables_ok (RemoveProductFromCart_q b)"
  "keeps cart_tables_ok (GetCartProductsByCartID c)" "keeps cart_tables_ok (CreateProcessedEvent_cart u m)"
  "keeps cart_tables_ok (GetProcessedEvent_cart u m)"
  unfolding CreateCart_def DeleteCartByUserID_def GetCartByUserID_def AddOrUpdateProductInCart_def
    ClearCartProductsByUserID_def RemoveProductFromCart_q_def GetCartProductsByCartID_def
    CreateProcessedEvent_cart_def GetProcessedEvent_cart_def
  by (intro keeps_query_row keeps_db_call of_tables_cart_ok stmt_insert_cart stmt_delete_carts stmt_upsert_product
      stmt_filter_products stmt_insert_processed stmt_keeps_read_only)+

lemma keeps_cart_tx [keeps_intros]: "keeps cart_tables_ok (DeleteCartAndCreateProcessedEvent X e m)"
  unfolding DeleteCartAndCreateProcessedEvent_def
  by (intro keeps_with_tx_body of_tables_cart_ok keeps_intros)

end
