(* ===== verification/CartService.thy ===== *)
theory CartService
  imports CartRepo Redis Api
begin

text \<open>
  The gRPC server of the cart service (\<^verbatim>\<open>internal/grpc\<close>, \<^verbatim>\<open>internal/clients\<close>). A handler runs on the database,
  the cache, the goroutines it has started and the product service it asks (the state \<open>'c\<close> of the
  client). The variable \<^verbatim>\<open>CART_TTL_HOURS\<close> and the time a handler reads from the clock are parts of the
  state; an unset variable is the empty text. Times are in nanoseconds.
\<close>

subsection \<open>State\<close>

datatype cart_task = DeleteCartCacheTask string | CacheCartTask string GetCartResponse

record 'c cart_world =
  cw_db :: cart_db
  cw_redis :: redis
  cw_tasks :: "cart_task list"
  cw_client :: 'c
  cw_ttl :: string
  cw_time :: int

definition c_db :: "(cart_db, 'a) state \<Rightarrow> ('c cart_world, 'a) state" where
  "c_db m = zoom cw_db (\<lambda>d w. w\<lparr>cw_db := d\<rparr>) m"

definition c_redis :: "(redis, 'a) state \<Rightarrow> ('c cart_world, 'a) state" where
  "c_redis m = zoom cw_redis (\<lambda>r w. w\<lparr>cw_redis := r\<rparr>) m"

definition c_client :: "('c, 'a) state \<Rightarrow> ('c cart_world, 'a) state" where
  "c_client m = zoom cw_client (\<lambda>c w. w\<lparr>cw_client := c\<rparr>) m"

definition c_go :: "cart_task \<Rightarrow> ('c cart_world, unit) state" where
  "c_go t = State (\<lambda>w. ((), w\<lparr>cw_tasks := cw_tasks w @ [t]\<rparr>))"

lemma run_c [simp]:
  "run_state (c_db m) w = (case run_state m (cw_db w) of (x, d) \<Rightarrow> (x, w\<lparr>cw_db := d\<rparr>))"
  "run_state (c_redis n) w = (case run_state n (cw_redis w) of (y, r) \<Rightarrow> (y, w\<lparr>cw_redis := r\<rparr>))"
  "run_state (c_client k) w = (case run_state k (cw_client w) of (z, c) \<Rightarrow> (z, w\<lparr>cw_client := c\<rparr>))"
  "run_state (c_go t) w = ((), w\<lparr>cw_tasks := cw_tasks w @ [t]\<rparr>)"
  by (simp_all add: c_db_def c_redis_def c_client_def c_go_def)

subsection \<open>The client of the product service\<close>

record CartProductInfo =
  ci_ID :: string
  ci_Name :: string
  ci_Description :: string
  ci_Price :: float64

type_synonym 'c product_fetcher = "string list \<Rightarrow> ('c, go_error + (string \<rightharpoonup> CartProductInfo)) state"

definition product_info :: "ProductV1 \<Rightarrow> CartProductInfo" where
  "product_info p = \<lparr>ci_ID = prv_Id p, ci_Name = prv_Name p, ci_Description = prv_Description p, ci_Price = prv_Price p\<rparr>"

text \<open>A later product of the response replaces an earlier one of the same identifier.\<close>

definition GetProductsByIDs_client ::
  "(GetProductsByIDsRequest \<Rightarrow> ('c, go_error + ProductV1 list) state) \<Rightarrow> ctx_err option \<Rightarrow> 'c product_fetcher" where
  "GetProductsByIDs_client call ctx ids = (case ctx of
     Some e \<Rightarrow> fail (WrappedError ''request to product service canceled or timed out'' (CtxError e))
   | None \<Rightarrow> if ids = [] then ok Map.empty
       else attempt (call \<lparr>gpi_Ids = ids\<rparr>) id (\<lambda>products.
         ok (foldl (\<lambda>m p. m(prv_Id p \<mapsto> product_info p)) Map.empty products)))"

subsection \<open>The cache\<close>

definition redisCartPrefix :: string where "redisCartPrefix = ''cart:''"
definition redisCacheTTL :: int where "redisCacheTTL = 15 * 60 * 10 ^ 9"

definition deleteCartCache :: "string \<Rightarrow> (redis, go_error + unit) state" where
  "deleteCartCache user = attempt (rd_del (redisCartPrefix @ user))
     (WrappedError (''failed to delete cart cache for user '' @ user)) ok"

definition enc_cart_product :: "CartProductV1 \<Rightarrow> json option" where
  "enc_cart_product p = map_option (\<lambda>price. JObj (
     opt_field ''product_id'' (cpv_ProductId p = []) (JStr (cpv_ProductId p)) @
     opt_field ''name'' (cpv_Name p = []) (JStr (cpv_Name p)) @
     opt_field ''description'' (cpv_Description p = []) (JStr (cpv_Description p)) @
     opt_field ''price'' (cpv_Price p = Fin 0) price @
     opt_field ''quantity'' (cpv_Quantity p = 0) (enc_int32 (cpv_Quantity p)))) (enc_float (cpv_Price p))"

definition enc_cart :: "GetCartResponse \<Rightarrow> json option" where
  "enc_cart c = Option.bind (enc_float (gc_TotalPrice c)) (\<lambda>total_price.
     Option.bind (all_some (map enc_cart_product (gc_Products c))) (\<lambda>products.
       Some (JObj (opt_field ''id'' (gc_Id c = []) (JStr (gc_Id c)) @
         opt_field ''user_id'' (gc_UserId c = []) (JStr (gc_UserId c)) @
         opt_field ''products'' (gc_Products c = []) (JArr products) @
         opt_field ''total_price'' (gc_TotalPrice c = Fin 0) total_price))))"

definition zero_cart_product :: CartProductV1 where
  "zero_cart_product = \<lparr>cpv_ProductId = [], cpv_Name = [], cpv_Description = [], cpv_Price = Fin 0, cpv_Quantity = 0\<rparr>"

definition zero_cart :: GetCartResponse where
  "zero_cart = \<lparr>gc_Id = [], gc_UserId = [], gc_Products = [], gc_TotalPrice = Fin 0\<rparr>"

definition into_cart_product :: "CartProductV1 decoder" where
  "into_cart_product = into_struct
     [(''product_id'', fld into_string cpv_ProductId (\<lambda>x. cpv_ProductId_update (\<lambda>_. x))),
      (''name'', fld into_string cpv_Name (\<lambda>x. cpv_Name_update (\<lambda>_. x))),
      (''description'', fld into_string cpv_Description (\<lambda>x. cpv_Description_update (\<lambda>_. x))),
      (''price'', fld into_float cpv_Price (\<lambda>x. cpv_Price_update (\<lambda>_. x))),
      (''quantity'', fld into_int32 cpv_Quantity (\<lambda>x. cpv_Quantity_update (\<lambda>_. x)))]"

text \<open>A slice of pointers; a nil element says the same as a zero message, and a nil slice as an empty one.\<close>

definition into_cart_products :: "CartProductV1 list decoder" where
  "into_cart_products j old = map_option elems (into_slice into_cart_product zero_cart_product j (Some old))"

definition into_cart :: "GetCartResponse decoder" where
  "into_cart = into_struct
     [(''id'', fld into_string gc_Id (\<lambda>x. gc_Id_update (\<lambda>_. x))),
      (''user_id'', fld into_string gc_UserId (\<lambda>x. gc_UserId_update (\<lambda>_. x))),
      (''products'', fld into_cart_products gc_Products (\<lambda>x. gc_Products_update (\<lambda>_. x))),
      (''total_price'', fld into_float gc_TotalPrice (\<lambda>x. gc_TotalPrice_update (\<lambda>_. x)))]"

text \<open>\<^verbatim>\<open>var resp *GetCartResponse\<close>: a cached \<^verbatim>\<open>null\<close> leaves it nil.\<close>

definition into_cart_pointer :: "GetCartResponse option decoder" where
  "into_cart_pointer j old = (if j = JNull then Some None else map_option Some (into_cart j zero_cart))"

definition checkCartCache :: "string \<Rightarrow> (redis, go_error + GetCartResponse option) state" where
  "checkCartCache user = do {
     r \<leftarrow> rd_get (redisCartPrefix @ user);
     State_Monad.return (case r of
       Inl e \<Rightarrow> if e = RedisNil then Inr None else Inl e
     | Inr v \<Rightarrow> unmarshal into_cart_pointer None (case v of RJson j \<Rightarrow> Some j | _ \<Rightarrow> None)) }"

definition cacheGetCartResponse :: "string \<Rightarrow> GetCartResponse \<Rightarrow> (redis, go_error + unit) state" where
  "cacheGetCartResponse user resp = (case enc_cart resp of
     None \<Rightarrow> fail (TextError ''json: unsupported value'')
   | Some data \<Rightarrow> rd_set (redisCartPrefix @ user) (RJson data) redisCacheTTL)"

fun run_cart_task :: "cart_task \<Rightarrow> (redis, unit) state" where
  "run_cart_task (DeleteCartCacheTask u) = do { _ \<leftarrow> deleteCartCache u; State_Monad.return () }"
| "run_cart_task (CacheCartTask u c) = do { _ \<leftarrow> cacheGetCartResponse u c; State_Monad.return () }"

subsection \<open>The cart of a user\<close>

text \<open>\<^verbatim>\<open>time.Duration(ttlHours) * time.Hour\<close> wraps around in 64 bits.\<close>

definition ttl_duration :: "int \<Rightarrow> int" where
  "ttl_duration hours = sint ((word_of_int hours :: int64) * word_of_int (60 * 60 * 10 ^ 9))"

definition cartIsExpired :: "string \<Rightarrow> int \<Rightarrow> CartRow \<Rightarrow> go_error + bool" where
  "cartIsExpired ttl time cart =
     (case parse_int 64 (if ttl = [] then ''168'' else ttl) of
        None \<Rightarrow> Inl (WrappedError ''invalid CART_TTL_HOURS value'' (TextError ''strconv.Atoi: parsing''))
      | Some hours \<Rightarrow>
         if hours = 0 then Inr False
         else (case ct_CreatedAt cart of
           None \<Rightarrow> Inl (TextError ''cart has invalid created_at timestamp'')
         | Some created \<Rightarrow> Inr (created + ttl_duration hours < time)))"

lemma ttl_zero: "parse_int 64 ''0'' = Some 0"
  by code_simp

definition createCart :: "uuid \<Rightarrow> ('c cart_world, go_error + CartRow \<times> bool) state" where
  "createCart user = attempt (c_db (CreateCart user)) (WrappedError ''failed to create a new cart'')
     (\<lambda>cart. ok (cart, True))"

definition deleteExpiredCartAndCreateNewOne :: "uuid \<Rightarrow> ('c cart_world, go_error + CartRow \<times> bool) state" where
  "deleteExpiredCartAndCreateNewOne user =
     attempt (c_db (DeleteCartByUserID user)) (WrappedError ''failed to delete expired cart'') (\<lambda>_. createCart user)"

definition getOrCreateCartByUserID :: "ext \<Rightarrow> uuid \<Rightarrow> ('c cart_world, go_error + CartRow \<times> bool) state" where
  "getOrCreateCartByUserID X user = do {
     r \<leftarrow> c_db (GetCartByUserID user);
     case r of
       Inl e \<Rightarrow> if e = ErrNoRows then createCart user
         else fail (WrappedError ''failed to get cart by user id'' e)
     | Inr cart \<Rightarrow> do {
         w \<leftarrow> State_Monad.get;
         case cartIsExpired (cw_ttl w) (cw_time w) cart of
           Inl e \<Rightarrow> fail (WrappedError ''failed to check if cart is expired'' e)
         | Inr expired \<Rightarrow>
             if expired then do {
               new \<leftarrow> deleteExpiredCartAndCreateNewOne user;
               _ \<leftarrow> c_go (DeleteCartCacheTask (uuid_text X user));
               State_Monad.return new }
             else ok (cart, False) } }"

subsection \<open>Handlers\<close>

text \<open>An error of the client that is no status becomes one in the gRPC server.\<close>

definition AddProductToCart ::
  "ext \<Rightarrow> 'c product_fetcher \<Rightarrow> ctx_err option \<Rightarrow> AddProductToCartRequest \<Rightarrow>
   ('c cart_world, status + AddProductToCartResponse) state" where
  "AddProductToCart X F ctx req = (case ctx of Some e \<Rightarrow> fail (ctx_status X e) | None \<Rightarrow>
     attempt_pure (parse_uuid X (apr_UserId req))
       (\<lambda>_. Errorf InvalidArgument (''invalid user id format: '' @ apr_UserId req)) (\<lambda>user.
     attempt (getOrCreateCartByUserID X user)
       (\<lambda>e. Errorf Internal (''failed to get or create cart: '' @ err_text X e)) (\<lambda>(cart, wasCreated).
     attempt (if wasCreated then c_db (GetCartProductsByCartID (ct_ID cart)) else ok [])
       (\<lambda>e. Errorf Internal (''failed to verify cart state: '' @ err_text X e)) (\<lambda>existing.
     ensure (existing = []) (Errorf Aborted ''cart has expired and was cleared, please try again'') (
     attempt (c_client (F [apr_ProductId req])) (status_convert X) (\<lambda>products.
     attempt_pure (case products (apr_ProductId req) of None \<Rightarrow> Inl () | Some p \<Rightarrow> Inr p)
       (\<lambda>_. Errorf NotFound (''product not found: '' @ apr_ProductId req)) (\<lambda>product.
     attempt_pure (parse_uuid X (apr_ProductId req))
       (\<lambda>_. Errorf InvalidArgument (''invalid product id format: '' @ apr_ProductId req)) (\<lambda>productID.
     attempt_pure (parse_numeric X (sprintf_2f (ci_Price product)))
       (\<lambda>e. Errorf Internal (''failed to scan price to numeric: '' @ err_text X e)) (\<lambda>price.
     attempt (c_db (AddOrUpdateProductInCart \<lparr>aop_CartID = ct_ID cart, aop_ProductID = productID,
         aop_Quantity = apr_Quantity req, aop_Price = price\<rparr>))
       (\<lambda>e. Errorf Internal (''failed to add or update product in cart: '' @ err_text X e)) (\<lambda>row. do {
     _ \<leftarrow> c_go (DeleteCartCacheTask (apr_UserId req));
     ok \<lparr>aps_Id = uuid_text X (cp_ID row), aps_CartId = uuid_text X (cp_CartID row),
       aps_ProductId = uuid_text X (cp_ProductID row), aps_Quantity = cp_Quantity row,
       aps_Price = ci_Price product, aps_AddedAt = None\<rparr> }))))))))))"

text \<open>What the three handlers that take something away share: the user's cart is looked up, and nothing is left to do
  when it had to be made anew.\<close>

definition ClearCart :: "ext \<Rightarrow> ctx_err option \<Rightarrow> ClearCartRequest \<Rightarrow> ('c cart_world, status + unit) state" where
  "ClearCart X ctx req = (case ctx of Some e \<Rightarrow> fail (ctx_status X e) | None \<Rightarrow>
     attempt_pure (parse_uuid X (clr_UserId req))
       (\<lambda>_. Errorf InvalidArgument (''invalid user id format: '' @ clr_UserId req)) (\<lambda>user.
     attempt (getOrCreateCartByUserID X user)
       (\<lambda>e. Errorf Internal (''failed to validate cart: '' @ err_text X e)) (\<lambda>(_, wasRecreated).
     if wasRecreated then ok ()
     else attempt (c_db (ClearCartProductsByUserID user))
       (\<lambda>e. Errorf Internal (''failed to clear cart: '' @ err_text X e)) (\<lambda>_. do {
     _ \<leftarrow> c_go (DeleteCartCacheTask (clr_UserId req));
     ok () }))))"

definition DeleteCart :: "ext \<Rightarrow> ctx_err option \<Rightarrow> DeleteCartRequest \<Rightarrow> ('c cart_world, status + unit) state" where
  "DeleteCart X ctx req = (case ctx of Some e \<Rightarrow> fail (ctx_status X e) | None \<Rightarrow>
     attempt_pure (parse_uuid X (dcr_UserId req))
       (\<lambda>_. Errorf InvalidArgument (''invalid user id format: '' @ dcr_UserId req)) (\<lambda>user.
     attempt (getOrCreateCartByUserID X user)
       (\<lambda>e. Errorf Internal (''failed to validate cart: '' @ err_text X e)) (\<lambda>(_, wasRecreated).
     if wasRecreated then ok ()
     else attempt (c_db (DeleteCartByUserID user))
       (\<lambda>e. Errorf Internal (''failed to delete cart: '' @ err_text X e)) (\<lambda>_. do {
     _ \<leftarrow> c_go (DeleteCartCacheTask (dcr_UserId req));
     ok () }))))"

definition RemoveProductFromCart ::
  "ext \<Rightarrow> ctx_err option \<Rightarrow> RemoveProductFromCartRequest \<Rightarrow> ('c cart_world, status + unit) state" where
  "RemoveProductFromCart X ctx req = (case ctx of Some e \<Rightarrow> fail (ctx_status X e) | None \<Rightarrow>
     attempt_pure (parse_uuid X (rpr_UserId req))
       (\<lambda>_. Errorf InvalidArgument (''invalid user id format: '' @ rpr_UserId req)) (\<lambda>user.
     attempt (getOrCreateCartByUserID X user)
       (\<lambda>e. Errorf Internal (''failed to validate cart: '' @ err_text X e)) (\<lambda>(_, wasRecreated).
     if wasRecreated then ok ()
     else attempt_pure (parse_uuid X (rpr_ProductId req))
       (\<lambda>_. Errorf InvalidArgument (''invalid product id format: '' @ rpr_ProductId req)) (\<lambda>product.
     attempt (c_db (RemoveProductFromCart_q \<lparr>rpp_UserID = user, rpp_ProductID = product\<rparr>))
       (\<lambda>e. Errorf Internal (''failed to remove product from cart: '' @ err_text X e)) (\<lambda>_. do {
     _ \<leftarrow> c_go (DeleteCartCacheTask (rpr_UserId req));
     ok () })))))"

text \<open>The loop over the rows of a cart: a product the product service does not return is left out; the total is added
  up in \<open>float64\<close>.\<close>

fun cart_items ::
  "ext \<Rightarrow> (string \<rightharpoonup> CartProductInfo) \<Rightarrow> GetCartProductsByCartIDRow list \<Rightarrow> CartProductV1 list \<Rightarrow> float64 \<Rightarrow>
   status + CartProductV1 list \<times> float64" where
  "cart_items X m [] products totalPrice = Inr (products, totalPrice)"
| "cart_items X m (cp # cps) products totalPrice =
     (case m (uuid_text X (gcp_ProductID cp)) of
        None \<Rightarrow> cart_items X m cps products totalPrice
      | Some product \<Rightarrow>
         (case numeric_float64 X (gcp_Price cp) of
            Inl e \<Rightarrow> Inl (Errorf Internal (''failed to convert price to float64: '' @ err_text X e))
          | Inr price \<Rightarrow> cart_items X m cps
              (products @ [\<lparr>cpv_ProductId = ci_ID product, cpv_Name = ci_Name product,
                 cpv_Description = ci_Description product, cpv_Price = price, cpv_Quantity = gcp_Quantity cp\<rparr>])
              (fadd totalPrice (fmul price (float_of_int32 (gcp_Quantity cp))))))"

text \<open>\<^verbatim>\<open>GetCart\<close> when the cache has no answer.\<close>

definition readCart ::
  "ext \<Rightarrow> 'c product_fetcher \<Rightarrow> string \<Rightarrow> ('c cart_world, status + GetCartResponse) state" where
  "readCart X F userID =
     attempt_pure (parse_uuid X userID)
       (\<lambda>_. Errorf InvalidArgument (''invalid user id format: '' @ userID)) (\<lambda>user.
     attempt (getOrCreateCartByUserID X user)
       (\<lambda>e. Errorf Internal (''failed to get or create cart: '' @ err_text X e)) (\<lambda>(cart, _).
     attempt (c_db (GetCartProductsByCartID (ct_ID cart)))
       (\<lambda>e. Errorf Internal (''failed to get cart products: '' @ err_text X e)) (\<lambda>cps.
     attempt (c_client (F (map (\<lambda>cp. uuid_text X (gcp_ProductID cp)) cps)))
       (\<lambda>e. Errorf Internal (''failed to fetch products: '' @ err_text X e)) (\<lambda>m.
     attempt_pure (cart_items X m cps [] (Fin 0)) id (\<lambda>(products, totalPrice). do {
     let resp = \<lparr>gc_Id = uuid_text X (ct_ID cart), gc_UserId = uuid_text X (ct_UserID cart),
       gc_Products = products, gc_TotalPrice = totalPrice\<rparr>;
     _ \<leftarrow> c_go (CacheCartTask userID resp);
     ok resp })))))"

definition GetCart ::
  "ext \<Rightarrow> 'c product_fetcher \<Rightarrow> ctx_err option \<Rightarrow> GetCartRequest \<Rightarrow>
   ('c cart_world, status + GetCartResponse) state" where
  "GetCart X F ctx req = (case ctx of Some e \<Rightarrow> fail (ctx_status X e) | None \<Rightarrow> do {
     cached \<leftarrow> c_redis (checkCartCache (gcr_UserId req));
     case cached of
       Inr (Some resp) \<Rightarrow> ok resp
     | _ \<Rightarrow> readCart X F (gcr_UserId req) })"

subsection \<open>The tables stay well formed\<close>

definition cart_ok :: "'c cart_world \<Rightarrow> bool" where
  "cart_ok w \<longleftrightarrow> cart_tables_ok (cw_db w)"

lemma keeps_c_db: "keeps cart_tables_ok m \<Longrightarrow> keeps cart_ok (c_db m)"
  unfolding c_db_def by (rule keeps_zoom) (simp_all add: cart_ok_def)

lemma keeps_c_rest [keeps_intros]:
  "keeps cart_ok (c_redis m)" "keeps cart_ok (c_client k)" "keeps cart_ok (c_go t)"
  by (rule keepsI; auto simp: cart_ok_def split: prod.splits)+

lemma keeps_cart_get [keeps_intros]: "keeps I State_Monad.get"
  by (rule keepsI) simp

lemma keeps_getOrCreate [keeps_intros]: "keeps cart_ok (getOrCreateCartByUserID X u)"
  unfolding getOrCreateCartByUserID_def createCart_def deleteExpiredCartAndCreateNewOne_def
  by (intro keeps_intros keeps_c_db)

text \<open>No handler of the cart server breaks the tables: a user has at most one cart, a cart has a product at most
  once and in a positive quantity, and every product belongs to a cart that exists.\<close>

lemma cart_handlers_keep_tables:
  "keeps cart_ok (AddProductToCart X F ctx a) \<and> keeps cart_ok (RemoveProductFromCart X ctx r) \<and>
   keeps cart_ok (ClearCart X ctx c) \<and> keeps cart_ok (DeleteCart X ctx d) \<and> keeps cart_ok (GetCart X F ctx g)"
  unfolding AddProductToCart_def RemoveProductFromCart_def ClearCart_def DeleteCart_def GetCart_def readCart_def Let_def
  by (intro conjI keeps_intros keeps_c_db)

end
