(* ===== verification/CartConsumer.thy ===== *)
theory CartConsumer
  imports CartService Consumers
begin

text \<open>
  The consumer of created orders of the cart service (\<^verbatim>\<open>internal/events\<close>): it deletes the cart of the user who
  ordered, once per order. The check for a processed order and the transaction are two steps; the
  handler is their composition, and the lemmas hold for each of them, so also when deliveries interleave.
\<close>

definition cart_exchangeName :: string where "cart_exchangeName = ''order_created_exchange''"
definition cart_queueName :: string where "cart_queueName = ''cart_queue''"
definition cart_consumerName :: string where "cart_consumerName = ''cart_order_created_consumer''"

definition cart_unmarshalEvent :: "json option \<Rightarrow> go_error + OrderCreatedEvent" where
  "cart_unmarshalEvent body = unmarshal_order_created body"

text \<open>The identifier of a row is never null.\<close>

definition isEventProcessed_cart :: "ext \<Rightarrow> string \<Rightarrow> string \<Rightarrow> (cart_db, go_error + bool) state" where
  "isEventProcessed_cart X aggregate name =
     attempt_pure (parse_uuid X aggregate) id (\<lambda>u. do {
       r \<leftarrow> GetProcessedEvent_cart u name;
       State_Monad.return (case r of
         Inl e \<Rightarrow> if is_no_rows e then Inr False else Inl e
       | Inr row \<Rightarrow> Inr True) })"

definition shouldSkipProcessing_cart :: "ext \<Rightarrow> string \<Rightarrow> ('c cart_world, disposition option) state" where
  "shouldSkipProcessing_cart X orderID = do {
     r \<leftarrow> c_db (isEventProcessed_cart X orderID cart_exchangeName);
     State_Monad.return (case r of
       Inl _ \<Rightarrow> Some (Nack True)
     | Inr True \<Rightarrow> Some Ack
     | Inr False \<Rightarrow> None) }"

text \<open>The handler after the check.\<close>

definition clearOrderedCart :: "ext \<Rightarrow> OrderCreatedEvent \<Rightarrow> ('c cart_world, disposition) state" where
  "clearOrderedCart X event = do {
     r \<leftarrow> c_db (DeleteCartAndCreateProcessedEvent X event cart_exchangeName);
     case r of
       Inl _ \<Rightarrow> State_Monad.return (Nack True)
     | Inr _ \<Rightarrow> do {
         _ \<leftarrow> c_go (DeleteCartCacheTask (oce_UserID event));
         State_Monad.return Ack } }"

definition handleOrderCreatedEvent_cart :: "ext \<Rightarrow> json option \<Rightarrow> ('c cart_world, disposition) state" where
  "handleOrderCreatedEvent_cart X body = (case cart_unmarshalEvent body of
     Inl _ \<Rightarrow> State_Monad.return (Nack False)
   | Inr event \<Rightarrow> do {
       skip \<leftarrow> shouldSkipProcessing_cart X (oce_OrderID event);
       case skip of
         Some d \<Rightarrow> State_Monad.return d
       | None \<Rightarrow> clearOrderedCart X event })"

text \<open>The goroutine that drops the cached cart: the same deletion as the handlers' task, with its error logged only.\<close>

definition deleteCartCache_consumer :: "string \<Rightarrow> (redis, unit) state" where
  "deleteCartCache_consumer userID = do { _ \<leftarrow> rd_del (redisCartPrefix @ userID); State_Monad.return () }"

lemma run_consumer_task: "run_state (deleteCartCache_consumer u) r = run_state (run_cart_task (DeleteCartCacheTask u)) r"
  by (simp add: deleteCartCache_consumer_def deleteCartCache_def split: prod.splits sum.splits)

definition Start_cart ::
  "ext \<Rightarrow> nat \<Rightarrow> json option session list \<Rightarrow> (rabbit, go_error option \<times> json option list) state" where
  "Start_cart X n ss = Subscribe_fanout X cart_exchangeName cart_queueName cart_consumerName n ss"

subsection \<open>The effect of the transaction\<close>

definition cart_marked :: "uuid \<Rightarrow> cart_db \<Rightarrow> bool" where
  "cart_marked u w \<longleftrightarrow> (\<exists>r \<in> set (cd_processed w). ce_AggregateID r = u \<and> ce_EventName r = cart_exchangeName)"

definition same_cart_tables :: "cart_db \<Rightarrow> cart_db \<Rightarrow> bool" where
  "same_cart_tables w w' \<longleftrightarrow> cd_carts w' = cd_carts w \<and> cd_products w' = cd_products w \<and> cd_processed w' = cd_processed w"

definition cart_cleared :: "uuid \<Rightarrow> uuid \<Rightarrow> cart_db \<Rightarrow> cart_db \<Rightarrow> bool" where
  "cart_cleared user order w w' \<longleftrightarrow> \<not> cart_marked order w \<and> cart_marked order w' \<and>
     cd_carts w' = filter (\<lambda>c. ct_UserID c \<noteq> user) (cd_carts w) \<and>
     cd_products w' = filter (\<lambda>p. cp_CartID p \<notin> ct_ID ` {c \<in> set (cd_carts w). ct_UserID c = user}) (cd_products w) \<and>
     (\<exists>r. cd_processed w' = cd_processed w @ [r])"

lemma failed_cart [simp]:
  "cd_carts (failed w) = cd_carts w" "cd_products (failed w) = cd_products w" "cd_processed (failed w) = cd_processed w"
  by (simp_all add: failed_def)

text \<open>The commit fails when a statement before it failed: a committed transaction has deleted the cart.\<close>

lemma delete_in_tx:
  assumes "run_state (DeleteCartByUserID u) w = (r, v)"
  shows "r = Inr () \<and> delete_carts u (calls w) (w\<lparr>calls := Suc (calls w)\<rparr>) = Inr ((), v) \<or>
    (\<exists>e. r = Inl e) \<and> (txn w = NoTx \<or> txn v = TxFailed)"
  using assms unfolding DeleteCartByUserID_def
  by (cases rule: db_call_cases)
    (auto simp: failed_def delete_carts_def Let_def split: tx_state.splits)

lemma processed_needs_tx:
  "run_state (CreateProcessedEvent_cart a m) v = (Inr x, v') \<Longrightarrow>
     txn v \<noteq> TxFailed \<and> insert_processed a m (calls v) (v\<lparr>calls := Suc (calls v)\<rparr>) = Inr ((), v')"
  unfolding CreateProcessedEvent_cart_def by (auto elim!: db_call_cases)

lemma cart_tx_effect:
  assumes "run_state (DeleteCartAndCreateProcessedEvent X event cart_exchangeName) w = (r, w')"
  shows "(\<exists>e. r = Inl e) \<and> same_cart_tables w w' \<or>
    (\<exists>user order. parse_uuid X (oce_UserID event) = Inr user \<and> parse_uuid X (oce_OrderID event) = Inr order \<and>
       cart_cleared user order w w' \<and> (r = Inr () \<or> (\<exists>e. r = Inl e)))"
  using assms unfolding DeleteCartAndCreateProcessedEvent_def
proof (cases rule: with_tx_cases)
  case (rolled_back e c)
  then show ?thesis by (simp add: same_cart_tables_def)
next
  case (committed c t x w2 c')
  let ?w = "w\<lparr>calls := c, txn := InTx t\<rparr>"
  from committed(1) obtain user where u: "parse_uuid X (oce_UserID event) = Inr user"
    by (auto simp: attempt_pure_Inr simp del: run_attempt_pure)
  obtain d v where d: "run_state (DeleteCartByUserID user) ?w = (d, v)" by (rule run_pair)
  from committed(1) u d obtain order y where o: "parse_uuid X (oce_OrderID event) = Inr order"
    and p: "run_state (CreateProcessedEvent_cart order cart_exchangeName) v = (Inr y, w2)"
    by (auto simp: attempt_Inr attempt_pure_Inr simp del: run_attempt run_attempt_pure)
  note p' = processed_needs_tx [OF p]
  have del: "delete_carts user (calls ?w) (?w\<lparr>calls := Suc (calls ?w)\<rparr>) = Inr ((), v)"
    using delete_in_tx [OF d] p' by auto
  have "cart_cleared user order w w'"
    using del p' committed(3)
    by (auto simp: cart_cleared_def cart_marked_def delete_carts_def insert_processed_def Let_def split: if_splits)
  then show ?thesis using u o committed(4) by auto
qed

lemma cart_read:
  assumes "run_state (query_row (read_only f)) w = (r, w')"
  shows "same_cart_tables w w' \<and> (\<forall>x. r = Inr x \<longrightarrow> f (w\<lparr>calls := Suc (calls w)\<rparr>) = Some x) \<and> uuid_at w' = uuid_at w"
  using assms by (cases rule: query_row_cases) (auto simp: same_cart_tables_def failed_def)

lemma check_effect:
  assumes "run_state (shouldSkipProcessing_cart X i) w = (d, w')"
  shows "same_cart_tables (cw_db w) (cw_db w') \<and>
    (d = Some Ack \<longrightarrow> (\<exists>u. parse_uuid X i = Inr u \<and> cart_marked u (cw_db w)))"
proof (cases "parse_uuid X i")
  case (Inl e)
  then show ?thesis using assms
    by (auto simp: shouldSkipProcessing_cart_def isEventProcessed_cart_def same_cart_tables_def)
next
  case (Inr u)
  obtain r v where r: "run_state (GetProcessedEvent_cart u cart_exchangeName) (cw_db w) = (r, v)" by (rule run_pair)
  have dw: "cw_db w' = v" "d = Some Ack \<Longrightarrow> \<exists>x. r = Inr x"
    using assms Inr r by (auto simp: shouldSkipProcessing_cart_def isEventProcessed_cart_def split: sum.splits if_splits)
  show ?thesis using cart_read [OF r [unfolded GetProcessedEvent_cart_def]] dw Inr
    by (auto simp: cart_marked_def dest: find_Some_in)
qed

lemma clear_effect:
  assumes "run_state (clearOrderedCart X event) w = (d, w')"
  shows "d = Nack True \<and> same_cart_tables (cw_db w) (cw_db w') \<or>
    (\<exists>user order. parse_uuid X (oce_UserID event) = Inr user \<and> parse_uuid X (oce_OrderID event) = Inr order \<and>
       cart_cleared user order (cw_db w) (cw_db w') \<and> d \<in> {Ack, Nack True})"
proof -
  obtain r v where r: "run_state (DeleteCartAndCreateProcessedEvent X event cart_exchangeName) (cw_db w) = (r, v)"
    by (rule run_pair)
  have dw: "cw_db w' = v" "d = (case r of Inl _ \<Rightarrow> Nack True | Inr _ \<Rightarrow> Ack)"
    using assms r by (auto simp: clearOrderedCart_def split: sum.splits)
  show ?thesis using cart_tx_effect [OF r] dw by (auto split: sum.splits)
qed

lemma handle_cart_steps:
  assumes "run_state (handleOrderCreatedEvent_cart X body) w = (d, w')" and "cart_unmarshalEvent body = Inr event"
  obtains (skipped) "run_state (shouldSkipProcessing_cart X (oce_OrderID event)) w = (Some d, w')"
  | (cleared) w1 where "run_state (shouldSkipProcessing_cart X (oce_OrderID event)) w = (None, w1)"
      "run_state (clearOrderedCart X event) w1 = (d, w')"
proof -
  obtain s w1 where s: "run_state (shouldSkipProcessing_cart X (oce_OrderID event)) w = (s, w1)" by (rule run_pair)
  then show ?thesis using assms that by (cases s) (auto simp: handleOrderCreatedEvent_cart_def)
qed

lemma same_marked: "same_cart_tables w v \<Longrightarrow> cart_marked u v = cart_marked u w"
  by (simp add: same_cart_tables_def cart_marked_def)

lemma same_cleared: "same_cart_tables w v \<Longrightarrow> cart_cleared u i v w' \<Longrightarrow> cart_cleared u i w w'"
  unfolding cart_cleared_def by (simp add: same_marked) (simp add: same_cart_tables_def)

subsection \<open>Once per order\<close>

definition cart_world_marked :: "uuid \<Rightarrow> 'c cart_world \<Rightarrow> bool" where
  "cart_world_marked u w \<longleftrightarrow> cart_marked u (cw_db w)"

definition same_cart_world :: "'c cart_world \<Rightarrow> 'c cart_world \<Rightarrow> bool" where
  "same_cart_world w w' \<longleftrightarrow> same_cart_tables (cw_db w) (cw_db w')"

lemma same_cart_world:
  "same_cart_world w w" "same_cart_world w v \<Longrightarrow> same_cart_world v v' \<Longrightarrow> same_cart_world w v'"
  "same_cart_world w v \<Longrightarrow> cart_world_marked u v = cart_world_marked u w"
  "run_state (shouldSkipProcessing_cart X i) w = (r, w') \<Longrightarrow> same_cart_world w w'"
  by (simp_all add: same_cart_world_def same_cart_tables_def cart_world_marked_def cart_marked_def)
    (auto dest: check_effect simp: same_cart_tables_def)

lemma cart_check_unmarked:
  assumes "run_state (shouldSkipProcessing_cart X i) w = (None, w')" and "parse_uuid X i = Inr u"
  shows "\<not> cart_world_marked u w"
proof -
  obtain e d where q: "run_state (GetProcessedEvent_cart u cart_exchangeName) (cw_db w) = (Inl e, d)" and "is_no_rows e"
    using assms by (auto simp: shouldSkipProcessing_cart_def isEventProcessed_cart_def split: sum.splits prod.splits if_splits bool.splits)
  then have "find (\<lambda>r. ce_AggregateID r = u \<and> ce_EventName r = cart_exchangeName) (cd_processed (cw_db w)) = None"
    using query_row_no_rows unfolding GetProcessedEvent_cart_def by fastforce
  then show ?thesis unfolding find_None_iff by (auto simp: cart_world_marked_def cart_marked_def)
qed

lemma clear_marks_order:
  assumes "run_state (clearOrderedCart X event) w = (d, w')"
  shows "same_cart_world w w' \<or> (\<exists>u. parse_uuid X (oce_OrderID event) = Inr u \<and> cart_world_marked u w')"
    and "cart_world_marked u w \<Longrightarrow> cart_world_marked u w'"
  using clear_effect [OF assms]
  by (auto simp: same_cart_world_def cart_world_marked_def cart_cleared_def cart_marked_def same_cart_tables_def)

interpretation cart_once: once_consumer X "shouldSkipProcessing_cart X" "clearOrderedCart X" "handleOrderCreatedEvent_cart X"
  cart_world_marked same_cart_world
proof unfold_locales
  show "handleOrderCreatedEvent_cart X body = (case unmarshal_order_created body of
      Inl _ \<Rightarrow> State_Monad.return (Nack False)
    | Inr event \<Rightarrow> do { skip \<leftarrow> shouldSkipProcessing_cart X (oce_OrderID event);
        case skip of Some d \<Rightarrow> State_Monad.return d | None \<Rightarrow> clearOrderedCart X event })" for body
    by (simp add: handleOrderCreatedEvent_cart_def cart_unmarshalEvent_def)
  show "d \<noteq> None" if "run_state (shouldSkipProcessing_cart X i) w = (d, w')" "parse_uuid X i = Inr u" "cart_world_marked u w"
    for i u and w :: "'c cart_world" and d w'
    using that by (cases d) (auto dest: cart_check_unmarked)
qed (rule same_cart_world(1) | erule same_cart_world(3,4) clear_marks_order(1) | erule (1) same_cart_world(2) clear_marks_order(2))+

subsection \<open>A sample\<close>

text \<open>User 7 has two pieces of product 5, at 2.50 each, in the cart 11; order 9 is marked.\<close>

definition cart_db_sample :: cart_db where
  "cart_db_sample = \<lparr>calls = 0, fault_at = (\<lambda>n. None), clock_at = int, uuid_at = (\<lambda>n. 100), txn = NoTx,
     cd_carts = [\<lparr>ct_ID = 11, ct_UserID = 7, ct_CreatedAt = Some 0\<rparr>],
     cd_products = [\<lparr>cp_ID = 12, cp_CartID = 11, cp_ProductID = 5, cp_Quantity = 2, cp_Price = Num (of_int 250 / 100), cp_AddedAt = 0\<rparr>],
     cd_processed = [\<lparr>ce_ID = 13, ce_AggregateID = 9, ce_EventName = ''order_created_exchange'', ce_ProcessedAt = 0\<rparr>]\<rparr>"

lemma cart_sample_tables: "cart_tables_ok cart_db_sample"
  by (simp add: cart_tables_ok_def cart_db_sample_def price_in_range_def)

definition cart_event_sample :: "uuid \<Rightarrow> OrderCreatedEvent" where
  "cart_event_sample order = \<lparr>oce_OrderID = uuid_text sample_ext order, oce_UserID = uuid_text sample_ext 7,
     oce_UserEmail = [], oce_Products = None\<rparr>"

lemma cart_event_decodes: "cart_unmarshalEvent (Some (enc_order_created (cart_event_sample order))) = Inr (cart_event_sample order)"
  by (simp add: cart_unmarshalEvent_def order_created_decodes)

lemma cart_event_ids: "parse_uuid sample_ext (oce_OrderID (cart_event_sample order)) = Inr order"
  "parse_uuid sample_ext (oce_UserID (cart_event_sample order)) = Inr 7"
  using parse_uuid_text [OF sample_uuids] by (simp_all add: cart_event_sample_def)

definition cart_redis_sample :: redis where
  "cart_redis_sample = \<lparr>rd_data = Map.empty, rd_calls = 0, rd_fault = (\<lambda>n. None), rd_clock = int\<rparr>"

definition cart_world_sample :: "unit cart_world" where
  "cart_world_sample = \<lparr>cw_db = cart_db_sample, cw_redis = cart_redis_sample, cw_tasks = [], cw_client = (),
     cw_ttl = ''0'', cw_time = 50\<rparr>"

definition fetch_sample :: "unit product_fetcher" where
  "fetch_sample ids = ok (\<lambda>i. if i \<in> set ids
     then Some \<lparr>ci_ID = i, ci_Name = ''pen'', ci_Description = [], ci_Price = Fin 3\<rparr> else None)"

lemma cart_sample_ok: "cart_ok cart_world_sample"
  by (simp add: cart_ok_def cart_world_sample_def cart_sample_tables)

lemma cart_sample_cleared:
  assumes "cw_db w = cart_db_sample"
  shows "fst (run_state (handleOrderCreatedEvent_cart sample_ext (Some (enc_order_created (cart_event_sample 8)))) w) = Ack"
  by (simp add: handleOrderCreatedEvent_cart_def cart_event_decodes shouldSkipProcessing_cart_def isEventProcessed_cart_def
      cart_event_ids GetProcessedEvent_cart_def run_query_row run_db_call assms clearOrderedCart_def
      DeleteCartAndCreateProcessedEvent_def run_with_tx DeleteCartByUserID_def delete_carts_def Let_def
      CreateProcessedEvent_cart_def insert_processed_def run_tx_commit cart_exchangeName_def)
    (simp add: cart_db_sample_def run_db_call run_tx_commit run_with_tx delete_carts_def insert_processed_def Let_def)

subsection \<open>The properties\<close>

text \<open>C12. A delivery of a created order leaves the tables as they are, or it deletes exactly the cart of the user with all
  its products and marks the order, both together. An acknowledged order is marked.\<close>

theorem ordered_cart_cleared:
  assumes "run_state (handleOrderCreatedEvent_cart X body) w = (d, w')" and "cart_unmarshalEvent body = Inr event"
  shows "(same_cart_tables (cw_db w) (cw_db w') \<or>
      (\<exists>user order. parse_uuid X (oce_UserID event) = Inr user \<and> parse_uuid X (oce_OrderID event) = Inr order \<and>
         cart_cleared user order (cw_db w) (cw_db w'))) \<and>
    (d = Ack \<longrightarrow> (\<exists>order. parse_uuid X (oce_OrderID event) = Inr order \<and> cart_marked order (cw_db w')))"
  using assms
proof (cases rule: handle_cart_steps)
  case skipped
  then show ?thesis using check_effect [OF skipped] same_marked by fastforce
next
  case (cleared w1)
  have same: "same_cart_tables (cw_db w) (cw_db w1)" using check_effect [OF cleared(1)] by blast
  from clear_effect [OF cleared(2)] show ?thesis
  proof (elim disjE exE conjE)
    assume "d = Nack True" "same_cart_tables (cw_db w1) (cw_db w')"
    then show ?thesis using same by (simp add: same_cart_tables_def)
  next
    fix user order assume "parse_uuid X (oce_UserID event) = Inr user" "parse_uuid X (oce_OrderID event) = Inr order"
      and "cart_cleared user order (cw_db w1) (cw_db w')"
    moreover have "cart_cleared user order (cw_db w) (cw_db w')" "cart_marked order (cw_db w')"
      using same_cleared [OF same] calculation(3) by (blast, simp add: cart_cleared_def)
    ultimately show ?thesis by blast
  qed
qed

theorem ordered_cart_cleared_witness:
  "\<exists>w'. run_state (handleOrderCreatedEvent_cart sample_ext (Some (enc_order_created (cart_event_sample 8)))) cart_world_sample = (Ack, w') \<and>
     cart_marked 8 (cw_db w')"
proof -
  have "fst (run_state (handleOrderCreatedEvent_cart sample_ext (Some (enc_order_created (cart_event_sample 8)))) cart_world_sample) = Ack"
    by (rule cart_sample_cleared) (simp add: cart_world_sample_def)
  then obtain w' where run: "run_state (handleOrderCreatedEvent_cart sample_ext (Some (enc_order_created (cart_event_sample 8))))
      cart_world_sample = (Ack, w')"
    by (metis prod.collapse)
  from ordered_cart_cleared [OF this cart_event_decodes] run show ?thesis by (simp add: cart_event_ids)
qed

text \<open>C37. An order clears a cart at most once. Once it is marked, no delivery of it changes a table, also one that made its
  check before the mark and updates after it: the carts a user fills later are safe.\<close>

theorem marked_order_keeps_carts:
  assumes "cart_unmarshalEvent body = Inr event" and "parse_uuid X (oce_OrderID event) = Inr order"
    and "cart_marked order (cw_db w)"
    and "run_state (handleOrderCreatedEvent_cart X body) w = (d, w1) \<or> run_state (clearOrderedCart X event) w = (d, w1)"
  shows "same_cart_tables (cw_db w) (cw_db w1)"
  using assms(4)
proof
  assume "run_state (handleOrderCreatedEvent_cart X body) w = (d, w1)"
  then show ?thesis using assms(1)
  proof (cases rule: handle_cart_steps)
    case skipped
    then show ?thesis using check_effect by blast
  next
    case (cleared v)
    have same: "same_cart_tables (cw_db w) (cw_db v)" using check_effect [OF cleared(1)] by blast
    show ?thesis using clear_effect [OF cleared(2)] same same_marked [OF same] assms(2,3)
      by (auto simp: cart_cleared_def same_cart_tables_def)
  qed
next
  assume "run_state (clearOrderedCart X event) w = (d, w1)"
  from clear_effect [OF this] show ?thesis using assms(2,3) by (auto simp: cart_cleared_def)
qed

theorem marked_order_keeps_carts_witness:
  "same_cart_tables cart_db_sample (cw_db (snd (run_state (clearOrderedCart sample_ext (cart_event_sample 9)) cart_world_sample)))"
proof -
  obtain d w1 where run: "run_state (clearOrderedCart sample_ext (cart_event_sample 9)) cart_world_sample = (d, w1)" by (rule run_pair)
  have "cart_marked 9 (cw_db cart_world_sample)"
    by (simp add: cart_marked_def cart_world_sample_def cart_db_sample_def cart_exchangeName_def)
  from marked_order_keeps_carts [OF cart_event_decodes cart_event_ids(1) this disjI2 [OF run]]
  show ?thesis by (simp add: run) (simp add: cart_world_sample_def)
qed

text \<open>Deliveries that follow each other delete the cart of an order at most once: however often the broker delivers the
  messages of the cart's queue, at most one delivery of each order changes the tables of the cart service.\<close>

theorem order_clears_cart_at_most_once:
  "effective_deliveries (handleOrderCreatedEvent_cart X) same_cart_world (about_order X u) bodies w \<le> 1"
  by (rule cart_once.at_most_once)

end
