(* ===== verification/CartSpec.thy ===== *)
theory CartSpec
  imports CartConsumer
begin

text \<open>
  What the cart service guarantees for reads and additions: a fresh cart shows what its tables hold with an exact
  total, an addition sets a quantity, and a cached cart is returned whatever the tables hold.
\<close>

subsection \<open>The user's cart\<close>

lemma find_snoc: "find P (xs @ [x]) = (case find P xs of None \<Rightarrow> if P x then Some x else None | Some y \<Rightarrow> Some y)"
  by (induction xs) auto

lemma CreateCart_Inr:
  assumes "run_state (CreateCart u) w = (Inr cart, w')"
  shows "find (\<lambda>c. ct_UserID c = u) (cd_carts w') = Some cart \<and> cd_carts w' = cd_carts w @ [cart] \<and>
    cd_products w' = cd_products w \<and> ct_UserID cart = u \<and> ct_ID cart = uuid_at w (calls w) \<and>
    u \<notin> ct_UserID ` set (cd_carts w)"
proof -
  have i: "insert_cart u (calls w) (w\<lparr>calls := Suc (calls w)\<rparr>) = Inr (Some cart, w')"
    using query_row_Inr [OF assms [unfolded CreateCart_def]] by blast
  then have w': "cd_carts w' = cd_carts w @ [cart]" "cd_products w' = cd_products w" "ct_UserID cart = u"
    "ct_ID cart = uuid_at w (calls w)" and no: "u \<notin> ct_UserID ` set (cd_carts w)"
    by (auto simp: insert_cart_def Let_def split: if_splits)
  have "find (\<lambda>c. ct_UserID c = u) (cd_carts w) = None" using no by (auto simp: find_None_iff')
  then show ?thesis using w' no by (simp add: find_snoc)
qed

text \<open>What happens to the tables when a cart is looked up.\<close>

lemma GetCartByUserID_effect:
  assumes "run_state (GetCartByUserID u) w = (r, w')"
  shows "same_cart_tables w w' \<and> (\<forall>cart. r = Inr cart \<longrightarrow> find (\<lambda>c. ct_UserID c = u) (cd_carts w) = Some cart) \<and>
    uuid_at w' = uuid_at w"
  using cart_read [OF assms [unfolded GetCartByUserID_def]] by simp

lemma DeleteCart_Inr:
  "run_state (DeleteCartByUserID u) w = (Inr x, w') \<Longrightarrow>
     cd_products w' = filter (\<lambda>p. cp_CartID p \<notin> ct_ID ` {c \<in> set (cd_carts w). ct_UserID c = u}) (cd_products w) \<and>
     cd_carts w' = filter (\<lambda>c. ct_UserID c \<noteq> u) (cd_carts w) \<and> uuid_at w' = uuid_at w"
  using delete_in_tx [of u w "Inr x" w'] by (auto simp: delete_carts_def Let_def)

lemma createCart_found:
  assumes "run_state (createCart u) v = (Inr (cart, b), w')"
  shows "find (\<lambda>c. ct_UserID c = u) (cd_carts (cw_db w')) = Some cart \<and> ct_UserID cart = u \<and> b \<and>
    cw_client w' = cw_client v \<and> cd_products (cw_db w') = cd_products (cw_db v) \<and> (\<exists>k. ct_ID cart = uuid_at (cw_db v) k) \<and>
    u \<notin> ct_UserID ` set (cd_carts (cw_db v))"
  using assms CreateCart_Inr [of u "cw_db v" cart] by (auto simp: createCart_def split: prod.splits sum.splits)

text \<open>The lines that are left when a cart of a user had to be made: those of the user's expired cart are gone.\<close>

definition without_carts_of :: "uuid \<Rightarrow> cart_db \<Rightarrow> CartsProductRow list" where
  "without_carts_of u d = filter (\<lambda>p. cp_CartID p \<notin> ct_ID ` {c \<in> set (cd_carts d). ct_UserID c = u}) (cd_products d)"

lemma without_no_carts: "u \<notin> ct_UserID ` set (cd_carts d) \<Longrightarrow> without_carts_of u d = cd_products d"
  by (auto simp: without_carts_of_def intro!: filter_True)

lemma getOrCreate_Inr:
  assumes "run_state (getOrCreateCartByUserID X u) w = (Inr (cart, b), w')"
  shows "find (\<lambda>c. ct_UserID c = u) (cd_carts (cw_db w')) = Some cart \<and> ct_UserID cart = u \<and>
    cw_client w' = cw_client w \<and> (\<not> b \<longrightarrow> same_cart_tables (cw_db w) (cw_db w')) \<and>
    (b \<longrightarrow> cd_products (cw_db w') = without_carts_of u (cw_db w) \<and> (\<exists>k. ct_ID cart = uuid_at (cw_db w) k))"
proof -
  obtain r d where r: "run_state (GetCartByUserID u) (cw_db w) = (r, d)" by (rule run_pair)
  note same = GetCartByUserID_effect [OF r]
  show ?thesis
  proof (cases r)
    case (Inl e)
    then have "run_state (createCart u) (w\<lparr>cw_db := d\<rparr>) = (Inr (cart, b), w')"
      using assms r by (simp add: getOrCreateCartByUserID_def split: if_splits)
    from createCart_found [OF this] show ?thesis using same without_no_carts [of u "cw_db w"]
      by (simp add: same_cart_tables_def)
  next
    case (Inr c)
    then have f: "find (\<lambda>c. ct_UserID c = u) (cd_carts d) = Some c" using same by (simp add: same_cart_tables_def)
    show ?thesis
    proof (cases "cartIsExpired (cw_ttl w) (cw_time w) c")
      case (Inl e)
      then show ?thesis using assms r Inr by (simp add: getOrCreateCartByUserID_def)
    next
      case exp: (Inr expired)
      show ?thesis
      proof (cases expired)
        case False
        then have "c = cart" "\<not> b" "w' = w\<lparr>cw_db := d\<rparr>"
          using assms r Inr exp by (simp_all add: getOrCreateCartByUserID_def)
        then show ?thesis using f same find_Some_in [OF f] by (auto simp: same_cart_tables_def)
      next
        case True
        obtain x d2 where x: "run_state (DeleteCartByUserID u) d = (x, d2)" by (rule run_pair)
        obtain y v where y: "run_state (createCart u) (w\<lparr>cw_db := d2\<rparr>) = (y, v)" by (rule run_pair)
        have xy: "x = Inr ()" "y = Inr (cart, b)" "w' = v\<lparr>cw_tasks := cw_tasks v @ [DeleteCartCacheTask (uuid_text X u)]\<rparr>"
          using assms r Inr exp True x y
          by (auto simp: getOrCreateCartByUserID_def deleteExpiredCartAndCreateNewOne_def split: sum.splits)
        have "cd_products d2 = without_carts_of u (cw_db w)" "uuid_at d2 = uuid_at (cw_db w)"
          using DeleteCart_Inr [OF x [unfolded xy(1)]] same by (simp_all add: without_carts_of_def same_cart_tables_def)
        then show ?thesis using createCart_found [OF y [unfolded xy(2)]] xy(3) by simp
      qed
    qed
  qed
qed

lemma getOrCreate_products:
  assumes "run_state (getOrCreateCartByUserID X u) w = (Inr (cart, b), w')"
  shows "set (cd_products (cw_db w')) \<subseteq> set (cd_products (cw_db w))"
  using getOrCreate_Inr [OF assms] by (cases b) (auto simp: same_cart_tables_def without_carts_of_def)

subsection \<open>The lines of a cart\<close>

definition price_cents :: "numeric \<Rightarrow> int" where
  "price_cents p = (case p of Num r \<Rightarrow> \<lfloor>r * 100\<rfloor> | _ \<Rightarrow> 0)"

lemma price_cents_num [simp]: "price_cents (Num (of_int c / 100)) = c"
  by (simp add: price_cents_def)

definition known_lines ::
  "ext \<Rightarrow> (string \<rightharpoonup> CartProductInfo) \<Rightarrow> GetCartProductsByCartIDRow list \<Rightarrow> GetCartProductsByCartIDRow list" where
  "known_lines X m ls = filter (\<lambda>l. m (uuid_text X (gcp_ProductID l)) \<noteq> None) ls"

definition priced :: "GetCartProductsByCartIDRow \<Rightarrow> int \<times> int32" where
  "priced l = (price_cents (gcp_Price l), gcp_Quantity l)"

lemma cart_items_fold:
  assumes "cart_items X m ls ps t = Inr (ps', t')" and "floats_cents X"
    and "\<forall>l \<in> set ls. \<exists>c. \<bar>c\<bar> < 10 ^ 10 \<and> gcp_Price l = Num (of_int c / 100)"
  shows "map (\<lambda>p. (cpv_Price p, cpv_Quantity p)) ps' = map (\<lambda>p. (cpv_Price p, cpv_Quantity p)) ps @
      map (map_prod cents_float id \<circ> priced) (known_lines X m ls) \<and>
    t' = foldl add_line t (map (map_prod cents_float id \<circ> priced) (known_lines X m ls))"
  using assms
proof (induction ls arbitrary: ps t)
  case Nil
  then show ?case by (simp add: known_lines_def)
next
  case (Cons l ls)
  obtain c where c: "\<bar>c\<bar> < 10 ^ 10" "gcp_Price l = Num (of_int c / 100)" using Cons.prems(3) by auto
  have rest: "\<forall>l \<in> set ls. \<exists>c. \<bar>c\<bar> < 10 ^ 10 \<and> gcp_Price l = Num (of_int c / 100)" using Cons.prems(3) by simp
  have price: "numeric_float64 X (gcp_Price l) = Inr (cents_float c)"
    using Cons.prems(2) c(1) by (simp add: c(2) numeric_float64_def floats_cents_def)
  show ?case
  proof (cases "m (uuid_text X (gcp_ProductID l))")
    case None
    then show ?thesis using Cons.IH [OF _ Cons.prems(2) rest] Cons.prems(1) by (simp add: known_lines_def)
  next
    case (Some product)
    then have "cart_items X m ls (ps @ [\<lparr>cpv_ProductId = ci_ID product, cpv_Name = ci_Name product,
        cpv_Description = ci_Description product, cpv_Price = cents_float c, cpv_Quantity = gcp_Quantity l\<rparr>])
        (add_line t (cents_float c, gcp_Quantity l)) = Inr (ps', t')"
      using Cons.prems(1) price by (simp add: add_line_def)
    from Cons.IH [OF this Cons.prems(2) rest] show ?thesis
      using Some by (simp add: known_lines_def priced_def c)
  qed
qed

lemma GetCart_fresh:
  assumes "run_state (GetCart X F ctx req) w = (Inr resp, w')"
    and "\<forall>c. fst (run_state (checkCartCache (gcr_UserId req)) (cw_redis w)) \<noteq> Inr (Some c)"
  obtains user cart m c' where "parse_uuid X (gcr_UserId req) = Inr user"
    "find (\<lambda>c. ct_UserID c = user) (cd_carts (cw_db w')) = Some cart"
    "set (cd_products (cw_db w')) \<subseteq> set (cd_products (cw_db w))"
    "run_state (F (map (\<lambda>l. uuid_text X (gcp_ProductID l)) (cart_lines (ct_ID cart) (cw_db w')))) (cw_client w) = (Inr m, c')"
    "cart_items X m (cart_lines (ct_ID cart) (cw_db w')) [] (Fin 0) = Inr (gc_Products resp, gc_TotalPrice resp)"
    "gc_Id resp = uuid_text X (ct_ID cart)" "gc_UserId resp = uuid_text X user"
    "cw_tasks w' \<noteq> [] \<and> last (cw_tasks w') = CacheCartTask (gcr_UserId req) resp"
proof -
  have ctx: "ctx = None" using assms(1) by (cases ctx) (simp_all add: GetCart_def)
  obtain k rd where k: "run_state (checkCartCache (gcr_UserId req)) (cw_redis w) = (k, rd)" by (rule run_pair)
  let ?w = "w\<lparr>cw_redis := rd\<rparr>"
  have read: "run_state (readCart X F (gcr_UserId req)) ?w = (Inr resp, w')"
    using assms ctx k by (auto simp: GetCart_def split: sum.splits option.splits)
  then obtain user cart b v cps v2 m v3 products total_price where
    u: "parse_uuid X (gcr_UserId req) = Inr user" and
    g: "run_state (getOrCreateCartByUserID X user) ?w = (Inr (cart, b), v)" and
    l: "run_state (c_db (GetCartProductsByCartID (ct_ID cart))) v = (Inr cps, v2)" and
    f: "run_state (c_client (F (map (\<lambda>cp. uuid_text X (gcp_ProductID cp)) cps))) v2 = (Inr m, v3)" and
    i: "cart_items X m cps [] (Fin 0) = Inr (products, total_price)" and
    resp: "resp = \<lparr>gc_Id = uuid_text X (ct_ID cart), gc_UserId = uuid_text X (ct_UserID cart),
      gc_Products = products, gc_TotalPrice = total_price\<rparr>" and
    w': "w' = v3\<lparr>cw_tasks := cw_tasks v3 @ [CacheCartTask (gcr_UserId req) resp]\<rparr>"
    by (auto simp: readCart_def attempt_Inr attempt_pure_Inr Let_def simp del: run_attempt run_attempt_pure run_c(1) run_c(3))
  note g' = getOrCreate_Inr [OF g] getOrCreate_products [OF g]
  have cps: "cps = cart_lines (ct_ID cart) (cw_db v2)" "cd_carts (cw_db v2) = cd_carts (cw_db v)"
    "cd_products (cw_db v2) = cd_products (cw_db v)" "cw_client v2 = cw_client v"
    using l by (auto simp: GetCartProductsByCartID_def cart_lines_def dest!: db_call_Inr split: prod.splits)
  have db: "cw_db v3 = cw_db v2" "\<exists>c'. run_state (F (map (\<lambda>cp. uuid_text X (gcp_ProductID cp)) cps)) (cw_client v2) = (Inr m, c')"
    using f by (auto split: prod.splits)
  from db(2) obtain c' where "run_state (F (map (\<lambda>cp. uuid_text X (gcp_ProductID cp)) cps)) (cw_client v2) = (Inr m, c')" ..
  then show ?thesis using that [of user cart m c'] u g' cps db(1) i resp w' by simp
qed

lemma lines_total_text:
  assumes "\<forall>(c, q) \<in> set ls. 0 \<le> c \<and> 0 < sint q" and "0 < sum_list (map line_cents ls)"
    and "sum_list (map line_cents ls) \<le> 10 ^ 10" and "length ls \<le> 100000"
  shows "sprintf_2f (foldl add_line (Fin 0) (map (map_prod cents_float id) ls)) = cents_text (sum_list (map line_cents ls))"
proof -
  let ?S = "sum_list (map line_cents ls)"
  obtain v where v: "foldl add_line (Fin 0) (map (map_prod cents_float id) ls) = Fin v"
    "\<bar>v - of_int ?S / 100\<bar> \<le> of_nat (length ls) / 33554432" using fold_lines_error [OF assms(1,3,4)] by auto
  have "of_nat (length ls) \<le> (100000 :: rat)" using assms(4) of_nat_mono [of "length ls" 100000] by simp
  then have "\<bar>v - of_int ?S / 100\<bar> < 1 / 200" using v(2) by linarith
  then show ?thesis using v(1) assms(2) by (simp add: cents_text_def fixed_text_close)
qed

text \<open>C15. A cart that is not cached is read as the tables hold it: it has the products the product service knows, at the
  prices the cart stores, and the text of its total (as an order stores it) is the exact sum of its lines, although it is
  added up in \<open>float64\<close>.\<close>

theorem fresh_cart_exact:
  assumes "run_state (GetCart X F ctx req) w = (Inr resp, w')"
    and "\<forall>c. fst (run_state (checkCartCache (gcr_UserId req)) (cw_redis w)) \<noteq> Inr (Some c)"
    and "floats_cents X" and "cart_ok w"
    and "\<forall>p \<in> set (cd_products (cw_db w)). \<exists>c. 0 \<le> c \<and> cp_Price p = Num (of_int c / 100)"
  shows "\<exists>user cart m c'. parse_uuid X (gcr_UserId req) = Inr user \<and> cart_of user (cw_db w') = Some cart \<and>
    gc_Id resp = uuid_text X cart \<and> gc_UserId resp = uuid_text X user \<and>
    run_state (F (map (\<lambda>l. uuid_text X (gcp_ProductID l)) (cart_lines cart (cw_db w')))) (cw_client w) = (Inr m, c') \<and>
    map (\<lambda>p. (cpv_Price p, cpv_Quantity p)) (gc_Products resp) =
      map (map_prod cents_float id \<circ> priced) (known_lines X m (cart_lines cart (cw_db w'))) \<and>
    (0 < sum_list (map (line_cents \<circ> priced) (known_lines X m (cart_lines cart (cw_db w')))) \<longrightarrow>
     sum_list (map (line_cents \<circ> priced) (known_lines X m (cart_lines cart (cw_db w')))) \<le> 10 ^ 10 \<longrightarrow>
     length (gc_Products resp) \<le> 100000 \<longrightarrow>
     sprintf_2f (gc_TotalPrice resp) =
       cents_text (sum_list (map (line_cents \<circ> priced) (known_lines X m (cart_lines cart (cw_db w'))))))"
proof (rule GetCart_fresh [OF assms(1,2)])
  fix user cart m c'
  assume g: "parse_uuid X (gcr_UserId req) = Inr user"
    "find (\<lambda>c. ct_UserID c = user) (cd_carts (cw_db w')) = Some cart"
    "set (cd_products (cw_db w')) \<subseteq> set (cd_products (cw_db w))"
    "run_state (F (map (\<lambda>l. uuid_text X (gcp_ProductID l)) (cart_lines (ct_ID cart) (cw_db w')))) (cw_client w) = (Inr m, c')"
    "cart_items X m (cart_lines (ct_ID cart) (cw_db w')) [] (Fin 0) = Inr (gc_Products resp, gc_TotalPrice resp)"
    "gc_Id resp = uuid_text X (ct_ID cart)" "gc_UserId resp = uuid_text X user"
    "cw_tasks w' \<noteq> [] \<and> last (cw_tasks w') = CacheCartTask (gcr_UserId req) resp"
  define ls where "ls = cart_lines (ct_ID cart) (cw_db w')"
  define K where "K = known_lines X m ls"
  have ls: "\<exists>c. 0 \<le> c \<and> \<bar>c\<bar> < 10 ^ 10 \<and> gcp_Price l = Num (of_int c / 100)" "0 < sint (gcp_Quantity l)" if "l \<in> set ls" for l
  proof -
    from \<open>l \<in> set ls\<close> obtain p where p1: "p \<in> set (cd_products (cw_db w'))" and
      l: "gcp_Price l = cp_Price p" "gcp_Quantity l = cp_Quantity p"
      by (auto simp: ls_def cart_lines_def)
    note p = subsetD [OF g(3) p1] l
    have "price_in_range (cp_Price p)" using assms(4) p(1) by (simp add: cart_ok_def cart_tables_ok_def)
    then show "\<exists>c. 0 \<le> c \<and> \<bar>c\<bar> < 10 ^ 10 \<and> gcp_Price l = Num (of_int c / 100)"
      using assms(5) p price_in_range_cents by metis
    show "0 < sint (gcp_Quantity l)" using assms(4) p by (simp add: cart_ok_def cart_tables_ok_def)
  qed
  have fold: "map (\<lambda>p. (cpv_Price p, cpv_Quantity p)) (gc_Products resp) = map (map_prod cents_float id \<circ> priced) K"
    "gc_TotalPrice resp = foldl add_line (Fin 0) (map (map_prod cents_float id) (map priced K))"
    using cart_items_fold [OF g(5) assms(3)] ls(1) by (auto simp: K_def ls_def)
  have len: "length K = length (gc_Products resp)" using arg_cong [OF fold(1), of length] by simp
  have pos: "\<forall>(c, q) \<in> set (map priced K). 0 \<le> c \<and> 0 < sint q"
    using ls by (fastforce simp: K_def known_lines_def priced_def)
  have total_text: "sprintf_2f (gc_TotalPrice resp) = cents_text (sum_list (map (line_cents \<circ> priced) K))"
    if "0 < sum_list (map (line_cents \<circ> priced) K)" "sum_list (map (line_cents \<circ> priced) K) \<le> 10 ^ 10"
      "length (gc_Products resp) \<le> 100000"
    using lines_total_text [OF pos] that len fold(2) by simp
  have "cart_of user (cw_db w') = Some (ct_ID cart)" by (simp add: cart_of_def g(2))
  then show ?thesis using g(1,4,6,7) fold(1) total_text unfolding K_def ls_def
    by (intro exI [of _ user] exI [of _ "ct_ID cart"] exI [of _ m] exI [of _ c'] conjI) simp_all
qed

theorem fresh_cart_exact_witness:
  "\<exists>resp w'. run_state (GetCart sample_ext fetch_sample None \<lparr>gcr_UserId = uuid_text sample_ext 7\<rparr>) cart_world_sample = (Inr resp, w') \<and>
     gc_Id resp = uuid_text sample_ext 11 \<and> sprintf_2f (gc_TotalPrice resp) = cents_text 500"
proof -
  let ?req = "\<lparr>gcr_UserId = uuid_text sample_ext 7\<rparr>"
  have parse: "parse_uuid sample_ext (gcr_UserId ?req) = Inr 7" using parse_uuid_text [OF sample_uuids] by simp
  have float: "numeric_float64 sample_ext (Num (of_int 250 / 100)) = Inr (cents_float 250)"
    using sample_floats [unfolded floats_cents_def, rule_format, of 250] by (simp add: numeric_float64_def)
  have miss: "run_state (checkCartCache (gcr_UserId ?req)) cart_redis_sample =
      (Inr None, cart_redis_sample\<lparr>rd_calls := 1\<rparr>)"
    by (simp add: checkCartCache_def rd_get_def run_redis_call cart_redis_sample_def rd_lookup_def)
  have ttl: "cartIsExpired ''0'' 50 c = Inr False" for c
    by (simp add: cartIsExpired_def ttl_zero)
  obtain resp w' where run: "run_state (GetCart sample_ext fetch_sample None ?req) cart_world_sample = (Inr resp, w')"
    and db: "cd_carts (cw_db w') = cd_carts cart_db_sample" "cd_products (cw_db w') = cd_products cart_db_sample"
  proof -
    have "\<exists>resp w'. run_state (GetCart sample_ext fetch_sample None ?req) cart_world_sample = (Inr resp, w') \<and>
        cd_carts (cw_db w') = cd_carts cart_db_sample \<and> cd_products (cw_db w') = cd_products cart_db_sample"
      using parse miss float
      by (simp add: GetCart_def readCart_def cart_world_sample_def getOrCreateCartByUserID_def GetCartByUserID_def ttl
          GetCartProductsByCartID_def run_query_row run_db_call cart_db_sample_def cart_lines_def fetch_sample_def Let_def)
    then show ?thesis using that by blast
  qed
  from fresh_cart_exact [OF run _ sample_floats cart_sample_ok] miss obtain user cart m c' where
    r: "parse_uuid sample_ext (gcr_UserId ?req) = Inr user" "cart_of user (cw_db w') = Some cart"
      "gc_Id resp = uuid_text sample_ext cart"
      "run_state (fetch_sample (map (\<lambda>l. uuid_text sample_ext (gcp_ProductID l)) (cart_lines cart (cw_db w')))) () = (Inr m, c')"
      "map (\<lambda>p. (cpv_Price p, cpv_Quantity p)) (gc_Products resp) =
        map (map_prod cents_float id \<circ> priced) (known_lines sample_ext m (cart_lines cart (cw_db w')))"
    and total_text: "sum_list (map (line_cents \<circ> priced) (known_lines sample_ext m (cart_lines cart (cw_db w')))) = 500 \<Longrightarrow>
      length (gc_Products resp) \<le> 100000 \<Longrightarrow> sprintf_2f (gc_TotalPrice resp) = cents_text 500"
    by (fastforce simp: cart_world_sample_def cart_db_sample_def)
  have cart: "cart = 11" using r(1,2) parse by (simp add: cart_of_def db) (simp add: cart_db_sample_def)
  have lines: "cart_lines cart (cw_db w') = [\<lparr>gcp_ProductID = 5, gcp_Quantity = 2, gcp_Price = Num (of_int 250 / 100)\<rparr>]"
    by (simp add: cart_lines_def db cart) (simp add: cart_db_sample_def)
  have known: "known_lines sample_ext m (cart_lines cart (cw_db w')) = cart_lines cart (cw_db w')"
    using r(4) by (auto simp: lines known_lines_def fetch_sample_def)
  have "sum_list (map (line_cents \<circ> priced) (cart_lines cart (cw_db w'))) = 500"
    by (simp add: lines priced_def line_cents_def del: of_int_numeral) 
  moreover have "length (gc_Products resp) = 1" using arg_cong [OF r(5), of length] unfolding known by (simp add: lines)
  ultimately show ?thesis using total_text run r(3) cart known by auto
qed

subsection \<open>The cached cart\<close>

definition valid_float :: "float64 \<Rightarrow> bool" where
  "valid_float v \<longleftrightarrow> (case v of Fin r \<Rightarrow> round64 r = Fin r | _ \<Rightarrow> False)"

lemma into_fields_append: "into_fields fs (a @ b) s = Option.bind (into_fields fs a s) (into_fields fs b)"
  by (induction a arbitrary: s) (auto split: option.splits bind_splits)

lemma into_fields_opt:
  "into_fields fs (opt_field k z j) s = (if z then Some s else into_fields fs [(k, j)] s)"
  by (simp add: opt_field_def)

lemma enc_float_valid: "valid_float v \<Longrightarrow> \<exists>j. enc_float v = Some j \<and> into_float j old = Some v"
  by (cases v) (auto simp: valid_float_def read_float_def)

lemma cart_product_decodes:
  assumes "valid_float (cpv_Price p)"
  shows "\<exists>j. enc_cart_product p = Some j \<and> into_cart_product j zero_cart_product = Some p"
proof -
  obtain price where "enc_float (cpv_Price p) = Some price" "into_float price (Fin 0) = Some (cpv_Price p)"
    using enc_float_valid [OF assms] by blast
  then show ?thesis
    by (cases p) (auto simp: enc_cart_product_def into_cart_product_def into_fields_append into_fields_opt
        zero_cart_product_def field_of_def fld_def)
qed

lemma all_some_products:
  "(\<forall>p \<in> set ps. valid_float (cpv_Price p)) \<Longrightarrow> \<exists>js. all_some (map enc_cart_product ps) = Some js \<and>
     all_some (map (\<lambda>j. into_cart_product j zero_cart_product) js) = Some ps"
proof (induction ps)
  case (Cons p ps)
  then show ?case using cart_product_decodes [of p] by fastforce
qed simp

lemma cart_decodes:
  assumes "\<forall>p \<in> set (gc_Products c). valid_float (cpv_Price p)" and "valid_float (gc_TotalPrice c)"
  shows "\<exists>j. enc_cart c = Some j \<and> into_cart j zero_cart = Some c \<and> j \<noteq> JNull"
proof -
  obtain total_price where t: "enc_float (gc_TotalPrice c) = Some total_price" "into_float total_price (Fin 0) = Some (gc_TotalPrice c)"
    using enc_float_valid [OF assms(2)] by blast
  obtain js where js: "all_some (map enc_cart_product (gc_Products c)) = Some js"
    "all_some (map (\<lambda>j. into_cart_product j zero_cart_product) js) = Some (gc_Products c)"
    using all_some_products [OF assms(1)] by blast
  show ?thesis using t js
    by (cases c) (auto simp: enc_cart_def into_cart_def into_fields_append into_fields_opt into_cart_products_def
        zero_cart_def field_of_def fld_def)
qed

lemma valid_cents: "0 \<le> c \<Longrightarrow> c \<le> 10 ^ 10 \<Longrightarrow> valid_float (cents_float c)"
  using cents_float_error [of c] round64_idem by (fastforce simp: valid_float_def cents_float_def)

text \<open>A cart that a goroutine has cached is what a read returns until it expires, whatever the tables hold by
  then: also when the cart has been ordered and deleted in between.\<close>

theorem cached_cart_returned:
  assumes "run_state (run_cart_task (CacheCartTask user c)) r = (x, r')"
    and "\<forall>p \<in> set (gc_Products c). valid_float (cpv_Price p)" and "valid_float (gc_TotalPrice c)"
    and "\<forall>n. rd_fault r n = None" and "rd_clock r (Suc (rd_calls r)) < rd_clock r (rd_calls r) + redisCacheTTL"
    and "cw_redis w = r'"
  shows "fst (run_state (GetCart X F None \<lparr>gcr_UserId = user\<rparr>) w) = Inr c"
proof -
  obtain j where j: "enc_cart c = Some j" "into_cart j zero_cart = Some c" "j \<noteq> JNull"
    using cart_decodes [OF assms(2,3)] by blast
  have r': "r' = rd_put (redisCartPrefix @ user) (Some (RJson j, Some (rd_clock r (rd_calls r) + redisCacheTTL)))
      (r\<lparr>rd_calls := Suc (rd_calls r)\<rparr>)"
    using assms(1,4) j by (simp add: cacheGetCartResponse_def rd_set_def run_redis_call)
  have "fst (run_state (checkCartCache user) r') = Inr (Some c)"
    using assms(4,5) j
    by (simp add: checkCartCache_def rd_get_def r' run_redis_call rd_put_def rd_lookup_def unmarshal_def into_cart_pointer_def)
  then show ?thesis using assms(6) by (auto simp: GetCart_def split: prod.splits)
qed

text \<open>A full cart of user 7 is still returned after the cart is gone from the tables.\<close>

definition full_cart_sample :: GetCartResponse where
  "full_cart_sample = \<lparr>gc_Id = uuid_text sample_ext 11, gc_UserId = uuid_text sample_ext 7, gc_Products = [
     \<lparr>cpv_ProductId = uuid_text sample_ext 5, cpv_Name = ''pen'', cpv_Description = [], cpv_Price = cents_float 250, cpv_Quantity = 2\<rparr>],
     gc_TotalPrice = cents_float 500\<rparr>"

theorem cached_cart_returned_witness:
  "fst (run_state (GetCart sample_ext fetch_sample None \<lparr>gcr_UserId = uuid_text sample_ext 7\<rparr>)
     (cart_world_sample\<lparr>cw_db := cart_db_sample\<lparr>cd_carts := [], cd_products := []\<rparr>, cw_redis :=
        snd (run_state (run_cart_task (CacheCartTask (uuid_text sample_ext 7) full_cart_sample)) cart_redis_sample)\<rparr>)) =
   Inr full_cart_sample"
proof -
  obtain x r' where run: "run_state (run_cart_task (CacheCartTask (uuid_text sample_ext 7) full_cart_sample)) cart_redis_sample = (x, r')"
    by (rule run_pair)
  show ?thesis
    by (rule cached_cart_returned [OF run])
      (simp_all only: run snd_conv, simp_all add: full_cart_sample_def valid_cents cart_redis_sample_def redisCacheTTL_def)
qed

subsection \<open>Additions\<close>






subsection \<open>Whose cart a request touches\<close>

definition lines_of :: "uuid \<Rightarrow> cart_db \<Rightarrow> CartsProductRow list" where
  "lines_of v d = filter (\<lambda>p. Some (cp_CartID p) = cart_of v d) (cd_products d)"

text \<open>The user has the same cart, or still none, with the same lines.\<close>

definition same_cart_of :: "uuid \<Rightarrow> cart_db \<Rightarrow> cart_db \<Rightarrow> bool" where
  "same_cart_of v d d' \<longleftrightarrow> filter (\<lambda>c. ct_UserID c = v) (cd_carts d') = filter (\<lambda>c. ct_UserID c = v) (cd_carts d) \<and>
     lines_of v d' = lines_of v d"

definition apart :: "uuid \<Rightarrow> cart_db \<Rightarrow> cart_db \<Rightarrow> bool" where
  "apart v d0 d \<longleftrightarrow> cart_tables_ok d \<and> same_cart_of v d0 d"

lemma find_filter: "find P xs = (case filter P xs of [] \<Rightarrow> None | x # _ \<Rightarrow> Some x)"
  by (induction xs) auto

lemma cart_of_cong:
  "filter (\<lambda>c. ct_UserID c = v) (cd_carts d') = filter (\<lambda>c. ct_UserID c = v) (cd_carts d) \<Longrightarrow> cart_of v d' = cart_of v d"
  by (simp add: cart_of_def find_filter)

lemma cart_of_in: "cart_of v d = Some c \<Longrightarrow> \<exists>r \<in> set (cd_carts d). ct_UserID r = v \<and> ct_ID r = c"
  by (auto simp: cart_of_def dest!: find_Some_in)

lemma other_cart:
  assumes "cart_tables_ok d" and "cart_of v d = Some (ct_ID r)" and "r \<in> set (cd_carts d)"
  shows "ct_UserID r = v"
proof -
  obtain r' where "r' \<in> set (cd_carts d)" "ct_UserID r' = v" "ct_ID r' = ct_ID r" using cart_of_in [OF assms(2)] by blast
  moreover have "inj_on ct_ID (set (cd_carts d))" using assms(1) by (simp add: cart_tables_ok_def distinct_map)
  ultimately show ?thesis using assms(3) by (metis inj_onD)
qed

lemma same_cart_trans: "same_cart_of v d0 d \<Longrightarrow> same_cart_of v d d' \<Longrightarrow> same_cart_of v d0 d'"
  by (simp add: same_cart_of_def)

text \<open>A statement that keeps the carts and the lines of the user's cart.\<close>

lemma same_cartI:
  assumes "filter (\<lambda>c. ct_UserID c = v) (cd_carts d') = filter (\<lambda>c. ct_UserID c = v) (cd_carts d)"
    and "\<And>c. cart_of v d = Some c \<Longrightarrow> filter (\<lambda>p. cp_CartID p = c) (cd_products d') = filter (\<lambda>p. cp_CartID p = c) (cd_products d)"
  shows "same_cart_of v d d'"
proof -
  have "lines_of v d' = lines_of v d"
    unfolding lines_of_def cart_of_cong [OF assms(1)] using assms(2) by (cases "cart_of v d") auto
  then show ?thesis using assms(1) by (simp add: same_cart_of_def)
qed

lemma stmt_apart:
  assumes "stmt_keeps cart_tables_ok s"
    and "\<And>n d x d'. cart_tables_ok d \<Longrightarrow> s n d = Inr (x, d') \<Longrightarrow> same_cart_of v d d'"
  shows "stmt_keeps (apart v d0) s"
  using assms unfolding stmt_keeps_def apart_def by (blast intro: same_cart_trans)

lemma of_tables_apart: "of_tables (apart v d0)"
  using of_tables_cart_ok by (simp add: of_tables_def apart_def same_cart_of_def lines_of_def cart_of_def)

lemma apart_insert_cart:
  assumes "u \<noteq> v" shows "stmt_keeps (apart v d0) (insert_cart u)"
  by (rule stmt_apart [OF stmt_insert_cart], rule same_cartI)
    (use assms in \<open>auto simp: insert_cart_def Let_def split: if_splits\<close>)

lemma apart_delete_carts:
  assumes "u \<noteq> v" shows "stmt_keeps (apart v d0) (delete_carts u)"
proof (rule stmt_apart [OF stmt_delete_carts])
  fix n d x d' assume ok: "cart_tables_ok d" and "delete_carts u n d = Inr (x, d')"
  then have d': "d' = d\<lparr>cd_carts := filter (\<lambda>c. ct_UserID c \<noteq> u) (cd_carts d), cd_products := without_carts_of u d\<rparr>"
    by (simp add: delete_carts_def without_carts_of_def Let_def)
  show "same_cart_of v d d'"
  proof (rule same_cartI)
    fix c assume c: "cart_of v d = Some c"
    have "c \<notin> ct_ID ` {r \<in> set (cd_carts d). ct_UserID r = u}" using other_cart [OF ok] c assms by auto
    then show "filter (\<lambda>p. cp_CartID p = c) (cd_products d') = filter (\<lambda>p. cp_CartID p = c) (cd_products d)"
      by (auto simp: d' without_carts_of_def intro!: filter_cong)
  qed (use assms in \<open>auto simp: d' intro!: filter_cong\<close>)
qed

text \<open>The statements on the lines of the cart of \<open>u\<close>.\<close>

lemma apart_filter_lines:
  assumes "u \<noteq> v" and "\<And>d p. Some (cp_CartID p) \<noteq> cart_of u d \<Longrightarrow> P d p"
  shows "stmt_keeps (apart v d0) (\<lambda>n d. Inr ((), d\<lparr>cd_products := filter (P d) (cd_products d)\<rparr>))"
proof (rule stmt_apart [OF stmt_filter_products])
  fix n :: nat and d and x :: unit and d'
  assume ok: "cart_tables_ok d" and "(Inr ((), d\<lparr>cd_products := filter (P d) (cd_products d)\<rparr>) :: pg_error + unit \<times> cart_db) = Inr (x, d')"
  then have d': "d' = d\<lparr>cd_products := filter (P d) (cd_products d)\<rparr>" by simp
  show "same_cart_of v d d'"
  proof (rule same_cartI)
    fix c assume c: "cart_of v d = Some c"
    have "cart_of u d \<noteq> Some c"
    proof
      assume "cart_of u d = Some c"
      then obtain r where "r \<in> set (cd_carts d)" "ct_UserID r = u" "ct_ID r = c" using cart_of_in by blast
      then show False using other_cart [OF ok, of v r] c assms(1) by simp
    qed
    then have "P d p" if "cp_CartID p = c" for p using assms(2) that by metis
    then show "filter (\<lambda>p. cp_CartID p = c) (cd_products d') = filter (\<lambda>p. cp_CartID p = c) (cd_products d)"
      by (auto simp: d' intro!: filter_cong)
  qed (simp add: d')
qed

lemma upsert_other_cart:
  assumes "upsert_product a n d = Inr (x, d')" and "c \<noteq> aop_CartID a"
  shows "filter (\<lambda>p. cp_CartID p = c) (cd_products d') = filter (\<lambda>p. cp_CartID p = c) (cd_products d) \<and> cd_carts d' = cd_carts d"
proof -
  define f where "f p = (if cp_CartID p = aop_CartID a \<and> cp_ProductID p = aop_ProductID a
    then p\<lparr>cp_Quantity := aop_Quantity a\<rparr> else p)" for p :: CartsProductRow
  have "cp_CartID (f p) = cp_CartID p" for p by (simp add: f_def)
  moreover have "map f (filter (\<lambda>p. cp_CartID p = c) ps) = filter (\<lambda>p. cp_CartID p = c) ps" for ps
    by (rule map_idI) (use assms(2) in \<open>auto simp: f_def\<close>)
  ultimately have "filter (\<lambda>p. cp_CartID p = c) (map f ps) = filter (\<lambda>p. cp_CartID p = c) ps" for ps
    by (simp add: filter_map comp_def)
  moreover have "cd_carts d' = cd_carts d \<and> (cd_products d' = map f (cd_products d) \<or>
      (\<exists>row. cp_CartID row = aop_CartID a \<and> cd_products d' = cd_products d @ [row]))"
    using assms(1) by (auto simp: upsert_product_def f_def [abs_def] Let_def split: sum.splits if_splits option.splits)
  ultimately show ?thesis using assms(2) by auto
qed

text \<open>Once the cart of \<open>u\<close> is known, the rest of a handler works on this cart.\<close>

definition apart_with :: "uuid \<Rightarrow> uuid \<Rightarrow> uuid \<Rightarrow> cart_db \<Rightarrow> cart_db \<Rightarrow> bool" where
  "apart_with u cart v d0 d \<longleftrightarrow> apart v d0 d \<and> cart_of u d = Some cart"

lemma of_tables_apart_with: "of_tables (apart_with u cart v d0)"
  using of_tables_apart by (simp add: of_tables_def apart_with_def cart_of_def)

lemma apart_upsert:
  assumes "u \<noteq> v" and "aop_CartID a = cart"
  shows "stmt_keeps (apart_with u cart v d0) (upsert_product a)"
proof (rule stmt_keepsI)
  fix n d x d' assume I: "apart_with u cart v d0 d" and run: "upsert_product a n d = Inr (x, d')"
  then have ok: "cart_tables_ok d" and u: "cart_of u d = Some cart" by (simp_all add: apart_with_def apart_def)
  obtain r where r: "r \<in> set (cd_carts d)" "ct_UserID r = u" "ct_ID r = cart" using cart_of_in [OF u] by blast
  have ne: "c \<noteq> aop_CartID a" if "cart_of v d = Some c" for c
    using other_cart [OF ok, of v r] r that assms by auto
  have carts: "cd_carts d' = cd_carts d" using upsert_other_cart [OF run, of "aop_CartID a + 1"] by simp
  have "same_cart_of v d d'" using carts upsert_other_cart [OF run ne] by (intro same_cartI) simp_all
  moreover have "cart_tables_ok d'" by (rule stmt_keepsD [OF stmt_upsert_product ok run])
  ultimately show "apart_with u cart v d0 d'"
    using I carts unfolding apart_with_def apart_def by (auto intro: same_cart_trans simp: cart_of_def)
qed

lemma keeps_apart_queries:
  assumes "u \<noteq> v"
  shows "keeps (apart v d0) (CreateCart u)" "keeps (apart v d0) (DeleteCartByUserID u)"
    "keeps (apart v d0) (ClearCartProductsByUserID u)"
    "keeps (apart v d0) (RemoveProductFromCart_q \<lparr>rpp_UserID = u, rpp_ProductID = i\<rparr>)"
  unfolding CreateCart_def DeleteCartByUserID_def ClearCartProductsByUserID_def RemoveProductFromCart_q_def
  by (auto intro!: keeps_query_row keeps_db_call of_tables_apart apart_insert_cart apart_delete_carts
      apart_filter_lines [of u] simp: assms)

lemma keeps_apart_reads:
  "keeps (apart v d0) (GetCartByUserID u)" "keeps (apart v d0) (GetCartProductsByCartID c)"
  "keeps (apart_with u cart v d0) (GetCartProductsByCartID c)"
  unfolding GetCartByUserID_def GetCartProductsByCartID_def
  by (intro keeps_query_row keeps_db_call of_tables_apart of_tables_apart_with stmt_keeps_read_only)+

lemma keeps_apart_upsert:
  assumes "u \<noteq> v" and "aop_CartID a = cart"
  shows "keeps (apart_with u cart v d0) (AddOrUpdateProductInCart a)"
  unfolding AddOrUpdateProductInCart_def by (intro keeps_query_row of_tables_apart_with apart_upsert assms)

lemma keeps_on_db [keeps_intros]:
  "keeps I m \<Longrightarrow> keeps (\<lambda>w. I (cw_db w)) (c_db m)" "keeps (\<lambda>w. I (cw_db w)) (c_redis n)"
  "keeps (\<lambda>w. I (cw_db w)) (c_client k)" "keeps (\<lambda>w. I (cw_db w)) (c_go t)"
  by (auto simp: keeps_def split: prod.splits)

lemma keeps_apart_getOrCreate:
  assumes "u \<noteq> v"
  shows "keeps (\<lambda>w. apart v d0 (cw_db w)) (getOrCreateCartByUserID X u)"
  unfolding getOrCreateCartByUserID_def createCart_def deleteExpiredCartAndCreateNewOne_def
  by (intro keeps_intros keeps_apart_queries keeps_apart_reads assms)

text \<open>A call whose result the rest relies on.\<close>

lemma keeps_attempt_post:
  assumes "keeps I m" and "\<And>w x w'. I w \<Longrightarrow> run_state m w = (Inr x, w') \<Longrightarrow> J x w'"
    and "\<And>x. keeps (J x) (k x)" and "\<And>x w. J x w \<Longrightarrow> I w"
  shows "keeps I (attempt m f k)"
proof (rule keepsI)
  fix w r w' assume w: "I w" and run: "run_state (attempt m f k) w = (r, w')"
  obtain x v where x: "run_state m w = (x, v)" by (rule run_pair)
  show "I w'"
  proof (cases x)
    case (Inl e)
    then show ?thesis using keepsD [OF assms(1) w x] run x by simp
  next
    case (Inr y)
    then have "run_state (k y) v = (r, w')" using run x by simp
    then show ?thesis using keepsD [OF assms(3) assms(2) [OF w x [unfolded Inr]]] assms(4) by blast
  qed
qed

lemma keeps_apart_known_cart:
  assumes "u \<noteq> v" and "\<And>x. keeps (\<lambda>w. apart_with u (ct_ID (fst x)) v d0 (cw_db w)) (k x)"
  shows "keeps (\<lambda>w. apart v d0 (cw_db w)) (attempt (getOrCreateCartByUserID X u) f k)"
proof (rule keeps_attempt_post [where J = "\<lambda>x w. apart_with u (ct_ID (fst x)) v d0 (cw_db w)"])
  fix w x w' assume w: "apart v d0 (cw_db w)" and run: "run_state (getOrCreateCartByUserID X u) w = (Inr x, w')"
  obtain cart b where x: "x = (cart, b)" by (cases x)
  have "apart v d0 (cw_db w')" by (rule keepsD [OF keeps_apart_getOrCreate [OF assms(1)] w run])
  then show "apart_with u (ct_ID (fst x)) v d0 (cw_db w')" using getOrCreate_Inr [OF run [unfolded x]]
    by (simp add: x apart_with_def cart_of_def)
next
  show "keeps (\<lambda>w. apart_with u (ct_ID (fst x)) v d0 (cw_db w)) (k x)" for x by (rule assms(2))
qed (simp_all add: keeps_apart_getOrCreate [OF assms(1)] apart_with_def)

lemma keeps_apart_AddProduct:
  assumes "parse_uuid X (apr_UserId a) \<noteq> Inr v"
  shows "keeps (\<lambda>w. apart v d0 (cw_db w)) (AddProductToCart X F ctx a)"
  unfolding AddProductToCart_def
  by (intro keeps_case_option keeps_return keeps_attempt_pure keeps_apart_known_cart)
    (use assms in \<open>auto intro!: keeps_intros keeps_apart_reads keeps_apart_upsert\<close>)

lemma keeps_apart_readCart:
  assumes "parse_uuid X i \<noteq> Inr v"
  shows "keeps (\<lambda>w. apart v d0 (cw_db w)) (readCart X F i)"
  unfolding readCart_def Let_def
  by (intro keeps_intros keeps_apart_getOrCreate keeps_apart_reads) (use assms in auto)

lemma keeps_apart_handlers:
  "parse_uuid X (rpr_UserId r) \<noteq> Inr v \<Longrightarrow> keeps (\<lambda>w. apart v d0 (cw_db w)) (RemoveProductFromCart X ctx r)"
  "parse_uuid X (clr_UserId c) \<noteq> Inr v \<Longrightarrow> keeps (\<lambda>w. apart v d0 (cw_db w)) (ClearCart X ctx c)"
  "parse_uuid X (dcr_UserId d) \<noteq> Inr v \<Longrightarrow> keeps (\<lambda>w. apart v d0 (cw_db w)) (DeleteCart X ctx d)"
  "parse_uuid X (gcr_UserId g) \<noteq> Inr v \<Longrightarrow> keeps (\<lambda>w. apart v d0 (cw_db w)) (GetCart X F ctx g)"
  unfolding RemoveProductFromCart_def ClearCart_def DeleteCart_def GetCart_def
  by (intro keeps_intros keeps_apart_getOrCreate keeps_apart_queries keeps_apart_readCart; auto)+

text \<open>C23. A request only touches the cart of its own user. Whatever the five handlers do, on every branch and under any
  fault of the database, the cache or the product service, the cart row of every other user and the lines of that cart
  are the same afterwards, with their products, quantities and prices.\<close>

theorem cart_handlers_touch_own_cart:
  assumes "cart_ok w" and "parse_uuid X user \<noteq> Inr v"
  shows "same_cart_of v (cw_db w) (cw_db (snd (run_state (AddProductToCart X F ctx \<lparr>apr_UserId = user, apr_ProductId = i, apr_Quantity = q\<rparr>) w))) \<and>
    same_cart_of v (cw_db w) (cw_db (snd (run_state (RemoveProductFromCart X ctx \<lparr>rpr_UserId = user, rpr_ProductId = i\<rparr>) w))) \<and>
    same_cart_of v (cw_db w) (cw_db (snd (run_state (ClearCart X ctx \<lparr>clr_UserId = user\<rparr>) w))) \<and>
    same_cart_of v (cw_db w) (cw_db (snd (run_state (DeleteCart X ctx \<lparr>dcr_UserId = user\<rparr>) w))) \<and>
    same_cart_of v (cw_db w) (cw_db (snd (run_state (GetCart X F ctx \<lparr>gcr_UserId = user\<rparr>) w)))"
proof -
  have I: "apart v (cw_db w) (cw_db w)" using assms(1) by (simp add: apart_def cart_ok_def same_cart_of_def)
  have same: "same_cart_of v (cw_db w) (cw_db (snd (run_state m w)))" if "\<And>d0. keeps (\<lambda>w. apart v d0 (cw_db w)) m" for m
    using keepsE [OF that, of "cw_db w" w] I by (simp add: apart_def)
  show ?thesis
    by (intro conjI same keeps_apart_AddProduct keeps_apart_handlers) (simp_all add: assms(2))
qed

text \<open>User 9 clears a cart: user 7 keeps the two pens.\<close>

theorem cart_handlers_touch_own_cart_witness:
  "map (\<lambda>p. (cp_ProductID p, cp_Quantity p)) (lines_of 7 (cw_db (snd (run_state (ClearCart sample_ext None
     \<lparr>clr_UserId = uuid_text sample_ext 9\<rparr>) cart_world_sample)))) = [(5, 2)]"
proof -
  have "parse_uuid sample_ext (uuid_text sample_ext 9) \<noteq> Inr 7" using parse_uuid_text [OF sample_uuids, of 9] by simp
  from cart_handlers_touch_own_cart [OF cart_sample_ok this] show ?thesis
    by (simp add: same_cart_of_def) (simp add: lines_of_def cart_of_def cart_world_sample_def cart_db_sample_def)
qed

end
