(* ===== verification/ProductCache.thy ===== *)
theory ProductCache
  imports ProductSpec
begin

text \<open>
  Properties of the product service's cache: what a cached hash is read back as, a product is read
  after it was written, and which of the requested products a batch read returns.
\<close>

subsection \<open>Cached hashes\<close>

definition as_cached :: "ProductV1 \<Rightarrow> ProductV1" where
  "as_cached p = p\<lparr>prv_CreatedAt := unix_seconds (prv_CreatedAt p) * 10 ^ 9,
     prv_UpdatedAt := Some (unix_seconds (as_time (prv_UpdatedAt p)) * 10 ^ 9)\<rparr>"

definition cacheable :: "ProductV1 \<Rightarrow> bool" where
  "cacheable p \<longleftrightarrow> (\<exists>c. 0 \<le> c \<and> c < 10 ^ 10 \<and> prv_Price p = cents_float c) \<and>
     in_int64 (unix_seconds (prv_CreatedAt p)) \<and> in_int64 (unix_seconds (as_time (prv_UpdatedAt p)))"

lemma map_get_simps [simp]:
  "map_get ((k, v) # d) k' = (if k' = k then v else map_get d k')" "map_get [] k = []"
  by (simp_all add: map_get_def)

lemma mapToProduct_cached:
  assumes "redis_keeps_cents X" and "cacheable p"
  shows "mapToProduct (productToMap X p) = Inr (as_cached p)"
proof -
  obtain c where c: "0 \<le> c" "c < 10 ^ 10" "prv_Price p = cents_float c"
    and t: "in_int64 (unix_seconds (prv_CreatedAt p))" "in_int64 (unix_seconds (as_time (prv_UpdatedAt p)))"
    using assms(2) unfolding cacheable_def by blast
  have "parse_float (redis_float X (prv_Price p)) = Some (prv_Price p)"
    using assms(1) c by (simp add: redis_keeps_cents_def)
  moreover have "parse_int 32 (show_int (sint (prv_StockQuantity p))) = Some (sint (prv_StockQuantity p))"
    using sint_in_int32 [of "prv_StockQuantity p"] by (intro parse_show_int) (simp_all add: in_int32_def)
  moreover have "parse_int 64 (show_int n) = Some n" if "in_int64 n" for n
    using that by (intro parse_show_int) (simp_all add: in_int64_def)
  ultimately show ?thesis using t
    by (simp add: mapToProduct_def productToMap_def as_cached_def)
qed

text \<open>C39. A product that is cached and read back is the product with its times cut to whole seconds, and
  with the epoch for the time of an update that never happened.\<close>

theorem cached_product_read_back:
  assumes "redis_keeps_cents X" and "cacheable p"
  shows "mapToProduct (productToMap X p) = Inr (as_cached p)"
  using assms by (rule mapToProduct_cached)

definition cached_sample :: ProductV1 where
  "cached_sample = \<lparr>prv_Id = ''5'', prv_CategoryId = [], prv_Name = ''tea'', prv_Description = [],
     prv_Price = cents_float 250, prv_StockQuantity = 7, prv_CreatedAt = 3500000000, prv_UpdatedAt = None\<rparr>"

lemma cached_sample_ok: "cacheable cached_sample"
  unfolding cacheable_def
  by (intro conjI exI [of _ 250]) (simp_all add: cached_sample_def unix_seconds_def as_time_def in_int64_def)

theorem cached_product_read_back_witness:
  "\<exists>p. mapToProduct (productToMap sample_ext cached_sample) = Inr p \<and> prv_Price p = cents_float 250 \<and>
     prv_CreatedAt p = 3000000000 \<and> prv_UpdatedAt p = Some 0"
  using cached_product_read_back [OF sample_redis cached_sample_ok]
  by (simp add: as_cached_def cached_sample_def unix_seconds_def as_time_def)

subsection \<open>A read after a write\<close>

definition redis_up :: "redis \<Rightarrow> bool" where
  "redis_up r \<longleftrightarrow> (\<forall>n. rd_fault r n = None)"

text \<open>The keys of products hold hashes only.\<close>

definition product_keys_ok :: "redis \<Rightarrow> bool" where
  "product_keys_ok r \<longleftrightarrow> (\<forall>i v e. rd_data r (productCachePrefix @ i) = Some (v, e) \<longrightarrow> (\<exists>fs. v = RHash fs))"

lemma lookup_hash:
  assumes "product_keys_ok r"
  shows "rd_lookup r t (productCachePrefix @ i) = None \<or> (\<exists>fs. rd_lookup r t (productCachePrefix @ i) = Some (RHash fs))"
  using assms by (auto simp: rd_lookup_def product_keys_ok_def split: option.splits)

lemma rd_put_env [simp]:
  "rd_fault (rd_put k v r) = rd_fault r" "rd_calls (rd_put k v r) = rd_calls r" "rd_clock (rd_put k v r) = rd_clock r"
  by (simp_all add: rd_put_def)

lemma run_hset:
  assumes "redis_up r" and "product_keys_ok r"
  shows "\<exists>old e. run_state (rd_hset (productCachePrefix @ i) new) r =
    (Inr (), (rd_put (productCachePrefix @ i) (Some (RHash (hash_update new old), e)) r)\<lparr>rd_calls := Suc (rd_calls r)\<rparr>)"
proof -
  let ?k = "productCachePrefix @ i" and ?t = "rd_clock r (rd_calls r)"
  have same: "rd_lookup (r\<lparr>rd_calls := Suc (rd_calls r)\<rparr>) ?t ?k = rd_lookup r ?t ?k" by (simp add: rd_lookup_def)
  from lookup_hash [OF assms(2), of ?t i] show ?thesis
  proof (elim disjE exE)
    assume "rd_lookup r ?t ?k = None"
    then show ?thesis using assms(1) same
      by (intro exI [of _ "[]"] exI [of _ None])
        (simp add: rd_hset_def run_redis_call redis_up_def hash_update_def rd_put_def)
  next
    fix fs assume "rd_lookup r ?t ?k = Some (RHash fs)"
    then show ?thesis using assms(1) same
      by (intro exI [of _ fs] exI [of _ "Option.bind (rd_data r ?k) snd"])
        (simp add: rd_hset_def run_redis_call redis_up_def rd_put_def)
  qed
qed

lemma map_get_update:
  assumes "k \<in> fst ` set new" shows "map_get (hash_update new old) k = map_get new k"
proof -
  have "map_of (filter (\<lambda>(f, _). f \<notin> fst ` set new) old) k = None"
    using assms by (subst map_of_eq_None_iff) force
  then show ?thesis by (simp add: map_get_def hash_update_def map_add_def split: option.split)
qed

lemma mapToProduct_cong:
  "(\<And>k. k \<in> {''id'', ''categoryId'', ''name'', ''description'', ''price'', ''stockQuantity'', ''createdAt'', ''updatedAt''} \<Longrightarrow>
     map_get d k = map_get d' k) \<Longrightarrow> mapToProduct d = mapToProduct d'"
  unfolding mapToProduct_def by (intro option.case_cong sum.inject(2) [THEN iffD2] refl) (simp_all)

lemma mapToProduct_update: "mapToProduct (hash_update (productToMap X p) old) = mapToProduct (productToMap X p)"
  by (rule mapToProduct_cong, rule map_get_update) (auto simp: productToMap_def)

lemma hash_update_nonempty: "hash_update (productToMap X p) old \<noteq> []"
  by (simp add: hash_update_def productToMap_def)

lemma run_cacheProduct:
  assumes "redis_up r" and "product_keys_ok r"
  shows "\<exists>fs e. rd_data (snd (run_state (cacheProduct X i p) r)) =
      (rd_data r)(productCachePrefix @ i \<mapsto> (RHash fs, e)) \<and> fs \<noteq> [] \<and>
      mapToProduct fs = mapToProduct (productToMap X p)"
proof -
  let ?k = "productCachePrefix @ i"
  obtain old e where h: "run_state (rd_hset ?k (productToMap X p)) r = (Inr (),
      (rd_put ?k (Some (RHash (hash_update (productToMap X p) old), e)) r)\<lparr>rd_calls := Suc (rd_calls r)\<rparr>)"
    using run_hset [OF assms] by blast
  define fs where "fs = hash_update (productToMap X p) old"
  define r1 where "r1 = (rd_put ?k (Some (RHash fs, e)) r)\<lparr>rd_calls := Suc (rd_calls r)\<rparr>"
  have up: "rd_fault r1 n = None" for n using assms(1) by (simp add: r1_def redis_up_def)
  have "\<exists>e'. rd_data (snd (run_state (rd_expire ?k product_cacheExpirationTime) r1)) = (rd_data r)(?k \<mapsto> (RHash fs, e'))"
    using up by (auto simp: rd_expire_def run_redis_call rd_lookup_def r1_def split: option.splits)
  moreover have "snd (run_state (cacheProduct X i p) r) = snd (run_state (rd_expire ?k product_cacheExpirationTime) r1)"
    using h by (simp add: cacheProduct_def exec_pipe_def fs_def r1_def split: prod.splits)
  ultimately show ?thesis
    using mapToProduct_update hash_update_nonempty by (auto simp: fs_def)
qed

text \<open>A read of a product whose cached hash, if there is one, is of this very product.\<close>

lemma GetProduct_reads:
  assumes "\<forall>n. fault_at (pw_db w) n = None" and "txn (pw_db w) = NoTx"
    and "parse_uuid X i = Inr u" and "find (\<lambda>r. pr_ID r = u) (pb_products (pw_db w)) = Some row"
    and "rd_data (pw_redis w) (productCachePrefix @ i) = Some (RHash fs, e)" and "mapToProduct fs = Inr q"
  shows "\<exists>x w'. run_state (GetProduct X None \<lparr>gpq_Id = i\<rparr>) w = (Inr x, w') \<and> (x = toGRPCProduct X row \<or> x = q)"
proof -
  let ?k = "productCachePrefix @ i"
  obtain c r where c: "run_state (rd_hgetall ?k) (pw_redis w) = (c, r)" by (rule run_pair)
  then have "c = Inr fs \<or> c = Inr [] \<or> (\<exists>e. c = Inl e)"
    using assms(5) unfolding rd_hgetall_def
    by (auto simp: rd_lookup_def elim!: redis_call_cases split: option.splits if_splits)
  then show ?thesis using assms c
    by (auto simp: GetProduct_def GetProduct_q_def run_query_row run_db_call)
qed

lemma UpdateProduct_Inr:
  assumes "run_state (UpdateProduct X ctx req) w = (Inr p, w1)"
  shows "\<exists>u row. parse_uuid X (upr_Id req) = Inr u \<and> p = toGRPCProduct X row \<and>
    find (\<lambda>r. pr_ID r = u) (pb_products (pw_db w1)) = Some row \<and> txn (pw_db w1) = NoTx \<and>
    pw_redis w1 = pw_redis w \<and> pw_tasks w1 = pw_tasks w @ [CacheProductTask (upr_Id req) p]"
proof -
  from assms obtain u category price row d where u: "parse_uuid X (upr_Id req) = Inr u" and
    q: "run_state (UpdateProduct_repo X \<lparr>cpp_CategoryID = Some category, cpp_Name = upr_Name req,
         cpp_Description = Some (upr_Description req), cpp_Price = price,
         cpp_StockQuantity = upr_StockQuantity req, upp_ID = u\<rparr>) (pw_db w) = (Inr row, d)" and
    p: "p = toGRPCProduct X row" and w1: "w1 = w\<lparr>pw_db := d, pw_tasks := pw_tasks w @ [CacheProductTask (upr_Id req) p]\<rparr>"
    by (auto simp: UpdateProduct_def split: option.splits sum.splits prod.splits)
  let ?a = "\<lparr>cpp_CategoryID = Some category, cpp_Name = upr_Name req, cpp_Description = Some (upr_Description req),
    cpp_Price = price, cpp_StockQuantity = upr_StockQuantity req, upp_ID = u\<rparr>"
  let ?P = "\<lambda>v row v'. find (\<lambda>r. pr_ID r = u) (pb_products v') = Some row"
  have upd: "pb_outbox v' = pb_outbox v \<and> ?P v row v'" if "run_state (UpdateProduct_q ?a) v = (Inr row, v')" for v row v'
  proof -
    from query_row_Inr [OF that [unfolded UpdateProduct_q_def]]
    have st: "update_product ?a (calls v) (v\<lparr>calls := Suc (calls v)\<rparr>) = Inr (Some row, v')" by blast
    then obtain r where r: "find (\<lambda>r. pr_ID r = u) (pb_products v) = Some r"
      by (cases "find (\<lambda>r. pr_ID r = u) (pb_products v)") (simp_all add: update_product_def)
    define f :: "ProductRow \<Rightarrow> ProductRow" where "f = (\<lambda>r. if pr_ID r = u then row\<lparr>pr_ID := pr_ID r, pr_CreatedAt := pr_CreatedAt r\<rparr> else r)"
    have "pb_outbox v' = pb_outbox v" and v': "pb_products v' = map f (pb_products v)" and "f r = row"
      using st r find_Some_in [OF r]
      by (auto simp: update_product_def Let_def f_def split: sum.splits)
    moreover have "find (\<lambda>r. pr_ID r = u) (map f (pb_products v)) = map_option f (find (\<lambda>r. pr_ID r = u) (pb_products v))"
      by (rule find_map_same) (simp add: f_def)
    ultimately show ?thesis using r by simp
  qed
  from change_with_event [OF q [unfolded UpdateProduct_repo_def withProductTx_def], of ?P] upd
  have "find (\<lambda>r. pr_ID r = u) (pb_products d) = Some row" by simp
  moreover have "txn d = NoTx"
    using q unfolding UpdateProduct_repo_def withProductTx_def by (cases rule: with_tx_cases) auto
  ultimately show ?thesis using u p w1 by simp
qed

text \<open>C26. A product that was updated is read back: once the goroutine that caches it has run on a working
  cache, a read returns the updated product, from the database or from the cache with its times cut.\<close>

theorem read_after_update:
  assumes "run_state (UpdateProduct X ctx req) w = (Inr p, w1)" and "\<forall>n. fault_at (pw_db w1) n = None"
    and "redis_up (pw_redis w)" and "product_keys_ok (pw_redis w)" and "redis_keeps_cents X" and "cacheable p"
  shows "\<exists>q w2. run_state (GetProduct X None \<lparr>gpq_Id = upr_Id req\<rparr>)
      (w1\<lparr>pw_redis := snd (run_state (run_task X (last (pw_tasks w1))) (pw_redis w1))\<rparr>) = (Inr q, w2) \<and>
    (q = p \<or> q = as_cached p)"
proof -
  from UpdateProduct_Inr [OF assms(1)] obtain u row where u: "parse_uuid X (upr_Id req) = Inr u"
    and p: "p = toGRPCProduct X row" and row: "find (\<lambda>r. pr_ID r = u) (pb_products (pw_db w1)) = Some row"
    and tx: "txn (pw_db w1) = NoTx" and w1: "pw_redis w1 = pw_redis w" "last (pw_tasks w1) = CacheProductTask (upr_Id req) p"
    by auto
  let ?r = "snd (run_state (run_task X (last (pw_tasks w1))) (pw_redis w1))"
  obtain fs e where fs: "rd_data ?r (productCachePrefix @ upr_Id req) = Some (RHash fs, e)"
    "mapToProduct fs = mapToProduct (productToMap X p)"
    using run_cacheProduct [OF assms(3,4), of X "upr_Id req" p] w1 by (auto simp: split_beta)
  have "mapToProduct fs = Inr (as_cached p)" using fs(2) mapToProduct_cached [OF assms(5,6)] by simp
  from GetProduct_reads [of "w1\<lparr>pw_redis := ?r\<rparr>", OF _ _ u _ _ this] assms(2) tx row fs(1) show ?thesis
    by (simp add: p)
qed

lemma toGRPC_price:
  assumes "shows_cents X" and "pr_Price row = Num (of_int c / 100)" and "0 < c" and "c < 10 ^ 10"
  shows "prv_Price (toGRPCProduct X row) = cents_float c"
proof -
  obtain v where v: "cents_float c = Fin v" using cents_float_error [of c] assms(3,4) by auto
  have "parse_float (fixed_text 2 (of_int c / 100)) = Some (Fin v)"
    by (rule parse_float_cents [of _ c]) (use assms(3) v in \<open>simp_all add: cents_float_def\<close>)
  then show ?thesis using assms(1-3) v by (simp add: toGRPCProduct_def shows_cents_def cents_text_def)
qed

definition update_sample :: UpdateProductRequest where
  "update_sample = \<lparr>upr_Id = uuid_text sample_ext 5, upr_CategoryId = uuid_text sample_ext 3, upr_Name = ''pot'',
     upr_Description = [], upr_Price = Fin (5 / 2), upr_StockQuantity = 4\<rparr>"

definition updated_row_sample :: ProductRow where
  "updated_row_sample = \<lparr>pr_ID = 5, pr_CategoryID = Some 3, pr_Name = ''pot'', pr_Description = Some [],
     pr_Price = Num (5 / 2), pr_StockQuantity = 4, pr_CreatedAt = 0, pr_UpdatedAt = Some 0\<rparr>"

lemma sample_update: "\<exists>w1. run_state (UpdateProduct sample_ext None update_sample) catalogue_sample =
    (Inr (toGRPCProduct sample_ext updated_row_sample), w1) \<and> fault_at (pw_db w1) = (\<lambda>_. None)"
  using parse_uuid_text [OF sample_uuids, of 3] parse_uuid_text [OF sample_uuids, of 5]
  by (simp add: UpdateProduct_def update_sample_def sample_price catalogue_sample_def product_world_sample_def
      product_db_sample_def UpdateProduct_repo_def withProductTx_def run_with_tx UpdateProduct_q_def run_query_row
      run_db_call update_product_def product_columns_def sample_numeric Let_def productToPayload_def
      addOutboxEvent_def CreateOutboxEvent_product_def insert_outbox_def ProductUpdatedEventName_def
      ProductExchangeName_def ProductUpdatedRoutingKey_def product_row_sample_def run_tx_commit now_def
      updated_row_sample_def cong: tx_state.case_cong)

theorem read_after_update_witness:
  "\<exists>w1 q w2. run_state (UpdateProduct sample_ext None update_sample) catalogue_sample =
       (Inr (toGRPCProduct sample_ext updated_row_sample), w1) \<and>
     run_state (GetProduct sample_ext None \<lparr>gpq_Id = upr_Id update_sample\<rparr>)
       (w1\<lparr>pw_redis := snd (run_state (run_task sample_ext (last (pw_tasks w1))) (pw_redis w1))\<rparr>) = (Inr q, w2) \<and>
     prv_Name q = ''pot''"
proof -
  obtain w1 where w1: "run_state (UpdateProduct sample_ext None update_sample) catalogue_sample =
      (Inr (toGRPCProduct sample_ext updated_row_sample), w1)" "\<forall>n. fault_at (pw_db w1) n = None"
    using sample_update by auto
  have "redis_up (pw_redis catalogue_sample)" "product_keys_ok (pw_redis catalogue_sample)"
    by (simp_all add: redis_up_def product_keys_ok_def catalogue_sample_def product_world_sample_def)
  moreover have "prv_Price (toGRPCProduct sample_ext updated_row_sample) = cents_float 250"
    by (rule toGRPC_price [OF sample_shows]) (simp_all add: updated_row_sample_def)
  then have "cacheable (toGRPCProduct sample_ext updated_row_sample)"
    unfolding cacheable_def
    by (intro conjI exI [of _ 250])
      (simp_all add: toGRPCProduct_def updated_row_sample_def unix_seconds_def as_time_def in_int64_def)
  ultimately obtain q w2 where q: "run_state (GetProduct sample_ext None \<lparr>gpq_Id = upr_Id update_sample\<rparr>)
      (w1\<lparr>pw_redis := snd (run_state (run_task sample_ext (last (pw_tasks w1))) (pw_redis w1))\<rparr>) = (Inr q, w2)"
    "q = toGRPCProduct sample_ext updated_row_sample \<or> q = as_cached (toGRPCProduct sample_ext updated_row_sample)"
    using read_after_update [OF w1 _ _ sample_redis] by blast
  from q(2) have "prv_Name q = ''pot''" by (auto simp: as_cached_def toGRPCProduct_def updated_row_sample_def)
  then show ?thesis using w1(1) q(1) by blast
qed

subsection \<open>Batch reads\<close>

text \<open>What a pipeline of reads returns: per key an error, nothing, or the fields the key holds.\<close>

definition reply_of :: "redis \<Rightarrow> string \<Rightarrow> go_error + (string \<times> string) list \<Rightarrow> bool" where
  "reply_of r k x \<longleftrightarrow> (\<exists>e. x = Inl e) \<or> x = Inr [] \<or> (\<exists>fs e. rd_data r k = Some (RHash fs, e) \<and> x = Inr fs)"

lemma hgetall_reply: "run_state (rd_hgetall k) r = (x, r') \<Longrightarrow> reply_of r k x \<and> rd_data r' = rd_data r"
  unfolding rd_hgetall_def reply_of_def
  by (auto simp: rd_lookup_def elim!: redis_call_cases split: option.splits redis_value.splits if_splits)

lemma pipeline_replies:
  "run_state (pipeline (map rd_hgetall ks)) r = (xs, r') \<Longrightarrow> list_all2 (reply_of r) ks xs"
proof (induction ks arbitrary: r xs r')
  case (Cons k ks)
  obtain x r1 where x: "run_state (rd_hgetall k) r = (x, r1)" by (rule run_pair)
  obtain ys r2 where ys: "run_state (pipeline (map rd_hgetall ks)) r1 = (ys, r2)" by (rule run_pair)
  have "xs = x # ys" using Cons.prems x ys by simp
  moreover have "reply_of r1 = reply_of r" using hgetall_reply [OF x] by (simp add: reply_of_def fun_eq_iff)
  ultimately show ?case using Cons.IH [OF ys] hgetall_reply [OF x] by simp
qed simp

lemma no_first_error: "first_error xs = None \<longleftrightarrow> xs = map Inr (List.map_filter (case_sum Map.empty Some) xs)"
  by (induction xs rule: first_error.induct) (auto simp: List.map_filter_simps)

lemma exec_replies:
  assumes "run_state (exec_pipe (map rd_hgetall ks)) r = (Inr ds, r')"
  shows "list_all2 (\<lambda>k d. d = [] \<or> (\<exists>e. rd_data r k = Some (RHash d, e))) ks ds"
proof -
  obtain xs where xs: "run_state (pipeline (map rd_hgetall ks)) r = (xs, r')" "first_error xs = None"
    "ds = List.map_filter (case_sum Map.empty Some) xs"
    using assms by (auto simp: exec_pipe_def split: prod.splits option.splits)
  then have "xs = map Inr ds" using no_first_error by blast
  then have "list_all2 (reply_of r) ks (map Inr ds)" using pipeline_replies [OF xs(1)] by simp
  then show ?thesis
    by (simp add: list_all2_map2) (erule list_all2_mono, auto simp: reply_of_def)
qed

text \<open>The cache is right about the requested products: a hash that is there is a product of that identifier.\<close>

definition cache_agrees :: "redis \<Rightarrow> string list \<Rightarrow> bool" where
  "cache_agrees r ids \<longleftrightarrow> (\<forall>i \<in> set ids. \<forall>fs e. rd_data r (productCachePrefix @ i) = Some (RHash fs, e) \<longrightarrow> fs \<noteq> [] \<longrightarrow>
     (\<exists>p. mapToProduct fs = Inr p \<and> prv_Id p = i))"

lemma split_cached_covers:
  assumes "list_all2 (\<lambda>i d. d = [] \<or> (\<exists>p. mapToProduct d = Inr p \<and> prv_Id p = i)) ids ds" and "i \<in> set ids"
  shows "i \<in> set (snd (split_cached ids ds)) \<or> (\<exists>p \<in> set (fst (split_cached ids ds)). prv_Id p = i)"
  using assms
proof (induction rule: list_all2_induct)
  case (Cons j ids d ds)
  then show ?case by (auto simp: split_cached_def List.map_filter_simps split: sum.splits)
qed simp

lemma split_cached_origin:
  assumes "list_all2 (\<lambda>i d. d = [] \<or> Q i d) ids ds" and "p \<in> set (fst (split_cached ids ds))"
  shows "\<exists>i \<in> set ids. \<exists>d. Q i d \<and> d \<noteq> [] \<and> mapToProduct d = Inr p"
  using assms
proof (induction rule: list_all2_induct)
  case (Cons j ids d ds)
  then show ?case
    by (cases "d = []"; cases "mapToProduct d") (auto simp: split_cached_def List.map_filter_simps)
qed (simp add: split_cached_def List.map_filter_simps)

lemma missed_sub: "set (snd (split_cached ids ds)) \<subseteq> set ids"
  by (auto simp: split_cached_def dest: set_zip_leftD)

lemma convert_texts:
  assumes "uuid_round_trip X" and "\<forall>i \<in> set is. \<exists>u. i = uuid_text X u"
  shows "\<exists>us. convertToUUIDs X is = Inr us \<and> is = map (uuid_text X) us"
  using assms(2)
proof (induction "is")
  case (Cons i "is")
  then obtain u us where "i = uuid_text X u" "convertToUUIDs X is = Inr us" "is = map (uuid_text X) us" by auto
  then show ?case using parse_uuid_text [OF assms(1)] by simp
qed simp

text \<open>Every identifier is answered by the cache or left for the database, and the cache answers with what it holds
  for a requested identifier.\<close>

definition cached_as :: "redis \<Rightarrow> string \<Rightarrow> ProductV1 \<Rightarrow> bool" where
  "cached_as r i p \<longleftrightarrow> (\<exists>fs e. rd_data r (productCachePrefix @ i) = Some (RHash fs, e) \<and> fs \<noteq> [] \<and> mapToProduct fs = Inr p)"

lemma cache_covers:
  assumes "run_state (getProductsFromCache ids) rd = ((cached, missed), r)" and "cache_agrees rd ids"
  shows "(\<forall>i \<in> set ids. i \<in> set missed \<or> (\<exists>p \<in> set cached. prv_Id p = i)) \<and> set missed \<subseteq> set ids \<and>
    (\<forall>p \<in> set cached. \<exists>i \<in> set ids. cached_as rd i p)"
proof -
  obtain x where x: "run_state (exec_pipe (map rd_hgetall (map (\<lambda>i. productCachePrefix @ i) ids))) rd = (x, r)"
    "(cached, missed) = (case x of Inl _ \<Rightarrow> ([], ids) | Inr cmds \<Rightarrow> split_cached ids cmds)"
    using assms(1) by (auto simp: getProductsFromCache_def comp_def split: prod.splits)
  show ?thesis
  proof (cases x)
    case (Inr ds)
    have held: "list_all2 (\<lambda>i d. d = [] \<or> (\<exists>e. rd_data rd (productCachePrefix @ i) = Some (RHash d, e))) ids ds"
      using exec_replies [OF x(1) [unfolded Inr]] by (simp add: list_all2_map1)
    have "list_all2 (\<lambda>i d. d = [] \<or> (\<exists>p. mapToProduct d = Inr p \<and> prv_Id p = i)) ids ds"
      by (rule list.rel_mono_strong [OF held]) (use assms(2) in \<open>unfold cache_agrees_def, blast\<close>)
    note covers = split_cached_covers [OF this]
    have "\<exists>i \<in> set ids. cached_as rd i p" if "p \<in> set (fst (split_cached ids ds))" for p
      using split_cached_origin [OF held that] unfolding cached_as_def by blast
    with covers missed_sub [of ids ds] x(2) Inr show ?thesis by (metis fst_conv snd_conv sum.case(2))
  qed (use x(2) in simp)
qed

text \<open>A batch read returns every requested product that exists, from the cache or from the database, even when
  the cache fails, provided the cached hashes are right and the identifiers are written the canonical way; and
  whatever it returns is a row of the table or what the cache holds for a requested identifier.\<close>

lemma batch_read_returns_existing:
  assumes "\<forall>n. fault_at (pw_db w) n = None" and "txn (pw_db w) = NoTx" and "uuid_round_trip X"
    and "\<forall>i \<in> set ids. \<exists>u. i = uuid_text X u" and "cache_agrees (pw_redis w) ids"
  shows "\<exists>ps w'. run_state (GetProductsByIDs X \<lparr>gpi_Ids = ids\<rparr>) w = (Inr ps, w') \<and>
    (\<forall>row \<in> set (pb_products (pw_db w)). uuid_text X (pr_ID row) \<in> set ids \<longrightarrow>
       (\<exists>p \<in> set ps. prv_Id p = uuid_text X (pr_ID row))) \<and>
    (\<forall>p \<in> set ps. (\<exists>row \<in> set (pb_products (pw_db w)). p = toGRPCProduct X row) \<or> (\<exists>i \<in> set ids. cached_as (pw_redis w) i p))"
proof (cases "ids = []")
  case False
  obtain cached missed r where c: "run_state (getProductsFromCache ids) (pw_redis w) = ((cached, missed), r)"
    by (metis run_pair surj_pair)
  note cover = cache_covers [OF c assms(5)]
  obtain us where us: "convertToUUIDs X missed = Inr us" "missed = map (uuid_text X) us"
    using convert_texts [OF assms(3), of missed] assms(4) cover by blast
  show ?thesis
  proof (cases "missed = []")
    case True
    then show ?thesis using False c cover by (simp add: GetProductsByIDs_def)
  next
    case missed: False
    let ?rows = "filter (\<lambda>r. pr_ID r \<in> set us) (pb_products (pw_db w))"
    have "\<exists>w'. run_state (GetProductsByIDs X \<lparr>gpi_Ids = ids\<rparr>) w = (Inr (cached @ map (toGRPCProduct X) ?rows), w')"
      using False c missed us(1) assms(1,2)
      by (simp add: GetProductsByIDs_def getProductsFromDB_def GetProductsByIDs_q_def run_db_call split_beta)
    moreover have "\<exists>p \<in> set (cached @ map (toGRPCProduct X) ?rows). prv_Id p = uuid_text X (pr_ID row)"
      if "row \<in> set (pb_products (pw_db w))" "uuid_text X (pr_ID row) \<in> set ids" for row
    proof (cases "uuid_text X (pr_ID row) \<in> set missed")
      case True
      then have "pr_ID row \<in> set us" using us(2) uuid_text_eq [OF assms(3)] by auto
      then have "toGRPCProduct X row \<in> set (cached @ map (toGRPCProduct X) ?rows)" using that(1) by simp
      then show ?thesis by (rule rev_bexI) (simp add: toGRPCProduct_def)
    qed (use cover that(2) in auto)
    moreover have "(\<exists>row \<in> set (pb_products (pw_db w)). p = toGRPCProduct X row) \<or> (\<exists>i \<in> set ids. cached_as (pw_redis w) i p)"
      if "p \<in> set (cached @ map (toGRPCProduct X) ?rows)" for p
      using that cover by auto
    ultimately show ?thesis by blast
  qed
qed (simp add: GetProductsByIDs_def)

text \<open>A requested product whose cached hash is there but does not convert is neither taken from the cache nor
  looked up in the database: a read of this one product succeeds with no product, as long as the
  hash is cached and whatever the database holds.\<close>

theorem broken_hash_hides_product:
  assumes "rd_lookup (pw_redis w) (rd_clock (pw_redis w) (rd_calls (pw_redis w))) (productCachePrefix @ i) = Some (RHash fs)"
    and "rd_fault (pw_redis w) (rd_calls (pw_redis w)) = None" and "fs \<noteq> []" and "mapToProduct fs = Inl e"
  shows "\<exists>w'. run_state (GetProductsByIDs X \<lparr>gpi_Ids = [i]\<rparr>) w = (Inr [], w') \<and> pw_db w' = pw_db w"
proof -
  let ?r = "pw_redis w"
  have "rd_lookup (?r\<lparr>rd_calls := Suc (rd_calls ?r)\<rparr>) (rd_clock ?r (rd_calls ?r)) (productCachePrefix @ i) = Some (RHash fs)"
    using assms(1) by (simp add: rd_lookup_def)
  then show ?thesis using assms(2-4)
    by (simp add: GetProductsByIDs_def getProductsFromCache_def exec_pipe_def rd_hgetall_def run_redis_call
        split_cached_def List.map_filter_simps)
qed

theorem broken_hash_hides_product_witness:
  "\<exists>w'. run_state (GetProductsByIDs sample_ext \<lparr>gpi_Ids = [uuid_text sample_ext 5]\<rparr>)
     (product_world_sample\<lparr>pw_redis := (pw_redis product_world_sample)\<lparr>rd_data :=
        [productCachePrefix @ uuid_text sample_ext 5 \<mapsto> (RHash [(''id'', ''5'')], None)]\<rparr>\<rparr>) = (Inr [], w') \<and>
     pr_ID (hd (pb_products (pw_db w'))) = 5"
proof -
  let ?w = "product_world_sample\<lparr>pw_redis := (pw_redis product_world_sample)\<lparr>rd_data :=
        [productCachePrefix @ uuid_text sample_ext 5 \<mapsto> (RHash [(''id'', ''5'')], None)]\<rparr>\<rparr>"
  have "parse_float [] = None" by code_simp
  then have m: "mapToProduct [(''id'', ''5'')] = Inl syntax_error" by (simp add: mapToProduct_def)
  have "rd_lookup (pw_redis ?w) (rd_clock (pw_redis ?w) (rd_calls (pw_redis ?w)))
      (productCachePrefix @ uuid_text sample_ext 5) = Some (RHash [(''id'', ''5'')])"
    "rd_fault (pw_redis ?w) (rd_calls (pw_redis ?w)) = None"
    by (simp_all add: rd_lookup_def product_world_sample_def)
  from broken_hash_hides_product [OF this _ m, of sample_ext] show ?thesis
    by (fastforce simp: product_world_sample_def product_db_sample_def product_row_sample_def)
qed

end
