(* ===== verification/CartCatalogue.thy ===== *)
theory CartCatalogue
  imports CartSpec ProductCache
begin

text \<open>
  The cart service relies on the product service: \<^verbatim>\<open>internal/clients\<close> turns a batch read into a map, and the handlers leave
  out what the map does not have. The locale names what they rely on, derives what a reader of a cart and a
  caller who adds a product can rely on, and is interpreted on the client over the product service's handler.
\<close>

text \<open>Only a call of the client changes the client's state.\<close>

lemma keeps_client [keeps_intros]:
  "keeps (\<lambda>v. cw_client v = c) (c_db m)" "keeps (\<lambda>v. cw_client v = c) (c_go t)"
  by (auto simp: keeps_def split: prod.splits)

lemma getOrCreate_client: "keeps (\<lambda>v. cw_client v = c) (getOrCreateCartByUserID X u)"
  unfolding getOrCreateCartByUserID_def createCart_def deleteExpiredCartAndCreateNewOne_def by (intro keeps_intros)

locale catalogue =
  fixes X :: ext
    and fetch :: "'c product_fetcher"
    and listed :: "'c \<Rightarrow> uuid \<Rightarrow> bool"
    and held :: "'c \<Rightarrow> uuid \<Rightarrow> bool"
    and valid :: "'c \<Rightarrow> bool"
  assumes own_key: "run_state (fetch ids) c = (Inr m, c') \<Longrightarrow> m i = Some p \<Longrightarrow> ci_ID p = i"
    and complete: "valid c \<Longrightarrow> \<exists>m c'. run_state (fetch (map (uuid_text X) us)) c = (Inr m, c') \<and>
      (\<forall>u \<in> set us. listed c u \<longrightarrow> m (uuid_text X u) \<noteq> None)"
    and sound: "valid c \<Longrightarrow> run_state (fetch (map (uuid_text X) us)) c = (Inr m, c') \<Longrightarrow> u \<in> set us \<Longrightarrow>
      m (uuid_text X u) \<noteq> None \<Longrightarrow> listed c u \<or> held c u"
begin

text \<open>The loop over the lines: a line is shown if its product is known, and everything shown is a line.\<close>

lemma shown_lines:
  assumes "cart_items X m ls ps t = Inr (ps', t')" and "\<And>i p. m i = Some p \<Longrightarrow> ci_ID p = i"
  shows "map (\<lambda>p. (cpv_ProductId p, cpv_Quantity p)) ps' = map (\<lambda>p. (cpv_ProductId p, cpv_Quantity p)) ps @
    map (\<lambda>l. (uuid_text X (gcp_ProductID l), gcp_Quantity l)) (known_lines X m ls)"
  using assms(1)
proof (induction ls arbitrary: ps t)
  case (Cons l ls)
  then show ?case by (auto simp: known_lines_def assms(2) split: option.splits sum.splits)
qed (simp add: known_lines_def)

lemma cart_shows_listed:
  assumes "run_state (GetCart X fetch ctx req) w = (Inr resp, w')"
    and "\<forall>c. fst (run_state (checkCartCache (gcr_UserId req)) (cw_redis w)) \<noteq> Inr (Some c)" and "valid (cw_client w)"
  shows "\<exists>user cart offered. parse_uuid X (gcr_UserId req) = Inr user \<and> cart_of user (cw_db w') = Some cart \<and>
    map (\<lambda>p. (cpv_ProductId p, cpv_Quantity p)) (gc_Products resp) =
      map (\<lambda>l. (uuid_text X (gcp_ProductID l), gcp_Quantity l))
        (filter (\<lambda>l. offered (gcp_ProductID l)) (cart_lines cart (cw_db w'))) \<and>
    (\<forall>u \<in> gcp_ProductID ` set (cart_lines cart (cw_db w')).
       (listed (cw_client w) u \<longrightarrow> offered u) \<and> (offered u \<longrightarrow> listed (cw_client w) u \<or> held (cw_client w) u))"
proof (rule GetCart_fresh [OF assms(1,2)])
  fix user cart m c'
  assume g: "parse_uuid X (gcr_UserId req) = Inr user" "find (\<lambda>c. ct_UserID c = user) (cd_carts (cw_db w')) = Some cart"
    and f: "run_state (fetch (map (\<lambda>l. uuid_text X (gcp_ProductID l)) (cart_lines (ct_ID cart) (cw_db w')))) (cw_client w) = (Inr m, c')"
    and items: "cart_items X m (cart_lines (ct_ID cart) (cw_db w')) [] (Fin 0) = Inr (gc_Products resp, gc_TotalPrice resp)"
  let ?ls = "cart_lines (ct_ID cart) (cw_db w')" and ?us = "map gcp_ProductID (cart_lines (ct_ID cart) (cw_db w'))"
  let ?offered = "\<lambda>u. m (uuid_text X u) \<noteq> None"
  have f': "run_state (fetch (map (uuid_text X) ?us)) (cw_client w) = (Inr m, c')" using f by (simp add: comp_def)
  have "(listed (cw_client w) u \<longrightarrow> ?offered u) \<and> (?offered u \<longrightarrow> listed (cw_client w) u \<or> held (cw_client w) u)"
    if "u \<in> gcp_ProductID ` set ?ls" for u
    using complete [OF assms(3), of ?us] sound [OF assms(3) f', of u] f' that by auto
  moreover have "map (\<lambda>p. (cpv_ProductId p, cpv_Quantity p)) (gc_Products resp) =
      map (\<lambda>l. (uuid_text X (gcp_ProductID l), gcp_Quantity l)) (filter (\<lambda>l. ?offered (gcp_ProductID l)) ?ls)"
    using shown_lines [OF items] own_key [OF f] by (simp add: known_lines_def)
  ultimately show ?thesis using g
    by (intro exI [of _ user] exI [of _ "ct_ID cart"] exI [of _ ?offered]) (simp add: cart_of_def)
qed

text \<open>A product that exists can be added: the handler never answers that it is not found.\<close>

lemma listed_product_found:
  assumes "run_state (AddProductToCart X fetch None req) w = (Inl e, w')" and "valid (cw_client w)"
    and "apr_ProductId req = uuid_text X u" and "listed (cw_client w) u"
  shows "st_code e \<noteq> NotFound"
proof
  assume code: "st_code e = NotFound"
  obtain m c' where m: "run_state (fetch [uuid_text X u]) (cw_client w) = (Inr m, c')" "m (uuid_text X u) \<noteq> None"
    using complete [OF assms(2), of "[u]"] assms(4) by auto
  show False
  proof (cases "parse_uuid X (apr_UserId req)")
    case (Inl p)
    then show ?thesis using assms(1) code by (auto simp: AddProductToCart_def)
  next
    case (Inr user)
    obtain r v where g: "run_state (getOrCreateCartByUserID X user) w = (r, v)" by (rule run_pair)
    have "cw_client v = cw_client w" using keepsD [OF getOrCreate_client _ g] by simp
    then show ?thesis using assms(1,3) Inr g m code
      by (auto simp: AddProductToCart_def split: sum.splits prod.splits if_splits)
  qed
qed

end

text \<open>The client over the handler of the product service.\<close>

definition catalogue_call :: "ext \<Rightarrow> GetProductsByIDsRequest \<Rightarrow> (product_world, go_error + ProductV1 list) state" where
  "catalogue_call X req = attempt (GetProductsByIDs X req) StatusError ok"

definition catalogue_listed :: "product_world \<Rightarrow> uuid \<Rightarrow> bool" where
  "catalogue_listed c u \<longleftrightarrow> u \<in> pr_ID ` set (pb_products (pw_db c))"

text \<open>The product service's cache holds a hash for the product.\<close>

definition catalogue_held :: "ext \<Rightarrow> product_world \<Rightarrow> uuid \<Rightarrow> bool" where
  "catalogue_held X c u \<longleftrightarrow> (\<exists>fs e. rd_data (pw_redis c) (productCachePrefix @ uuid_text X u) = Some (RHash fs, e) \<and> fs \<noteq> [])"

definition catalogue_valid :: "ext \<Rightarrow> product_world \<Rightarrow> bool" where
  "catalogue_valid X c \<longleftrightarrow> uuid_round_trip X \<and> (\<forall>n. fault_at (pw_db c) n = None) \<and> txn (pw_db c) = NoTx \<and>
     (\<forall>ids. cache_agrees (pw_redis c) ids)"

lemma product_map_lookup:
  "foldl (\<lambda>m p. m(prv_Id p \<mapsto> product_info p)) m ps i = (case find (\<lambda>p. prv_Id p = i) (rev ps) of
     None \<Rightarrow> m i | Some p \<Rightarrow> Some (product_info p))"
  by (induction ps arbitrary: m) (auto simp: find_snoc split: option.splits)

lemma catalogue_batch:
  assumes "catalogue_valid X c"
  obtains ps w' where "run_state (GetProductsByIDs X \<lparr>gpi_Ids = map (uuid_text X) us\<rparr>) c = (Inr ps, w')"
    "\<forall>row \<in> set (pb_products (pw_db c)). uuid_text X (pr_ID row) \<in> set (map (uuid_text X) us) \<longrightarrow>
       (\<exists>p \<in> set ps. prv_Id p = uuid_text X (pr_ID row))"
    "\<forall>p \<in> set ps. (\<exists>row \<in> set (pb_products (pw_db c)). p = toGRPCProduct X row) \<or>
       (\<exists>i \<in> set (map (uuid_text X) us). cached_as (pw_redis c) i p)"
proof -
  have us: "\<forall>i \<in> set (map (uuid_text X) us). \<exists>u. i = uuid_text X u" by auto
  note c = assms [unfolded catalogue_valid_def]
  have agrees: "cache_agrees (pw_redis c) (map (uuid_text X) us)" using c by blast
  from c have "uuid_round_trip X" "\<forall>n. fault_at (pw_db c) n = None" "txn (pw_db c) = NoTx" by blast+
  from batch_read_returns_existing [OF this(2,3,1) us agrees] show ?thesis
    by (elim exE conjE) (rule that)
qed

interpretation product_catalogue: catalogue X "GetProductsByIDs_client (catalogue_call X) None" catalogue_listed
  "catalogue_held X" "catalogue_valid X"
proof
  fix ids c m c' i p assume f: "run_state (GetProductsByIDs_client (catalogue_call X) None ids) c = (Inr m, c')" "m i = Some p"
  then obtain ps where "m = foldl (\<lambda>m p. m(prv_Id p \<mapsto> product_info p)) Map.empty ps"
    by (auto simp: GetProductsByIDs_client_def intro: that [of "[]"] split: option.splits if_splits prod.splits sum.splits)
  with f(2) obtain q where "find (\<lambda>p. prv_Id p = i) (rev ps) = Some q" "p = product_info q"
    by (auto simp: product_map_lookup split: option.splits)
  then show "ci_ID p = i" using find_Some_in [of "\<lambda>p. prv_Id p = i"] by (auto simp: product_info_def)
next
  fix us c assume v: "catalogue_valid X c"
  obtain ps w' where ps: "run_state (GetProductsByIDs X \<lparr>gpi_Ids = map (uuid_text X) us\<rparr>) c = (Inr ps, w')"
    "\<forall>row \<in> set (pb_products (pw_db c)). uuid_text X (pr_ID row) \<in> set (map (uuid_text X) us) \<longrightarrow>
       (\<exists>p \<in> set ps. prv_Id p = uuid_text X (pr_ID row))"
    by (rule catalogue_batch [OF v, of us]) blast
  let ?m = "if us = [] then Map.empty else foldl (\<lambda>m p. m(prv_Id p \<mapsto> product_info p)) Map.empty ps"
  have "run_state (GetProductsByIDs_client (catalogue_call X) None (map (uuid_text X) us)) c = (Inr ?m, if us = [] then c else w')"
    using ps(1) by (simp add: GetProductsByIDs_client_def catalogue_call_def)
  moreover have "?m (uuid_text X u) \<noteq> None" if "u \<in> set us" "catalogue_listed c u" for u
    using ps(2) that by (auto simp: catalogue_listed_def product_map_lookup find_None_iff split: option.splits)
  ultimately show "\<exists>m c'. run_state (GetProductsByIDs_client (catalogue_call X) None (map (uuid_text X) us)) c = (Inr m, c') \<and>
      (\<forall>u \<in> set us. catalogue_listed c u \<longrightarrow> m (uuid_text X u) \<noteq> None)" by blast
next
  fix us c m c' u
  assume v: "catalogue_valid X c" and u: "u \<in> set us" "m (uuid_text X u) \<noteq> None"
    and f: "run_state (GetProductsByIDs_client (catalogue_call X) None (map (uuid_text X) us)) c = (Inr m, c')"
  have rt: "uuid_round_trip X" using v by (simp add: catalogue_valid_def)
  obtain ps w' where ps: "run_state (GetProductsByIDs X \<lparr>gpi_Ids = map (uuid_text X) us\<rparr>) c = (Inr ps, w')"
    and origin: "\<forall>p \<in> set ps. (\<exists>row \<in> set (pb_products (pw_db c)). p = toGRPCProduct X row) \<or>
      (\<exists>i \<in> set (map (uuid_text X) us). cached_as (pw_redis c) i p)"
    by (rule catalogue_batch [OF v, of us]) blast
  have "us \<noteq> []" using u(1) by auto
  then have "m = foldl (\<lambda>m p. m(prv_Id p \<mapsto> product_info p)) Map.empty ps"
    using f ps by (auto simp: GetProductsByIDs_client_def catalogue_call_def)
  then obtain p where p: "p \<in> set ps" "prv_Id p = uuid_text X u"
    using u(2) by (auto simp: product_map_lookup dest!: find_Some_in split: option.splits)
  from origin p(1) consider row where "row \<in> set (pb_products (pw_db c))" "p = toGRPCProduct X row"
    | v where "v \<in> set us" "cached_as (pw_redis c) (uuid_text X v) p" by auto
  then show "catalogue_listed c u \<or> catalogue_held X c u"
  proof cases
    case 1
    then have "pr_ID row = u" using p(2) uuid_text_eq [OF rt] by (simp add: toGRPCProduct_def)
    then show ?thesis using 1(1) by (auto simp: catalogue_listed_def)
  next
    case 2
    then obtain fs e where fs: "rd_data (pw_redis c) (productCachePrefix @ uuid_text X v) = Some (RHash fs, e)" "fs \<noteq> []"
      "mapToProduct fs = Inr p" by (auto simp: cached_as_def)
    have "cache_agrees (pw_redis c) [uuid_text X v]" using \<open>catalogue_valid X c\<close> by (simp add: catalogue_valid_def)
    then have "prv_Id p = uuid_text X v" using fs unfolding cache_agrees_def by fastforce
    then show ?thesis using fs p(2) unfolding catalogue_held_def by auto
  qed
qed

subsection \<open>The cart service over the product service\<close>

text \<open>C16. A cart that is not cached shows the lines whose product is offered, in the order of the rows, each with the
  identifier and the quantity of its row, and shows no other line and nothing else. Every product of the product service's table
  is offered, also when its cache fails, and whatever is offered is in that table or still in that cache: a product that is in
  neither is left out of the cart.\<close>

theorem cart_shows_catalogue:
  assumes "run_state (GetCart X (GetProductsByIDs_client (catalogue_call X) None) ctx req) w = (Inr resp, w')"
    and "\<forall>c. fst (run_state (checkCartCache (gcr_UserId req)) (cw_redis w)) \<noteq> Inr (Some c)"
    and "catalogue_valid X (cw_client w)"
  shows "\<exists>user cart offered. parse_uuid X (gcr_UserId req) = Inr user \<and> cart_of user (cw_db w') = Some cart \<and>
    map (\<lambda>p. (cpv_ProductId p, cpv_Quantity p)) (gc_Products resp) =
      map (\<lambda>l. (uuid_text X (gcp_ProductID l), gcp_Quantity l))
        (filter (\<lambda>l. offered (gcp_ProductID l)) (cart_lines cart (cw_db w'))) \<and>
    (\<forall>u \<in> gcp_ProductID ` set (cart_lines cart (cw_db w')).
       (u \<in> pr_ID ` set (pb_products (pw_db (cw_client w))) \<longrightarrow> offered u) \<and>
       (offered u \<longrightarrow> u \<in> pr_ID ` set (pb_products (pw_db (cw_client w))) \<or> catalogue_held X (cw_client w) u))"
  using product_catalogue.cart_shows_listed [OF assms] unfolding catalogue_listed_def .

text \<open>A product that exists can be added to a cart: the handler may fail for other reasons, but it never answers that the
  product is not found.\<close>

theorem existing_product_found:
  assumes "run_state (AddProductToCart X (GetProductsByIDs_client (catalogue_call X) None) None req) w = (Inl e, w')"
    and "catalogue_valid X (cw_client w)" and "apr_ProductId req = uuid_text X u"
    and "u \<in> pr_ID ` set (pb_products (pw_db (cw_client w)))"
  shows "st_code e \<noteq> NotFound"
  using product_catalogue.listed_product_found [OF assms(1-3)] assms(4) by (simp add: catalogue_listed_def)

definition cart_catalogue_sample :: "product_world cart_world" where
  "cart_catalogue_sample = \<lparr>cw_db = cart_db_sample, cw_redis = cart_redis_sample, cw_tasks = [], cw_client = product_world_sample,
     cw_ttl = ''0'', cw_time = 50\<rparr>"

lemma catalogue_sample_valid: "catalogue_valid sample_ext product_world_sample"
  "5 \<in> pr_ID ` set (pb_products (pw_db product_world_sample))"
  using sample_uuids by (simp_all add: catalogue_valid_def cache_agrees_def product_world_sample_def product_db_sample_def
      product_row_sample_def)

theorem cart_shows_catalogue_witness:
  "\<exists>resp w'. run_state (GetCart sample_ext (GetProductsByIDs_client (catalogue_call sample_ext) None) None
      \<lparr>gcr_UserId = uuid_text sample_ext 7\<rparr>) cart_catalogue_sample = (Inr resp, w') \<and>
     map (\<lambda>p. (cpv_ProductId p, cpv_Quantity p)) (gc_Products resp) = [(uuid_text sample_ext 5, 2)]"
proof -
  let ?req = "\<lparr>gcr_UserId = uuid_text sample_ext 7\<rparr>" and ?F = "GetProductsByIDs_client (catalogue_call sample_ext) None"
  have parse: "parse_uuid sample_ext (gcr_UserId ?req) = Inr 7" using parse_uuid_text [OF sample_uuids] by simp
  have float: "numeric_float64 sample_ext (Num (of_int 250 / 100)) = Inr (cents_float 250)"
    using sample_floats [unfolded floats_cents_def, rule_format, of 250] by (simp add: numeric_float64_def)
  have miss: "run_state (checkCartCache (gcr_UserId ?req)) cart_redis_sample =
      (Inr None, cart_redis_sample\<lparr>rd_calls := 1\<rparr>)"
    by (simp add: checkCartCache_def rd_get_def run_redis_call cart_redis_sample_def rd_lookup_def)
  have ttl: "cartIsExpired ''0'' 50 c = Inr False" for c
    by (simp add: cartIsExpired_def ttl_zero)
  obtain m c' p where m: "run_state (?F [uuid_text sample_ext 5]) product_world_sample = (Inr m, c')" "m (uuid_text sample_ext 5) = Some p"
    using product_catalogue.complete [OF catalogue_sample_valid(1), of "[5]"] catalogue_sample_valid(2)
    by (auto simp: catalogue_listed_def)
  have "\<exists>resp w'. run_state (GetCart sample_ext ?F None ?req) cart_catalogue_sample = (Inr resp, w') \<and>
      cd_carts (cw_db w') = cd_carts cart_db_sample \<and> cd_products (cw_db w') = cd_products cart_db_sample"
    using parse miss float m
    by (simp add: GetCart_def readCart_def cart_catalogue_sample_def getOrCreateCartByUserID_def GetCartByUserID_def ttl
        GetCartProductsByCartID_def run_query_row run_db_call cart_db_sample_def cart_lines_def Let_def)
  then obtain resp w' where run: "run_state (GetCart sample_ext ?F None ?req) cart_catalogue_sample = (Inr resp, w')"
    and db: "cd_carts (cw_db w') = cd_carts cart_db_sample" "cd_products (cw_db w') = cd_products cart_db_sample" by blast
  have w: "cw_client cart_catalogue_sample = product_world_sample" "cw_redis cart_catalogue_sample = cart_redis_sample"
    by (simp_all add: cart_catalogue_sample_def)
  from cart_shows_catalogue [OF run] miss catalogue_sample_valid obtain user cart offered where
    r: "parse_uuid sample_ext (gcr_UserId ?req) = Inr user" "cart_of user (cw_db w') = Some cart"
      "map (\<lambda>p. (cpv_ProductId p, cpv_Quantity p)) (gc_Products resp) =
        map (\<lambda>l. (uuid_text sample_ext (gcp_ProductID l), gcp_Quantity l))
          (filter (\<lambda>l. offered (gcp_ProductID l)) (cart_lines cart (cw_db w')))"
      "\<forall>u \<in> gcp_ProductID ` set (cart_lines cart (cw_db w')). u \<in> pr_ID ` set (pb_products (pw_db product_world_sample)) \<longrightarrow> offered u"
    unfolding w by auto
  have cart: "cart = 11" using r(1,2) parse db by (simp add: cart_of_def cart_db_sample_def)
  have "map (\<lambda>l. (gcp_ProductID l, gcp_Quantity l)) (cart_lines 11 (cw_db w')) = [(5, 2)]"
    using db by (simp add: cart_lines_def cart_db_sample_def)
  then obtain l where "cart_lines cart (cw_db w') = [l]" "gcp_ProductID l = 5" "gcp_Quantity l = 2"
    unfolding cart by (auto simp: map_eq_Cons_conv)
  with r(3,4) catalogue_sample_valid(2) run show ?thesis by auto
qed

text \<open>An addition of no piece is refused by the database's check, not because of the product.\<close>

theorem existing_product_found_witness:
  "\<exists>e w'. run_state (AddProductToCart sample_ext (GetProductsByIDs_client (catalogue_call sample_ext) None) None
      \<lparr>apr_UserId = uuid_text sample_ext 7, apr_ProductId = uuid_text sample_ext 5, apr_Quantity = 0\<rparr>) cart_catalogue_sample =
      (Inl e, w') \<and> st_code e \<noteq> NotFound"
proof -
  let ?req = "\<lparr>apr_UserId = uuid_text sample_ext 7, apr_ProductId = uuid_text sample_ext 5, apr_Quantity = 0\<rparr>"
  let ?F = "GetProductsByIDs_client (catalogue_call sample_ext) None"
  have parse: "parse_uuid sample_ext (uuid_text sample_ext u) = Inr u" for u by (rule parse_uuid_text [OF sample_uuids])
  have ttl: "cartIsExpired ''0'' 50 c = Inr False" for c
    by (simp add: cartIsExpired_def ttl_zero)
  obtain m c' p where m: "run_state (?F [uuid_text sample_ext 5]) product_world_sample = (Inr m, c')" "m (uuid_text sample_ext 5) = Some p"
    using product_catalogue.complete [OF catalogue_sample_valid(1), of "[5]"] catalogue_sample_valid(2)
    by (auto simp: catalogue_listed_def)
  have "\<exists>e w'. run_state (AddProductToCart sample_ext ?F None ?req) cart_catalogue_sample = (Inl e, w')"
    using m by (simp add: AddProductToCart_def parse cart_catalogue_sample_def getOrCreateCartByUserID_def GetCartByUserID_def ttl
        run_query_row run_db_call cart_db_sample_def AddOrUpdateProductInCart_def upsert_product_def Let_def split: sum.splits)
  then obtain e w' where run: "run_state (AddProductToCart sample_ext ?F None ?req) cart_catalogue_sample = (Inl e, w')" by blast
  from existing_product_found [OF this, of 5] catalogue_sample_valid run show ?thesis
    by (auto simp: cart_catalogue_sample_def)
qed

end
