(* ===== verification/UserService.thy ===== *)
theory UserService
  imports Db Redis Api
begin

text \<open>
  The user service: its table, statements and gRPC server (\<^verbatim>\<open>internal/repository\<close>, \<^verbatim>\<open>internal/grpc\<close>).
  Users are cached as hashes under their identifier, with the hash of the password, and a second
  key leads from an address to the identifier. The password hashing of argon2id is not in the
  repository: it is the record \<open>hasher\<close>, an argument of the handlers that use it.
\<close>

subsection \<open>Table and statements\<close>

record UserRow =
  us_ID :: uuid
  us_Username :: string
  us_Email :: string
  us_Password :: string
  us_CreatedAt :: int
  us_UpdatedAt :: "int option"

record user_db = db_env +
  ud_users :: "UserRow list"

record CreateUserParams =
  cup_Username :: string
  cup_Email :: string
  cup_Password :: string

definition insert_user :: "CreateUserParams \<Rightarrow> (user_db, UserRow option) stmt" where
  "insert_user a n w =
     (if uuid_at w n \<in> us_ID ` set (ud_users w) then Inl (UniqueViolation ''users_pkey'')
      else if cup_Username a \<in> us_Username ` set (ud_users w) then Inl (UniqueViolation ''users_username_key'')
      else if cup_Email a \<in> us_Email ` set (ud_users w) then Inl (UniqueViolation ''users_email_key'')
      else (let row = \<lparr>us_ID = uuid_at w n, us_Username = cup_Username a, us_Email = cup_Email a,
              us_Password = cup_Password a, us_CreatedAt = now w n, us_UpdatedAt = None\<rparr> in
        Inr (Some row, w\<lparr>ud_users := ud_users w @ [row]\<rparr>)))"

definition CreateUser_q :: "CreateUserParams \<Rightarrow> (user_db, go_error + UserRow) state" where
  "CreateUser_q a = query_row (insert_user a)"

definition GetUserByEmail_q :: "string \<Rightarrow> (user_db, go_error + UserRow) state" where
  "GetUserByEmail_q email = query_row (read_only (\<lambda>w. find (\<lambda>r. us_Email r = email) (ud_users w)))"

definition GetUserByID_q :: "uuid \<Rightarrow> (user_db, go_error + UserRow) state" where
  "GetUserByID_q i = query_row (read_only (\<lambda>w. find (\<lambda>r. us_ID r = i) (ud_users w)))"

subsection \<open>\<^verbatim>\<open>strings.TrimSpace\<close>\<close>

text \<open>White space of Unicode as it is encoded in UTF-8; texts are sequences of bytes.\<close>

definition bytes :: "nat list \<Rightarrow> string" where
  "bytes ns = map char_of ns"

definition spaces :: "string list" where
  "spaces = map (\<lambda>n. bytes [n]) [9, 10, 11, 12, 13, 32] @ map bytes
     ([[194, 133], [194, 160], [225, 154, 128]] @ map (\<lambda>n. [226, 128, n]) [128 ..< 139] @
      [[226, 128, 168], [226, 128, 169], [226, 128, 175], [226, 129, 159], [227, 128, 128]])"

definition starts_with :: "string \<Rightarrow> string \<Rightarrow> bool" where
  "starts_with p s \<longleftrightarrow> take (length p) s = p"

function trim_left :: "string list \<Rightarrow> string \<Rightarrow> string" where
  "trim_left ps s = (case find (\<lambda>p. p \<noteq> [] \<and> starts_with p s) ps of
     None \<Rightarrow> s | Some p \<Rightarrow> trim_left ps (drop (length p) s))"
  by auto
termination
proof (relation "measure (length \<circ> snd)")
  fix ps s p assume "find (\<lambda>p. p \<noteq> [] \<and> starts_with p s) ps = Some p"
  then have "p \<noteq> []" "take (length p) s = p" by (auto dest: find_Some_in simp: starts_with_def)
  then show "((ps, drop (length p) s), ps, s) \<in> measure (length \<circ> snd)" by (cases s) auto
qed simp

declare trim_left.simps [simp del]

definition trim_space :: "string \<Rightarrow> string" where
  "trim_space s = rev (trim_left (map rev spaces) (rev (trim_left spaces s)))"

subsection \<open>State\<close>

datatype user_task = CacheUserTask UserV1 string | CacheUserEmailTask UserV1 string string

record user_world =
  uw_db :: user_db
  uw_redis :: redis
  uw_tasks :: "user_task list"

definition u_db :: "(user_db, 'a) state \<Rightarrow> (user_world, 'a) state" where
  "u_db m = zoom uw_db (\<lambda>d w. w\<lparr>uw_db := d\<rparr>) m"

definition u_redis :: "(redis, 'a) state \<Rightarrow> (user_world, 'a) state" where
  "u_redis m = zoom uw_redis (\<lambda>r w. w\<lparr>uw_redis := r\<rparr>) m"

definition u_go :: "user_task \<Rightarrow> (user_world, unit) state" where
  "u_go t = State (\<lambda>w. ((), w\<lparr>uw_tasks := uw_tasks w @ [t]\<rparr>))"

lemma run_u [simp]:
  "run_state (u_db m) w = (case run_state m (uw_db w) of (x, d) \<Rightarrow> (x, w\<lparr>uw_db := d\<rparr>))"
  "run_state (u_redis n) w = (case run_state n (uw_redis w) of (y, r) \<Rightarrow> (y, w\<lparr>uw_redis := r\<rparr>))"
  "run_state (u_go t) w = ((), w\<lparr>uw_tasks := uw_tasks w @ [t]\<rparr>)"
  by (simp_all add: u_db_def u_redis_def u_go_def)

record hasher =
  create_hash :: "string \<Rightarrow> string + string"
  compare_hash :: "string \<Rightarrow> string \<Rightarrow> string + bool"

subsection \<open>Conversions and the cache\<close>

record CachedUser =
  cu_User :: UserV1
  cu_HashedPassword :: string

definition toGRPCUser :: "ext \<Rightarrow> UserRow \<Rightarrow> UserV1" where
  "toGRPCUser X u = \<lparr>uv_Id = uuid_text X (us_ID u), uv_Username = us_Username u, uv_Email = us_Email u,
     uv_CreatedAt = us_CreatedAt u, uv_UpdatedAt = us_UpdatedAt u\<rparr>"

definition userToMap :: "UserV1 \<Rightarrow> string \<Rightarrow> (string \<times> string) list" where
  "userToMap u hashedPassword = [
     (''id'', uv_Id u),
     (''username'', uv_Username u),
     (''hashedPassword'', hashedPassword),
     (''email'', uv_Email u),
     (''createdAt'', show_int (unix_seconds (uv_CreatedAt u))),
     (''updatedAt'', show_int (unix_seconds (as_time (uv_UpdatedAt u))))]"

definition mapToUser :: "(string \<times> string) list \<Rightarrow> go_error + CachedUser" where
  "mapToUser d = (case parse_int 64 (map_get d ''createdAt'') of None \<Rightarrow> Inl syntax_error | Some created \<Rightarrow>
     (case parse_int 64 (map_get d ''updatedAt'') of None \<Rightarrow> Inl syntax_error | Some updated \<Rightarrow>
       Inr \<lparr>cu_User = \<lparr>uv_Id = map_get d ''id'', uv_Username = map_get d ''username'', uv_Email = map_get d ''email'',
           uv_CreatedAt = created * 10 ^ 9, uv_UpdatedAt = Some (updated * 10 ^ 9)\<rparr>,
         cu_HashedPassword = map_get d ''hashedPassword''\<rparr>))"

definition redisUserKeyPrefix :: string where "redisUserKeyPrefix = ''user:''"
definition redisEmailToUserIDKeyPrefix :: string where "redisEmailToUserIDKeyPrefix = ''user_email_to_id:''"
definition redisUserExpirationTime :: int where "redisUserExpirationTime = 24 * 60 * 60 * 10 ^ 9"

definition checkUserCache :: "string \<Rightarrow> (redis, go_error + CachedUser) state" where
  "checkUserCache userID = attempt (rd_hgetall (redisUserKeyPrefix @ userID)) id (\<lambda>d. attempt_pure (mapToUser d) id ok)"

text \<open>Keys of this kind hold texts only.\<close>

definition checkUserIDByEmailCache :: "string \<Rightarrow> (redis, go_error + string) state" where
  "checkUserIDByEmailCache email = attempt (rd_get (redisEmailToUserIDKeyPrefix @ email)) id
     (\<lambda>v. case v of RText t \<Rightarrow> ok t | _ \<Rightarrow> fail (RedisError ''WRONGTYPE''))"

definition cacheUser :: "UserV1 \<Rightarrow> string \<Rightarrow> (redis, go_error + unit list) state" where
  "cacheUser u hashedPassword = exec_pipe [
     rd_hset (redisUserKeyPrefix @ uv_Id u) (userToMap u hashedPassword),
     rd_expire (redisUserKeyPrefix @ uv_Id u) redisUserExpirationTime]"

definition cacheUserEmailToID :: "string \<Rightarrow> string \<Rightarrow> (redis, go_error + unit) state" where
  "cacheUserEmailToID email userID = rd_set (redisEmailToUserIDKeyPrefix @ email) (RText userID) redisUserExpirationTime"

definition cacheUserWithEmail :: "UserV1 \<Rightarrow> string \<Rightarrow> string \<Rightarrow> (redis, unit) state" where
  "cacheUserWithEmail u hashedPassword email = do {
     _ \<leftarrow> cacheUser u hashedPassword; _ \<leftarrow> cacheUserEmailToID email (uv_Id u); State_Monad.return () }"

fun run_user_task :: "user_task \<Rightarrow> (redis, unit) state" where
  "run_user_task (CacheUserTask u h) = do { _ \<leftarrow> cacheUser u h; State_Monad.return () }"
| "run_user_task (CacheUserEmailTask u h email) = cacheUserWithEmail u h email"

subsection \<open>Handlers\<close>

definition CreateUser ::
  "ext \<Rightarrow> hasher \<Rightarrow> ctx_err option \<Rightarrow> CreateUserRequest \<Rightarrow> (user_world, status + UserV1) state" where
  "CreateUser X H ctx req = (case ctx of Some e \<Rightarrow> fail (ctx_status X e) | None \<Rightarrow>
     attempt_pure (create_hash H (trim_space (cur_Password req)))
       (\<lambda>t. Errorf Internal (''failed to hash password: '' @ t)) (\<lambda>hashedPassword.
     attempt (u_db (CreateUser_q \<lparr>cup_Username = trim_space (cur_Username req), cup_Email = trim_space (cur_Email req),
         cup_Password = hashedPassword\<rparr>))
       (\<lambda>e. Errorf Internal (''failed to create user: '' @ err_text X e)) (\<lambda>user. do {
     _ \<leftarrow> u_go (CacheUserTask (toGRPCUser X user) hashedPassword);
     ok (toGRPCUser X user) })))"

definition GetUserByID ::
  "ext \<Rightarrow> ctx_err option \<Rightarrow> GetUserByIDRequest \<Rightarrow> (user_world, status + UserV1) state" where
  "GetUserByID X ctx req = (case ctx of Some e \<Rightarrow> fail (ctx_status X e) | None \<Rightarrow> do {
     cached \<leftarrow> u_redis (checkUserCache (gur_Id req));
     case cached of
       Inr c \<Rightarrow> ok (cu_User c)
     | Inl _ \<Rightarrow>
         attempt_pure (parse_uuid X (gur_Id req))
           (\<lambda>_. Errorf InvalidArgument (''invalid user id format: '' @ gur_Id req)) (\<lambda>u.
         attempt (u_db (GetUserByID_q u))
           (\<lambda>e. if e = ErrNoRows then Errorf NotFound ''user not found''
              else Errorf Internal (''failed to get user: '' @ err_text X e)) (\<lambda>user. do {
         _ \<leftarrow> u_go (CacheUserTask (toGRPCUser X user) (us_Password user));
         ok (toGRPCUser X user) })) })"

definition verifyPassword :: "hasher \<Rightarrow> string \<Rightarrow> string \<Rightarrow> status + unit" where
  "verifyPassword H password hashedPassword = (case compare_hash H password hashedPassword of
     Inl t \<Rightarrow> Inl (Errorf Internal (''failed to compare password: '' @ t))
   | Inr match \<Rightarrow> if match then Inr () else Inl (Errorf Unauthenticated ''invalid email or password''))"

definition getUserFromCacheByEmail :: "string \<Rightarrow> (redis, go_error + CachedUser) state" where
  "getUserFromCacheByEmail email = attempt (checkUserIDByEmailCache email) id (\<lambda>userID.
     attempt (checkUserCache userID) id ok)"

definition getUserFromDatabase :: "ext \<Rightarrow> string \<Rightarrow> (user_db, status + UserRow) state" where
  "getUserFromDatabase X email = attempt (GetUserByEmail_q email)
     (\<lambda>e. if e = ErrNoRows then Errorf Unauthenticated ''invalid email or password''
        else Errorf Internal (''failed to get user: '' @ err_text X e)) ok"

definition AuthorizeUser ::
  "ext \<Rightarrow> hasher \<Rightarrow> ctx_err option \<Rightarrow> AuthorizeUserRequest \<Rightarrow> (user_world, status + UserV1) state" where
  "AuthorizeUser X H ctx req = (case ctx of Some e \<Rightarrow> fail (ctx_status X e) | None \<Rightarrow> do {
     let email = trim_space (aur_Email req);
     let password = trim_space (aur_Password req);
     cached \<leftarrow> u_redis (getUserFromCacheByEmail email);
     case cached of
       Inr c \<Rightarrow> attempt_pure (verifyPassword H password (cu_HashedPassword c)) id (\<lambda>_. ok (cu_User c))
     | Inl _ \<Rightarrow>
         attempt (u_db (getUserFromDatabase X email)) id (\<lambda>user.
         attempt_pure (verifyPassword H password (us_Password user)) id (\<lambda>_. do {
         _ \<leftarrow> u_go (CacheUserEmailTask (toGRPCUser X user) (us_Password user) email);
         ok (toGRPCUser X user) })) })"

end
