(* ===== verification/UserSpec.thy ===== *)
theory UserSpec
  imports UserService
begin

text \<open>
  What the user service guarantees: in every state its operations, its goroutines and the loss of cached keys can reach,
  the cache says of a user what the table says, and who is authorised has the password of the user of that address.
\<close>

subsection \<open>The cache agrees with the table\<close>

definition hash_agrees :: "ext \<Rightarrow> UserRow list \<Rightarrow> string \<Rightarrow> (string \<times> string) list \<Rightarrow> bool" where
  "hash_agrees X users i d \<longleftrightarrow> (\<exists>r \<in> set users. i = uuid_text X (us_ID r) \<and> map_get d ''id'' = i \<and>
     map_get d ''username'' = us_Username r \<and> map_get d ''email'' = us_Email r \<and>
     map_get d ''hashedPassword'' = us_Password r)"

definition key_agrees :: "ext \<Rightarrow> UserRow list \<Rightarrow> string \<Rightarrow> redis_value \<Rightarrow> bool" where
  "key_agrees X users k v \<longleftrightarrow>
     (\<forall>i d. k = redisUserKeyPrefix @ i \<longrightarrow> v = RHash d \<longrightarrow> hash_agrees X users i d) \<and>
     (\<forall>m i. k = redisEmailToUserIDKeyPrefix @ m \<longrightarrow> v = RText i \<longrightarrow>
        (\<exists>r \<in> set users. us_Email r = m \<and> i = uuid_text X (us_ID r)))"

definition cache_agrees :: "ext \<Rightarrow> UserRow list \<Rightarrow> redis \<Rightarrow> bool" where
  "cache_agrees X users c \<longleftrightarrow> (\<forall>k v e. rd_data c k = Some (v, e) \<longrightarrow> key_agrees X users k v)"

fun task_agrees :: "ext \<Rightarrow> UserRow list \<Rightarrow> user_task \<Rightarrow> bool" where
  "task_agrees X users (CacheUserTask u h) \<longleftrightarrow> (\<exists>r \<in> set users. u = toGRPCUser X r \<and> h = us_Password r)"
| "task_agrees X users (CacheUserEmailTask u h m) \<longleftrightarrow>
     (\<exists>r \<in> set users. u = toGRPCUser X r \<and> h = us_Password r \<and> m = us_Email r)"

definition users_ok :: "user_db \<Rightarrow> bool" where
  "users_ok w \<longleftrightarrow> distinct (map us_ID (ud_users w)) \<and> distinct (map us_Username (ud_users w)) \<and>
     distinct (map us_Email (ud_users w))"

definition user_ok :: "ext \<Rightarrow> user_world \<Rightarrow> bool" where
  "user_ok X w \<longleftrightarrow> users_ok (uw_db w) \<and> cache_agrees X (ud_users (uw_db w)) (uw_redis w) \<and>
     (\<forall>t \<in> set (uw_tasks w). task_agrees X (ud_users (uw_db w)) t)"

lemma agrees_mono:
  assumes "set us \<subseteq> set vs"
  shows "cache_agrees X us c \<Longrightarrow> cache_agrees X vs c" "task_agrees X us t \<Longrightarrow> task_agrees X vs t"
  using assms
  by (fastforce simp: cache_agrees_def key_agrees_def hash_agrees_def, cases t, fastforce+)

subsection \<open>Commands\<close>

text \<open>A predicate of what the keys hold, whatever their expiry and the state of the connection.\<close>

definition holds :: "(string \<Rightarrow> redis_value \<Rightarrow> bool) \<Rightarrow> redis \<Rightarrow> bool" where
  "holds P c \<longleftrightarrow> (\<forall>k v e. rd_data c k = Some (v, e) \<longrightarrow> P k v)"

lemma holds_lookup: "holds P c \<Longrightarrow> rd_lookup c t k = Some v \<Longrightarrow> P k v"
  by (auto simp: holds_def rd_lookup_def split: option.splits if_splits)

lemma holds_put: "holds P c \<Longrightarrow> P k v \<Longrightarrow> holds P (rd_put k (Some (v, e)) c)"
  by (auto simp: holds_def)

lemma holds_calls [simp]: "holds P (c\<lparr>rd_calls := n\<rparr>) = holds P c" "rd_lookup (c\<lparr>rd_calls := n\<rparr>) = rd_lookup c"
  by (simp_all add: holds_def rd_lookup_def fun_eq_iff split: option.splits)

lemma keeps_redis_call:
  assumes "\<And>t r y r'. holds P r \<Longrightarrow> c t r = (y, r') \<Longrightarrow> holds P r'"
  shows "keeps (holds P) (redis_call c)"
proof (rule keepsI)
  fix w r w' assume "holds P w" and run: "run_state (redis_call c) w = (r, w')"
  from run show "holds P w'"
  proof (cases rule: redis_call_cases)
    case (sent y)
    then show ?thesis using assms \<open>holds P w\<close> by (metis holds_calls(1))
  qed (use \<open>holds P w\<close> in simp)
qed

lemma keeps_reads: "keeps (holds P) (rd_hgetall k)" "keeps (holds P) (rd_get k)"
  unfolding rd_hgetall_def rd_get_def by (intro keeps_intros keeps_redis_call; simp)+

lemma keeps_set: "P k v \<Longrightarrow> keeps (holds P) (rd_set k v ttl)"
  unfolding rd_set_def by (rule keeps_redis_call) (auto intro: holds_put)

lemma keeps_hset:
  assumes "\<And>old. P k (RHash old) \<Longrightarrow> P k (RHash (hash_update new old))" and "P k (RHash new)"
  shows "keeps (holds P) (rd_hset k new)"
  unfolding rd_hset_def
proof (rule keeps_redis_call)
  fix t r y r' assume r: "holds P r" and run: "(case rd_lookup r t k of
       None \<Rightarrow> (Inr (), rd_put k (Some (RHash new, None)) r)
     | Some (RHash old) \<Rightarrow> (Inr (), rd_put k (Some (RHash (hash_update new old), Option.bind (rd_data r k) snd)) r)
     | Some _ \<Rightarrow> (Inl ''WRONGTYPE'', r)) = (y, r')"
  show "holds P r'"
  proof (cases "rd_lookup r t k")
    case None
    then show ?thesis using run r assms(2) by (auto intro: holds_put)
  next
    case (Some v)
    then show ?thesis using run r assms(1) holds_lookup [OF r Some] by (cases v) (auto intro: holds_put)
  qed
qed

lemma keeps_expire: "keeps (holds P) (rd_expire k ttl)"
  unfolding rd_expire_def
  by (rule keeps_redis_call) (auto intro: holds_put holds_lookup split: option.splits)

lemma keeps_pipeline: "(\<And>c. c \<in> set cs \<Longrightarrow> keeps I c) \<Longrightarrow> keeps I (exec_pipe cs)"
proof -
  assume "\<And>c. c \<in> set cs \<Longrightarrow> keeps I c"
  then have "keeps I (pipeline cs)" by (induction cs) (auto intro!: keeps_intros)
  then show ?thesis unfolding exec_pipe_def by (intro keeps_intros)
qed

lemma hash_update_get: "f \<in> fst ` set new \<Longrightarrow> map_get (hash_update new old) f = map_get new f"
proof -
  assume f: "f \<in> fst ` set new"
  then obtain v where v: "map_of new f = Some v" by (metis map_of_eq_None_iff not_Some_eq)
  have "map_of (filter (\<lambda>(g, _). g \<notin> fst ` set new) old) f = None"
    unfolding map_of_eq_None_iff using f by force
  then show ?thesis using v by (simp add: map_get_def hash_update_def map_add_def)
qed

subsection \<open>The operations keep the agreement\<close>

lemma cache_agrees_holds: "cache_agrees X users = holds (key_agrees X users)"
  by (simp add: cache_agrees_def holds_def fun_eq_iff)

lemma hash_of_row:
  "map_get d ''id'' = uuid_text X (us_ID r) \<Longrightarrow> map_get d ''username'' = us_Username r \<Longrightarrow>
   map_get d ''email'' = us_Email r \<Longrightarrow> map_get d ''hashedPassword'' = us_Password r \<Longrightarrow> r \<in> set users \<Longrightarrow>
   key_agrees X users (redisUserKeyPrefix @ uuid_text X (us_ID r)) (RHash d)"
  by (auto simp: key_agrees_def hash_agrees_def)

lemma row_map:
  "map_get (userToMap (toGRPCUser X r) h) ''id'' = uuid_text X (us_ID r)"
  "map_get (userToMap (toGRPCUser X r) h) ''username'' = us_Username r"
  "map_get (userToMap (toGRPCUser X r) h) ''email'' = us_Email r"
  "map_get (userToMap (toGRPCUser X r) h) ''hashedPassword'' = h"
  "fst ` set (userToMap u h) = {''id'', ''username'', ''hashedPassword'', ''email'', ''createdAt'', ''updatedAt''}"
  by (simp_all add: map_get_def userToMap_def toGRPCUser_def)

lemma keeps_cacheUser:
  assumes "r \<in> set users" and "h = us_Password r"
  shows "keeps (cache_agrees X users) (cacheUser (toGRPCUser X r) h)"
proof -
  have i: "uv_Id (toGRPCUser X r) = uuid_text X (us_ID r)" by (simp add: toGRPCUser_def)
  have "keeps (holds (key_agrees X users)) (rd_hset (redisUserKeyPrefix @ uuid_text X (us_ID r)) (userToMap (toGRPCUser X r) h))"
    by (rule keeps_hset; rule hash_of_row; simp add: hash_update_get row_map assms)
  then show ?thesis unfolding cacheUser_def cache_agrees_holds i
    by (intro keeps_pipeline) (auto intro: keeps_expire)
qed

lemma keeps_task: "task_agrees X users t \<Longrightarrow> keeps (cache_agrees X users) (run_user_task t)"
proof (cases t)
  case (CacheUserTask u h)
  assume "task_agrees X users t"
  then show ?thesis by (auto simp: CacheUserTask intro!: keeps_intros keeps_cacheUser)
next
  case (CacheUserEmailTask u h m)
  assume "task_agrees X users t"
  then obtain r where r: "r \<in> set users" "u = toGRPCUser X r" "h = us_Password r" "m = us_Email r"
    by (auto simp: CacheUserEmailTask)
  have "key_agrees X users (redisEmailToUserIDKeyPrefix @ m) (RText (uv_Id u))"
    using r by (auto simp: key_agrees_def toGRPCUser_def)
  then have "keeps (cache_agrees X users) (cacheUserEmailToID m (uv_Id u))"
    unfolding cacheUserEmailToID_def cache_agrees_holds by (rule keeps_set)
  moreover have "keeps (cache_agrees X users) (cacheUser u h)" unfolding r(2) by (rule keeps_cacheUser [OF r(1,3)])
  ultimately show ?thesis unfolding CacheUserEmailTask run_user_task.simps cacheUserWithEmail_def
    by (intro keeps_intros)
qed

lemma keeps_cache_reads:
  "keeps (cache_agrees X users) (checkUserCache i)" "keeps (cache_agrees X users) (getUserFromCacheByEmail m)"
  unfolding checkUserCache_def getUserFromCacheByEmail_def checkUserIDByEmailCache_def cache_agrees_holds
  by (intro keeps_intros keeps_reads | rule keeps_intros keeps_reads | (auto split: redis_value.splits intro: keeps_return))+

text \<open>What the statements do to the table.\<close>

lemma failed_users [simp]: "ud_users (failed w) = ud_users w"
  by (simp add: failed_def)

lemma CreateUser_q_effect:
  assumes "run_state (CreateUser_q a) w = (r, w')"
  shows "set (ud_users w) \<subseteq> set (ud_users w') \<and> (users_ok w \<longrightarrow> users_ok w') \<and>
    (\<forall>row. r = Inr row \<longrightarrow> row \<in> set (ud_users w') \<and> us_Password row = cup_Password a \<and> us_Email row = cup_Email a)"
proof -
  have ins: "set (ud_users w) \<subseteq> set (ud_users v) \<and> (users_ok w \<longrightarrow> users_ok v) \<and>
      (\<forall>row. x = Some row \<longrightarrow> row \<in> set (ud_users v) \<and> us_Password row = cup_Password a \<and> us_Email row = cup_Email a)"
    if "insert_user a (calls w) (w\<lparr>calls := Suc (calls w)\<rparr>) = Inr (x, v)" for x v
    using that by (auto simp: insert_user_def users_ok_def Let_def split: if_splits)
  from assms [unfolded CreateUser_q_def] show ?thesis
  proof (cases rule: query_row_cases)
    case (lost e x v)
    then show ?thesis using ins [OF lost(2)] by (simp add: users_ok_def)
  next
    case none
    then show ?thesis using ins [OF none(2)] by simp
  next
    case (row x)
    then show ?thesis using ins [OF row(2)] by simp
  qed (simp add: users_ok_def)
qed

lemma user_read:
  assumes "run_state (query_row (read_only f)) w = (r, w')"
  shows "ud_users w' = ud_users w \<and> (\<forall>x. r = Inr x \<longrightarrow> f (w\<lparr>calls := Suc (calls w)\<rparr>) = Some x)"
  using assms by (cases rule: query_row_cases) auto

lemma GetUserByID_q_effect:
  "run_state (GetUserByID_q i) w = (r, w') \<Longrightarrow> ud_users w' = ud_users w \<and>
     (\<forall>row. r = Inr row \<longrightarrow> row \<in> set (ud_users w) \<and> us_ID row = i)"
  unfolding GetUserByID_q_def by (drule user_read) (auto dest: find_Some_in)

lemma getUserFromDatabase_effect:
  assumes "run_state (getUserFromDatabase X m) w = (r, w')"
  shows "ud_users w' = ud_users w \<and> (\<forall>row. r = Inr row \<longrightarrow> row \<in> set (ud_users w) \<and> us_Email row = m)"
proof -
  obtain q v where q: "run_state (GetUserByEmail_q m) w = (q, v)" by (rule run_pair)
  show ?thesis using user_read [OF q [unfolded GetUserByEmail_q_def]] assms q
    by (cases q) (auto simp: getUserFromDatabase_def dest: find_Some_in)
qed

subsection \<open>What the cache returns\<close>

lemma parse_no_int: "parse_int 64 [] = None"
  by code_simp

lemma hgetall_value:
  "run_state (rd_hgetall k) c = (Inr d, c') \<Longrightarrow> d = [] \<or> rd_lookup c (rd_clock c (rd_calls c)) k = Some (RHash d)"
  unfolding rd_hgetall_def by (erule redis_call_cases) (auto split: option.splits redis_value.splits)

lemma get_value:
  assumes "run_state (rd_get k) c = (Inr v, c')"
  shows "rd_lookup c (rd_clock c (rd_calls c)) k = Some v \<and> holds P c' = holds P c"
proof -
  obtain x where "run_state (redis_call (\<lambda>t r. (case rd_lookup r t k of
       None \<Rightarrow> Inr None | Some (RHash fs) \<Rightarrow> Inl ''WRONGTYPE'' | Some v \<Rightarrow> Inr (Some v), r))) c = (x, c')"
    and "x = Inr (Some v)"
    using assms by (auto simp: rd_get_def split: prod.splits sum.splits option.splits)
  then show ?thesis
    by (cases rule: redis_call_cases) (auto split: option.splits redis_value.splits)
qed

lemma cached_user:
  assumes "run_state (checkUserCache i) c = (Inr u, c')" and "cache_agrees X users c"
  shows "\<exists>r \<in> set users. i = uuid_text X (us_ID r) \<and> uv_Id (cu_User u) = i \<and> uv_Username (cu_User u) = us_Username r \<and>
    uv_Email (cu_User u) = us_Email r \<and> cu_HashedPassword u = us_Password r"
proof -
  obtain d v where d: "run_state (rd_hgetall (redisUserKeyPrefix @ i)) c = (Inr d, v)" "mapToUser d = Inr u"
    using assms(1) by (auto simp: checkUserCache_def attempt_Inr attempt_pure_Inr simp del: run_attempt run_attempt_pure)
  have "d \<noteq> []" using d(2) by (auto simp: mapToUser_def map_get_def parse_no_int)
  then have "key_agrees X users (redisUserKeyPrefix @ i) (RHash d)"
    using hgetall_value [OF d(1)] assms(2) holds_lookup by (fastforce simp: cache_agrees_holds)
  then have "hash_agrees X users i d" by (simp add: key_agrees_def)
  then show ?thesis using d(2) by (auto simp: hash_agrees_def mapToUser_def split: option.splits)
qed

lemma email_key:
  "run_state (checkUserIDByEmailCache m) c = (Inr i, v) \<Longrightarrow> run_state (rd_get (redisEmailToUserIDKeyPrefix @ m)) c = (Inr (RText i), v)"
  by (auto simp: checkUserIDByEmailCache_def split: prod.splits sum.splits redis_value.splits)

lemma cached_by_email:
  assumes "run_state (getUserFromCacheByEmail m) c = (Inr u, c')" and "cache_agrees X users c"
    and "distinct (map us_ID users)" and "uuid_round_trip X"
  shows "\<exists>r \<in> set users. us_Email r = m \<and> uv_Id (cu_User u) = uuid_text X (us_ID r) \<and>
    uv_Username (cu_User u) = us_Username r \<and> uv_Email (cu_User u) = m \<and> cu_HashedPassword u = us_Password r"
proof -
  obtain i v where i: "run_state (rd_get (redisEmailToUserIDKeyPrefix @ m)) c = (Inr (RText i), v)"
    and u: "run_state (checkUserCache i) v = (Inr u, c')"
    using assms(1) by (auto simp: getUserFromCacheByEmail_def attempt_Inr dest!: email_key simp del: run_attempt)
  note g = get_value [OF i]
  have "cache_agrees X users v" using g assms(2) by (simp add: cache_agrees_holds)
  from cached_user [OF u this] obtain r where r: "r \<in> set users" "i = uuid_text X (us_ID r)" "uv_Id (cu_User u) = i"
    "uv_Username (cu_User u) = us_Username r" "uv_Email (cu_User u) = us_Email r" "cu_HashedPassword u = us_Password r"
    by blast
  have "key_agrees X users (redisEmailToUserIDKeyPrefix @ m) (RText i)"
    using g assms(2) holds_lookup by (fastforce simp: cache_agrees_holds)
  then obtain r' where r': "r' \<in> set users" "us_Email r' = m" "i = uuid_text X (us_ID r')" by (auto simp: key_agrees_def)
  have "us_ID r' = us_ID r" using r(2) r'(3) assms(4) unfolding uuid_round_trip_def by (metis sum.inject(2))
  then have "r' = r" using assms(3) r(1) r'(1) by (auto simp: distinct_map dest: inj_onD)
  then show ?thesis using r r' by blast
qed

lemma row_task:
  "r \<in> set users \<Longrightarrow> task_agrees X users (CacheUserTask (toGRPCUser X r) (us_Password r))"
  "r \<in> set users \<Longrightarrow> us_Email r = m \<Longrightarrow> task_agrees X users (CacheUserEmailTask (toGRPCUser X r) (us_Password r) m)"
  by auto

declare task_agrees.simps [simp del]

subsection \<open>Reachable states\<close>

text \<open>The service starts without cache; its handlers, its goroutines in any order and the loss of keys follow.\<close>

inductive user_reachable :: "ext \<Rightarrow> hasher \<Rightarrow> user_world \<Rightarrow> bool" for X H where
  start: "users_ok (uw_db w) \<Longrightarrow> rd_data (uw_redis w) = Map.empty \<Longrightarrow> uw_tasks w = [] \<Longrightarrow> user_reachable X H w"
| create: "user_reachable X H w \<Longrightarrow> run_state (CreateUser X H ctx creq) w = (cr, w') \<Longrightarrow> user_reachable X H w'"
| get: "user_reachable X H w \<Longrightarrow> run_state (GetUserByID X ctx greq) w = (gr, w') \<Longrightarrow> user_reachable X H w'"
| authorize: "user_reachable X H w \<Longrightarrow> run_state (AuthorizeUser X H ctx areq) w = (ar, w') \<Longrightarrow> user_reachable X H w'"
| task: "user_reachable X H w \<Longrightarrow> t \<in> set (uw_tasks w) \<Longrightarrow> run_state (run_user_task t) (uw_redis w) = (x, c) \<Longrightarrow>
    user_reachable X H (w\<lparr>uw_redis := c, uw_tasks := remove1 t (uw_tasks w)\<rparr>)"
| forget: "user_reachable X H w \<Longrightarrow> rd_data c \<subseteq>\<^sub>m rd_data (uw_redis w) \<Longrightarrow> user_reachable X H (w\<lparr>uw_redis := c\<rparr>)"

lemma user_okI:
  assumes "user_ok X w" and "set (ud_users (uw_db w)) \<subseteq> set (ud_users (uw_db w'))"
    and "users_ok (uw_db w) \<Longrightarrow> users_ok (uw_db w')" and "cache_agrees X (ud_users (uw_db w)) (uw_redis w')"
    and "\<forall>t \<in> set (uw_tasks w'). t \<in> set (uw_tasks w) \<or> task_agrees X (ud_users (uw_db w')) t"
  shows "user_ok X w'"
  using assms agrees_mono [OF assms(2)] unfolding user_ok_def by blast

lemma CreateUser_ok: "keeps (user_ok X) (CreateUser X H ctx req)"
proof (rule keepsI)
  fix w r w' assume ok: "user_ok X w" and run: "run_state (CreateUser X H ctx req) w = (r, w')"
  show "user_ok X w'"
  proof (cases "ctx = None \<and> (\<exists>h. create_hash H (trim_space (cur_Password req)) = Inr h)")
    case False
    then have "w' = w" using run by (auto simp: CreateUser_def split: option.splits sum.splits)
    then show ?thesis using ok by simp
  next
    case True
    then obtain h where h: "ctx = None" "create_hash H (trim_space (cur_Password req)) = Inr h" by blast
    obtain q d where q: "run_state (CreateUser_q \<lparr>cup_Username = trim_space (cur_Username req),
      cup_Email = trim_space (cur_Email req), cup_Password = h\<rparr>) (uw_db w) = (q, d)" by (rule run_pair)
    have w': "uw_db w' = d" "uw_redis w' = uw_redis w"
      "uw_tasks w' = uw_tasks w @ (case q of Inl _ \<Rightarrow> [] | Inr row \<Rightarrow> [CacheUserTask (toGRPCUser X row) h])"
      using run h q by (auto simp: CreateUser_def split: sum.splits)
    show ?thesis
    proof (rule user_okI [OF ok])
      show "cache_agrees X (ud_users (uw_db w)) (uw_redis w')" using ok by (simp add: w' user_ok_def)
      show "\<forall>t \<in> set (uw_tasks w'). t \<in> set (uw_tasks w) \<or> task_agrees X (ud_users (uw_db w')) t"
        using CreateUser_q_effect [OF q] row_task(1) by (fastforce simp: w' split: sum.splits)
    qed (use CreateUser_q_effect [OF q] in \<open>simp_all add: w'\<close>)
  qed
qed

lemma GetUserByID_ok: "keeps (user_ok X) (GetUserByID X ctx req)"
proof (rule keepsI)
  fix w r w' assume ok: "user_ok X w" and run: "run_state (GetUserByID X ctx req) w = (r, w')"
  obtain k c where k: "run_state (checkUserCache (gur_Id req)) (uw_redis w) = (k, c)" by (rule run_pair)
  have c: "cache_agrees X (ud_users (uw_db w)) c"
    by (rule keepsD [OF keeps_cache_reads(1) _ k]) (use ok in \<open>simp add: user_ok_def\<close>)
  have tables: "uw_redis w' \<in> {uw_redis w, c} \<and> ud_users (uw_db w') = ud_users (uw_db w) \<and>
      (\<forall>t \<in> set (uw_tasks w'). t \<in> set (uw_tasks w) \<or> task_agrees X (ud_users (uw_db w)) t)"
    using run k by (auto simp: GetUserByID_def dest!: GetUserByID_q_effect intro: row_task split: option.splits sum.splits prod.splits)
  show "user_ok X w'"
    by (rule user_okI [OF ok]) (use tables ok c in \<open>auto simp: user_ok_def users_ok_def\<close>)
qed

lemma AuthorizeUser_ok: "keeps (user_ok X) (AuthorizeUser X H ctx req)"
proof (rule keepsI)
  fix w r w' assume ok: "user_ok X w" and run: "run_state (AuthorizeUser X H ctx req) w = (r, w')"
  obtain k c where k: "run_state (getUserFromCacheByEmail (trim_space (aur_Email req))) (uw_redis w) = (k, c)" by (rule run_pair)
  have c: "cache_agrees X (ud_users (uw_db w)) c"
    by (rule keepsD [OF keeps_cache_reads(2) _ k]) (use ok in \<open>simp add: user_ok_def\<close>)
  have tables: "uw_redis w' \<in> {uw_redis w, c} \<and> ud_users (uw_db w') = ud_users (uw_db w) \<and>
      (\<forall>t \<in> set (uw_tasks w'). t \<in> set (uw_tasks w) \<or> task_agrees X (ud_users (uw_db w)) t)"
    using run k by (auto simp: AuthorizeUser_def Let_def dest!: getUserFromDatabase_effect intro: row_task split: option.splits sum.splits prod.splits)
  show "user_ok X w'"
    by (rule user_okI [OF ok]) (use tables ok c in \<open>auto simp: user_ok_def users_ok_def\<close>)
qed

lemma reachable_user_ok: "user_reachable X H w \<Longrightarrow> user_ok X w"
proof (induction rule: user_reachable.induct)
  case (start w)
  then show ?case by (simp add: user_ok_def cache_agrees_def)
next
  case (create w ctx creq cr w')
  then show ?case using CreateUser_ok keepsD by metis
next
  case (get w ctx greq gr w')
  then show ?case using GetUserByID_ok keepsD by metis
next
  case (authorize w ctx areq ar w')
  then show ?case using AuthorizeUser_ok keepsD by metis
next
  case (task w t x c)
  have "cache_agrees X (ud_users (uw_db w)) c"
    by (rule keepsD [OF keeps_task _ task(3)]) (use task in \<open>simp_all add: user_ok_def\<close>)
  then show ?case using task(4) set_remove1_subset [of t "uw_tasks w"] by (auto simp: user_ok_def)
next
  case (forget w c)
  then show ?case by (fastforce simp: user_ok_def cache_agrees_def map_le_def dom_def)
qed

subsection \<open>The properties\<close>

text \<open>C8. Who is authorised gave the password of the user: in every reachable state of table, cache and goroutines, an
  answer is the user with that address in the table, and the given password matches the hash the table stores.\<close>

theorem authorized_has_password:
  assumes "user_reachable X H w" and "uuid_round_trip X"
    and "run_state (AuthorizeUser X H ctx req) w = (Inr u, w')"
  shows "\<exists>r \<in> set (ud_users (uw_db w)). us_Email r = trim_space (aur_Email req) \<and>
    uv_Id u = uuid_text X (us_ID r) \<and> uv_Username u = us_Username r \<and> uv_Email u = us_Email r \<and>
    compare_hash H (trim_space (aur_Password req)) (us_Password r) = Inr True"
proof -
  have ok: "user_ok X w" by (rule reachable_user_ok [OF assms(1)])
  obtain k c where k: "run_state (getUserFromCacheByEmail (trim_space (aur_Email req))) (uw_redis w) = (k, c)" by (rule run_pair)
  have verified: "compare_hash H p h = Inr True" if "verifyPassword H p h = Inr x" for p h x
    using that by (auto simp: verifyPassword_def split: sum.splits if_splits)
  show ?thesis
  proof (cases k)
    case (Inl e)
    then obtain q d where q: "run_state (getUserFromDatabase X (trim_space (aur_Email req))) (uw_db w) = (q, d)" by (meson run_pair)
    obtain row where "q = Inr row" "u = toGRPCUser X row"
      "compare_hash H (trim_space (aur_Password req)) (us_Password row) = Inr True"
      using assms(3) k Inl q by (auto simp: AuthorizeUser_def Let_def dest: verified split: option.splits sum.splits)
    then show ?thesis using getUserFromDatabase_effect [OF q] by (auto simp: toGRPCUser_def)
  next
    case (Inr cu)
    have "\<exists>r \<in> set (ud_users (uw_db w)). us_Email r = trim_space (aur_Email req) \<and> uv_Id (cu_User cu) = uuid_text X (us_ID r) \<and>
        uv_Username (cu_User cu) = us_Username r \<and> uv_Email (cu_User cu) = trim_space (aur_Email req) \<and>
        cu_HashedPassword cu = us_Password r"
      by (rule cached_by_email [OF k [unfolded Inr] _ _ assms(2)]) (use ok in \<open>auto simp: user_ok_def users_ok_def\<close>)
    moreover have "u = cu_User cu" "compare_hash H (trim_space (aur_Password req)) (cu_HashedPassword cu) = Inr True"
      using assms(3) k Inr by (auto simp: AuthorizeUser_def Let_def dest: verified split: option.splits sum.splits)
    ultimately show ?thesis by auto
  qed
qed

lemma CreateUser_Inr:
  assumes "run_state (CreateUser X H ctx req) w = (Inr u, w')"
  shows "\<exists>row \<in> set (ud_users (uw_db w')). u = toGRPCUser X row \<and> us_Email row = trim_space (cur_Email req) \<and>
    create_hash H (trim_space (cur_Password req)) = Inr (us_Password row)"
proof -
  obtain h where h: "ctx = None" "create_hash H (trim_space (cur_Password req)) = Inr h"
    using assms by (auto simp: CreateUser_def split: option.splits sum.splits)
  obtain q d where q: "run_state (CreateUser_q \<lparr>cup_Username = trim_space (cur_Username req),
      cup_Email = trim_space (cur_Email req), cup_Password = h\<rparr>) (uw_db w) = (q, d)" by (rule run_pair)
  then obtain row where "q = Inr row" "u = toGRPCUser X row" "uw_db w' = d"
    using assms h by (auto simp: CreateUser_def split: sum.splits)
  then show ?thesis using CreateUser_q_effect [OF q] h by auto
qed

text \<open>A user of the table is authorised with the password their hash was made of, whatever the cache does, when the database
  answers.\<close>

lemma row_authorized:
  assumes "user_reachable X H w" and "uuid_round_trip X" and "row \<in> set (ud_users (uw_db w))"
    and "us_Email row = trim_space (aur_Email req)" and "compare_hash H (trim_space (aur_Password req)) (us_Password row) = Inr True"
    and "\<forall>n. fault_at (uw_db w) n = None" and "txn (uw_db w) = NoTx"
  shows "\<exists>u w'. run_state (AuthorizeUser X H None req) w = (Inr u, w') \<and>
    uv_Id u = uuid_text X (us_ID row) \<and> uv_Username u = us_Username row \<and> uv_Email u = us_Email row"
proof -
  let ?m = "trim_space (aur_Email req)"
  have ok: "user_ok X w" by (rule reachable_user_ok [OF assms(1)])
  then have d: "distinct (map us_ID (ud_users (uw_db w)))" "distinct (map us_Email (ud_users (uw_db w)))"
    by (simp_all add: user_ok_def users_ok_def)
  have only: "r = row" if "r \<in> set (ud_users (uw_db w))" "us_Email r = ?m" for r
    using inj_onD [of us_Email "set (ud_users (uw_db w))" r row] d(2) that assms(3,4) by (simp add: distinct_map)
  have pw: "verifyPassword H (trim_space (aur_Password req)) (us_Password row) = Inr ()" using assms(5) by (simp add: verifyPassword_def)
  obtain k c where k: "run_state (getUserFromCacheByEmail ?m) (uw_redis w) = (k, c)" by (rule run_pair)
  show ?thesis
  proof (cases k)
    case (Inl e)
    have "find (\<lambda>r. us_Email r = ?m) (ud_users (uw_db w)) \<noteq> None" using assms(3,4) by (auto simp: find_None_iff')
    then have "find (\<lambda>r. us_Email r = ?m) (ud_users (uw_db w)) = Some row"
      using only by (auto dest: find_Some_in)
    then have "run_state (getUserFromDatabase X ?m) (uw_db w) = (Inr row, (uw_db w)\<lparr>calls := Suc (calls (uw_db w))\<rparr>)"
      using assms(6,7) by (simp add: getUserFromDatabase_def GetUserByEmail_q_def run_query_row run_db_call)
    then have "\<exists>w'. run_state (AuthorizeUser X H None req) w = (Inr (toGRPCUser X row), w')"
      using k Inl pw by (simp add: AuthorizeUser_def Let_def)
    then show ?thesis by (auto simp: toGRPCUser_def)
  next
    case (Inr cu)
    have "\<exists>r \<in> set (ud_users (uw_db w)). us_Email r = ?m \<and> uv_Id (cu_User cu) = uuid_text X (us_ID r) \<and>
        uv_Username (cu_User cu) = us_Username r \<and> uv_Email (cu_User cu) = ?m \<and> cu_HashedPassword cu = us_Password r"
      by (rule cached_by_email [OF k [unfolded Inr] _ d(1) assms(2)]) (use ok in \<open>auto simp: user_ok_def\<close>)
    then have cu: "uv_Id (cu_User cu) = uuid_text X (us_ID row)" "uv_Username (cu_User cu) = us_Username row"
      "uv_Email (cu_User cu) = us_Email row" "cu_HashedPassword cu = us_Password row"
      using only assms(4) by auto
    then show ?thesis using k Inr pw by (simp add: AuthorizeUser_def Let_def)
  qed
qed

text \<open>A user who was created is authorised with the same address and password, whatever the cache does, when the
  database answers and the hashing accepts the password a hash was made of.\<close>

theorem created_user_authorized:
  assumes "user_reachable X H w" and "uuid_round_trip X"
    and "run_state (CreateUser X H ctx req) w = (Inr u, w')"
    and "\<forall>p h. create_hash H p = Inr h \<longrightarrow> compare_hash H p h = Inr True"
    and "\<forall>n. fault_at (uw_db w') n = None" and "txn (uw_db w') = NoTx"
  shows "\<exists>u' w''. run_state (AuthorizeUser X H None \<lparr>aur_Email = cur_Email req, aur_Password = cur_Password req\<rparr>) w' = (Inr u', w'') \<and>
    uv_Id u' = uv_Id u \<and> uv_Username u' = uv_Username u \<and> uv_Email u' = uv_Email u"
proof -
  obtain row where "row \<in> set (ud_users (uw_db w'))" "u = toGRPCUser X row" "us_Email row = trim_space (cur_Email req)"
    "compare_hash H (trim_space (cur_Password req)) (us_Password row) = Inr True"
    using CreateUser_Inr [OF assms(3)] assms(4) by blast
  then show ?thesis
    using row_authorized [OF user_reachable.create [OF assms(1,3)] assms(2), of row
        "\<lparr>aur_Email = cur_Email req, aur_Password = cur_Password req\<rparr>"] assms(5,6)
    by (simp add: toGRPCUser_def)
qed

subsection \<open>A sample\<close>

definition hasher_sample :: hasher where
  "hasher_sample = \<lparr>create_hash = (\<lambda>p. Inr (''#'' @ p)), compare_hash = (\<lambda>p h. Inr (h = ''#'' @ p))\<rparr>"

definition user_world_sample :: user_world where
  "user_world_sample = \<lparr>uw_db = \<lparr>calls = 0, fault_at = (\<lambda>n. None), clock_at = int, uuid_at = (\<lambda>n. 7), txn = NoTx, ud_users = []\<rparr>,
     uw_redis = \<lparr>rd_data = Map.empty, rd_calls = 0, rd_fault = (\<lambda>n. None), rd_clock = int\<rparr>, uw_tasks = []\<rparr>"

lemma user_sample_reachable: "user_reachable X H user_world_sample"
  by (rule user_reachable.start) (simp_all add: user_world_sample_def users_ok_def)

definition ann_created :: "(status + UserV1) \<times> user_world" where
  "ann_created = run_state (CreateUser sample_ext hasher_sample None
     \<lparr>cur_Username = ''ann'', cur_Email = '' a@b.c '', cur_Password = ''pw''\<rparr>) user_world_sample"

lemma ann_run:
  "\<exists>u w. run_state (CreateUser sample_ext hasher_sample None
     \<lparr>cur_Username = ''ann'', cur_Email = '' a@b.c '', cur_Password = ''pw''\<rparr>) user_world_sample = (Inr u, w) \<and>
     ann_created = (Inr u, w) \<and> fault_at (uw_db w) = (\<lambda>n. None) \<and> txn (uw_db w) = NoTx"
  by (simp add: ann_created_def CreateUser_def hasher_sample_def user_world_sample_def CreateUser_q_def insert_user_def
      run_query_row run_db_call Let_def)

theorem created_user_authorized_witness:
  "\<exists>u u' w''. fst ann_created = Inr u \<and> run_state (AuthorizeUser sample_ext hasher_sample None
     \<lparr>aur_Email = '' a@b.c '', aur_Password = ''pw''\<rparr>) (snd ann_created) = (Inr u', w'') \<and> uv_Id u' = uv_Id u"
proof -
  obtain u w where run: "run_state (CreateUser sample_ext hasher_sample None
     \<lparr>cur_Username = ''ann'', cur_Email = '' a@b.c '', cur_Password = ''pw''\<rparr>) user_world_sample = (Inr u, w)"
    "ann_created = (Inr u, w)" "fault_at (uw_db w) = (\<lambda>n. None)" "txn (uw_db w) = NoTx"
    using ann_run by blast
  have "\<forall>p h. create_hash hasher_sample p = Inr h \<longrightarrow> compare_hash hasher_sample p h = Inr True"
    by (simp add: hasher_sample_def)
  from created_user_authorized [OF user_sample_reachable sample_uuids run(1) this] run(3,4)
  obtain u' w'' where "run_state (AuthorizeUser sample_ext hasher_sample None
     \<lparr>aur_Email = '' a@b.c '', aur_Password = ''pw''\<rparr>) w = (Inr u', w'')" "uv_Id u' = uv_Id u" by auto
  then show ?thesis unfolding run(2) fst_conv snd_conv by blast
qed

lemma ann_authorized:
  "\<exists>u w'. run_state (AuthorizeUser sample_ext hasher_sample None \<lparr>aur_Email = ''a@b.c'', aur_Password = ''pw''\<rparr>)
     (user_world_sample\<lparr>uw_db := (uw_db user_world_sample)\<lparr>ud_users := [\<lparr>us_ID = 7, us_Username = ''ann'', us_Email = trim_space ''a@b.c'',
        us_Password = ''#'' @ trim_space ''pw'', us_CreatedAt = 0, us_UpdatedAt = None\<rparr>]\<rparr>\<rparr>) = (Inr u, w')"
  by (simp add: AuthorizeUser_def user_world_sample_def getUserFromCacheByEmail_def checkUserIDByEmailCache_def rd_get_def
      run_redis_call rd_lookup_def getUserFromDatabase_def GetUserByEmail_q_def run_query_row run_db_call verifyPassword_def
      hasher_sample_def Let_def)

theorem authorized_has_password_witness:
  "\<exists>u w'. run_state (AuthorizeUser sample_ext hasher_sample None \<lparr>aur_Email = ''a@b.c'', aur_Password = ''pw''\<rparr>)
     (user_world_sample\<lparr>uw_db := (uw_db user_world_sample)\<lparr>ud_users := [\<lparr>us_ID = 7, us_Username = ''ann'', us_Email = trim_space ''a@b.c'',
        us_Password = ''#'' @ trim_space ''pw'', us_CreatedAt = 0, us_UpdatedAt = None\<rparr>]\<rparr>\<rparr>) = (Inr u, w') \<and>
     uv_Id u = uuid_text sample_ext 7 \<and> uv_Username u = ''ann''"
proof -
  let ?w = "user_world_sample\<lparr>uw_db := (uw_db user_world_sample)\<lparr>ud_users := [\<lparr>us_ID = 7, us_Username = ''ann'', us_Email = trim_space ''a@b.c'',
        us_Password = ''#'' @ trim_space ''pw'', us_CreatedAt = 0, us_UpdatedAt = None\<rparr>]\<rparr>\<rparr>"
  obtain u w' where run: "run_state (AuthorizeUser sample_ext hasher_sample None \<lparr>aur_Email = ''a@b.c'', aur_Password = ''pw''\<rparr>) ?w = (Inr u, w')"
    using ann_authorized by blast
  have reach: "user_reachable sample_ext hasher_sample ?w"
    by (rule user_reachable.start) (simp_all add: user_world_sample_def users_ok_def)
  from authorized_has_password [OF reach sample_uuids run] run show ?thesis by simp
qed

end
