(* ===== verification/Web.thy ===== *)
theory Web
  imports Api Json
begin

text \<open>
  HTTP requests and responses, and the helpers of \<^verbatim>\<open>shared/web/response.go\<close>: the JSON responses, the problem
  documents, the check of a request's context, and the status of HTTP for a code of gRPC. A handler's
  effect on the response writer is the response it returns. The statuses of the services carry no
  details, so the list of details of a problem is always empty.
\<close>

subsection \<open>Requests and responses\<close>

record Claims =
  cl_Email :: string
  cl_Subject :: string
  cl_Issuer :: string
  cl_Audience :: "string list"
  cl_ExpiresAt :: "int option"
  cl_IssuedAt :: "int option"
  cl_NotBefore :: "int option"

text \<open>The body is the first JSON value of the request's body, if it starts with one; a header or a query parameter that is
  absent is the empty text. The claims are those the authentication has put into the context.\<close>

record http_request =
  hr_Method :: string
  hr_Path :: "string list"
  hr_PathValue :: "string \<Rightarrow> string"
  hr_Query :: "string \<Rightarrow> string"
  hr_Header :: "string \<Rightarrow> string"
  hr_Cookies :: "(string \<times> string) list"
  hr_RemoteAddr :: string
  hr_Body :: "json option"
  hr_Ctx :: "ctx_err option"
  hr_Claims :: "Claims option"

record ProblemDetail =
  pb_Type :: string
  pb_Title :: string
  pb_Status :: int
  pb_Detail :: string
  pb_Instance :: "string list"

record GRPCProblemDetail = ProblemDetail +
  pb_Details :: "unit list"

record UserResponse =
  ur_ID :: string
  ur_Username :: string
  ur_Email :: string

datatype payload =
    PUserResponse UserResponse | PMessage string
  | PCart GetCartResponse | PAdded AddProductToCartResponse | POrder OrderV1 | PUser UserV1
  | PProduct ProductV1 | PProducts "ProductV1 list" | PCategory ProductCategoryV1 | PCategories "ProductCategoryV1 list"
  | PFound "json list"

datatype body = NoBody | JsonBody payload | ProblemBody ProblemDetail | GRPCProblemBody GRPCProblemDetail | TextBody string

record cookie =
  ck_Name :: string
  ck_Value :: string
  ck_HttpOnly :: bool
  ck_Secure :: bool
  ck_Expires :: int
  ck_MaxAge :: int

record http_response =
  rs_Status :: int
  rs_Header :: "(string \<times> string) list"
  rs_Cookies :: "cookie list"
  rs_Body :: body

definition respond :: "int \<Rightarrow> (string \<times> string) list \<Rightarrow> body \<Rightarrow> http_response" where
  "respond st h b = \<lparr>rs_Status = st, rs_Header = h, rs_Cookies = [], rs_Body = b\<rparr>"

text \<open>\<^verbatim>\<open>http.Error\<close>: a line of text. Headers that it sets after the status was written have no effect.\<close>

definition error_line :: "string \<Rightarrow> body" where
  "error_line t = TextBody (t @ [CHR 0x0A])"

definition http_error :: "int \<Rightarrow> string \<Rightarrow> http_response" where
  "http_error st t = respond st [(''Content-Type'', ''text/plain; charset=utf-8''), (''X-Content-Type-Options'', ''nosniff'')] (error_line t)"

subsection \<open>Responses\<close>

text \<open>\<^verbatim>\<open>protojson\<close> writes every message; \<^verbatim>\<open>encoding/json\<close>, which writes the lists, has no text for an infinite
  price and for \<^verbatim>\<open>NaN\<close>.\<close>

definition encodes :: "payload \<Rightarrow> bool" where
  "encodes p = (case p of PProducts ps \<Rightarrow> \<forall>q \<in> set ps. enc_float (prv_Price q) \<noteq> None | _ \<Rightarrow> True)"

text \<open>The status is written before the payload is encoded: an encoding error cannot change it any more.\<close>

definition RespondWithJSON :: "int \<Rightarrow> payload option \<Rightarrow> http_response" where
  "RespondWithJSON st payload = respond st [(''Content-Type'', ''application/json'')] (case payload of
     None \<Rightarrow> NoBody
   | Some p \<Rightarrow> if encodes p then JsonBody p else error_line ''failed to encode response'')"

definition getErrorDocumentationLink :: "int \<Rightarrow> string" where
  "getErrorDocumentationLink st = (
     if st = 400 then ''https://tools.ietf.org/html/rfc7231#section-6.5.1''
     else if st = 401 then ''https://tools.ietf.org/html/rfc7235#section-3.1''
     else if st = 403 then ''https://tools.ietf.org/html/rfc7231#section-6.5.3''
     else if st = 404 then ''https://tools.ietf.org/html/rfc7231#section-6.5.4''
     else if st = 500 then ''https://tools.ietf.org/html/rfc7231#section-6.6.1''
     else if st = 503 then ''https://tools.ietf.org/html/rfc7231#section-6.6.4''
     else if st = 408 then ''https://tools.ietf.org/html/rfc7231#section-6.5.7''
     else if st = 409 then ''https://tools.ietf.org/html/rfc7231#section-6.5.8''
     else if st = 429 then ''https://tools.ietf.org/html/rfc6585#section-4''
     else if st = 501 then ''https://tools.ietf.org/html/rfc7231#section-6.6.2''
     else if st = 504 then ''https://tools.ietf.org/html/rfc7231#section-6.6.3''
     else if st = 502 then ''https://tools.ietf.org/html/rfc7231#section-6.6.3''
     else if st = 499 then ''https://httpstatuses.com/499''
     else ''about:blank'')"

definition RespondWithError :: "http_request \<Rightarrow> int \<Rightarrow> string \<Rightarrow> string \<Rightarrow> http_response" where
  "RespondWithError r st title detail = respond st [(''Content-Type'', ''application/problem+json'')] (ProblemBody
     \<lparr>pb_Type = getErrorDocumentationLink st, pb_Title = title, pb_Status = st, pb_Detail = detail,
      pb_Instance = hr_Path r\<rparr>)"

fun HTTPStatusFromGRPC :: "code \<Rightarrow> int" where
  "HTTPStatusFromGRPC OK = 200"
| "HTTPStatusFromGRPC Canceled = 499"
| "HTTPStatusFromGRPC Unknown = 500"
| "HTTPStatusFromGRPC InvalidArgument = 400"
| "HTTPStatusFromGRPC DeadlineExceeded = 504"
| "HTTPStatusFromGRPC NotFound = 404"
| "HTTPStatusFromGRPC AlreadyExists = 409"
| "HTTPStatusFromGRPC PermissionDenied = 403"
| "HTTPStatusFromGRPC ResourceExhausted = 429"
| "HTTPStatusFromGRPC FailedPrecondition = 400"
| "HTTPStatusFromGRPC Aborted = 409"
| "HTTPStatusFromGRPC OutOfRange = 400"
| "HTTPStatusFromGRPC Unimplemented = 501"
| "HTTPStatusFromGRPC Internal = 500"
| "HTTPStatusFromGRPC Unavailable = 503"
| "HTTPStatusFromGRPC DataLoss = 500"
| "HTTPStatusFromGRPC Unauthenticated = 401"
| "HTTPStatusFromGRPC (OtherCode n) = 500"

text \<open>The message of an internal error is not shown to the client.\<close>

definition RespondWithGRPCError :: "http_request \<Rightarrow> status \<Rightarrow> http_response" where
  "RespondWithGRPCError r s = (let st = HTTPStatusFromGRPC (st_code s) in
     respond st [(''Content-Type'', ''application/problem+json'')] (GRPCProblemBody
       (if st \<noteq> 500
        then \<lparr>pb_Type = getErrorDocumentationLink st, pb_Title = st_msg s, pb_Status = st, pb_Detail = st_msg s,
          pb_Instance = hr_Path r, pb_Details = []\<rparr>
        else \<lparr>pb_Type = getErrorDocumentationLink st, pb_Title = ''Internal Server Error'', pb_Status = st,
          pb_Detail = ''an internal server error occurred'', pb_Instance = hr_Path r, pb_Details = []\<rparr>)))"

text \<open>\<open>None\<close>: the context is live; otherwise the response that has been written.\<close>

definition CheckContext :: "http_request \<Rightarrow> http_response option" where
  "CheckContext r = (case hr_Ctx r of
     None \<Rightarrow> None
   | Some CtxCanceled \<Rightarrow> Some (RespondWithError r 499 ''Request Canceled'' ''the request was canceled by the client'')
   | Some CtxDeadlineExceeded \<Rightarrow> Some (RespondWithError r 504 ''Deadline Exceeded'' ''the request deadline was exceeded'')
   | Some (CtxOther t) \<Rightarrow> Some (RespondWithError r 500 ''Internal Server Error'' ''an internal server error occurred''))"

subsection \<open>What a client sees of an error\<close>

lemma rs_status_simps [simp]:
  "rs_Status (respond st h b) = st" "rs_Status (RespondWithJSON st p) = st" "rs_Status (RespondWithError r st t d) = st"
  "rs_Status (RespondWithGRPCError r s) = HTTPStatusFromGRPC (st_code s)"
  "rs_Cookies (respond st h b) = []" "rs_Cookies (RespondWithJSON st p) = []"
  by (simp_all add: respond_def RespondWithJSON_def RespondWithError_def RespondWithGRPCError_def Let_def)

lemma HTTPStatus_error: "c \<noteq> OK \<Longrightarrow> 400 \<le> HTTPStatusFromGRPC c \<and> HTTPStatusFromGRPC c < 600"
  by (cases c) simp_all

text \<open>The response to a status that is internal says nothing about it.\<close>

lemma internal_hidden:
  "HTTPStatusFromGRPC (st_code s) = 500 \<Longrightarrow> HTTPStatusFromGRPC (st_code s') = 500 \<Longrightarrow>
     RespondWithGRPCError r s = RespondWithGRPCError r s'"
  by (simp add: RespondWithGRPCError_def Let_def)

end
