(* ===== verification/Jwt.thy ===== *)
theory Jwt
  imports Web UserService
begin

text \<open>
  The tokens of \<^verbatim>\<open>shared/auth/jwt.go\<close>. The library that signs and parses them is not in the repository: it is the record
  \<open>jwt_lib\<close>, with the types \<open>'s\<close> and \<open>'p\<close> of the private and the public key, and \<open>jwt_documented\<close> states what the code
  relies on. Times are in nanoseconds.
\<close>

datatype jwt_error =
    ErrTokenExpired | ErrTokenNotValidYet | ErrTokenInvalidIssuer | ErrTokenInvalidAudience
  | ErrTokenInvalidClaims | OtherJwtError string

datatype jwt_alg = ES256 | OtherECDSA string | OtherAlg string

record jwt_options =
  jo_methods :: "string list"
  jo_issuer :: string
  jo_audience :: string
  jo_leeway :: int
  jo_now :: int

text \<open>\<open>jl_parse\<close> gets the function that gives the key for the method of the token; a list of errors are those
  \<^verbatim>\<open>errors.Is\<close> finds in the error.\<close>

record ('s, 'p) jwt_lib =
  jl_date :: "int \<Rightarrow> int"
  jl_sign :: "'s \<Rightarrow> Claims \<Rightarrow> string + string"
  jl_parse :: "jwt_options \<Rightarrow> (jwt_alg \<Rightarrow> string + 'p) \<Rightarrow> string \<Rightarrow> jwt_error list + Claims \<times> bool"

record ('s, 'p) JWTManager =
  jm_privateKey :: 's
  jm_publicKey :: 'p
  jm_issuer :: string
  jm_audience :: string
  jm_ttl :: int
  jm_leeway :: int

text \<open>The keys are already parsed here; the leeway is 30 seconds.\<close>

definition NewJWTManager ::
  "string + 's \<Rightarrow> string + 'p \<Rightarrow> string \<Rightarrow> string \<Rightarrow> int \<Rightarrow> go_error + ('s, 'p) JWTManager" where
  "NewJWTManager private public issuer audience ttl = (case private of
     Inl t \<Rightarrow> Inl (WrappedError ''could not parse private key'' (TextError t))
   | Inr s \<Rightarrow> (case public of
       Inl t \<Rightarrow> Inl (WrappedError ''could not parse public key'' (TextError t))
     | Inr p \<Rightarrow> Inr \<lparr>jm_privateKey = s, jm_publicKey = p, jm_issuer = issuer, jm_audience = audience, jm_ttl = ttl,
         jm_leeway = 30 * 10 ^ 9\<rparr>))"

definition WithLeeway :: "int \<Rightarrow> ('s, 'p) JWTManager \<Rightarrow> ('s, 'p) JWTManager" where
  "WithLeeway d j = (if 0 \<le> d then j\<lparr>jm_leeway := d\<rparr> else j)"

definition GenerateToken ::
  "('s, 'p) jwt_lib \<Rightarrow> ('s, 'p) JWTManager \<Rightarrow> int \<Rightarrow> string \<Rightarrow> string \<Rightarrow> go_error + string" where
  "GenerateToken L j time userID email =
     (case jl_sign L (jm_privateKey j) \<lparr>cl_Email = email, cl_Subject = userID, cl_Issuer = jm_issuer j,
         cl_Audience = [jm_audience j], cl_ExpiresAt = Some (jl_date L (time + jm_ttl j)),
         cl_IssuedAt = Some (jl_date L time), cl_NotBefore = Some (jl_date L time)\<rparr> of
        Inl t \<Rightarrow> Inl (WrappedError ''failed to sign token'' (TextError t))
      | Inr token \<Rightarrow> Inr token)"

text \<open>\<^verbatim>\<open>strings.ToLower\<close>; only ASCII letters can make the prefix it is compared with.\<close>

definition sanitizeBearer :: "string \<Rightarrow> string" where
  "sanitizeBearer s = (let t = trim_space s in
     if starts_with ''bearer '' (map lower_char t) then trim_space (drop 7 t) else t)"

definition classifyJWTError :: "jwt_error list \<Rightarrow> jwt_error list" where
  "classifyJWTError err =
     (if ErrTokenExpired \<in> set err then [ErrTokenExpired]
      else if ErrTokenNotValidYet \<in> set err then [ErrTokenNotValidYet]
      else if ErrTokenInvalidIssuer \<in> set err then [ErrTokenInvalidIssuer]
      else if ErrTokenInvalidAudience \<in> set err then [ErrTokenInvalidAudience]
      else err)"

definition token_key :: "('s, 'p) JWTManager \<Rightarrow> jwt_alg \<Rightarrow> string + 'p" where
  "token_key j alg = (case alg of OtherAlg t \<Rightarrow> Inl (''unexpected signing method: '' @ t) | _ \<Rightarrow> Inr (jm_publicKey j))"

definition ValidateToken ::
  "('s, 'p) jwt_lib \<Rightarrow> ('s, 'p) JWTManager \<Rightarrow> int \<Rightarrow> string \<Rightarrow> jwt_error list + Claims" where
  "ValidateToken L j time tokenString =
     (case jl_parse L \<lparr>jo_methods = [''ES256''], jo_issuer = jm_issuer j, jo_audience = jm_audience j,
         jo_leeway = jm_leeway j, jo_now = time\<rparr> (token_key j) (sanitizeBearer tokenString) of
        Inl err \<Rightarrow> Inl (classifyJWTError err)
      | Inr (claims, valid) \<Rightarrow> if valid then Inr claims else Inl [ErrTokenInvalidClaims])"

subsection \<open>What the library documents\<close>

text \<open>The text of a token: three parts in the alphabet of base64url, separated by dots.\<close>

definition token_char :: "char \<Rightarrow> bool" where
  "token_char c \<longleftrightarrow> (let n = of_char c :: nat in
     48 \<le> n \<and> n \<le> 57 \<or> 65 \<le> n \<and> n \<le> 90 \<or> 97 \<le> n \<and> n \<le> 122 \<or> n = 45 \<or> n = 95 \<or> n = 46)"

definition claim_errors :: "jwt_options \<Rightarrow> Claims \<Rightarrow> jwt_error list" where
  "claim_errors opts c =
     (case cl_ExpiresAt c of Some e \<Rightarrow> if e + jo_leeway opts \<le> jo_now opts then [ErrTokenExpired] else [] | None \<Rightarrow> []) @
     (case cl_NotBefore c of Some b \<Rightarrow> if jo_now opts < b - jo_leeway opts then [ErrTokenNotValidYet] else [] | None \<Rightarrow> []) @
     (if jo_audience opts \<in> set (cl_Audience c) then [] else [ErrTokenInvalidAudience]) @
     (if cl_Issuer c = jo_issuer opts then [] else [ErrTokenInvalidIssuer])"

text \<open>Dates are cut to seconds; a token that was signed with the private key of a pair parses with the public key to the
  claims it was made of, if its dates, its audience and its issuer are right.\<close>

definition jwt_documented :: "('s, 'p) jwt_lib \<Rightarrow> 's \<Rightarrow> 'p \<Rightarrow> bool" where
  "jwt_documented L s p \<longleftrightarrow> (\<forall>t. jl_date L t = t - t mod 10 ^ 9) \<and>
     (\<forall>c token. jl_sign L s c = Inr token \<longrightarrow> list_all token_char token \<and>
        (\<forall>opts key. ''ES256'' \<in> set (jo_methods opts) \<longrightarrow> key ES256 = Inr p \<longrightarrow>
           jl_parse L opts key token =
             (if claim_errors opts c = [] then Inr (c, True) else Inl (claim_errors opts c))))"

subsection \<open>The text of a token\<close>

lemma spaces_no_token: "list_all (\<lambda>p. p \<noteq> [] \<and> \<not> token_char (hd p) \<and> \<not> token_char (last p)) spaces"
  by (simp add: spaces_def bytes_def token_char_def upt_rec)

lemma trim_left_ends:
  assumes "t \<noteq> []" and "token_char (hd t)" and "\<And>p. p \<in> set ps \<Longrightarrow> p \<noteq> [] \<and> \<not> token_char (hd p)"
  shows "trim_left ps t = t"
proof -
  have "\<not> starts_with p t" if p: "p \<in> set ps" for p
    using assms(1,2) assms(3) [OF p] by (cases p; cases t) (auto simp: starts_with_def)
  then have "find (\<lambda>p. p \<noteq> [] \<and> starts_with p t) ps = None" by (auto simp: find_None_iff')
  then show ?thesis by (simp add: trim_left.simps [of ps t])
qed

lemma trim_ends: "t \<noteq> [] \<Longrightarrow> token_char (hd t) \<Longrightarrow> token_char (last t) \<Longrightarrow> trim_space t = t"
proof -
  assume t: "t \<noteq> []" "token_char (hd t)" "token_char (last t)"
  have "trim_left spaces t = t" using spaces_no_token t by (intro trim_left_ends) (auto simp: list_all_iff)
  moreover have "trim_left (map rev spaces) (rev t) = rev t"
    using spaces_no_token t by (intro trim_left_ends) (auto simp: list_all_iff hd_rev)
  ultimately show ?thesis by (simp add: trim_space_def)
qed

lemma trim_token: "list_all token_char t \<Longrightarrow> trim_space t = t"
proof (cases "t = []")
  case True
  have "find (\<lambda>p. p \<noteq> [] \<and> starts_with p []) ps = None" for ps by (auto simp: find_None_iff' starts_with_def)
  then have "trim_left ps [] = []" for ps by (simp add: trim_left.simps [of ps "[]"])
  then show ?thesis using True by (simp add: trim_space_def)
qed (rule trim_ends, auto simp: list_all_iff)

lemma lower_space: "lower_char c = CHR '' '' \<Longrightarrow> \<not> token_char c"
proof
  assume "lower_char c = CHR '' ''" and "token_char c"
  then have "of_char (lower_char c) = (32 :: nat)" by simp
  then show False using \<open>token_char c\<close>
    by (auto simp: lower_char_def token_char_def Let_def of_char_of split: if_splits)
qed

lemma token_no_bearer: "list_all token_char t \<Longrightarrow> \<not> starts_with ''bearer '' (map lower_char t)"
proof
  assume t: "list_all token_char t" and "starts_with ''bearer '' (map lower_char t)"
  then have "take (length ''bearer '') (map lower_char t) = ''bearer ''" by (simp only: starts_with_def)
  then have "CHR '' '' \<in> set (take (length ''bearer '') (map lower_char t))" by (simp only:) simp
  then have "CHR '' '' \<in> lower_char ` set t" using in_set_takeD by fastforce
  then show False using t lower_space by (auto simp: list_all_iff)
qed

lemma sanitize_token: "list_all token_char t \<Longrightarrow> sanitizeBearer t = t"
  by (simp add: sanitizeBearer_def trim_token token_no_bearer)

subsection \<open>The property\<close>

lemma validate_generated:
  assumes "jwt_documented L (jm_privateKey j) (jm_publicKey j)"
    and "GenerateToken L j time user email = Inr token"
  shows "ValidateToken L j time' token =
    (if time + jm_ttl j - (time + jm_ttl j) mod 10 ^ 9 + jm_leeway j \<le> time' then Inl [ErrTokenExpired]
     else if time' < time - time mod 10 ^ 9 - jm_leeway j then Inl [ErrTokenNotValidYet]
     else Inr \<lparr>cl_Email = email, cl_Subject = user, cl_Issuer = jm_issuer j, cl_Audience = [jm_audience j],
       cl_ExpiresAt = Some (time + jm_ttl j - (time + jm_ttl j) mod 10 ^ 9),
       cl_IssuedAt = Some (time - time mod 10 ^ 9), cl_NotBefore = Some (time - time mod 10 ^ 9)\<rparr>)"
proof -
  have date: "jl_date L t = t - t mod 10 ^ 9" for t using assms(1) by (simp add: jwt_documented_def)
  let ?c = "\<lparr>cl_Email = email, cl_Subject = user, cl_Issuer = jm_issuer j, cl_Audience = [jm_audience j],
       cl_ExpiresAt = Some (time + jm_ttl j - (time + jm_ttl j) mod 10 ^ 9),
       cl_IssuedAt = Some (time - time mod 10 ^ 9), cl_NotBefore = Some (time - time mod 10 ^ 9)\<rparr>"
  let ?o = "\<lparr>jo_methods = [''ES256''], jo_issuer = jm_issuer j, jo_audience = jm_audience j,
         jo_leeway = jm_leeway j, jo_now = time'\<rparr>"
  have sign: "jl_sign L (jm_privateKey j) ?c = Inr token"
    using assms(2) by (auto simp: GenerateToken_def date split: sum.splits)
  have chars: "list_all token_char token" and parse: "jl_parse L ?o (token_key j) token =
      (if claim_errors ?o ?c = [] then Inr (?c, True) else Inl (claim_errors ?o ?c))"
    using assms(1) sign by (simp_all add: jwt_documented_def token_key_def)
  then show ?thesis
    by (simp add: ValidateToken_def sanitize_token) (simp add: claim_errors_def classifyJWTError_def)
qed

text \<open>C28. A token that was generated for a user is accepted, with that user and address, exactly from its date less the
  leeway until its expiry plus the leeway; before it is not valid yet, after it has expired.\<close>

theorem issued_token_window:
  assumes "jwt_documented L (jm_privateKey j) (jm_publicKey j)"
    and "GenerateToken L j time user email = Inr token"
  shows "ValidateToken L j time' token =
    (if time + jm_ttl j - (time + jm_ttl j) mod 10 ^ 9 + jm_leeway j \<le> time' then Inl [ErrTokenExpired]
     else if time' < time - time mod 10 ^ 9 - jm_leeway j then Inl [ErrTokenNotValidYet]
     else Inr \<lparr>cl_Email = email, cl_Subject = user, cl_Issuer = jm_issuer j, cl_Audience = [jm_audience j],
       cl_ExpiresAt = Some (time + jm_ttl j - (time + jm_ttl j) mod 10 ^ 9),
       cl_IssuedAt = Some (time - time mod 10 ^ 9), cl_NotBefore = Some (time - time mod 10 ^ 9)\<rparr>)"
  using validate_generated [OF assms] .

subsection \<open>A sample\<close>

text \<open>A library that signs one set of claims, and a manager with a lifetime of a minute.\<close>

definition claims_sample :: Claims where
  "claims_sample = \<lparr>cl_Email = ''a@b.c'', cl_Subject = ''7'', cl_Issuer = ''gateway'', cl_Audience = [''shop''],
     cl_ExpiresAt = Some (60 * 10 ^ 9), cl_IssuedAt = Some 0, cl_NotBefore = Some 0\<rparr>"

definition jwt_sample :: "(unit, unit) jwt_lib" where
  "jwt_sample = \<lparr>jl_date = (\<lambda>t. t - t mod 10 ^ 9), jl_sign = (\<lambda>s c. if c = claims_sample then Inr ''h.c.s'' else Inl ''no''),
     jl_parse = (\<lambda>opts key token. if token = ''h.c.s'' then
        (if claim_errors opts claims_sample = [] then Inr (claims_sample, True) else Inl (claim_errors opts claims_sample))
        else Inl [OtherJwtError ''malformed''])\<rparr>"

definition manager_sample :: "(unit, unit) JWTManager" where
  "manager_sample = \<lparr>jm_privateKey = (), jm_publicKey = (), jm_issuer = ''gateway'', jm_audience = ''shop'',
     jm_ttl = 60 * 10 ^ 9, jm_leeway = 30 * 10 ^ 9\<rparr>"

lemma jwt_sample_documented: "jwt_documented jwt_sample s p"
  by (simp add: jwt_documented_def jwt_sample_def token_char_def)

lemma jwt_sample_token: "GenerateToken jwt_sample manager_sample 0 ''7'' ''a@b.c'' = Inr ''h.c.s''"
  by (simp add: GenerateToken_def jwt_sample_def manager_sample_def claims_sample_def)

theorem issued_token_window_witness:
  "ValidateToken jwt_sample manager_sample (89 * 10 ^ 9) ''h.c.s'' = Inr claims_sample \<and>
   ValidateToken jwt_sample manager_sample (90 * 10 ^ 9) ''h.c.s'' = Inl [ErrTokenExpired]"
  using issued_token_window [OF jwt_sample_documented jwt_sample_token]
  by (simp add: manager_sample_def claims_sample_def)

end
