(* ===== verification/Gateway.thy ===== *)
theory Gateway
  imports Jwt
begin

text \<open>
  The handlers of the API gateway (\<^verbatim>\<open>api-gateway/internal/handlers\<close>). A handler turns a request into a call of one
  of the services and the answer into a response; the clients of the services run on a state \<open>'c\<close>.
  \<open>env\<close> is \<^verbatim>\<open>os.Getenv\<close>, and \<open>time\<close> what the clock shows.
\<close>

record 'c GRPCClient =
  gw_CreateUser :: "CreateUserRequest \<Rightarrow> ('c, go_error + UserV1) state"
  gw_GetUserByID :: "GetUserByIDRequest \<Rightarrow> ('c, go_error + UserV1) state"
  gw_AuthorizeUser :: "AuthorizeUserRequest \<Rightarrow> ('c, go_error + UserV1) state"
  gw_CreateProduct :: "CreateProductRequest \<Rightarrow> ('c, go_error + ProductV1) state"
  gw_GetProduct :: "GetProductRequest \<Rightarrow> ('c, go_error + ProductV1) state"
  gw_ListProducts :: "ListProductsRequest \<Rightarrow> ('c, go_error + ProductV1 list) state"
  gw_UpdateProduct :: "UpdateProductRequest \<Rightarrow> ('c, go_error + ProductV1) state"
  gw_DeleteProduct :: "DeleteProductRequest \<Rightarrow> ('c, go_error + unit) state"
  gw_GetProductsByCategoryID :: "GetProductsByCategoryIDRequest \<Rightarrow> ('c, go_error + ProductV1 list) state"
  gw_GetProductCategories :: "('c, go_error + ProductCategoryV1 list) state"
  gw_CreateProductCategory :: "CreateProductCategoryRequest \<Rightarrow> ('c, go_error + ProductCategoryV1) state"
  gw_UpdateProductCategory :: "UpdateProductCategoryRequest \<Rightarrow> ('c, go_error + unit) state"
  gw_DeleteProductCategory :: "DeleteProductCategoryRequest \<Rightarrow> ('c, go_error + unit) state"
  gw_GetCart :: "GetCartRequest \<Rightarrow> ('c, go_error + GetCartResponse) state"
  gw_AddProductToCart :: "AddProductToCartRequest \<Rightarrow> ('c, go_error + AddProductToCartResponse) state"
  gw_RemoveProductFromCart :: "RemoveProductFromCartRequest \<Rightarrow> ('c, go_error + unit) state"
  gw_ClearCart :: "ClearCartRequest \<Rightarrow> ('c, go_error + unit) state"
  gw_DeleteCart :: "DeleteCartRequest \<Rightarrow> ('c, go_error + unit) state"
  gw_CreateOrder :: "CreateOrderRequest \<Rightarrow> ('c, go_error + OrderV1) state"

type_synonym 'c handler = "http_request \<Rightarrow> ('c, http_response) state"

subsection \<open>Shared steps\<close>

text \<open>\<^verbatim>\<open>status.FromError\<close>: the status, and whether the error is one.\<close>

fun is_status :: "go_error \<Rightarrow> bool" where
  "is_status (StatusError s) = True"
| "is_status (WrappedError t e) = is_status e"
| "is_status _ = False"

text \<open>\<^verbatim>\<open>json.NewDecoder(r.Body).Decode(&req)\<close> or the response for a bad body.\<close>

definition decode_body ::
  "ext \<Rightarrow> http_request \<Rightarrow> 'a decoder \<Rightarrow> 'a \<Rightarrow> ('a \<Rightarrow> ('c, http_response) state) \<Rightarrow> ('c, http_response) state" where
  "decode_body X r d zero k = (case unmarshal d zero (hr_Body r) of
     Inl e \<Rightarrow> State_Monad.return (RespondWithError r 400 ''Invalid Request Body'' (err_text X e))
   | Inr req \<Rightarrow> k req)"

text \<open>A call of a client whose error becomes a problem document of its status.\<close>

definition call_grpc ::
  "ext \<Rightarrow> http_request \<Rightarrow> ('c, go_error + 'a) state \<Rightarrow> ('a \<Rightarrow> http_response) \<Rightarrow> ('c, http_response) state" where
  "call_grpc X r m k = do {
     x \<leftarrow> m;
     State_Monad.return (case x of Inl e \<Rightarrow> RespondWithGRPCError r (status_convert X e) | Inr y \<Rightarrow> k y) }"

text \<open>The same with a response of its own for an error that is no status.\<close>

definition call_grpc_or ::
  "ext \<Rightarrow> http_request \<Rightarrow> string \<Rightarrow> (go_error \<Rightarrow> string) \<Rightarrow> ('c, go_error + 'a) state \<Rightarrow> ('a \<Rightarrow> http_response) \<Rightarrow>
   ('c, http_response) state" where
  "call_grpc_or X r title detail m k = do {
     x \<leftarrow> m;
     State_Monad.return (case x of
       Inl e \<Rightarrow> if is_status e then RespondWithGRPCError r (status_convert X e) else RespondWithError r 500 title (detail e)
     | Inr y \<Rightarrow> k y) }"

text \<open>The claims of the request or the response without them.\<close>

definition with_claims :: "http_request \<Rightarrow> (Claims \<Rightarrow> ('c, http_response) state) \<Rightarrow> ('c, http_response) state" where
  "with_claims r k = (case hr_Claims r of
     None \<Rightarrow> State_Monad.return (RespondWithError r 401 ''Unauthorized'' ''user claims not found'') | Some c \<Rightarrow> k c)"

definition no_content :: http_response where
  "no_content = respond 204 [] NoBody"

subsection \<open>Authentication and users\<close>

record LoginRequest =
  lr_Email :: string
  lr_Password :: string

definition into_login :: "LoginRequest decoder" where
  "into_login = into_struct
     [(''email'', fld into_string lr_Email (\<lambda>x. lr_Email_update (\<lambda>_. x))),
      (''password'', fld into_string lr_Password (\<lambda>x. lr_Password_update (\<lambda>_. x)))]"

definition auth_cookie :: "(string \<Rightarrow> string) \<Rightarrow> string \<Rightarrow> int \<Rightarrow> int \<Rightarrow> cookie" where
  "auth_cookie env v expires maxAge = \<lparr>ck_Name = env ''COOKIE_AUTH_NAME'', ck_Value = v, ck_HttpOnly = True,
     ck_Secure = (env ''ENV'' = ''prod''), ck_Expires = expires, ck_MaxAge = maxAge\<rparr>"

definition whole_seconds :: "int \<Rightarrow> int" where
  "whole_seconds d = (if 0 \<le> d then d div 10 ^ 9 else - (- d div 10 ^ 9))"

text \<open>The code reads the clock for the token and again for the cookie; \<open>time\<close> is both readings here.\<close>

definition LoginHandler ::
  "ext \<Rightarrow> ('s, 'p) jwt_lib \<Rightarrow> ('s, 'p) JWTManager \<Rightarrow> (string \<Rightarrow> string) \<Rightarrow> int \<Rightarrow> 'c GRPCClient \<Rightarrow> 'c handler" where
  "LoginHandler X L j env time C r =
     decode_body X r into_login \<lparr>lr_Email = [], lr_Password = []\<rparr> (\<lambda>req.
     call_grpc_or X r ''Failed to authorize user'' (err_text X)
       (gw_AuthorizeUser C \<lparr>aur_Email = lr_Email req, aur_Password = lr_Password req\<rparr>) (\<lambda>res.
     let user = \<lparr>ur_ID = uv_Id res, ur_Username = uv_Username res, ur_Email = uv_Email res\<rparr> in
     case GenerateToken L j time (ur_ID user) (ur_Email user) of
       Inl e \<Rightarrow> RespondWithError r 500 ''Internal Server Error'' ''Failed to generate authentication token.''
     | Inr token \<Rightarrow> (RespondWithJSON 200 (Some (PUserResponse user)))
         \<lparr>rs_Cookies := [auth_cookie env token (time + jm_ttl j) (whole_seconds (jm_ttl j))]\<rparr>))"

definition LogoutHandler :: "(string \<Rightarrow> string) \<Rightarrow> int \<Rightarrow> 'c handler" where
  "LogoutHandler env time r = State_Monad.return ((RespondWithJSON 200 (Some (PMessage ''Logged out successfully'')))
     \<lparr>rs_Cookies := [auth_cookie env [] (time - 10 ^ 9) (- 1)]\<rparr>)"

definition into_create_user :: "CreateUserRequest decoder" where
  "into_create_user = into_struct
     [(''username'', fld into_string cur_Username (\<lambda>x. cur_Username_update (\<lambda>_. x))),
      (''email'', fld into_string cur_Email (\<lambda>x. cur_Email_update (\<lambda>_. x))),
      (''password'', fld into_string cur_Password (\<lambda>x. cur_Password_update (\<lambda>_. x)))]"

text \<open>Every error of the service is a 500 here, with the service's message.\<close>

definition CreateUserHandler :: "ext \<Rightarrow> 'c GRPCClient \<Rightarrow> 'c handler" where
  "CreateUserHandler X C r =
     decode_body X r into_create_user \<lparr>cur_Username = [], cur_Email = [], cur_Password = []\<rparr> (\<lambda>req. do {
     x \<leftarrow> gw_CreateUser C \<lparr>cur_Username = cur_Username req, cur_Email = cur_Email req, cur_Password = cur_Password req\<rparr>;
     State_Monad.return (case x of
       Inl e \<Rightarrow> RespondWithError r 500 ''Failed to create user'' (st_msg (status_convert X e))
     | Inr _ \<Rightarrow> RespondWithJSON 201 None) })"

definition GetUserByIDHandler :: "ext \<Rightarrow> 'c GRPCClient \<Rightarrow> 'c handler" where
  "GetUserByIDHandler X C r =
     call_grpc_or X r ''Failed to get user'' (err_text X) (gw_GetUserByID C \<lparr>gur_Id = hr_PathValue r ''id''\<rparr>)
       (\<lambda>res. RespondWithJSON 200 (Some (PUser res)))"

subsection \<open>Products\<close>

record ProductRequest =
  prq_CategoryID :: string
  prq_Name :: string
  prq_Description :: string
  prq_Price :: float64
  prq_StockQuantity :: int32

definition zero_product_request :: ProductRequest where
  "zero_product_request = \<lparr>prq_CategoryID = [], prq_Name = [], prq_Description = [], prq_Price = Fin 0, prq_StockQuantity = 0\<rparr>"

definition into_product_request :: "ProductRequest decoder" where
  "into_product_request = into_struct
     [(''categoryId'', fld into_string prq_CategoryID (\<lambda>x. prq_CategoryID_update (\<lambda>_. x))),
      (''name'', fld into_string prq_Name (\<lambda>x. prq_Name_update (\<lambda>_. x))),
      (''description'', fld into_string prq_Description (\<lambda>x. prq_Description_update (\<lambda>_. x))),
      (''price'', fld into_float prq_Price (\<lambda>x. prq_Price_update (\<lambda>_. x))),
      (''stockQuantity'', fld into_int32 prq_StockQuantity (\<lambda>x. prq_StockQuantity_update (\<lambda>_. x)))]"

definition CreateProductHandler :: "ext \<Rightarrow> 'c GRPCClient \<Rightarrow> 'c handler" where
  "CreateProductHandler X C r = decode_body X r into_product_request zero_product_request (\<lambda>req.
     call_grpc X r (gw_CreateProduct C \<lparr>cpr_CategoryId = prq_CategoryID req, cpr_Name = prq_Name req,
         cpr_Description = prq_Description req, cpr_Price = prq_Price req, cpr_StockQuantity = prq_StockQuantity req\<rparr>)
       (\<lambda>res. RespondWithJSON 201 (Some (PProduct res))))"

definition GetProductHandler :: "ext \<Rightarrow> 'c GRPCClient \<Rightarrow> 'c handler" where
  "GetProductHandler X C r = call_grpc X r (gw_GetProduct C \<lparr>gpq_Id = hr_PathValue r ''id''\<rparr>)
     (\<lambda>res. RespondWithJSON 200 (Some (PProduct res)))"

text \<open>\<^verbatim>\<open>limit, _ := strconv.Atoi(s)\<close>: a text that is no number is 0, one out of range is the nearest number; then the
  conversion to 32 bits wraps around.\<close>

definition atoi :: "string \<Rightarrow> int64" where
  "atoi s = (case parse_int 64 s of Some n \<Rightarrow> word_of_int n | None \<Rightarrow>
     (case signed_text s of (neg, ds) \<Rightarrow> (case parse_nat ds of
        Some n \<Rightarrow> word_of_int (if neg then - (2 ^ 63) else 2 ^ 63 - 1) | None \<Rightarrow> 0)))"

definition ListProductsHandler :: "ext \<Rightarrow> 'c GRPCClient \<Rightarrow> 'c handler" where
  "ListProductsHandler X C r = (
     let limit = atoi (hr_Query r ''limit''); offset = atoi (hr_Query r ''offset'');
       limit = (if sint limit \<le> 0 then 10 else limit); offset = (if sint offset < 0 then 0 else offset) in
     call_grpc X r (gw_ListProducts C \<lparr>lpr_Limit = int32_of limit, lpr_Offset = int32_of offset\<rparr>)
       (\<lambda>res. RespondWithJSON 200 (Some (PProducts res))))"

definition UpdateProductHandler :: "ext \<Rightarrow> 'c GRPCClient \<Rightarrow> 'c handler" where
  "UpdateProductHandler X C r = decode_body X r into_product_request zero_product_request (\<lambda>req.
     call_grpc X r (gw_UpdateProduct C \<lparr>upr_Id = hr_PathValue r ''id'', upr_CategoryId = prq_CategoryID req, upr_Name = prq_Name req,
         upr_Description = prq_Description req, upr_Price = prq_Price req, upr_StockQuantity = prq_StockQuantity req\<rparr>)
       (\<lambda>res. RespondWithJSON 200 (Some (PProduct res))))"

definition DeleteProductHandler :: "ext \<Rightarrow> 'c GRPCClient \<Rightarrow> 'c handler" where
  "DeleteProductHandler X C r = call_grpc X r (gw_DeleteProduct C \<lparr>dpr_Id = hr_PathValue r ''id''\<rparr>) (\<lambda>_. no_content)"

text \<open>This handler has a copy of the context check, with the status 408.\<close>

definition GetProductsByCategoryIDHandler :: "ext \<Rightarrow> 'c GRPCClient \<Rightarrow> 'c handler" where
  "GetProductsByCategoryIDHandler X C r = (case hr_Ctx r of
     Some CtxCanceled \<Rightarrow> State_Monad.return (RespondWithError r 408 ''Request Canceled'' ''the request was canceled by the client'')
   | Some CtxDeadlineExceeded \<Rightarrow> State_Monad.return (RespondWithError r 504 ''Deadline Exceeded'' ''the request deadline was exceeded'')
   | Some (CtxOther t) \<Rightarrow> State_Monad.return (RespondWithError r 500 ''Internal Server Error'' ''an internal server error occurred'')
   | None \<Rightarrow>
       if hr_PathValue r ''categoryId'' = []
       then State_Monad.return (RespondWithError r 400 ''Category ID is required'' ''missing category ID'')
       else call_grpc_or X r ''Internal Server Error'' (\<lambda>_. ''an internal server error occurred'')
         (gw_GetProductsByCategoryID C \<lparr>gpc_CategoryId = hr_PathValue r ''categoryId''\<rparr>)
         (\<lambda>res. RespondWithJSON 200 (Some (PProducts res))))"

subsection \<open>Product categories\<close>

definition into_create_category :: "CreateProductCategoryRequest decoder" where
  "into_create_category = into_struct
     [(''name'', fld into_string ccr_Name (\<lambda>x. ccr_Name_update (\<lambda>_. x))),
      (''description'', fld into_string ccr_Description (\<lambda>x. ccr_Description_update (\<lambda>_. x)))]"

definition into_update_category :: "UpdateProductCategoryRequest decoder" where
  "into_update_category = into_struct
     [(''id'', fld into_string ucr_Id (\<lambda>x. ucr_Id_update (\<lambda>_. x))),
      (''name'', fld into_string ucr_Name (\<lambda>x. ucr_Name_update (\<lambda>_. x))),
      (''description'', fld into_string ucr_Description (\<lambda>x. ucr_Description_update (\<lambda>_. x)))]"

text \<open>\<^verbatim>\<open>if !web.CheckContext(ctx, w, r, h.logger) { return }\<close>.\<close>

definition with_context :: "http_request \<Rightarrow> ('c, http_response) state \<Rightarrow> ('c, http_response) state" where
  "with_context r k = (case CheckContext r of Some resp \<Rightarrow> State_Monad.return resp | None \<Rightarrow> k)"

definition call_category ::
  "ext \<Rightarrow> http_request \<Rightarrow> ('c, go_error + 'a) state \<Rightarrow> ('a \<Rightarrow> http_response) \<Rightarrow> ('c, http_response) state" where
  "call_category X r = call_grpc_or X r ''Internal Server Error'' (\<lambda>_. ''an internal server error occurred'')"

text \<open>An empty list is written as one.\<close>

definition GetProductCategoriesHandler :: "ext \<Rightarrow> 'c GRPCClient \<Rightarrow> 'c handler" where
  "GetProductCategoriesHandler X C r = with_context r (call_category X r (gw_GetProductCategories C)
     (\<lambda>cs. RespondWithJSON 200 (Some (PCategories (if cs = [] then [] else cs)))))"

definition CreateProductCategoryHandler :: "ext \<Rightarrow> 'c GRPCClient \<Rightarrow> 'c handler" where
  "CreateProductCategoryHandler X C r = with_context r (
     decode_body X r into_create_category \<lparr>ccr_Name = [], ccr_Description = []\<rparr> (\<lambda>req.
     if ccr_Name req = [] then State_Monad.return (RespondWithError r 400 ''Validation Error'' ''name is required'')
     else call_category X r (gw_CreateProductCategory C \<lparr>ccr_Name = ccr_Name req, ccr_Description = ccr_Description req\<rparr>)
       (\<lambda>res. RespondWithJSON 201 (Some (PCategory res)))))"

definition UpdateProductCategoryHandler :: "ext \<Rightarrow> 'c GRPCClient \<Rightarrow> 'c handler" where
  "UpdateProductCategoryHandler X C r = with_context r (
     decode_body X r into_update_category \<lparr>ucr_Id = [], ucr_Name = [], ucr_Description = []\<rparr> (\<lambda>req.
     if ucr_Id req = [] \<or> ucr_Name req = []
     then State_Monad.return (RespondWithError r 400 ''Validation Error'' ''Category ID and name is required'')
     else call_category X r (gw_UpdateProductCategory C
         \<lparr>ucr_Id = ucr_Id req, ucr_Name = ucr_Name req, ucr_Description = ucr_Description req\<rparr>)
       (\<lambda>_. RespondWithJSON 204 None)))"

definition DeleteProductCategoryHandler :: "ext \<Rightarrow> 'c GRPCClient \<Rightarrow> 'c handler" where
  "DeleteProductCategoryHandler X C r = with_context r (
     if hr_PathValue r ''id'' = []
     then State_Monad.return (RespondWithError r 400 ''Validation Error'' ''category ID is required'')
     else call_category X r (gw_DeleteProductCategory C \<lparr>dlr_Id = hr_PathValue r ''id''\<rparr>)
       (\<lambda>_. RespondWithJSON 204 None))"

subsection \<open>Carts and orders\<close>

record AddProductBody =
  apb_ProductID :: string
  apb_Quantity :: int32

definition into_add_product :: "AddProductBody decoder" where
  "into_add_product = into_struct
     [(''productId'', fld into_string apb_ProductID (\<lambda>x. apb_ProductID_update (\<lambda>_. x))),
      (''quantity'', fld into_int32 apb_Quantity (\<lambda>x. apb_Quantity_update (\<lambda>_. x)))]"

definition GetCartHandler :: "ext \<Rightarrow> 'c GRPCClient \<Rightarrow> 'c handler" where
  "GetCartHandler X C r = with_claims r (\<lambda>claims.
     call_grpc X r (gw_GetCart C \<lparr>gcr_UserId = cl_Subject claims\<rparr>) (\<lambda>res. RespondWithJSON 200 (Some (PCart res))))"

definition AddProductToCartHandler :: "ext \<Rightarrow> 'c GRPCClient \<Rightarrow> 'c handler" where
  "AddProductToCartHandler X C r = with_claims r (\<lambda>claims.
     decode_body X r into_add_product \<lparr>apb_ProductID = [], apb_Quantity = 0\<rparr> (\<lambda>req.
     call_grpc X r (gw_AddProductToCart C \<lparr>apr_UserId = cl_Subject claims, apr_ProductId = apb_ProductID req,
         apr_Quantity = apb_Quantity req\<rparr>)
       (\<lambda>res. RespondWithJSON 200 (Some (PAdded res)))))"

definition RemoveProductFromCartHandler :: "ext \<Rightarrow> 'c GRPCClient \<Rightarrow> 'c handler" where
  "RemoveProductFromCartHandler X C r = with_claims r (\<lambda>claims.
     call_grpc X r (gw_RemoveProductFromCart C
       \<lparr>rpr_UserId = cl_Subject claims, rpr_ProductId = hr_PathValue r ''productId''\<rparr>) (\<lambda>_. no_content))"

definition ClearCartHandler :: "ext \<Rightarrow> 'c GRPCClient \<Rightarrow> 'c handler" where
  "ClearCartHandler X C r = with_claims r (\<lambda>claims.
     call_grpc X r (gw_ClearCart C \<lparr>clr_UserId = cl_Subject claims\<rparr>) (\<lambda>_. no_content))"

definition DeleteCartHandler :: "ext \<Rightarrow> 'c GRPCClient \<Rightarrow> 'c handler" where
  "DeleteCartHandler X C r = with_claims r (\<lambda>claims.
     call_grpc X r (gw_DeleteCart C \<lparr>dcr_UserId = cl_Subject claims\<rparr>) (\<lambda>_. no_content))"

definition CreateOrderHandler :: "ext \<Rightarrow> 'c GRPCClient \<Rightarrow> 'c handler" where
  "CreateOrderHandler X C r = with_claims r (\<lambda>claims.
     call_grpc X r (gw_CreateOrder C \<lparr>cor_UserId = cl_Subject claims\<rparr>)
       (\<lambda>order. RespondWithJSON 201 (Some (POrder order))))"

end
