(* ===== verification/GatewayRouter.thy ===== *)
theory GatewayRouter
  imports Gateway
begin

text \<open>
  The API gateway around its handlers: the authentication and the rate limiting (\<^verbatim>\<open>internal/middlewares\<close>) and the
  routes (\<^verbatim>\<open>internal/router\<close>). Of Go's \<^verbatim>\<open>http.ServeMux\<close> it uses patterns of a method and a path with
  named wildcards for one segment; the most specific pattern that matches wins. A path is the list of its
  segments after cleaning. The limiter of \<^verbatim>\<open>redis_rate\<close> and the proxy to the search service are arguments.
\<close>

subsection \<open>Authentication\<close>

datatype cookie_error = ErrNoCookie | OtherCookieError

definition request_cookie :: "http_request \<Rightarrow> string \<Rightarrow> cookie_error + string" where
  "request_cookie r name = (if name = [] then Inl ErrNoCookie else
     (case map_of (hr_Cookies r) name of None \<Rightarrow> Inl ErrNoCookie | Some v \<Rightarrow> Inr v))"

definition AuthMiddleware ::
  "('s, 'p) jwt_lib \<Rightarrow> ('s, 'p) JWTManager \<Rightarrow> (string \<Rightarrow> string) \<Rightarrow> int \<Rightarrow> 'c handler \<Rightarrow> 'c handler" where
  "AuthMiddleware L j env time next r = (case request_cookie r (env ''COOKIE_AUTH_NAME'') of
     Inl ErrNoCookie \<Rightarrow> State_Monad.return (RespondWithError r 401 ''Unauthorized'' ''Missing authentication cookie.'')
   | Inl OtherCookieError \<Rightarrow> State_Monad.return (RespondWithError r 400 ''Bad Request'' ''Invalid authentication cookie.'')
   | Inr tokenString \<Rightarrow>
      (case ValidateToken L j time tokenString of
         Inl _ \<Rightarrow> State_Monad.return (RespondWithError r 401 ''Unauthorized'' ''Invalid or expired token.'')
       | Inr claims \<Rightarrow> next (r\<lparr>hr_Claims := Some claims\<rparr>)))"

definition GetUserClaims :: "http_request \<Rightarrow> Claims option" where
  "GetUserClaims r = hr_Claims r"

subsection \<open>Rate limiting\<close>

record RateLimitConfig =
  rl_RatePerSecond :: int
  rl_Burst :: int

record RateLimiterMiddleware =
  rm_unknown :: RateLimitConfig
  rm_authenticated :: RateLimitConfig
  rm_isEnabled :: bool

record rate_result =
  rr_Allowed :: int
  rr_Remaining :: int
  rr_RetryAfter :: int

type_synonym 'c limiter = "string \<Rightarrow> RateLimitConfig \<Rightarrow> ('c, go_error + rate_result) state"

definition getRateLimitConfig :: "RateLimiterMiddleware \<Rightarrow> bool \<Rightarrow> RateLimitConfig" where
  "getRateLimitConfig rl isAuthenticated = (if isAuthenticated then rm_authenticated rl else rm_unknown rl)"

text \<open>\<^verbatim>\<open>net.SplitHostPort\<close> for the addresses of connections: \<^verbatim>\<open>host:port\<close> or \<^verbatim>\<open>[host]:port\<close>.\<close>

definition split_host_port :: "string \<Rightarrow> go_error + string" where
  "split_host_port a = (let port = takeWhile (\<lambda>c. c \<noteq> CHR '':'') (rev a); rest = rev (drop (Suc (length port)) (rev a)) in
     if CHR '':'' \<notin> set a then Inl (TextError ''missing port in address'')
     else if rest \<noteq> [] \<and> hd rest = CHR ''['' then
       (if last rest = CHR '']'' \<and> takeWhile (\<lambda>c. c \<noteq> CHR '']'') rest = butlast rest \<and> CHR ''['' \<notin> set (tl rest) \<and>
           CHR ''['' \<notin> set port \<and> CHR '']'' \<notin> set port
        then Inr (tl (butlast rest)) else Inl (TextError ''invalid address''))
     else if CHR '':'' \<in> set rest then Inl (TextError ''too many colons in address'')
     else if CHR ''['' \<in> set a \<or> CHR '']'' \<in> set a then Inl (TextError ''unexpected bracket in address'')
     else Inr rest)"

definition extractIPAddress :: "http_request \<Rightarrow> go_error + string" where
  "extractIPAddress r = (let xff = hr_Header r ''X-Forwarded-For''; xrip = hr_Header r ''X-Real-IP'' in
     if xff \<noteq> [] then Inr (trim_space (takeWhile (\<lambda>c. c \<noteq> CHR '','') xff))
     else if xrip \<noteq> [] then Inr xrip
     else split_host_port (hr_RemoteAddr r))"

definition getUserClaimsOrIPAddress :: "http_request \<Rightarrow> go_error + string \<times> bool" where
  "getUserClaimsOrIPAddress r = (case GetUserClaims r of
     Some claims \<Rightarrow> Inr (cl_Subject claims, True)
   | None \<Rightarrow> (case extractIPAddress r of Inl e \<Rightarrow> Inl e | Inr ip \<Rightarrow> Inr (ip, False)))"

definition rate_headers :: "RateLimitConfig \<Rightarrow> rate_result \<Rightarrow> int \<Rightarrow> (string \<times> string) list" where
  "rate_headers limit res time = [
     (''X-RateLimit-Limit'', show_int (rl_RatePerSecond limit)),
     (''X-RateLimit-Remaining'', show_int (rr_Remaining res)),
     (''X-RateLimit-Reset'', show_int ((time + rr_RetryAfter res) div 10 ^ 9))]"

definition add_headers :: "(string \<times> string) list \<Rightarrow> http_response \<Rightarrow> http_response" where
  "add_headers h resp = resp\<lparr>rs_Header := h @ rs_Header resp\<rparr>"

definition RateLimitMiddleware ::
  "RateLimiterMiddleware \<Rightarrow> 'c limiter \<Rightarrow> int \<Rightarrow> 'c handler \<Rightarrow> 'c handler" where
  "RateLimitMiddleware rl allow time next r = (if \<not> rm_isEnabled rl then next r else
     (case getUserClaimsOrIPAddress r of
        Inl e \<Rightarrow> State_Monad.return (RespondWithError r 500 ''Internal Server Error'' ''Could not process request.'')
      | Inr (identifier, clientHaveClaims) \<Rightarrow> do {
          let limit = getRateLimitConfig rl clientHaveClaims;
          x \<leftarrow> allow identifier limit;
          case x of
            Inl e \<Rightarrow> State_Monad.return (RespondWithError r 500 ''Internal Server Error'' ''Could not process request.'')
          | Inr res \<Rightarrow>
              if rr_Allowed res = 0
              then State_Monad.return (add_headers
                (rate_headers limit res time @ [(''Retry-After'', show_int (whole_seconds (rr_RetryAfter res)))])
                (RespondWithError r 429 ''Too Many Requests'' ''You have exceeded the request limit.''))
              else do {
                resp \<leftarrow> next r;
                State_Monad.return (add_headers (rate_headers limit res time) resp) } }))"

subsection \<open>Routes\<close>

datatype segment = Lit string | Wild string

datatype endpoint =
    Healthz | GetUserEP | CreateUserEP | LoginEP | LogoutEP
  | GetProductEP | ListProductsEP | ProductsByCategoryEP | CreateProductEP | UpdateProductEP | DeleteProductEP
  | GetCategoriesEP | CreateCategoryEP | UpdateCategoryEP | DeleteCategoryEP
  | GetCartEP | AddToCartEP | RemoveFromCartEP | ClearCartEP | DeleteCartEP
  | CreateOrderEP | SearchEP

record route =
  rt_Method :: string
  rt_Path :: "segment list"
  rt_Auth :: bool
  rt_Endpoint :: endpoint

definition mk_route :: "string \<Rightarrow> segment list \<Rightarrow> bool \<Rightarrow> endpoint \<Rightarrow> route" where
  "mk_route m p a e = \<lparr>rt_Method = m, rt_Path = Lit ''api'' # p, rt_Auth = a, rt_Endpoint = e\<rparr>"

definition authAndUserRoutes :: "route list" where
  "authAndUserRoutes = [
     mk_route ''GET'' [Lit ''users'', Wild ''id''] True GetUserEP,
     mk_route ''POST'' [Lit ''users''] False CreateUserEP,
     mk_route ''POST'' [Lit ''auth'', Lit ''login''] False LoginEP,
     mk_route ''POST'' [Lit ''auth'', Lit ''logout''] False LogoutEP]"

definition productRoutes :: "route list" where
  "productRoutes = [
     mk_route ''GET'' [Lit ''products'', Wild ''id''] False GetProductEP,
     mk_route ''GET'' [Lit ''products''] False ListProductsEP,
     mk_route ''GET'' [Lit ''products'', Lit ''categories'', Wild ''categoryId''] False ProductsByCategoryEP,
     mk_route ''POST'' [Lit ''products''] True CreateProductEP,
     mk_route ''PUT'' [Lit ''products'', Wild ''id''] True UpdateProductEP,
     mk_route ''DELETE'' [Lit ''products'', Wild ''id''] True DeleteProductEP]"

definition productCategoriesRoutes :: "route list" where
  "productCategoriesRoutes = [
     mk_route ''GET'' [Lit ''products'', Lit ''categories''] False GetCategoriesEP,
     mk_route ''POST'' [Lit ''products'', Lit ''categories''] True CreateCategoryEP,
     mk_route ''PUT'' [Lit ''products'', Lit ''categories''] True UpdateCategoryEP,
     mk_route ''DELETE'' [Lit ''products'', Lit ''categories'', Wild ''id''] True DeleteCategoryEP]"

definition cartRoutes :: "route list" where
  "cartRoutes = [
     mk_route ''GET'' [Lit ''carts''] True GetCartEP,
     mk_route ''POST'' [Lit ''carts'', Lit ''products''] True AddToCartEP,
     mk_route ''DELETE'' [Lit ''carts'', Lit ''products'', Wild ''productId''] True RemoveFromCartEP,
     mk_route ''DELETE'' [Lit ''carts'', Lit ''products''] True ClearCartEP,
     mk_route ''DELETE'' [Lit ''carts''] True DeleteCartEP]"

definition orderRoutes :: "route list" where
  "orderRoutes = [mk_route ''POST'' [Lit ''orders''] True CreateOrderEP]"

definition searchRoutes :: "route list" where
  "searchRoutes = [mk_route ''GET'' [Lit ''search'', Lit ''products''] False SearchEP]"

definition routes :: "route list" where
  "routes = mk_route ''GET'' [Lit ''healthz''] False Healthz # authAndUserRoutes @ productRoutes @ productCategoriesRoutes @
     cartRoutes @ orderRoutes @ searchRoutes"

text \<open>A wildcard takes a segment that is not empty.\<close>

fun match_path :: "segment list \<Rightarrow> string list \<Rightarrow> (string \<times> string) list option" where
  "match_path [] [] = Some []"
| "match_path (Lit l # ps) (s # ss) = (if s = l then match_path ps ss else None)"
| "match_path (Wild n # ps) (s # ss) = (if s = [] then None else map_option (Cons (n, s)) (match_path ps ss))"
| "match_path _ _ = None"

fun at_least_as_specific :: "segment list \<Rightarrow> segment list \<Rightarrow> bool" where
  "at_least_as_specific [] [] = True"
| "at_least_as_specific (Lit l # ps) (Lit k # qs) = (l = k \<and> at_least_as_specific ps qs)"
| "at_least_as_specific (p # ps) (Wild n # qs) = at_least_as_specific ps qs"
| "at_least_as_specific _ _ = False"

text \<open>A pattern for \<^verbatim>\<open>GET\<close> also takes \<^verbatim>\<open>HEAD\<close>.\<close>

definition method_matches :: "string \<Rightarrow> string \<Rightarrow> bool" where
  "method_matches m method \<longleftrightarrow> method = m \<or> m = ''GET'' \<and> method = ''HEAD''"

definition matching :: "string \<Rightarrow> string list \<Rightarrow> route list" where
  "matching method path = filter (\<lambda>t. method_matches (rt_Method t) method \<and> match_path (rt_Path t) path \<noteq> None) routes"

definition find_route :: "string \<Rightarrow> string list \<Rightarrow> route option" where
  "find_route method path = (let ms = matching method path in
     find (\<lambda>t. \<forall>u \<in> set ms. at_least_as_specific (rt_Path t) (rt_Path u)) ms)"

definition path_values :: "route \<Rightarrow> string list \<Rightarrow> string \<Rightarrow> string" where
  "path_values t path n = (case match_path (rt_Path t) path of
     None \<Rightarrow> [] | Some vs \<Rightarrow> (case map_of vs n of None \<Rightarrow> [] | Some v \<Rightarrow> v))"

subsection \<open>The gateway\<close>

record ('s, 'p, 'c) gateway =
  gt_ext :: ext
  gt_jwt :: "('s, 'p) jwt_lib"
  gt_manager :: "('s, 'p) JWTManager"
  gt_env :: "string \<Rightarrow> string"
  gt_limits :: RateLimiterMiddleware
  gt_limiter :: "'c limiter"
  gt_clients :: "'c GRPCClient"
  gt_search :: "'c handler"

fun endpoint_handler :: "('s, 'p, 'c) gateway \<Rightarrow> int \<Rightarrow> endpoint \<Rightarrow> 'c handler" where
  "endpoint_handler G t Healthz = (\<lambda>r. State_Monad.return (respond 200 [] (TextBody ''gateway is healthy'')))"
| "endpoint_handler G t GetUserEP = GetUserByIDHandler (gt_ext G) (gt_clients G)"
| "endpoint_handler G t CreateUserEP = CreateUserHandler (gt_ext G) (gt_clients G)"
| "endpoint_handler G t LoginEP = LoginHandler (gt_ext G) (gt_jwt G) (gt_manager G) (gt_env G) t (gt_clients G)"
| "endpoint_handler G t LogoutEP = LogoutHandler (gt_env G) t"
| "endpoint_handler G t GetProductEP = GetProductHandler (gt_ext G) (gt_clients G)"
| "endpoint_handler G t ListProductsEP = ListProductsHandler (gt_ext G) (gt_clients G)"
| "endpoint_handler G t ProductsByCategoryEP = GetProductsByCategoryIDHandler (gt_ext G) (gt_clients G)"
| "endpoint_handler G t CreateProductEP = CreateProductHandler (gt_ext G) (gt_clients G)"
| "endpoint_handler G t UpdateProductEP = UpdateProductHandler (gt_ext G) (gt_clients G)"
| "endpoint_handler G t DeleteProductEP = DeleteProductHandler (gt_ext G) (gt_clients G)"
| "endpoint_handler G t GetCategoriesEP = GetProductCategoriesHandler (gt_ext G) (gt_clients G)"
| "endpoint_handler G t CreateCategoryEP = CreateProductCategoryHandler (gt_ext G) (gt_clients G)"
| "endpoint_handler G t UpdateCategoryEP = UpdateProductCategoryHandler (gt_ext G) (gt_clients G)"
| "endpoint_handler G t DeleteCategoryEP = DeleteProductCategoryHandler (gt_ext G) (gt_clients G)"
| "endpoint_handler G t GetCartEP = GetCartHandler (gt_ext G) (gt_clients G)"
| "endpoint_handler G t AddToCartEP = AddProductToCartHandler (gt_ext G) (gt_clients G)"
| "endpoint_handler G t RemoveFromCartEP = RemoveProductFromCartHandler (gt_ext G) (gt_clients G)"
| "endpoint_handler G t ClearCartEP = ClearCartHandler (gt_ext G) (gt_clients G)"
| "endpoint_handler G t DeleteCartEP = DeleteCartHandler (gt_ext G) (gt_clients G)"
| "endpoint_handler G t CreateOrderEP = CreateOrderHandler (gt_ext G) (gt_clients G)"
| "endpoint_handler G t SearchEP = gt_search G"

text \<open>The methods a path has a pattern for, in order; \<^verbatim>\<open>HEAD\<close> goes with \<^verbatim>\<open>GET\<close>.\<close>

definition allowed_methods :: "string list \<Rightarrow> string list" where
  "allowed_methods path = filter (\<lambda>m. \<exists>u \<in> set routes. match_path (rt_Path u) path \<noteq> None \<and> method_matches (rt_Method u) m)
     [''DELETE'', ''GET'', ''HEAD'', ''POST'', ''PUT'']"

fun comma_joined :: "string list \<Rightarrow> string" where
  "comma_joined [] = []"
| "comma_joined [m] = m"
| "comma_joined (m # ms) = m @ '', '' @ comma_joined ms"

text \<open>\<^verbatim>\<open>mux.ServeHTTP\<close>: without a pattern for the path the answer is 404, without one for the method 405. (A path that is
  not clean is redirected to the clean one before that.)\<close>

definition refusal :: "string list \<Rightarrow> http_response" where
  "refusal path = (if allowed_methods path = [] then http_error 404 ''404 page not found''
     else (http_error 405 ''Method Not Allowed'')\<lparr>rs_Header :=
       (''Allow'', comma_joined (allowed_methods path)) # rs_Header (http_error 405 ''Method Not Allowed'')\<rparr>)"

definition serve_mux :: "('s, 'p, 'c) gateway \<Rightarrow> int \<Rightarrow> 'c handler" where
  "serve_mux G t r = (case find_route (hr_Method r) (hr_Path r) of
     None \<Rightarrow> State_Monad.return (refusal (hr_Path r))
   | Some route \<Rightarrow>
      (let h = endpoint_handler G t (rt_Endpoint route); r' = r\<lparr>hr_PathValue := path_values route (hr_Path r)\<rparr> in
       if rt_Auth route then AuthMiddleware (gt_jwt G) (gt_manager G) (gt_env G) t h r' else h r'))"

definition serve :: "('s, 'p, 'c) gateway \<Rightarrow> int \<Rightarrow> 'c handler" where
  "serve G t = RateLimitMiddleware (gt_limits G) (gt_limiter G) t (serve_mux G t)"

end
