(* ===== verification/GatewaySpec.thy ===== *)
theory GatewaySpec
  imports GatewayRouter
begin

text \<open>
  What the gateway guarantees: who has no valid token reaches the public endpoints only, a login's cookie makes the later
  requests act for the user who logged in, and which limits the rate limiter can use.
\<close>

subsection \<open>Routes\<close>

definition public_endpoints :: "endpoint set" where
  "public_endpoints = {Healthz, CreateUserEP, LoginEP, LogoutEP, GetProductEP, ListProductsEP, ProductsByCategoryEP,
     GetCategoriesEP, SearchEP}"

lemma route_in: "find_route m p = Some t \<Longrightarrow> t \<in> set routes"
  by (auto simp: find_route_def matching_def Let_def dest: find_Some_in)

lemma protected_routes: "list_all (\<lambda>t. rt_Auth t = (rt_Endpoint t \<notin> public_endpoints)) routes"
  by (simp add: routes_def authAndUserRoutes_def productRoutes_def productCategoriesRoutes_def cartRoutes_def
      orderRoutes_def searchRoutes_def mk_route_def public_endpoints_def)

text \<open>No two patterns conflict: of two that match the same request the one is at least as specific as the other.\<close>

definition compatible :: "route \<Rightarrow> route \<Rightarrow> bool" where
  "compatible t u \<longleftrightarrow> at_least_as_specific (rt_Path t) (rt_Path u) \<or> at_least_as_specific (rt_Path u) (rt_Path t)"

subsection \<open>Without a token\<close>

definition has_token :: "('s, 'p, 'c) gateway \<Rightarrow> int \<Rightarrow> http_request \<Rightarrow> Claims \<Rightarrow> bool" where
  "has_token G t r c \<longleftrightarrow> (\<exists>v. request_cookie r (gt_env G ''COOKIE_AUTH_NAME'') = Inr v \<and>
     ValidateToken (gt_jwt G) (gt_manager G) t v = Inr c)"

lemma mux_refuses:
  assumes "find_route (hr_Method r) (hr_Path r) = Some route" and "rt_Endpoint route \<notin> public_endpoints"
    and "\<nexists>c. has_token G t r c"
  shows "\<exists>resp. run_state (serve_mux G t r) w = (resp, w) \<and> rs_Status resp \<in> {400, 401}"
proof -
  have auth: "rt_Auth route" using protected_routes route_in [OF assms(1)] assms(2) by (simp add: list_all_iff)
  let ?r = "r\<lparr>hr_PathValue := path_values route (hr_Path r)\<rparr>"
  have cookie: "request_cookie ?r n = request_cookie r n" for n by (simp add: request_cookie_def)
  show ?thesis
  proof (cases "request_cookie r (gt_env G ''COOKIE_AUTH_NAME'')")
    case (Inl e)
    then show ?thesis by (cases e) (simp_all add: serve_mux_def assms(1) auth AuthMiddleware_def cookie)
  next
    case (Inr v)
    then obtain e where "ValidateToken (gt_jwt G) (gt_manager G) t v = Inl e"
      using assms(3) by (cases "ValidateToken (gt_jwt G) (gt_manager G) t v") (auto simp: has_token_def)
    then show ?thesis using Inr by (simp add: serve_mux_def assms(1) auth AuthMiddleware_def cookie)
  qed
qed

text \<open>C10. A request without a valid token for an endpoint that is not public is refused, and no service is called for it:
  of the services' state at most the limiter's count changes.\<close>

theorem no_token_no_access:
  assumes "find_route (hr_Method r) (hr_Path r) = Some route" and "rt_Endpoint route \<notin> public_endpoints"
    and "\<nexists>c. has_token G t r c" and "run_state (serve G t r) w = (resp, w')"
  shows "rs_Status resp \<in> {400, 401, 429, 500} \<and> (w' = w \<or> (\<exists>i l. w' = snd (run_state (gt_limiter G i l) w)))"
proof (cases "rm_isEnabled (gt_limits G)")
  case False
  then show ?thesis using assms(4) mux_refuses [OF assms(1-3), of w] by (auto simp: serve_def RateLimitMiddleware_def)
next
  case True
  show ?thesis
  proof (cases "getUserClaimsOrIPAddress r")
    case (Inl e)
    then show ?thesis using assms(4) True by (auto simp: serve_def RateLimitMiddleware_def)
  next
    case (Inr il)
    obtain i b where il: "il = (i, b)" by force
    obtain x v where x: "run_state (gt_limiter G i (getRateLimitConfig (gt_limits G) b)) w = (x, v)" by (rule run_pair)
    have "rs_Status resp \<in> {400, 401, 429, 500} \<and> w' = v"
      using assms(4) True Inr il x mux_refuses [OF assms(1-3), of v]
      by (cases x) (auto simp: serve_def RateLimitMiddleware_def Let_def add_headers_def split: if_splits)
    then show ?thesis using x by (metis snd_conv)
  qed
qed

subsection \<open>After a login\<close>

text \<open>A login that sets a cookie has been authorised, and its cookie authenticates until it expires.\<close>

lemma login_cookie:
  assumes "jwt_documented (gt_jwt G) (jm_privateKey (gt_manager G)) (jm_publicKey (gt_manager G))"
    and "run_state (endpoint_handler G t LoginEP login) w = (resp, w1)" and "rs_Cookies resp = [ck]"
    and "unmarshal into_login \<lparr>lr_Email = [], lr_Password = []\<rparr> (hr_Body login) = Inr req"
  shows "\<exists>u. run_state (gw_AuthorizeUser (gt_clients G) \<lparr>aur_Email = lr_Email req, aur_Password = lr_Password req\<rparr>) w = (Inr u, w1) \<and>
    (\<forall>t' r route. request_cookie r (gt_env G ''COOKIE_AUTH_NAME'') = Inr (ck_Value ck) \<longrightarrow> t \<le> t' \<longrightarrow>
      t' < t + jm_ttl (gt_manager G) - (t + jm_ttl (gt_manager G)) mod 10 ^ 9 + jm_leeway (gt_manager G) \<longrightarrow>
      0 \<le> jm_leeway (gt_manager G) \<longrightarrow> find_route (hr_Method r) (hr_Path r) = Some route \<longrightarrow> rt_Auth route \<longrightarrow>
      (\<exists>c. cl_Subject c = uv_Id u \<and> cl_Email c = uv_Email u \<and> serve_mux G t' r = endpoint_handler G t' (rt_Endpoint route)
        (r\<lparr>hr_PathValue := path_values route (hr_Path r), hr_Claims := Some c\<rparr>)))"
proof -
  let ?a = "\<lparr>aur_Email = lr_Email req, aur_Password = lr_Password req\<rparr>"
  obtain x v where x: "run_state (gw_AuthorizeUser (gt_clients G) ?a) w = (x, v)" by (rule run_pair)
  have "\<exists>u. x = Inr u \<and> v = w1 \<and> (\<exists>token. GenerateToken (gt_jwt G) (gt_manager G) t (uv_Id u) (uv_Email u) = Inr token \<and>
      ck_Value ck = token)"
    using assms(2-4) x
    by (cases x) (auto simp: LoginHandler_def decode_body_def call_grpc_or_def RespondWithError_def RespondWithGRPCError_def
        respond_def Let_def auth_cookie_def split: sum.splits if_splits)
  then obtain u where u: "x = Inr u" "v = w1"
    and token: "GenerateToken (gt_jwt G) (gt_manager G) t (uv_Id u) (uv_Email u) = Inr (ck_Value ck)" by blast
  define c where "c = \<lparr>cl_Email = uv_Email u, cl_Subject = uv_Id u, cl_Issuer = jm_issuer (gt_manager G), cl_Audience = [jm_audience (gt_manager G)],
       cl_ExpiresAt = Some (t + jm_ttl (gt_manager G) - (t + jm_ttl (gt_manager G)) mod 10 ^ 9),
       cl_IssuedAt = Some (t - t mod 10 ^ 9), cl_NotBefore = Some (t - t mod 10 ^ 9)\<rparr>"
  have "serve_mux G t' r = endpoint_handler G t' (rt_Endpoint route)
      (r\<lparr>hr_PathValue := path_values route (hr_Path r), hr_Claims := Some c\<rparr>)"
    if "request_cookie r (gt_env G ''COOKIE_AUTH_NAME'') = Inr (ck_Value ck)" "t \<le> t'"
      "t' < t + jm_ttl (gt_manager G) - (t + jm_ttl (gt_manager G)) mod 10 ^ 9 + jm_leeway (gt_manager G)"
      "0 \<le> jm_leeway (gt_manager G)" "find_route (hr_Method r) (hr_Path r) = Some route" "rt_Auth route" for t' r route
  proof -
    have "t - t mod 10 ^ 9 - jm_leeway (gt_manager G) \<le> t'"
      using that(2,4) pos_mod_sign [of "10 ^ 9" t] by simp
    then have "ValidateToken (gt_jwt G) (gt_manager G) t' (ck_Value ck) = Inr c"
      using validate_generated [OF assms(1) token, of t'] that(3) by (simp add: c_def)
    moreover have "request_cookie (r\<lparr>hr_PathValue := p\<rparr>) n = request_cookie r n" for p n by (simp add: request_cookie_def)
    ultimately show ?thesis using that(1,5,6) by (simp add: serve_mux_def AuthMiddleware_def)
  qed
  moreover have "cl_Subject c = uv_Id u" "cl_Email c = uv_Email u" by (simp_all add: c_def)
  ultimately show ?thesis using x u by blast
qed

text \<open>C9. The cookie a login sets lets its owner in: until the token expires (and the leeway has passed) every request with
  it that reaches a protected endpoint runs as the user the user service has authorised.\<close>

theorem login_grants_access:
  assumes "jwt_documented (gt_jwt G) (jm_privateKey (gt_manager G)) (jm_publicKey (gt_manager G))"
    and "run_state (endpoint_handler G t LoginEP login) w = (resp, w1)" and "rs_Cookies resp = [ck]"
    and "request_cookie r (gt_env G ''COOKIE_AUTH_NAME'') = Inr (ck_Value ck)"
    and "t \<le> t'" and "t' < t + jm_ttl (gt_manager G) - (t + jm_ttl (gt_manager G)) mod 10 ^ 9 + jm_leeway (gt_manager G)"
    and "0 \<le> jm_leeway (gt_manager G)"
    and "find_route (hr_Method r) (hr_Path r) = Some route" and "rt_Auth route"
  shows "\<exists>a u c. run_state (gw_AuthorizeUser (gt_clients G) a) w = (Inr u, w1) \<and> cl_Subject c = uv_Id u \<and> cl_Email c = uv_Email u \<and>
    serve_mux G t' r = endpoint_handler G t' (rt_Endpoint route)
      (r\<lparr>hr_PathValue := path_values route (hr_Path r), hr_Claims := Some c\<rparr>)"
proof -
  obtain req where req: "unmarshal into_login \<lparr>lr_Email = [], lr_Password = []\<rparr> (hr_Body login) = Inr req"
    using assms(2,3) by (auto simp: LoginHandler_def decode_body_def RespondWithError_def respond_def split: sum.splits)
  from login_cookie [OF assms(1-3) req] show ?thesis using assms(4-9) by blast
qed

subsection \<open>The limits\<close>

lemma handler_limits [simp]: "endpoint_handler (G\<lparr>gt_limits := l\<rparr>) t e = endpoint_handler G t e"
  by (cases e) simp_all

text \<open>The limits for authenticated clients are never used: the limiter runs before the authentication, on requests
  that have no claims yet, so the configuration for them makes no difference.\<close>

theorem authenticated_limits_unused:
  assumes "hr_Claims r = None"
  shows "serve (G\<lparr>gt_limits := (gt_limits G)\<lparr>rm_authenticated := config\<rparr>\<rparr>) t r = serve G t r"
proof -
  have "serve_mux (G\<lparr>gt_limits := l\<rparr>) t = serve_mux G t" for l
    by (rule ext) (simp add: serve_mux_def Let_def split: option.split)
  moreover have "getUserClaimsOrIPAddress r = Inr (i, b) \<Longrightarrow> \<not> b" for i b
    using assms by (auto simp: getUserClaimsOrIPAddress_def GetUserClaims_def split: sum.splits)
  ultimately show ?thesis
    by (auto simp: serve_def RateLimitMiddleware_def getRateLimitConfig_def split: sum.splits)
qed

subsection \<open>A sample\<close>

text \<open>A user service that knows the address \<^verbatim>\<open>a@b.c\<close>; the other services answer that they cannot be reached.\<close>

definition away :: "'a \<Rightarrow> ('c, go_error + 'b) state" where
  "away q = State_Monad.return (Inl (StatusError (Errorf Unavailable ''away'')))"

definition authorize_sample :: "AuthorizeUserRequest \<Rightarrow> (unit, go_error + UserV1) state" where
  "authorize_sample a = State_Monad.return (if aur_Email a = ''a@b.c''
     then Inr \<lparr>uv_Id = ''7'', uv_Username = ''ann'', uv_Email = ''a@b.c'', uv_CreatedAt = 0, uv_UpdatedAt = None\<rparr>
     else Inl (StatusError (Errorf Unauthenticated ''no'')))"

definition clients_gateway_sample :: "unit GRPCClient" where
  "clients_gateway_sample = \<lparr>gw_CreateUser = away, gw_GetUserByID = away, gw_AuthorizeUser = authorize_sample, gw_CreateProduct = away,
     gw_GetProduct = away, gw_ListProducts = away, gw_UpdateProduct = away, gw_DeleteProduct = away,
     gw_GetProductsByCategoryID = away, gw_GetProductCategories = away (), gw_CreateProductCategory = away,
     gw_UpdateProductCategory = away, gw_DeleteProductCategory = away, gw_GetCart = away, gw_AddProductToCart = away,
     gw_RemoveProductFromCart = away, gw_ClearCart = away, gw_DeleteCart = away, gw_CreateOrder = away\<rparr>"

definition gateway_sample :: "(unit, unit, unit) gateway" where
  "gateway_sample = \<lparr>gt_ext = sample_ext, gt_jwt = jwt_sample, gt_manager = manager_sample, gt_env = (\<lambda>n. ''auth''),
     gt_limits = \<lparr>rm_unknown = \<lparr>rl_RatePerSecond = 10, rl_Burst = 20\<rparr>, rm_authenticated = \<lparr>rl_RatePerSecond = 50, rl_Burst = 100\<rparr>,
        rm_isEnabled = True\<rparr>,
     gt_limiter = (\<lambda>i l. State_Monad.return (Inr \<lparr>rr_Allowed = 1, rr_Remaining = rl_Burst l - 1, rr_RetryAfter = 0\<rparr>)),
     gt_clients = clients_gateway_sample, gt_search = (\<lambda>r. State_Monad.return (respond 200 [] NoBody))\<rparr>"

definition request_sample :: "string \<Rightarrow> string list \<Rightarrow> (string \<times> string) list \<Rightarrow> json option \<Rightarrow> http_request" where
  "request_sample m path cookies body = \<lparr>hr_Method = m, hr_Path = path, hr_PathValue = (\<lambda>n. []), hr_Query = (\<lambda>n. []),
     hr_Header = (\<lambda>n. []), hr_Cookies = cookies, hr_RemoteAddr = ''10.0.0.1:99'', hr_Body = body, hr_Ctx = None, hr_Claims = None\<rparr>"

lemmas route_eval = find_route_def matching_def routes_def authAndUserRoutes_def productRoutes_def productCategoriesRoutes_def
  cartRoutes_def orderRoutes_def searchRoutes_def mk_route_def method_matches_def

lemma carts_route: "find_route ''GET'' [''api'', ''carts''] = Some (mk_route ''GET'' [Lit ''carts''] True GetCartEP)"
  by (simp add: route_eval)

lemma sample_fields [simp]:
  "hr_Method (request_sample m path cookies body) = m" "hr_Path (request_sample m path cookies body) = path"
  "hr_Claims (request_sample m path cookies body) = None" "hr_Body (request_sample m path cookies body) = body"
  "hr_Cookies (request_sample m path cookies body) = cookies"
  by (simp_all add: request_sample_def)

theorem no_token_no_access_witness:
  "rs_Status (fst (run_state (serve gateway_sample 0 (request_sample ''GET'' [''api'', ''carts''] [] None)) ())) \<in> {400, 401, 429, 500}"
proof -
  let ?r = "request_sample ''GET'' [''api'', ''carts''] [] None"
  have r: "find_route (hr_Method ?r) (hr_Path ?r) = Some (mk_route ''GET'' [Lit ''carts''] True GetCartEP)"
    using carts_route by simp
  have p: "rt_Endpoint (mk_route ''GET'' [Lit ''carts''] True GetCartEP) \<notin> public_endpoints"
    by (simp add: mk_route_def public_endpoints_def)
  have n: "\<nexists>c. has_token gateway_sample 0 ?r c"
    by (simp add: has_token_def request_cookie_def gateway_sample_def)
  show ?thesis using no_token_no_access [OF r p n prod.collapse [symmetric]] by blast
qed

definition login_sample :: http_request where
  "login_sample = request_sample ''POST'' [''api'', ''auth'', ''login''] []
     (Some (JObj [(''email'', JStr ''a@b.c''), (''password'', JStr ''pw'')]))"

lemma login_response:
  "run_state (endpoint_handler gateway_sample 0 LoginEP login_sample) () =
     ((RespondWithJSON 200 (Some (PUserResponse \<lparr>ur_ID = ''7'', ur_Username = ''ann'', ur_Email = ''a@b.c''\<rparr>)))
        \<lparr>rs_Cookies := [auth_cookie (\<lambda>n. ''auth'') ''h.c.s'' (60 * 10 ^ 9) 60]\<rparr>, ())"
  using jwt_sample_token
  by (simp add: gateway_sample_def clients_gateway_sample_def login_sample_def LoginHandler_def decode_body_def unmarshal_def
      into_login_def field_of_def fld_def call_grpc_or_def authorize_sample_def manager_sample_def whole_seconds_def)

theorem login_grants_access_witness:
  "\<exists>c. cl_Subject c = ''7'' \<and> serve_mux gateway_sample (5 * 10 ^ 9)
      (request_sample ''GET'' [''api'', ''carts''] [(''auth'', ''h.c.s'')] None) =
    endpoint_handler gateway_sample (5 * 10 ^ 9) GetCartEP
      ((request_sample ''GET'' [''api'', ''carts''] [(''auth'', ''h.c.s'')] None)
        \<lparr>hr_PathValue := path_values (mk_route ''GET'' [Lit ''carts''] True GetCartEP) [''api'', ''carts''], hr_Claims := Some c\<rparr>)"
proof -
  let ?r = "request_sample ''GET'' [''api'', ''carts''] [(''auth'', ''h.c.s'')] None"
  have "\<exists>a u c. run_state (gw_AuthorizeUser (gt_clients gateway_sample) a) () = (Inr u, ()) \<and> cl_Subject c = uv_Id u \<and>
      cl_Email c = uv_Email u \<and> serve_mux gateway_sample (5 * 10 ^ 9) ?r =
      endpoint_handler gateway_sample (5 * 10 ^ 9) (rt_Endpoint (mk_route ''GET'' [Lit ''carts''] True GetCartEP))
        (?r\<lparr>hr_PathValue := path_values (mk_route ''GET'' [Lit ''carts''] True GetCartEP) (hr_Path ?r), hr_Claims := Some c\<rparr>)"
    by (rule login_grants_access [OF _ login_response, where ck = "auth_cookie (\<lambda>n. ''auth'') ''h.c.s'' (60 * 10 ^ 9) 60"])
      (simp_all add: gateway_sample_def manager_sample_def jwt_sample_documented auth_cookie_def request_cookie_def carts_route
        mk_route_def)
  then obtain a u c where a: "run_state (gw_AuthorizeUser (gt_clients gateway_sample) a) () = (Inr u, ())"
    and c: "cl_Subject c = uv_Id u" and s: "serve_mux gateway_sample (5 * 10 ^ 9) ?r =
      endpoint_handler gateway_sample (5 * 10 ^ 9) (rt_Endpoint (mk_route ''GET'' [Lit ''carts''] True GetCartEP))
        (?r\<lparr>hr_PathValue := path_values (mk_route ''GET'' [Lit ''carts''] True GetCartEP) (hr_Path ?r), hr_Claims := Some c\<rparr>)"
    by blast
  have "uv_Id u = ''7''"
    using a by (auto simp: gateway_sample_def clients_gateway_sample_def authorize_sample_def split: if_splits)
  then show ?thesis using c s by (intro exI [of _ c]) (simp add: mk_route_def)
qed

theorem authenticated_limits_unused_witness:
  "serve (gateway_sample\<lparr>gt_limits := (gt_limits gateway_sample)\<lparr>rm_authenticated := \<lparr>rl_RatePerSecond = 1, rl_Burst = 1\<rparr>\<rparr>\<rparr>) 0
     (request_sample ''GET'' [''api'', ''carts''] [(''auth'', ''h.c.s'')] None) =
   serve gateway_sample 0 (request_sample ''GET'' [''api'', ''carts''] [(''auth'', ''h.c.s'')] None)"
  by (rule authenticated_limits_unused) simp

end
