(* ===== verification/GatewayTypes.thy ===== *)
theory GatewayTypes
  imports GatewaySpec
begin

text \<open>
  The types of the gateway's API: which status, which content type and which payload every endpoint may answer, and
  which other answers there are: a problem document that repeats its status, a list with a price that JSON has no text for,
  what the search service answered, and the refusals of the router. The rules in \<open>yields_intros\<close> follow
  the structure of a handler.
\<close>

named_theorems yields_intros "rules for what a handler's response satisfies"

definition yields :: "('a \<Rightarrow> bool) \<Rightarrow> ('w, 'a) state \<Rightarrow> bool" where
  "yields P m \<longleftrightarrow> (\<forall>w. P (fst (run_state m w)))"

lemma yieldsD: "yields P m \<Longrightarrow> run_state m w = (x, w') \<Longrightarrow> P x"
  unfolding yields_def by (metis fst_conv)

subsection \<open>Types\<close>

fun success_status :: "endpoint \<Rightarrow> int" where
  "success_status e = (if e \<in> {CreateUserEP, CreateProductEP, CreateCategoryEP, CreateOrderEP} then 201
     else if e \<in> {DeleteProductEP, UpdateCategoryEP, DeleteCategoryEP, RemoveFromCartEP, ClearCartEP, DeleteCartEP} then 204
     else 200)"

fun payload_endpoints :: "payload \<Rightarrow> endpoint set" where
  "payload_endpoints (PUserResponse u) = {LoginEP}"
| "payload_endpoints (PMessage t) = {LogoutEP}"
| "payload_endpoints (PCart c) = {GetCartEP}"
| "payload_endpoints (PAdded a) = {AddToCartEP}"
| "payload_endpoints (POrder d) = {CreateOrderEP}"
| "payload_endpoints (PUser u) = {GetUserEP}"
| "payload_endpoints (PProduct p) = {GetProductEP, CreateProductEP, UpdateProductEP}"
| "payload_endpoints (PProducts ps) = {ListProductsEP, ProductsByCategoryEP}"
| "payload_endpoints (PCategory c) = {CreateCategoryEP}"
| "payload_endpoints (PCategories cs) = {GetCategoriesEP}"
| "payload_endpoints (PFound js) = {}"

definition silent_endpoints :: "endpoint set" where
  "silent_endpoints = {CreateUserEP, DeleteProductEP, UpdateCategoryEP, DeleteCategoryEP, RemoveFromCartEP, ClearCartEP, DeleteCartEP}"

text \<open>The fields of a problem document that repeat something else.\<close>

definition problem_for :: "http_request \<Rightarrow> http_response \<Rightarrow> 'z ProblemDetail_scheme \<Rightarrow> bool" where
  "problem_for r resp p \<longleftrightarrow> pb_Status p = rs_Status resp \<and> 400 \<le> rs_Status resp \<and> rs_Status resp < 600 \<and>
     pb_Type p = getErrorDocumentationLink (rs_Status resp) \<and> pb_Instance p = hr_Path r \<and>
     (''Content-Type'', ''application/problem+json'') \<in> set (rs_Header resp)"

definition problem_response :: "http_request \<Rightarrow> http_response \<Rightarrow> bool" where
  "problem_response r resp \<longleftrightarrow> (case rs_Body resp of
     ProblemBody p \<Rightarrow> problem_for r resp p | GRPCProblemBody p \<Rightarrow> problem_for r resp p | _ \<Rightarrow> False) \<and> rs_Cookies resp = []"

text \<open>The success of an endpoint: its status, its kind of payload as JSON, no payload, or the health check's text; cookies only
  with a login and a logout.\<close>

definition endpoint_response :: "endpoint \<Rightarrow> http_response \<Rightarrow> bool" where
  "endpoint_response e resp \<longleftrightarrow> rs_Status resp = success_status e \<and> (case rs_Body resp of
     JsonBody p \<Rightarrow> e \<in> payload_endpoints p \<and> encodes p \<and> (''Content-Type'', ''application/json'') \<in> set (rs_Header resp)
   | NoBody \<Rightarrow> e \<in> silent_endpoints
   | TextBody t \<Rightarrow> e = Healthz \<and> t = ''gateway is healthy''
   | _ \<Rightarrow> False) \<and> (rs_Cookies resp = [] \<or> e \<in> {LoginEP, LogoutEP})"

text \<open>A list of products that cannot be encoded: the status 200 is out before the error is found.\<close>

definition unencodable :: "endpoint \<Rightarrow> http_response \<Rightarrow> bool" where
  "unencodable e resp \<longleftrightarrow> e \<in> {ListProductsEP, ProductsByCategoryEP} \<and> rs_Status resp = 200 \<and>
     rs_Body resp = error_line ''failed to encode response'' \<and> rs_Cookies resp = []"

text \<open>Every list of products the product service answers has prices that JSON has a text for.\<close>

definition finite_list :: "go_error + ProductV1 list \<Rightarrow> bool" where
  "finite_list x \<longleftrightarrow> (case x of Inl _ \<Rightarrow> True | Inr ps \<Rightarrow> encodes (PProducts ps))"

definition finite_prices :: "'c GRPCClient \<Rightarrow> bool" where
  "finite_prices C \<longleftrightarrow> (\<forall>q. yields finite_list (gw_ListProducts C q)) \<and> (\<forall>q. yields finite_list (gw_GetProductsByCategoryID C q))"

text \<open>\<open>k\<close>: the prices are known to be finite.\<close>

definition well_typed :: "bool \<Rightarrow> endpoint \<Rightarrow> http_request \<Rightarrow> http_response \<Rightarrow> bool" where
  "well_typed k e r resp \<longleftrightarrow> problem_response r resp \<or> endpoint_response e resp \<or> \<not> k \<and> unencodable e resp"

lemmas typed_defs = well_typed_def problem_response_def endpoint_response_def unencodable_def problem_for_def

text \<open>\<^verbatim>\<open>status.Error\<close> gives no error for the code \<^verbatim>\<open>OK\<close>: no error of a client is such a status, and none is converted to one.\<close>

fun proper_error :: "go_error \<Rightarrow> bool" where
  "proper_error (StatusError s) = (st_code s \<noteq> OK)"
| "proper_error (WrappedError t e) = proper_error e"
| "proper_error _ = True"

definition errors_are_errors :: "ext \<Rightarrow> bool" where
  "errors_are_errors X \<longleftrightarrow> (\<forall>e. proper_error e \<longrightarrow> st_code (status_convert X e) \<noteq> OK)"

definition ok_error :: "go_error + 'a \<Rightarrow> bool" where
  "ok_error x \<longleftrightarrow> (case x of Inl e \<Rightarrow> proper_error e | Inr _ \<Rightarrow> True)"

definition client_errors :: "'c GRPCClient \<Rightarrow> bool" where
  "client_errors C \<longleftrightarrow> (\<forall>q. yields ok_error (gw_CreateUser C q)) \<and> (\<forall>q. yields ok_error (gw_GetUserByID C q)) \<and> (\<forall>q. yields ok_error (gw_AuthorizeUser C q)) \<and>
     (\<forall>q. yields ok_error (gw_CreateProduct C q)) \<and> (\<forall>q. yields ok_error (gw_GetProduct C q)) \<and> (\<forall>q. yields ok_error (gw_ListProducts C q)) \<and>
     (\<forall>q. yields ok_error (gw_UpdateProduct C q)) \<and> (\<forall>q. yields ok_error (gw_DeleteProduct C q)) \<and> (\<forall>q. yields ok_error (gw_GetProductsByCategoryID C q)) \<and>
     yields ok_error (gw_GetProductCategories C) \<and> (\<forall>q. yields ok_error (gw_CreateProductCategory C q)) \<and> (\<forall>q. yields ok_error (gw_UpdateProductCategory C q)) \<and>
     (\<forall>q. yields ok_error (gw_DeleteProductCategory C q)) \<and> (\<forall>q. yields ok_error (gw_GetCart C q)) \<and> (\<forall>q. yields ok_error (gw_AddProductToCart C q)) \<and>
     (\<forall>q. yields ok_error (gw_RemoveProductFromCart C q)) \<and> (\<forall>q. yields ok_error (gw_ClearCart C q)) \<and> (\<forall>q. yields ok_error (gw_DeleteCart C q)) \<and>
     (\<forall>q. yields ok_error (gw_CreateOrder C q))"

subsection \<open>Rules\<close>

lemma typed_error [simp]: "400 \<le> st \<Longrightarrow> st < 600 \<Longrightarrow> well_typed k e r (RespondWithError r st title detail)"
  by (simp add: typed_defs RespondWithError_def respond_def)

lemma typed_grpc [simp]: "st_code s \<noteq> OK \<Longrightarrow> well_typed k e r (RespondWithGRPCError r s)"
  using HTTPStatus_error [of "st_code s"]
  by (simp add: typed_defs RespondWithGRPCError_def respond_def Let_def)

lemma typed_json:
  "st = success_status e \<Longrightarrow> e \<in> payload_endpoints p \<Longrightarrow> encodes p \<or> \<not> k \<Longrightarrow> well_typed k e r (RespondWithJSON st (Some p))"
  by (cases p) (auto simp: typed_defs RespondWithJSON_def respond_def encodes_def)

lemma typed_silent: "st = success_status e \<Longrightarrow> e \<in> silent_endpoints \<Longrightarrow> well_typed k e r (RespondWithJSON st None)"
  by (simp add: typed_defs RespondWithJSON_def respond_def)

lemma typed_no_content: "204 = success_status e \<Longrightarrow> e \<in> silent_endpoints \<Longrightarrow> well_typed k e r no_content"
  by (simp add: typed_defs no_content_def respond_def)

lemma typed_cookie:
  "st = success_status e \<Longrightarrow> e \<in> payload_endpoints p \<Longrightarrow> encodes p \<Longrightarrow> e \<in> {LoginEP, LogoutEP} \<Longrightarrow>
     well_typed k e r ((RespondWithJSON st (Some p))\<lparr>rs_Cookies := cs\<rparr>)"
  by (simp add: typed_defs RespondWithJSON_def respond_def)

lemma problem_headers: "problem_response r resp \<Longrightarrow> problem_response r (add_headers h resp)"
  by (auto simp: problem_response_def problem_for_def add_headers_def split: body.splits)

lemma typed_headers [simp]: "well_typed k e r resp \<Longrightarrow> well_typed k e r (add_headers h resp)"
  using problem_headers [of r resp h]
  by (auto simp: well_typed_def endpoint_response_def unencodable_def add_headers_def split: body.splits)

lemma problem_request [simp]:
  "problem_for (r\<lparr>hr_PathValue := p\<rparr>) resp q = problem_for r resp q" "problem_for (r\<lparr>hr_Claims := c\<rparr>) resp q = problem_for r resp q"
  by (simp_all add: problem_for_def)

lemma typed_request [simp]:
  "well_typed k e (r\<lparr>hr_PathValue := p\<rparr>) = well_typed k e r" "well_typed k e (r\<lparr>hr_Claims := c\<rparr>) = well_typed k e r"
  by (simp_all add: well_typed_def problem_response_def fun_eq_iff cong: body.case_cong)

lemma yields_return [yields_intros]: "P x \<Longrightarrow> yields P (State_Monad.return x)"
  by (simp add: yields_def)

lemma yields_bind [yields_intros]: "(\<And>x. yields P (k x)) \<Longrightarrow> yields P (m \<bind> k)"
  by (simp add: yields_def split_beta)

lemma yields_if [yields_intros]: "(b \<Longrightarrow> yields P m) \<Longrightarrow> (\<not> b \<Longrightarrow> yields P n) \<Longrightarrow> yields P (if b then m else n)"
  by simp

lemma yields_decode_body [yields_intros]:
  "(\<And>req. yields (well_typed b e r) (k req)) \<Longrightarrow> yields (well_typed b e r) (decode_body X r d zero k)"
  by (auto simp: decode_body_def yields_def split: sum.splits)

lemma grpc_error_typed: "errors_are_errors X \<Longrightarrow> ok_error (Inl x) \<Longrightarrow> well_typed b e r (RespondWithGRPCError r (status_convert X x))"
  by (simp add: errors_are_errors_def ok_error_def)

text \<open>A call whose answers satisfy \<open>A\<close>.\<close>

lemma yields_call_grpc_answer:
  assumes "errors_are_errors X" and "yields ok_error m" and "yields (case_sum (\<lambda>_. True) A) m"
    and "\<And>y. A y \<Longrightarrow> well_typed b e r (k y)"
  shows "yields (well_typed b e r) (call_grpc X r m k)"
  unfolding yields_def
proof
  fix w
  obtain x w' where x: "run_state m w = (x, w')" by (rule run_pair)
  show "well_typed b e r (fst (run_state (call_grpc X r m k) w))"
    using yieldsD [OF assms(2) x] yieldsD [OF assms(3) x] assms(1,4) x
    by (cases x) (simp_all add: call_grpc_def grpc_error_typed)
qed

lemma yields_call_grpc [yields_intros]:
  "errors_are_errors X \<Longrightarrow> yields ok_error m \<Longrightarrow> (\<And>y. well_typed b e r (k y)) \<Longrightarrow> yields (well_typed b e r) (call_grpc X r m k)"
  by (rule yields_call_grpc_answer [where A = "\<lambda>_. True"]) (auto simp: yields_def split: sum.split)

lemma yields_call_grpc_or_answer:
  assumes "errors_are_errors X" and "yields ok_error m" and "yields (case_sum (\<lambda>_. True) A) m"
    and "\<And>y. A y \<Longrightarrow> well_typed b e r (k y)"
  shows "yields (well_typed b e r) (call_grpc_or X r t f m k)"
  unfolding yields_def
proof
  fix w
  obtain x w' where x: "run_state m w = (x, w')" by (rule run_pair)
  show "well_typed b e r (fst (run_state (call_grpc_or X r t f m k) w))"
    using yieldsD [OF assms(2) x] yieldsD [OF assms(3) x] assms(1,4) x
    by (cases x) (simp_all add: call_grpc_or_def grpc_error_typed)
qed

lemma yields_call_grpc_or [yields_intros]:
  "errors_are_errors X \<Longrightarrow> yields ok_error m \<Longrightarrow> (\<And>y. well_typed b e r (k y)) \<Longrightarrow> yields (well_typed b e r) (call_grpc_or X r t f m k)"
  by (rule yields_call_grpc_or_answer [where A = "\<lambda>_. True"]) (auto simp: yields_def split: sum.split)

lemma yields_with_claims [yields_intros]:
  "(\<And>c. yields (well_typed b e r) (k c)) \<Longrightarrow> yields (well_typed b e r) (with_claims r k)"
  by (auto simp: with_claims_def yields_def split: option.splits)

lemma yields_with_context [yields_intros]:
  "yields (well_typed b e r) k \<Longrightarrow> yields (well_typed b e r) (with_context r k)"
  by (auto simp: with_context_def CheckContext_def yields_def split: option.splits ctx_err.splits)

subsection \<open>The handlers\<close>

lemmas handler_defs = LoginHandler_def LogoutHandler_def CreateUserHandler_def GetUserByIDHandler_def CreateProductHandler_def
  GetProductHandler_def ListProductsHandler_def UpdateProductHandler_def DeleteProductHandler_def
  GetProductsByCategoryIDHandler_def GetProductCategoriesHandler_def CreateProductCategoryHandler_def
  UpdateProductCategoryHandler_def DeleteProductCategoryHandler_def GetCartHandler_def AddProductToCartHandler_def
  RemoveProductFromCartHandler_def ClearCartHandler_def DeleteCartHandler_def CreateOrderHandler_def

lemma login_typed: "errors_are_errors X \<Longrightarrow> client_errors C \<Longrightarrow> yields (well_typed b LoginEP r) (LoginHandler X L j env t C r)"
  unfolding LoginHandler_def Let_def
  by (intro yields_intros) (auto simp: client_errors_def encodes_def intro!: typed_cookie split: sum.splits)

lemma create_user_typed: "yields (well_typed b CreateUserEP r) (CreateUserHandler X C r)"
  unfolding CreateUserHandler_def
  by (intro yields_intros) (auto intro!: typed_silent simp: silent_endpoints_def split: sum.splits)

lemma finite_answers:
  assumes "finite_prices C"
  shows "yields (case_sum (\<lambda>_. True) (\<lambda>ps. encodes (PProducts ps))) (gw_ListProducts C q1)"
    "yields (case_sum (\<lambda>_. True) (\<lambda>ps. encodes (PProducts ps))) (gw_GetProductsByCategoryID C q2)"
  using assms by (simp_all add: finite_prices_def finite_list_def [abs_def] yields_def)

lemma list_typed:
  assumes "errors_are_errors X" and "client_errors C"
  shows "yields (well_typed (finite_prices C) ListProductsEP r) (ListProductsHandler X C r)"
    "yields (well_typed (finite_prices C) ProductsByCategoryEP r) (GetProductsByCategoryIDHandler X C r)"
proof -
  let ?A = "\<lambda>ps. finite_prices C \<longrightarrow> encodes (PProducts ps)"
  have ok: "yields ok_error (gw_ListProducts C q1)" "yields ok_error (gw_GetProductsByCategoryID C q2)" for q1 q2
    using assms(2) by (simp_all add: client_errors_def)
  have A: "yields (case_sum (\<lambda>_. True) ?A) (gw_ListProducts C q1)" "yields (case_sum (\<lambda>_. True) ?A) (gw_GetProductsByCategoryID C q2)" for q1 q2
    by (cases "finite_prices C"; simp add: finite_answers; simp add: yields_def split: sum.split)+
  show "yields (well_typed (finite_prices C) ListProductsEP r) (ListProductsHandler X C r)"
    unfolding ListProductsHandler_def Let_def
    by (rule yields_call_grpc_answer [OF assms(1) ok(1) A(1)]) (auto intro!: typed_json)
  have "yields (well_typed (finite_prices C) ProductsByCategoryEP r) (call_grpc_or X r t f (gw_GetProductsByCategoryID C q)
      (\<lambda>res. RespondWithJSON 200 (Some (PProducts res))))" for t f q
    by (rule yields_call_grpc_or_answer [OF assms(1) ok(2) A(2)]) (auto intro!: typed_json)
  then show "yields (well_typed (finite_prices C) ProductsByCategoryEP r) (GetProductsByCategoryIDHandler X C r)"
    unfolding GetProductsByCategoryIDHandler_def by (auto intro!: yields_intros split: option.splits ctx_err.splits)
qed

lemma handler_typed:
  assumes "errors_are_errors (gt_ext G)" and "client_errors (gt_clients G)" and "e \<noteq> SearchEP"
  shows "yields (well_typed (finite_prices (gt_clients G)) e r) (endpoint_handler G t e r)"
proof -
  note typed = typed_json typed_silent typed_no_content yields_intros
  show ?thesis using assms
  proof (cases e)
    case Healthz
    then show ?thesis by (auto intro!: yields_return simp: typed_defs respond_def)
  next
    case LoginEP
    then show ?thesis using assms(1,2) by (simp add: login_typed)
  next
    case CreateUserEP
    then show ?thesis by (simp add: create_user_typed)
  next
    case ListProductsEP
    then show ?thesis using assms(1,2) by (simp add: list_typed)
  next
    case ProductsByCategoryEP
    then show ?thesis using assms(1,2) by (simp add: list_typed)
  next
    case LogoutEP
    then show ?thesis by (auto simp: LogoutHandler_def encodes_def intro!: yields_return typed_cookie)
  qed (use assms in \<open>auto simp: handler_defs call_category_def Let_def silent_endpoints_def client_errors_def encodes_def intro!: typed\<close>)
qed

subsection \<open>The gateway\<close>

lemma auth_typed:
  assumes "\<And>c. yields (well_typed b e r) (h (r\<lparr>hr_Claims := Some c\<rparr>))"
  shows "yields (well_typed b e r) (AuthMiddleware L j env t h r)"
  using assms by (auto simp: AuthMiddleware_def intro!: yields_return split: sum.splits cookie_error.splits)

lemma mux_typed:
  assumes "errors_are_errors (gt_ext G)" and "client_errors (gt_clients G)"
    and "find_route (hr_Method r) (hr_Path r) = Some route" and "rt_Endpoint route \<noteq> SearchEP"
  shows "yields (well_typed (finite_prices (gt_clients G)) (rt_Endpoint route) r) (serve_mux G t r)"
proof -
  let ?r = "r\<lparr>hr_PathValue := path_values route (hr_Path r)\<rparr>" and ?e = "rt_Endpoint route" and ?k = "finite_prices (gt_clients G)"
  have "yields (well_typed ?k ?e ?r) (endpoint_handler G t ?e ?r)" by (rule handler_typed [OF assms(1,2,4)])
  moreover have "yields (well_typed ?k ?e ?r) (endpoint_handler G t ?e (?r\<lparr>hr_Claims := Some c\<rparr>))" for c
    using handler_typed [OF assms(1,2,4), of "?r\<lparr>hr_Claims := Some c\<rparr>" t] by simp
  then have "yields (well_typed ?k ?e ?r) (AuthMiddleware (gt_jwt G) (gt_manager G) (gt_env G) t (endpoint_handler G t ?e) ?r)"
    by (rule auth_typed)
  ultimately show ?thesis by (simp add: serve_mux_def assms(3) Let_def)
qed

lemma search_public: "find_route m p = Some route \<Longrightarrow> rt_Endpoint route = SearchEP \<Longrightarrow> \<not> rt_Auth route"
proof -
  assume "find_route m p = Some route" "rt_Endpoint route = SearchEP"
  then have "route \<in> set routes" by (auto simp: find_route_def matching_def Let_def dest!: find_Some_in)
  moreover have "\<forall>u \<in> set routes. rt_Endpoint u = SearchEP \<longrightarrow> \<not> rt_Auth u" by (simp add: route_eval)
  ultimately show ?thesis using \<open>rt_Endpoint route = SearchEP\<close> by blast
qed

text \<open>What the limiter makes of the answer of the router: a problem of its own, or the answer with the headers of the limit.\<close>

lemma limiter_answer:
  assumes "run_state (serve G t r) w = (resp, w')"
  shows "problem_response r resp \<or> (\<exists>h w1. resp = add_headers h (fst (run_state (serve_mux G t r) w1)))"
proof -
  have err: "problem_response r (add_headers h (RespondWithError r st title detail))" if "400 \<le> st" "st < 600" for h st title detail
    using that by (simp add: problem_response_def problem_for_def RespondWithError_def respond_def add_headers_def)
  have none: "resp = add_headers [] resp" for resp by (simp add: add_headers_def)
  show ?thesis
  proof (cases "rm_isEnabled (gt_limits G)")
    case False
    then have "resp = fst (run_state (serve_mux G t r) w)" using assms by (simp add: serve_def RateLimitMiddleware_def)
    then show ?thesis using none by metis
  next
    case True
    show ?thesis
    proof (cases "getUserClaimsOrIPAddress r")
      case (Inl e)
      then have "resp = add_headers [] (RespondWithError r 500 ''Internal Server Error'' ''Could not process request.'')"
        using assms True by (auto simp: serve_def RateLimitMiddleware_def add_headers_def)
      then show ?thesis using err [of 500 "[]"] by simp
    next
      case (Inr il)
      obtain i b where il: "il = (i, b)" by force
      obtain x v where x: "run_state (gt_limiter G i (getRateLimitConfig (gt_limits G) b)) w = (x, v)" by (rule run_pair)
      show ?thesis
      proof (cases x)
        case x1: (Inl e)
        then have "resp = add_headers [] (RespondWithError r 500 ''Internal Server Error'' ''Could not process request.'')"
          using assms True Inr il x by (auto simp: serve_def RateLimitMiddleware_def Let_def add_headers_def)
        then show ?thesis using err [of 500 "[]"] by simp
      next
        case x2: (Inr res)
        show ?thesis
        proof (cases "rr_Allowed res = 0")
          case 0: True
          then have "resp = add_headers (rate_headers (getRateLimitConfig (gt_limits G) b) res t @
              [(''Retry-After'', show_int (whole_seconds (rr_RetryAfter res)))])
              (RespondWithError r 429 ''Too Many Requests'' ''You have exceeded the request limit.'')"
            using assms True Inr il x x2 by (auto simp: serve_def RateLimitMiddleware_def Let_def)
          then show ?thesis using err [of 429] by simp
        next
          case False
          then have "resp = add_headers (rate_headers (getRateLimitConfig (gt_limits G) b) res t) (fst (run_state (serve_mux G t r) v))"
            using assms True Inr il x x2 by (auto simp: serve_def RateLimitMiddleware_def Let_def split: prod.splits)
          then show ?thesis by blast
        qed
      qed
    qed
  qed
qed

text \<open>C11. The type of the gateway's API, for every request and whatever the services answer. Where the router has no pattern
  for the path or the method, the answer is its 404 or its 405 with the allowed methods; a request of a search is answered
  by the search service. Every other response is of the type of its endpoint (its success status, its kind of
  payload, as JSON; cookies only with a login and a logout), with one exception: a list of products that contains a
  price JSON has no text for is answered with the status 200 and a line of text, and only then. In all three cases
  the response can be a problem document instead, which repeats the response's error status, links to its documentation
  and names the request's path. The headers of the limiter may be added to each.\<close>

theorem gateway_response_typed:
  assumes "errors_are_errors (gt_ext G)" and "client_errors (gt_clients G)" and "run_state (serve G t r) w = (resp, w')"
  shows "problem_response r resp \<or> (case find_route (hr_Method r) (hr_Path r) of
     None \<Rightarrow> \<exists>h. resp = add_headers h (refusal (hr_Path r))
   | Some route \<Rightarrow>
       if rt_Endpoint route = SearchEP
       then \<exists>h w1. resp = add_headers h (fst (run_state (gt_search G (r\<lparr>hr_PathValue := path_values route (hr_Path r)\<rparr>)) w1))
       else endpoint_response (rt_Endpoint route) resp \<or>
         \<not> finite_prices (gt_clients G) \<and> unencodable (rt_Endpoint route) resp)"
proof -
  from limiter_answer [OF assms(3)] consider "problem_response r resp"
    | h w1 where "resp = add_headers h (fst (run_state (serve_mux G t r) w1))" by blast
  then show ?thesis
  proof cases
    case mux: 2
    show ?thesis
    proof (cases "find_route (hr_Method r) (hr_Path r)")
      case None
      then show ?thesis using mux by (auto simp: serve_mux_def)
    next
      case (Some route)
      show ?thesis
      proof (cases "rt_Endpoint route = SearchEP")
        case True
        have "\<not> rt_Auth route"
          using Some True search_public by blast
        then show ?thesis using mux Some True by (auto simp: serve_mux_def Let_def)
      next
        case False
        have "well_typed (finite_prices (gt_clients G)) (rt_Endpoint route) r resp"
          using mux_typed [OF assms(1,2) Some False] typed_headers unfolding mux yields_def by blast
        then show ?thesis using Some False by (auto simp: well_typed_def)
      qed
    qed
  qed simp
qed

lemma error_path_value [simp]:
  "RespondWithError (r\<lparr>hr_PathValue := p\<rparr>) = RespondWithError r" "RespondWithGRPCError (r\<lparr>hr_PathValue := p\<rparr>) = RespondWithGRPCError r"
  by (intro ext, simp add: RespondWithError_def RespondWithGRPCError_def Let_def)+

lemma login_path_value: "endpoint_handler G t LoginEP (r\<lparr>hr_PathValue := p\<rparr>) = endpoint_handler G t LoginEP r"
  unfolding endpoint_handler.simps LoginHandler_def decode_body_def call_grpc_or_def error_path_value by simp

lemma login_sample_served: "rs_Status (fst (run_state (serve gateway_sample 0 login_sample) ())) = 200"
proof -
  let ?route = "mk_route ''POST'' [Lit ''auth'', Lit ''login''] False LoginEP"
  have r: "find_route (hr_Method login_sample) (hr_Path login_sample) = Some ?route"
    by (simp add: login_sample_def route_eval)
  have ip: "getUserClaimsOrIPAddress login_sample = Inr (''10.0.0.1'', False)"
    by (simp add: login_sample_def request_sample_def getUserClaimsOrIPAddress_def GetUserClaims_def extractIPAddress_def
        split_host_port_def Let_def)
  have "endpoint_handler gateway_sample 0 LoginEP (login_sample\<lparr>hr_PathValue := p\<rparr>) =
      endpoint_handler gateway_sample 0 LoginEP login_sample" for p by (rule login_path_value)
  then have "rs_Status (fst (run_state (serve_mux gateway_sample 0 login_sample) ())) = 200"
    unfolding serve_mux_def r using login_response by (simp add: mk_route_def Let_def)
  then show ?thesis
    by (simp add: serve_def RateLimitMiddleware_def ip) (simp add: gateway_sample_def add_headers_def Let_def split_beta)
qed

lemma sample_clients_proper: "errors_are_errors (gt_ext gateway_sample)" "client_errors (gt_clients gateway_sample)"
  by (auto simp: errors_are_errors_def client_errors_def gateway_sample_def clients_gateway_sample_def sample_ext_def yields_def
      away_def authorize_sample_def ok_error_def Errorf_def split: go_error.splits)

text \<open>A login that is answered with the status 200: its response is the login's.\<close>

theorem gateway_response_typed_witness:
  "endpoint_response LoginEP (fst (run_state (serve gateway_sample 0 login_sample) ()))"
proof -
  let ?resp = "fst (run_state (serve gateway_sample 0 login_sample) ())"
  have r: "find_route (hr_Method login_sample) (hr_Path login_sample) = Some (mk_route ''POST'' [Lit ''auth'', Lit ''login''] False LoginEP)"
    by (simp add: login_sample_def route_eval)
  have route: "rt_Endpoint (mk_route ''POST'' [Lit ''auth'', Lit ''login''] False LoginEP) = LoginEP" by (simp add: mk_route_def)
  have "rs_Status ?resp = 200" using login_sample_served by simp
  then have "\<not> problem_response login_sample ?resp" by (auto simp: problem_response_def problem_for_def split: body.splits)
  moreover have "\<not> unencodable LoginEP ?resp" by (simp add: unencodable_def)
  ultimately show ?thesis
    using gateway_response_typed [OF sample_clients_proper prod.collapse [symmetric], where r = login_sample and t = 0 and w = "()"] route
    unfolding r by simp
qed

end
