(* ===== verification/SearchService.thy ===== *)
theory SearchService
  imports Gateway Events Rabbit
begin

text \<open>
  The search service (\<^verbatim>\<open>search-service/internal\<close>): the client of OpenSearch, the consumer of product
  events that keeps the index, the search handler and the routes. The OpenSearch client library is not in the repository:
  \<open>os_do\<close> performs a request on a state \<open>'c\<close>, and \<open>opensearch_documented\<close> states what the code relies on.
\<close>

subsection \<open>The OpenSearch client\<close>

datatype os_request =
    IndexRequest string string json string
  | DeleteRequest string string string
  | SearchRequest "string list" json

text \<open>The body of an answer is \<open>None\<close> when it does not start with a JSON value.\<close>

record os_response =
  osr_StatusCode :: int
  osr_Body :: "json option"

type_synonym 'c os_transport = "os_request \<Rightarrow> ('c, go_error + os_response) state"

definition IsError :: "os_response \<Rightarrow> bool" where
  "IsError res \<longleftrightarrow> 299 < osr_StatusCode res"

definition NewClient_opensearch :: "string list \<Rightarrow> string \<Rightarrow> string \<Rightarrow> go_error + 'c os_transport \<Rightarrow> go_error + 'c os_transport" where
  "NewClient_opensearch addresses username password new =
     (if addresses = [] \<or> username = [] \<or> password = []
      then Inl (TextError ''addresses, username, and password must be provided'')
      else (case new of Inl e \<Rightarrow> Inl (WrappedError ''failed to create opensearch client'' e) | Inr c \<Rightarrow> Inr c))"

definition Index :: "'c os_transport \<Rightarrow> string \<Rightarrow> string \<Rightarrow> json \<Rightarrow> ('c, go_error + os_response) state" where
  "Index os_do indexName documentID body =
     attempt (os_do (IndexRequest indexName documentID body ''true''))
       (WrappedError ''failed to execute index request'') ok"

definition Delete :: "'c os_transport \<Rightarrow> string \<Rightarrow> string \<Rightarrow> ('c, go_error + os_response) state" where
  "Delete os_do indexName documentID =
     attempt (os_do (DeleteRequest indexName documentID ''true''))
       (WrappedError ''failed to execute delete request'') ok"

definition Search :: "'c os_transport \<Rightarrow> string \<Rightarrow> json \<Rightarrow> ('c, go_error + os_response) state" where
  "Search os_do indexName body =
     attempt (os_do (SearchRequest [indexName] body)) (WrappedError ''failed to execute search request'') ok"

subsection \<open>The consumer of product events\<close>

record product_delivery =
  de_RoutingKey :: string
  de_Body :: "json option"

definition indexProduct ::
  "'c os_transport \<Rightarrow> string \<Rightarrow> ProductEvent \<Rightarrow> json \<Rightarrow> ('c, disposition) state" where
  "indexProduct os_do index productEvent body = do {
     x \<leftarrow> Index os_do index (pe_ID productEvent) body;
     State_Monad.return (case x of
       Inl e \<Rightarrow> Nack True
     | Inr res \<Rightarrow> if IsError res then Nack True else Ack) }"

definition deleteProduct :: "'c os_transport \<Rightarrow> string \<Rightarrow> ProductEvent \<Rightarrow> ('c, disposition) state" where
  "deleteProduct os_do index productEvent = do {
     x \<leftarrow> Delete os_do index (pe_ID productEvent);
     State_Monad.return (case x of
       Inl e \<Rightarrow> Nack True
     | Inr res \<Rightarrow> if IsError res then Nack True else Ack) }"

text \<open>A product event can always be marshalled again.\<close>

definition handleProductCreatedEvent ::
  "'c os_transport \<Rightarrow> string \<Rightarrow> product_delivery \<Rightarrow> ('c, disposition) state" where
  "handleProductCreatedEvent os_do index d = (case unmarshal_product (de_Body d) of
     Inl _ \<Rightarrow> State_Monad.return (Nack False)
   | Inr productEvent \<Rightarrow>
       (let body = enc_product productEvent in
        if de_RoutingKey d \<noteq> ProductDeletedRoutingKey then indexProduct os_do index productEvent body
        else deleteProduct os_do index productEvent))"

definition search_options :: "int \<Rightarrow> SubscribeOptions" where
  "search_options unixTime = \<lparr>so_Exchange = ProductExchangeName, so_ExchangeType = ExchangeTopic,
     so_QueueName = ''search_product_events_queue'', so_ConsumerTag = ''search_product_events_indexer_'' @ show_int unixTime,
     so_BindingKey = ProductWildcardRoutingKey\<rparr>"

definition Start_search ::
  "ext \<Rightarrow> int \<Rightarrow> nat \<Rightarrow> product_delivery session list \<Rightarrow> (rabbit, go_error option \<times> product_delivery list) state" where
  "Start_search X unixTime n ss = Subscribe_client X (search_options unixTime) n ss"

subsection \<open>The search handler\<close>

record SearchResponse =
  sr_Total :: int
  sr_Hits :: "ProductEvent slice"

definition into_hit :: "ProductEvent decoder" where
  "into_hit = into_struct [(''_source'', into_product_event)]"

definition into_search_response :: "SearchResponse decoder" where
  "into_search_response = into_struct [(''hits'', into_struct
     [(''total'', into_struct [(''value'', fld (into_int in_int64) sr_Total (\<lambda>x. sr_Total_update (\<lambda>_. x)))]),
      (''hits'', fld (into_slice into_hit zero_product_event) sr_Hits (\<lambda>x. sr_Hits_update (\<lambda>_. x)))])]"

text \<open>A map is written with its keys in order.\<close>

definition search_query :: "int64 \<Rightarrow> int64 \<Rightarrow> string \<Rightarrow> json" where
  "search_query from' size' query = JObj
     [(''from'', JInt (sint from')),
      (''query'', JObj [(''multi_match'', JObj
         [(''fields'', JArr [JStr ''name'', JStr ''description'']), (''query'', JStr query)])]),
      (''size'', JInt (sint size'))]"

definition SearchProduct :: "ext \<Rightarrow> 'c os_transport \<Rightarrow> string \<Rightarrow> 'c handler" where
  "SearchProduct X os_do index r = (
     let query = hr_Query r ''q'';
       size = atoi (hr_Query r ''size''); size = (if sint size \<le> 0 then 10 else size);
       start = atoi (hr_Query r ''from''); start = (if sint start < 0 then 0 else start) in
     if query = [] then State_Monad.return
       (RespondWithError r 400 ''Query parameter 'q' is required'' ''The 'q' parameter cannot be empty'')
     else do {
       x \<leftarrow> Search os_do index (search_query start size query);
       State_Monad.return (case x of
         Inl e \<Rightarrow> RespondWithError r 500 ''Failed to execute search query'' (err_text X e)
       | Inr res \<Rightarrow>
           if IsError res
           then RespondWithError r 500 ''Opensearch returned an error'' (''Status code: '' @ show_int (osr_StatusCode res))
           else (case unmarshal into_search_response \<lparr>sr_Total = 0, sr_Hits = None\<rparr> (osr_Body res) of
              Inl e \<Rightarrow> RespondWithError r 500 ''Failed to decode search response'' (err_text X e)
            | Inr searchRes \<Rightarrow>
                if sr_Total searchRes = 0
                then RespondWithError r 404 ''No products found'' ''No results match the search query''
                else RespondWithJSON 200 (Some (PFound (map enc_product (elems (sr_Hits searchRes))))))) })"

text \<open>The routes take every method.\<close>

definition search_mux :: "ext \<Rightarrow> 'c os_transport \<Rightarrow> string \<Rightarrow> 'c handler" where
  "search_mux X os_do index r =
     (if hr_Path r = [''api'', ''healthz''] then State_Monad.return (respond 200 [] (TextBody ''search service is healthy''))
      else if hr_Path r = [''api'', ''search'', ''products''] then SearchProduct X os_do index r
      else State_Monad.return (http_error 404 ''404 page not found''))"

end
