(* ===== verification/SearchSpec.thy ===== *)
theory SearchSpec
  imports SearchService
begin

text \<open>
  What the consumer of product events guarantees of the index. Every delivery makes one request, so handlers that
  run at the same time are some order of the deliveries: \<open>deliver_all\<close> is that order.
\<close>

subsection \<open>What OpenSearch documents\<close>

text \<open>\<open>docs\<close> are the documents by index and identifier. A request with an answer that is no error has been
  carried out, one that failed may have been; the answer to the deletion of a missing document is an error (404).\<close>

definition opensearch_documented ::
  "('c \<Rightarrow> string \<times> string \<Rightarrow> json option) \<Rightarrow> 'c os_transport \<Rightarrow> bool" where
  "opensearch_documented docs os_do \<longleftrightarrow>
     (\<forall>i d b f c x c'. d \<noteq> [] \<longrightarrow> run_state (os_do (IndexRequest i d b f)) c = (x, c') \<longrightarrow>
        docs c' = (docs c)((i, d) \<mapsto> b) \<or> (\<forall>res. x = Inr res \<longrightarrow> IsError res) \<and> docs c' = docs c) \<and>
     (\<forall>i d f c x c'. d \<noteq> [] \<longrightarrow> run_state (os_do (DeleteRequest i d f)) c = (x, c') \<longrightarrow>
        (docs c' = (docs c)((i, d) := None) \<or> docs c' = docs c) \<and>
        (\<forall>res. x = Inr res \<longrightarrow> \<not> IsError res \<longrightarrow>
           docs c (i, d) \<noteq> None \<and> docs c' = (docs c)((i, d) := None)))"

definition document_after :: "product_delivery \<Rightarrow> ProductEvent \<Rightarrow> json option" where
  "document_after d p = (if de_RoutingKey d = ProductDeletedRoutingKey then None else Some (enc_product p))"

text \<open>What RabbitMQ documents of a topic exchange: a queue gets the messages whose routing key matches a key it is bound
  with, word by word; \<^verbatim>\<open>*\<close> stands for one word, \<^verbatim>\<open>#\<close> for any number of words.\<close>

fun topic_words :: "string \<Rightarrow> string list" where
  "topic_words [] = [[]]"
| "topic_words (c # cs) = (if c = CHR ''.'' then [] # topic_words cs else (case topic_words cs of
     [] \<Rightarrow> [[c]] | w # ws \<Rightarrow> (c # w) # ws))"

fun words_match :: "string list \<Rightarrow> string list \<Rightarrow> bool" where
  "words_match [] [] = True"
| "words_match [] (w # ws) = False"
| "words_match (p # ps) [] = (p = ''#'' \<and> words_match ps [])"
| "words_match (p # ps) (w # ws) =
     (if p = ''#'' then words_match ps (w # ws) \<or> words_match (p # ps) ws
      else (p = ''*'' \<or> p = w) \<and> words_match ps ws)"

definition topic_match :: "string \<Rightarrow> string \<Rightarrow> bool" where
  "topic_match pattern key = words_match (topic_words pattern) (topic_words key)"

lemma product_keys_bound:
  "topic_match ProductWildcardRoutingKey ProductCreatedRoutingKey" "topic_match ProductWildcardRoutingKey ProductUpdatedRoutingKey"
  "topic_match ProductWildcardRoutingKey ProductDeletedRoutingKey" "\<not> topic_match ProductWildcardRoutingKey ''catalogue.created''"
  by code_simp+

subsection \<open>One delivery\<close>

lemma index_effect:
  assumes "opensearch_documented docs os_do" and "unmarshal_product (de_Body d) = Inr p" and "pe_ID p \<noteq> []"
    and "run_state (handleProductCreatedEvent os_do index d) c = (r, c')"
  shows "(docs c' = (docs c)((index, pe_ID p) := document_after d p) \<or> r = Nack True \<and> docs c' = docs c) \<and> r \<noteq> Nack False \<and>
    (r = Ack \<longrightarrow> document_after d p = None \<longrightarrow> docs c (index, pe_ID p) \<noteq> None)"
proof (cases "de_RoutingKey d = ProductDeletedRoutingKey")
  case True
  obtain x v where x: "run_state (os_do (DeleteRequest index (pe_ID p) ''true'')) c = (x, v)" by (rule run_pair)
  have doc: "docs v = (docs c)((index, pe_ID p) := None) \<or> docs v = docs c"
    "x = Inr res \<Longrightarrow> \<not> IsError res \<Longrightarrow>
       docs c (index, pe_ID p) \<noteq> None \<and> docs v = (docs c)((index, pe_ID p) := None)" for res
    using assms(1,3) x unfolding opensearch_documented_def by blast+
  have "c' = v" "r = (case x of Inl e \<Rightarrow> Nack True | Inr res \<Rightarrow> if IsError res then Nack True else Ack)"
    using assms(2,4) True x by (auto simp: handleProductCreatedEvent_def deleteProduct_def Delete_def split: sum.splits)
  then show ?thesis using doc True by (auto simp: document_after_def split: sum.splits)
next
  case False
  obtain x v where x: "run_state (os_do (IndexRequest index (pe_ID p) (enc_product p) ''true'')) c = (x, v)" by (rule run_pair)
  have doc: "docs v = (docs c)((index, pe_ID p) \<mapsto> enc_product p) \<or> (\<forall>res. x = Inr res \<longrightarrow> IsError res) \<and> docs v = docs c"
    using assms(1,3) x unfolding opensearch_documented_def by blast
  have "c' = v" "r = (case x of Inl e \<Rightarrow> Nack True | Inr res \<Rightarrow> if IsError res then Nack True else Ack)"
    using assms(2,4) False x
    by (auto simp: handleProductCreatedEvent_def indexProduct_def Index_def Let_def split: sum.splits)
  then show ?thesis using doc False by (auto simp: document_after_def split: sum.splits)
qed

text \<open>A deletion that is delivered again after it has been carried out is put back into the queue and changes
  nothing: OpenSearch answers 404 for the missing document, and the handler takes that for a failure every time.\<close>

theorem missing_deletion_requeued:
  assumes "opensearch_documented docs os_do" and "unmarshal_product (de_Body d) = Inr p" and "pe_ID p \<noteq> []"
    and "de_RoutingKey d = ProductDeletedRoutingKey" and "docs c (index, pe_ID p) = None"
  shows "\<exists>c'. run_state (handleProductCreatedEvent os_do index d) c = (Nack True, c') \<and> docs c' = docs c"
proof -
  obtain r c' where r: "run_state (handleProductCreatedEvent os_do index d) c = (r, c')" by (rule run_pair)
  have "docs c' = docs c" "r \<noteq> Ack" "r \<noteq> Nack False"
    using index_effect [OF assms(1-3) r] assms(4,5) by (auto simp: document_after_def)
  then show ?thesis using r by (cases r) auto
qed

subsection \<open>Many deliveries\<close>

fun deliver_all :: "'c os_transport \<Rightarrow> string \<Rightarrow> product_delivery list \<Rightarrow> ('c, disposition list) state" where
  "deliver_all os_do index [] = State_Monad.return []"
| "deliver_all os_do index (d # ds) = do {
     r \<leftarrow> handleProductCreatedEvent os_do index d;
     rs \<leftarrow> deliver_all os_do index ds;
     State_Monad.return (r # rs) }"

definition about_other :: "string \<Rightarrow> product_delivery \<Rightarrow> bool" where
  "about_other i d \<longleftrightarrow> (case unmarshal_product (de_Body d) of Inl _ \<Rightarrow> True | Inr q \<Rightarrow> pe_ID q \<noteq> [] \<and> pe_ID q \<noteq> i)"

lemma others_keep:
  assumes "opensearch_documented docs os_do" and "list_all (about_other i) ds"
    and "run_state (deliver_all os_do index ds) c = (rs, c')"
  shows "docs c' (index, i) = docs c (index, i)"
  using assms(2,3)
proof (induction ds arbitrary: c rs)
  case (Cons d ds)
  obtain r v where r: "run_state (handleProductCreatedEvent os_do index d) c = (r, v)" by (rule run_pair)
  then obtain rs' where rs': "run_state (deliver_all os_do index ds) v = (rs', c')"
    using Cons.prems(2) by (auto split: prod.splits)
  have "docs v (index, i) = docs c (index, i)"
  proof (cases "unmarshal_product (de_Body d)")
    case (Inl e)
    then show ?thesis using r by (simp add: handleProductCreatedEvent_def)
  next
    case (Inr q)
    then have "pe_ID q \<noteq> []" "pe_ID q \<noteq> i" using Cons.prems(1) by (simp_all add: about_other_def)
    then show ?thesis using index_effect [OF assms(1) Inr _ r] by (metis fun_upd_other prod.inject)
  qed
  then show ?case using Cons.IH [OF _ rs'] Cons.prems(1) by simp
qed simp

lemma last_acknowledged:
  assumes "opensearch_documented docs os_do" and "unmarshal_product (de_Body d) = Inr p" and "pe_ID p \<noteq> []"
    and "run_state (handleProductCreatedEvent os_do index d) c = (Ack, c1)"
    and "list_all (about_other (pe_ID p)) later" and "run_state (deliver_all os_do index later) c1 = (rs, c2)"
  shows "docs c2 (index, pe_ID p) = document_after d p"
  using others_keep [OF assms(1,5,6)] index_effect [OF assms(1-4)] by simp

text \<open>C30. The index says of a product what the last acknowledged event about it says, whatever the deliveries about
  other products do: the event's document, or none after a deletion.\<close>

theorem last_acknowledged_event_indexed:
  assumes "opensearch_documented docs os_do" and "unmarshal_product (de_Body d) = Inr p" and "pe_ID p \<noteq> []"
    and "run_state (handleProductCreatedEvent os_do index d) c = (Ack, c1)"
    and "list_all (about_other (pe_ID p)) later" and "run_state (deliver_all os_do index later) c1 = (rs, c2)"
  shows "docs c2 (index, pe_ID p) =
    (if de_RoutingKey d = ProductDeletedRoutingKey then None else Some (enc_product p))"
  using last_acknowledged [OF assms] by (simp add: document_after_def)

subsection \<open>A sample\<close>

text \<open>A store that carries out every request.\<close>

fun store_sample :: "(string \<times> string \<Rightarrow> json option) os_transport" where
  "store_sample (IndexRequest i d b f) = State (\<lambda>m. (Inr \<lparr>osr_StatusCode = 201, osr_Body = None\<rparr>, m((i, d) \<mapsto> b)))"
| "store_sample (DeleteRequest i d f) = State (\<lambda>m. (Inr \<lparr>osr_StatusCode = (if m (i, d) = None then 404 else 200),
     osr_Body = None\<rparr>, m((i, d) := None)))"
| "store_sample (SearchRequest i b) = State (\<lambda>m. (Inr \<lparr>osr_StatusCode = 200, osr_Body = None\<rparr>, m))"

lemma store_sample_documented: "opensearch_documented id store_sample"
  by (auto simp: opensearch_documented_def IsError_def)

definition product_event_sample :: "string \<Rightarrow> ProductEvent" where
  "product_event_sample i = \<lparr>pe_ID = i, pe_CategoryID = ''3'', pe_Name = ''cup'', pe_Description = [], pe_Price = ''2.50'',
     pe_StockQuantity = 4\<rparr>"

definition delivery_sample :: "string \<Rightarrow> string \<Rightarrow> product_delivery" where
  "delivery_sample key i = \<lparr>de_RoutingKey = key, de_Body = Some (enc_product (product_event_sample i))\<rparr>"

lemma delivery_sample_decodes: "unmarshal_product (de_Body (delivery_sample key i)) = Inr (product_event_sample i)"
  by (simp add: delivery_sample_def product_decodes)

theorem missing_deletion_requeued_witness:
  "\<exists>m. run_state (handleProductCreatedEvent store_sample ''products'' (delivery_sample ''product.deleted'' ''5'')) Map.empty =
    (Nack True, m) \<and> m = Map.empty"
  using missing_deletion_requeued [OF store_sample_documented delivery_sample_decodes, where c = Map.empty]
  by (simp add: product_event_sample_def delivery_sample_def ProductDeletedRoutingKey_def)

theorem last_acknowledged_event_indexed_witness:
  "snd (run_state (deliver_all store_sample ''products'' [delivery_sample ''product.deleted'' ''6'', delivery_sample ''product.created'' ''8''])
     (snd (run_state (handleProductCreatedEvent store_sample ''products'' (delivery_sample ''product.created'' ''5'')) Map.empty)))
     (''products'', ''5'') = Some (enc_product (product_event_sample ''5''))"
proof -
  let ?d = "delivery_sample ''product.created'' ''5''"
  let ?later = "[delivery_sample ''product.deleted'' ''6'', delivery_sample ''product.created'' ''8'']"
  have ack: "run_state (handleProductCreatedEvent store_sample ''products'' ?d) Map.empty =
      (Ack, snd (run_state (handleProductCreatedEvent store_sample ''products'' ?d) Map.empty))"
    by (simp add: handleProductCreatedEvent_def delivery_sample_decodes)
      (simp add: delivery_sample_def ProductDeletedRoutingKey_def Let_def indexProduct_def Index_def IsError_def)
  have other: "list_all (about_other (pe_ID (product_event_sample ''5''))) ?later"
    by (simp add: about_other_def delivery_sample_decodes) (simp add: product_event_sample_def)
  have "pe_ID (product_event_sample ''5'') \<noteq> []" by (simp add: product_event_sample_def)
  from last_acknowledged_event_indexed [OF store_sample_documented delivery_sample_decodes this ack other
      prod.collapse [symmetric]] show ?thesis
    by (simp add: delivery_sample_def ProductDeletedRoutingKey_def product_event_sample_def)
qed

end
