(* ===== verification/Config.thy ===== *)
theory Config
  imports GatewayRouter
begin

text \<open>
  What the programs make of their environment variables: the API gateway (\<^verbatim>\<open>api-gateway/cmd/api-gateway/main.go\<close>) and
  the outbox relayers of the order and the product service (\<^verbatim>\<open>getMessageRelayerConfigFromEnv\<close>, the same code in both).
  \<open>env\<close> is \<^verbatim>\<open>os.Getenv\<close>. A program that exits gives what it logs: an error on the left.
\<close>

subsection \<open>The gateway\<close>

definition getEnvInt :: "(string \<Rightarrow> string) \<Rightarrow> string \<Rightarrow> int \<Rightarrow> int" where
  "getEnvInt env key fallback = (case parse_int 64 (env key) of None \<Rightarrow> fallback | Some n \<Rightarrow> n)"

text \<open>\<^verbatim>\<open>strconv.ParseBool\<close>\<close>

definition parse_bool :: "string \<Rightarrow> bool option" where
  "parse_bool s = (if s \<in> {''1'', ''t'', ''T'', ''TRUE'', ''true'', ''True''} then Some True
     else if s \<in> {''0'', ''f'', ''F'', ''FALSE'', ''false'', ''False''} then Some False else None)"

definition requiredEnvVars :: "string list" where
  "requiredEnvVars = [''USER_SERVICE_GRPC_URL'', ''PRODUCT_SERVICE_GRPC_URL'', ''CART_SERVICE_GRPC_URL'', ''ORDER_SERVICE_GRPC_URL'',
     ''SEARCH_SERVICE_URL'', ''REDIS_URL'', ''COOKIE_AUTH_NAME'', ''ENV'']"

definition verifyEnvironmentServiceURLs :: "(string \<Rightarrow> string) \<Rightarrow> bool" where
  "verifyEnvironmentServiceURLs env = list_all (\<lambda>v. env v \<noteq> []) requiredEnvVars"

text \<open>\<^verbatim>\<open>time.Duration(n) * time.Minute\<close> wraps around in 64 bits.\<close>

definition minutes :: "int \<Rightarrow> int" where
  "minutes n = sint ((word_of_int n :: int64) * word_of_int (60 * 10 ^ 9))"

text \<open>\<open>read_file\<close> is \<^verbatim>\<open>os.ReadFile\<close>; \<open>private\<close> and \<open>public\<close> are the parsers of the keys.\<close>

definition initializeJWTManager ::
  "(string \<Rightarrow> string) \<Rightarrow> (string \<Rightarrow> string + 'b) \<Rightarrow> ('b \<Rightarrow> string + 's) \<Rightarrow> ('b \<Rightarrow> string + 'p) \<Rightarrow> string + ('s, 'p) JWTManager" where
  "initializeJWTManager env read_file private public =
     (if env ''JWT_PRIVATE_KEY_PATH'' = [] then Inl ''jwt private key path not found in environment variables''
      else case read_file (env ''JWT_PRIVATE_KEY_PATH'') of
        Inl _ \<Rightarrow> Inl ''failed to read private key''
      | Inr privateKey \<Rightarrow>
     if env ''JWT_PUBLIC_KEY_PATH'' = [] then Inl ''jwt public key path not found in environment variables''
      else case read_file (env ''JWT_PUBLIC_KEY_PATH'') of
        Inl _ \<Rightarrow> Inl ''failed to read public key''
      | Inr publicKey \<Rightarrow>
     if env ''JWT_ISSUER'' = [] then Inl ''jwt issuer not found in environment variables''
     else if env ''JWT_AUDIENCE'' = [] then Inl ''jwt audience not found in environment variables''
     else if env ''JWT_TTL_MINUTES'' = [] then Inl ''jwt expiration minutes not found in environment variables''
     else case parse_int 64 (env ''JWT_TTL_MINUTES'') of
        None \<Rightarrow> Inl ''invalid jwt expiration minutes''
      | Some n \<Rightarrow> (case NewJWTManager (private privateKey) (public publicKey) (env ''JWT_ISSUER'') (env ''JWT_AUDIENCE'')
            (minutes n) of
          Inl _ \<Rightarrow> Inl ''failed to create jwt manager''
        | Inr j \<Rightarrow> Inr j))"

text \<open>\<open>parse_url\<close> is \<^verbatim>\<open>redis.ParseURL\<close> and \<open>ping\<close> the first call of the server with its result, the client.\<close>

definition initializeRateLimiterMiddleware ::
  "(string \<Rightarrow> string) \<Rightarrow> (string \<Rightarrow> string + 'o) \<Rightarrow> ('o \<Rightarrow> string + 'c limiter) \<Rightarrow> string + RateLimiterMiddleware \<times> 'c limiter" where
  "initializeRateLimiterMiddleware env parse_url ping =
    (let rateLimiterEnabled = (case parse_bool (env ''RATE_LIMITER_ENABLED'') of None \<Rightarrow> False | Some b \<Rightarrow> b);
       unknown = \<lparr>rl_RatePerSecond = getEnvInt env ''RATE_LIMITER_UNKNOWN_RPS'' 5, rl_Burst = getEnvInt env ''RATE_LIMITER_UNKNOWN_BURST'' 10\<rparr>;
       authenticated = \<lparr>rl_RatePerSecond = getEnvInt env ''RATE_LIMITER_AUTH_RPS'' 20, rl_Burst = getEnvInt env ''RATE_LIMITER_AUTH_BURST'' 40\<rparr> in
     if env ''REDIS_URL'' = [] then Inl ''REDIS_URL is not set''
     else (case parse_url (env ''REDIS_URL'') of
       Inl _ \<Rightarrow> Inl ''could not parse redis URL''
     | Inr opts \<Rightarrow> (case ping opts of
         Inl _ \<Rightarrow> Inl ''failed to connect to redis''
       | Inr limiter \<Rightarrow> Inr (\<lparr>rm_unknown = unknown, rm_authenticated = authenticated, rm_isEnabled = rateLimiterEnabled\<rparr>, limiter))))"

text \<open>The start of the gateway up to its listener. \<open>connect\<close> makes the clients of the four URLs, \<open>proxy\<close> the handler for the
  search service.\<close>

definition main_gateway ::
  "ext \<Rightarrow> ('s, 'p) jwt_lib \<Rightarrow> (string \<Rightarrow> string) \<Rightarrow> (string \<Rightarrow> string + 'b) \<Rightarrow> ('b \<Rightarrow> string + 's) \<Rightarrow> ('b \<Rightarrow> string + 'p) \<Rightarrow>
   (string \<Rightarrow> string + 'o) \<Rightarrow> ('o \<Rightarrow> string + 'c limiter) \<Rightarrow> (string list \<Rightarrow> string + 'c GRPCClient) \<Rightarrow> (string \<Rightarrow> string + 'c handler) \<Rightarrow>
   string + ('s, 'p, 'c) gateway" where
  "main_gateway X L env read_file private public parse_url ping connect proxy =
     (case initializeJWTManager env read_file private public of
        Inl e \<Rightarrow> Inl e
      | Inr jwtManager \<Rightarrow>
     (case initializeRateLimiterMiddleware env parse_url ping of
        Inl e \<Rightarrow> Inl e
      | Inr (limits, limiter) \<Rightarrow>
     if \<not> verifyEnvironmentServiceURLs env then Inl ''not found in environment variables''
     else (case connect (map env [''USER_SERVICE_GRPC_URL'', ''PRODUCT_SERVICE_GRPC_URL'', ''CART_SERVICE_GRPC_URL'',
         ''ORDER_SERVICE_GRPC_URL'']) of
        Inl _ \<Rightarrow> Inl ''failed to create gRPC clients''
      | Inr clients \<Rightarrow>
     (case proxy (env ''SEARCH_SERVICE_URL'') of
        Inl _ \<Rightarrow> Inl ''failed to create search handler''
      | Inr search \<Rightarrow>
     if env ''PORT'' = [] then Inl ''failed to initialize server''
     else Inr \<lparr>gt_ext = X, gt_jwt = L, gt_manager = jwtManager, gt_env = env, gt_limits = limits, gt_limiter = limiter,
         gt_clients = clients, gt_search = search\<rparr>))))"

text \<open>A gateway that has started has a name for its cookie and a leeway of 30 seconds.\<close>

lemma started_gateway:
  assumes "main_gateway X L env read_file private public parse_url ping connect proxy = Inr G"
  shows "gt_env G ''COOKIE_AUTH_NAME'' \<noteq> [] \<and> jm_leeway (gt_manager G) = 30 * 10 ^ 9 \<and> gt_jwt G = L"
  using assms
  by (auto simp: main_gateway_def verifyEnvironmentServiceURLs_def requiredEnvVars_def initializeJWTManager_def
      NewJWTManager_def split: sum.splits prod.splits if_splits option.splits)

subsection \<open>Durations\<close>

text \<open>\<^verbatim>\<open>time.ParseDuration\<close>: a sign, then numbers with a fraction and a unit. It computes in \<^verbatim>\<open>uint64\<close>, here a natural
  number with its bounds, and the fraction in \<^verbatim>\<open>float64\<close>.\<close>

fun leading_int :: "nat \<Rightarrow> string \<Rightarrow> (nat \<times> string) option" where
  "leading_int x [] = Some (x, [])"
| "leading_int x (c # cs) = (case digit_val c of
     None \<Rightarrow> Some (x, c # cs)
   | Some d \<Rightarrow> if 2 ^ 63 div 10 < x then None
       else if 2 ^ 63 < 10 * x + d then None else leading_int (10 * x + d) cs)"

text \<open>The digits of a fraction and the power of ten they are over; digits too many are dropped.\<close>

fun leading_fraction :: "nat \<Rightarrow> nat \<Rightarrow> bool \<Rightarrow> string \<Rightarrow> nat \<times> nat \<times> string" where
  "leading_fraction x k overflow [] = (x, k, [])"
| "leading_fraction x k overflow (c # cs) = (case digit_val c of
     None \<Rightarrow> (x, k, c # cs)
   | Some d \<Rightarrow> if overflow \<or> (2 ^ 63 - 1) div 10 < x \<or> 2 ^ 63 < 10 * x + d then leading_fraction x k True cs
       else leading_fraction (10 * x + d) (Suc k) False cs)"

definition unit_map :: "string \<Rightarrow> nat option" where
  "unit_map u = map_of [(''ns'', 1), (''us'', 10 ^ 3), (bytes [0xC2, 0xB5, 0x73], 10 ^ 3), (bytes [0xCE, 0xBC, 0x73], 10 ^ 3),
     (''ms'', 10 ^ 6), (''s'', 10 ^ 9), (''m'', 60 * 10 ^ 9), (''h'', 3600 * 10 ^ 9)] u"

definition fraction_of :: "nat \<Rightarrow> nat \<Rightarrow> nat \<Rightarrow> nat" where
  "fraction_of f k unit = (case fmul (round64 (of_nat f)) (round64 (of_nat unit / 10 ^ k)) of
     Fin v \<Rightarrow> nat \<lfloor>v\<rfloor> | _ \<Rightarrow> 0)"

text \<open>One number with its unit: its value in nanoseconds and the rest.\<close>

definition duration_item :: "string \<Rightarrow> (nat \<times> string) option" where
  "duration_item s = (if s = [] \<or> \<not> (hd s = CHR ''.'' \<or> digit_val (hd s) \<noteq> None) then None
     else (case leading_int 0 s of
       None \<Rightarrow> None
     | Some (v, s1) \<Rightarrow>
        (let pre = length s1 \<noteq> length s; point = (s1 \<noteq> [] \<and> hd s1 = CHR ''.'');
             (f, k, s2) = (if point then leading_fraction 0 0 False (tl s1) else (0, 0, s1));
             post = (point \<and> length s2 \<noteq> length (tl s1));
             u = takeWhile (\<lambda>c. c \<noteq> CHR ''.'' \<and> digit_val c = None) s2 in
         if \<not> pre \<and> \<not> post then None
         else if u = [] then None
         else (case unit_map u of
           None \<Rightarrow> None
         | Some unit \<Rightarrow>
            if 2 ^ 63 div unit < v then None
            else (let w = v * unit + (if 0 < f then fraction_of f k unit else 0) in
              if 2 ^ 63 < w then None else Some (w, drop (length u) s2))))))"

lemma leading_int_length: "leading_int x s = Some (v, t) \<Longrightarrow> length t \<le> length s"
  by (induction x s rule: leading_int.induct) (auto split: option.splits if_splits)

lemma leading_fraction_length: "leading_fraction x k b s = (f, j, t) \<Longrightarrow> length t \<le> length s"
  by (induction x k b s rule: leading_fraction.induct) (auto split: option.splits if_splits)

lemma duration_item_length: "duration_item s = Some (w, t) \<Longrightarrow> length t < length s"
proof -
  assume a: "duration_item s = Some (w, t)"
  then obtain v s1 where s1: "leading_int 0 s = Some (v, s1)"
    by (auto simp: duration_item_def split: option.splits if_splits)
  obtain f k s2 where s2: "(if s1 \<noteq> [] \<and> hd s1 = CHR ''.'' then leading_fraction 0 0 False (tl s1) else (0, 0, s1)) = (f, k, s2)"
    by (metis prod_cases3)
  let ?u = "takeWhile (\<lambda>c. c \<noteq> CHR ''.'' \<and> digit_val c = None) s2"
  have "?u \<noteq> []" "t = drop (length ?u) s2"
    using a s1 s2 by (auto simp: duration_item_def Let_def split: option.splits if_splits prod.splits)
  moreover have "length s2 \<le> length s1"
    using s2 leading_fraction_length [of 0 0 False "tl s1" f k s2] by (auto split: if_splits)
  moreover have "length ?u \<le> length s2" by (rule length_takeWhile_le)
  ultimately show ?thesis using leading_int_length [OF s1] by (cases s2) auto
qed

function duration_items :: "nat \<Rightarrow> string \<Rightarrow> nat option" where
  "duration_items d s = (if s = [] then Some d
     else (case duration_item s of
       None \<Rightarrow> None
     | Some (w, t) \<Rightarrow> let e = (d + w) mod 2 ^ 64 in if 2 ^ 63 < e then None else duration_items e t))"
  by pat_completeness auto
termination by (relation "measure (\<lambda>(d, s). length s)") (auto dest: duration_item_length)

declare duration_items.simps [simp del]

definition parse_duration :: "string \<Rightarrow> int option" where
  "parse_duration orig = (case signed_text orig of (neg, s) \<Rightarrow>
     if s = ''0'' then Some 0
     else if s = [] then None
     else (case duration_items 0 s of
       None \<Rightarrow> None
     | Some d \<Rightarrow> if neg then Some (- int d) else if 2 ^ 63 - 1 < d then None else Some (int d)))"

subsection \<open>The relayer\<close>

definition default_to :: "string \<Rightarrow> string \<Rightarrow> string" where
  "default_to d s = (if s = [] then d else s)"

definition getMessageRelayerConfigFromEnv :: "(string \<Rightarrow> string) \<Rightarrow> go_error + int \<times> int32" where
  "getMessageRelayerConfigFromEnv env =
     (case parse_duration (default_to ''5s'' (env ''MESSAGE_RELAYER_POLL_INTERVAL'')) of
        None \<Rightarrow> Inl (WrappedError ''invalid MESSAGE_RELAYER_POLL_INTERVAL'' (TextError ''time: invalid duration''))
      | Some pollInterval \<Rightarrow>
         (case parse_int 64 (default_to ''25'' (env ''MESSAGE_RELAYER_BATCH_SIZE'')) of
            None \<Rightarrow> Inl (WrappedError ''invalid MESSAGE_RELAYER_BATCH_SIZE'' (TextError ''strconv.Atoi: parsing''))
          | Some batchSize \<Rightarrow> Inr (pollInterval, word_of_int batchSize)))"

lemma five_seconds: "parse_duration ''5s'' = Some (5 * 10 ^ 9)"
  by (simp add: parse_duration_def duration_items.simps duration_item_def digit_val_def unit_map_def bytes_def Let_def)

lemma relayer_defaults: "getMessageRelayerConfigFromEnv (\<lambda>n. []) = Inr (5 * 10 ^ 9, 25)"
  by (simp add: getMessageRelayerConfigFromEnv_def default_to_def five_seconds parse_int_def parse_nat_def digit_val_def)

text \<open>The size is cut to 32 bits: this one gives batches of no event.\<close>

lemma relayer_batch_cut:
  "getMessageRelayerConfigFromEnv (\<lambda>n. if n = ''MESSAGE_RELAYER_BATCH_SIZE'' then ''4294967296'' else []) = Inr (5 * 10 ^ 9, 0)"
  by (simp add: getMessageRelayerConfigFromEnv_def default_to_def five_seconds parse_int_def parse_nat_def digit_val_def)

end
