(* ===== verification/NotificationService.thy ===== *)
theory NotificationService
  imports Events Rabbit
begin

text \<open>
  The notification service: the mail of a created order (\<^verbatim>\<open>internal/email\<close>), the consumer that sends it
  (\<^verbatim>\<open>internal/events\<close>) and the sender's configuration (\<^verbatim>\<open>cmd/notification-service/main.go\<close>).
  Sending a mail, which \<^verbatim>\<open>gomail\<close> does, is the argument \<open>dial\<close> on a state \<open>'c\<close>.
\<close>

record mail =
  ml_From :: string
  ml_To :: string
  ml_Subject :: string
  ml_Body :: string

record SMTPSender =
  sm_host :: string
  sm_port :: int
  sm_username :: string
  sm_password :: string
  sm_from :: string

type_synonym 'c dialer = "SMTPSender \<Rightarrow> mail \<Rightarrow> ('c, go_error + unit) state"

definition NewSMTPSender :: "string \<Rightarrow> int \<Rightarrow> string \<Rightarrow> string \<Rightarrow> string \<Rightarrow> SMTPSender" where
  "NewSMTPSender host port username password from' =
     \<lparr>sm_host = host, sm_port = port, sm_username = username, sm_password = password, sm_from = from'\<rparr>"

definition newline :: string where "newline = [CHR 0x0A]"

definition item_line :: "OrderItem \<Rightarrow> string" where
  "item_line item = ''- Product ID: '' @ oi_ProductID item @ '', Quantity: '' @ show_int (sint (oi_Quantity item)) @ newline"

definition order_mail :: "string \<Rightarrow> OrderCreatedEvent \<Rightarrow> mail" where
  "order_mail from' event = \<lparr>ml_From = from', ml_To = oce_UserEmail event, ml_Subject = ''Order Created: '' @ oce_OrderID event,
     ml_Body = ''Dear User,'' @ newline @ newline @
       ''Thank you for your order. Here are the details:'' @ newline @ newline @
       concat (map item_line (elems (oce_Products event))) @
       newline @ ''We appreciate your business!'' @ newline\<rparr>"

definition sendOrderCreated :: "'c dialer \<Rightarrow> SMTPSender \<Rightarrow> OrderCreatedEvent \<Rightarrow> ('c, go_error + unit) state" where
  "sendOrderCreated dial s event = dial s (order_mail (sm_from s) event)"

text \<open>The argument of \<open>Send\<close> has any type; of a type other than the event's only the name matters.\<close>

definition Send :: "'c dialer \<Rightarrow> SMTPSender \<Rightarrow> string + OrderCreatedEvent \<Rightarrow> ('c, go_error + unit) state" where
  "Send dial s data = (case data of
     Inr event \<Rightarrow> sendOrderCreated dial s event
   | Inl type_name \<Rightarrow> State_Monad.return (Inl (TextError (''unsupported event type: '' @ type_name))))"

subsection \<open>The consumer\<close>

definition notification_exchangeName :: string where "notification_exchangeName = ''order_created_exchange''"
definition notification_queueName :: string where "notification_queueName = ''notification_queue''"
definition notification_consumerName :: string where "notification_consumerName = ''notification_order_created_consumer''"

definition handleOrderCreatedEvent_notification ::
  "'c dialer \<Rightarrow> SMTPSender \<Rightarrow> json option \<Rightarrow> ('c, disposition) state" where
  "handleOrderCreatedEvent_notification dial s body = (case unmarshal_order_created body of
     Inl _ \<Rightarrow> State_Monad.return (Nack False)
   | Inr event \<Rightarrow> do {
       x \<leftarrow> Send dial s (Inr event);
       State_Monad.return (case x of Inl _ \<Rightarrow> Nack True | Inr _ \<Rightarrow> Ack) })"

definition Start_notification ::
  "ext \<Rightarrow> nat \<Rightarrow> json option session list \<Rightarrow> (rabbit, go_error option \<times> json option list) state" where
  "Start_notification X n ss =
     Subscribe_fanout X notification_exchangeName notification_queueName notification_consumerName n ss"

subsection \<open>Configuration\<close>

definition initializeSMTPSender :: "(string \<Rightarrow> string) \<Rightarrow> go_error + SMTPSender" where
  "initializeSMTPSender env = (let host = env ''SMTP_HOST''; portStr = env ''SMTP_PORT''; from' = env ''SMTP_FROM_EMAIL'' in
     if host = [] \<or> portStr = [] \<or> from' = []
     then Inl (TextError ''SMTP configuration is not set properly, check SMTP_HOST, SMTP_PORT, and SMTP_FROM_EMAIL'')
     else (case parse_int 64 portStr of
        None \<Rightarrow> Inl (WrappedError ''invalid SMTP_PORT'' (TextError ''strconv.Atoi: parsing''))
      | Some port \<Rightarrow> Inr (NewSMTPSender host port (env ''SMTP_USERNAME'') (env ''SMTP_PASSWORD'') from')))"

subsection \<open>What is sent\<close>

text \<open>One delivery makes at most one attempt to send, of the event's mail, and is acknowledged exactly when that succeeds.\<close>

lemma handle_notification:
  "run_state (handleOrderCreatedEvent_notification dial s body) c = (case unmarshal_order_created body of
     Inl _ \<Rightarrow> (Nack False, c)
   | Inr event \<Rightarrow> (case run_state (dial s (order_mail (sm_from s) event)) c of
       (Inl _, c') \<Rightarrow> (Nack True, c') | (Inr _, c') \<Rightarrow> (Ack, c')))"
  by (simp add: handleOrderCreatedEvent_notification_def Send_def sendOrderCreated_def split: sum.splits prod.splits)

end
