(* ===== verification/Startup.thy ===== *)
theory Startup
  imports Config NotificationService SearchService OrderConsumer ProductConsumer CartConsumer
begin

text \<open>
  What the programs share when they start and stop: the database and its migrations (\<^verbatim>\<open>shared/postgres\<close>), the connections to
  Redis, to the broker and to the other services, the servers (\<^verbatim>\<open>shared/web\<close>), the health service, the level of the log,
  and the goroutines of an \<^verbatim>\<open>errgroup\<close>. A process sees its environment variables and the answers of the libraries it
  calls; a client that has been made is named by what it has been made for.
\<close>

datatype migration = Migrated | NoChange | MigrationFailed go_error

record system =
  sy_env :: "string \<Rightarrow> string"
  sy_pool :: "string \<Rightarrow> go_error option"
  sy_ping_db :: "string \<Rightarrow> go_error option"
  sy_migrate_new :: "string \<Rightarrow> string \<Rightarrow> go_error option"
  sy_migrate_up :: "string \<Rightarrow> string \<Rightarrow> migration"
  sy_redis_url :: "string \<Rightarrow> go_error option"
  sy_redis_ping :: "string \<Rightarrow> go_error option"
  sy_broker :: "string \<Rightarrow> rabbit"
  sy_grpc :: "string \<Rightarrow> go_error option"
  sy_listen :: "string \<Rightarrow> go_error option"

definition check_call :: "go_error option \<Rightarrow> go_error + unit" where
  "check_call e = (case e of None \<Rightarrow> Inr () | Some x \<Rightarrow> Inl x)"

definition then_call :: "go_error + 'a \<Rightarrow> ('a \<Rightarrow> go_error + 'b) \<Rightarrow> go_error + 'b" where
  "then_call r k = (case r of Inl e \<Rightarrow> Inl e | Inr x \<Rightarrow> k x)"

definition wrap_error :: "string \<Rightarrow> go_error + 'a \<Rightarrow> go_error + 'a" where
  "wrap_error t r = map_sum (WrappedError t) id r"

text \<open>\<^verbatim>\<open>if os.Getenv(name) == "" { return fmt.Errorf(name + " is not set") }\<close>\<close>

definition require_env :: "system \<Rightarrow> string \<Rightarrow> go_error + string" where
  "require_env S name = (if sy_env S name = [] then Inl (TextError (name @ '' is not set'')) else Inr (sy_env S name))"

lemma then_call_Inr [simp]: "then_call r k = Inr x \<longleftrightarrow> (\<exists>y. r = Inr y \<and> k y = Inr x)"
  by (simp add: then_call_def split: sum.splits)

lemma startup_simps [simp]:
  "check_call e = Inr u \<longleftrightarrow> e = None" "wrap_error t r = Inr x \<longleftrightarrow> r = Inr x"
  "require_env S name = Inr v \<longleftrightarrow> sy_env S name \<noteq> [] \<and> v = sy_env S name"
  by (auto simp: check_call_def wrap_error_def require_env_def split: option.splits) (cases r; simp)+

subsection \<open>The database\<close>

definition executeMigrations :: "system \<Rightarrow> go_error + unit" where
  "executeMigrations S = (let dir = default_to ''/migrations'' (sy_env S ''MIGRATIONS_DIR''); url = sy_env S ''DATABASE_URL'' in
     then_call (check_call (sy_migrate_new S dir url)) (\<lambda>_.
     case sy_migrate_up S dir url of MigrationFailed e \<Rightarrow> Inl e | Migrated \<Rightarrow> Inr () | NoChange \<Rightarrow> Inr ()))"

definition InitializePostgresDB :: "system \<Rightarrow> go_error + string" where
  "InitializePostgresDB S = (let url = sy_env S ''DATABASE_URL'' in
     then_call (check_call (sy_pool S url)) (\<lambda>_.
     then_call (check_call (sy_ping_db S url)) (\<lambda>_.
     then_call (executeMigrations S) (\<lambda>_. Inr url))))"

subsection \<open>Redis\<close>

definition redis_client :: "string \<Rightarrow> string \<Rightarrow> system \<Rightarrow> go_error + string" where
  "redis_client parse_text ping_text S =
     then_call (require_env S ''REDIS_URL'') (\<lambda>url.
     then_call (wrap_error parse_text (check_call (sy_redis_url S url))) (\<lambda>_.
     then_call (wrap_error ping_text (check_call (sy_redis_ping S url))) (\<lambda>_. Inr url)))"

definition initializeRedisClient_product :: "system \<Rightarrow> go_error + string" where
  "initializeRedisClient_product S = redis_client ''could not parse redis URL'' ''could not ping redis'' S"

definition initializeRedisClient_cart :: "system \<Rightarrow> go_error + string" where
  "initializeRedisClient_cart S = redis_client ''failed to parse REDIS_URL'' ''failed to ping redis'' S"

definition initializeRedisClient_user :: "system \<Rightarrow> go_error + string" where
  "initializeRedisClient_user S = redis_client ''could not parse redis URL'' ''could not ping redis'' S"

subsection \<open>The broker\<close>

definition NewConnection :: "system \<Rightarrow> string \<Rightarrow> go_error + rabbit" where
  "NewConnection S url = (case run_state newConnectionManager (sy_broker S url) of (Inl e, _) \<Rightarrow> Inl e | (Inr _, w) \<Rightarrow> Inr w)"

definition NewClient_rabbit :: "system \<Rightarrow> string \<Rightarrow> go_error + rabbit" where
  "NewClient_rabbit S url = (case run_state newConnectionManager (sy_broker S url) of (Inl e, _) \<Rightarrow> Inl e | (Inr _, w) \<Rightarrow> Inr w)"

definition initializeRabbitMQ_order :: "system \<Rightarrow> go_error + rabbit" where
  "initializeRabbitMQ_order S = then_call (require_env S ''RABBITMQ_URL'') (NewConnection S)"

definition initializeRabbitMQ_cart :: "system \<Rightarrow> go_error + rabbit" where
  "initializeRabbitMQ_cart S = then_call (require_env S ''RABBITMQ_URL'') (NewConnection S)"

definition initializeRabbitMQ_notification :: "system \<Rightarrow> go_error + rabbit" where
  "initializeRabbitMQ_notification S = then_call (require_env S ''RABBITMQ_URL'') (NewConnection S)"

definition initializeRabbitMQClient_search :: "system \<Rightarrow> go_error + rabbit" where
  "initializeRabbitMQClient_search S = then_call (require_env S ''RABBITMQ_URL'') (NewClient_rabbit S)"

definition initializeRabbitMQClients_product :: "system \<Rightarrow> go_error + rabbit \<times> rabbit" where
  "initializeRabbitMQClients_product S =
     then_call (require_env S ''RABBITMQ_URL'') (\<lambda>url.
     then_call (wrap_error ''failed to create fanout rabbitmq connection'' (NewConnection S url)) (\<lambda>fanoutPublisher.
     then_call (wrap_error ''failed to create topic rabbitmq client'' (NewClient_rabbit S url)) (\<lambda>topicClient.
     Inr (fanoutPublisher, topicClient))))"

subsection \<open>Clients of the services\<close>

record clientsURL =
  cl_cartServiceURL :: string
  cl_paymentServiceURL :: string
  cl_userServiceURL :: string

definition NewClienstURL :: "string \<Rightarrow> string \<Rightarrow> string \<Rightarrow> clientsURL" where
  "NewClienstURL cartURL paymentURL userURL =
     \<lparr>cl_cartServiceURL = cartURL, cl_paymentServiceURL = paymentURL, cl_userServiceURL = userURL\<rparr>"

definition grpc_connection :: "system \<Rightarrow> string \<Rightarrow> go_error + string" where
  "grpc_connection S url = then_call (check_call (sy_grpc S url)) (\<lambda>_. Inr url)"

definition NewClients :: "system \<Rightarrow> clientsURL \<Rightarrow> go_error + clientsURL" where
  "NewClients S urls =
     then_call (wrap_error ''failed to connect to cart gRPC client'' (grpc_connection S (cl_cartServiceURL urls))) (\<lambda>cart.
     then_call (wrap_error ''failed to connect to payment gRPC client'' (grpc_connection S (cl_paymentServiceURL urls))) (\<lambda>payment.
     then_call (wrap_error ''failed to connect to user gRPC client'' (grpc_connection S (cl_userServiceURL urls))) (\<lambda>user.
     Inr \<lparr>cl_cartServiceURL = cart, cl_paymentServiceURL = payment, cl_userServiceURL = user\<rparr>)))"

definition initializegRPCClients :: "system \<Rightarrow> go_error + clientsURL" where
  "initializegRPCClients S =
     then_call (require_env S ''CART_SERVICE_GRPC_URL'') (\<lambda>cartServiceURL.
     then_call (require_env S ''PAYMENT_SERVICE_GRPC_URL'') (\<lambda>paymentServiceURL.
     then_call (require_env S ''USER_SERVICE_GRPC_URL'') (\<lambda>userServiceURL.
     NewClients S (NewClienstURL cartServiceURL paymentServiceURL userServiceURL))))"

definition NewProductClient :: "system \<Rightarrow> string \<Rightarrow> go_error + string" where
  "NewProductClient S grpcAddr = grpc_connection S grpcAddr"

text \<open>The clients of the gateway: five connections to four services.\<close>

record GRPCClientError =
  ge_ServiceName :: string
  ge_Err :: go_error

definition GRPCClientError_text :: "ext \<Rightarrow> GRPCClientError \<Rightarrow> string" where
  "GRPCClientError_text X e = ''failed to connect to '' @ ge_ServiceName e @ '': '' @ err_text X (ge_Err e)"

record ClientURL =
  cu_UserServiceURL :: string
  cu_ProductServiceURL :: string
  cu_CartServiceURL :: string
  cu_OrderServiceURL :: string

definition gateway_connection :: "system \<Rightarrow> string \<Rightarrow> string \<Rightarrow> (string \<Rightarrow> GRPCClientError + 'a) \<Rightarrow> GRPCClientError + 'a" where
  "gateway_connection S service url k = (case grpc_connection S url of
     Inl e \<Rightarrow> Inl \<lparr>ge_ServiceName = service, ge_Err = e\<rparr> | Inr c \<Rightarrow> k c)"

definition NewGRPCClient :: "system \<Rightarrow> ClientURL \<Rightarrow> GRPCClientError + string list" where
  "NewGRPCClient S urls =
     gateway_connection S ''User Service'' (cu_UserServiceURL urls) (\<lambda>user.
     gateway_connection S ''Product Service'' (cu_ProductServiceURL urls) (\<lambda>product.
     gateway_connection S ''Product Categories Service'' (cu_ProductServiceURL urls) (\<lambda>categories.
     gateway_connection S ''Cart Service'' (cu_CartServiceURL urls) (\<lambda>cart.
     gateway_connection S ''Order Service'' (cu_OrderServiceURL urls) (\<lambda>order.
     Inr [user, product, categories, cart, order])))))"

subsection \<open>Servers\<close>

record http_server =
  hs_Addr :: string
  hs_ReadHeaderTimeout :: int
  hs_WriteTimeout :: int
  hs_IdleTimeout :: int

definition InitializeServer :: "string \<Rightarrow> go_error + http_server" where
  "InitializeServer port = (if port = [] then Inl (TextError ''port not found in environment variables'')
     else Inr \<lparr>hs_Addr = CHR '':'' # port, hs_ReadHeaderTimeout = 20 * 10 ^ 9, hs_WriteTimeout = 60 * 10 ^ 9,
       hs_IdleTimeout = 180 * 10 ^ 9\<rparr>)"

text \<open>The gateway's server: what happens to the process until it returns. A listener that fails is logged only.\<close>

datatype http_event = ListenerFailed | Signalled

record http_run =
  hn_listening :: bool
  hn_returned :: bool

definition StartServerAndWaitForShutdown :: "http_event list \<Rightarrow> http_run" where
  "StartServerAndWaitForShutdown es = foldl (\<lambda>r e. if hn_returned r then r else (case e of
     ListenerFailed \<Rightarrow> r\<lparr>hn_listening := False\<rparr>
   | Signalled \<Rightarrow> \<lparr>hn_listening = False, hn_returned = True\<rparr>)) \<lparr>hn_listening = True, hn_returned = False\<rparr> es"

text \<open>A gRPC server serves until the context is done or serving fails, whichever comes first.\<close>

datatype server_end = CtxEnded ctx_err | ServeFailed go_error

definition StartGRPCServerAndWaitForShutdown :: "server_end \<Rightarrow> go_error option" where
  "StartGRPCServerAndWaitForShutdown ending = (case ending of CtxEnded e \<Rightarrow> Some (CtxError e) | ServeFailed e \<Rightarrow> Some e)"

text \<open>The listener every gRPC service opens; \<open>rest\<close> is what follows.\<close>

definition with_listener :: "system \<Rightarrow> string \<Rightarrow> go_error option \<Rightarrow> go_error option" where
  "with_listener S var rest = (case then_call (require_env S var) (\<lambda>port.
       wrap_error ''failed to listen for gRPC'' (check_call (sy_listen S (CHR '':'' # port)))) of
     Inl e \<Rightarrow> Some e | Inr _ \<Rightarrow> rest)"

subsection \<open>Health\<close>

datatype serving = NOT_SERVING | SERVING

text \<open>\<^verbatim>\<open>StartGRPCHealthCheckService\<close>: the statuses it sets, in order, given what the check returns. It checks once.\<close>

definition StartGRPCHealthCheckService :: "string \<Rightarrow> go_error list \<Rightarrow> (string \<times> serving) list" where
  "StartGRPCHealthCheckService service err = [(service, NOT_SERVING)] @ (if err = [] then [(service, SERVING)] else [])"

text \<open>\<^verbatim>\<open>errors.Join\<close> keeps the errors that are not nil. A check asks the database, or the database and Redis.\<close>

definition errors_join :: "go_error option list \<Rightarrow> go_error list" where
  "errors_join es = map the (filter (\<lambda>e. e \<noteq> None) es)"

definition health_order :: "go_error option \<Rightarrow> (string \<times> serving) list" where
  "health_order dbErr = StartGRPCHealthCheckService ''order-service'' (case dbErr of Some e \<Rightarrow> [e] | None \<Rightarrow> [])"

definition health_payment :: "go_error option \<Rightarrow> (string \<times> serving) list" where
  "health_payment dbErr = StartGRPCHealthCheckService ''payment-service'' (case dbErr of Some e \<Rightarrow> [e] | None \<Rightarrow> [])"

definition health_product :: "go_error option \<Rightarrow> go_error option \<Rightarrow> (string \<times> serving) list" where
  "health_product dbErr redisErr = StartGRPCHealthCheckService ''product-service''
     (if dbErr = None \<and> redisErr = None then [] else errors_join [dbErr, redisErr])"

definition health_cart :: "go_error option \<Rightarrow> go_error option \<Rightarrow> (string \<times> serving) list" where
  "health_cart dbErr redisErr = StartGRPCHealthCheckService ''cart-service''
     (if dbErr = None \<and> redisErr = None then [] else errors_join [dbErr, redisErr])"

definition health_user :: "go_error option \<Rightarrow> go_error option \<Rightarrow> (string \<times> serving) list" where
  "health_user dbErr redisErr = StartGRPCHealthCheckService ''user-service''
     (if dbErr = None \<and> redisErr = None then [] else errors_join [dbErr, redisErr])"

text \<open>A service is healthy for ever exactly when the answers were good the one time it asked.\<close>

lemma last_health:
  "last (health_order d) = (''order-service'', if d = None then SERVING else NOT_SERVING)"
  "last (health_payment d) = (''payment-service'', if d = None then SERVING else NOT_SERVING)"
  "last (health_product d r) = (''product-service'', if d = None \<and> r = None then SERVING else NOT_SERVING)"
  "last (health_cart d r) = (''cart-service'', if d = None \<and> r = None then SERVING else NOT_SERVING)"
  "last (health_user d r) = (''user-service'', if d = None \<and> r = None then SERVING else NOT_SERVING)"
  by (auto simp: health_order_def health_payment_def health_product_def health_cart_def health_user_def
      StartGRPCHealthCheckService_def errors_join_def split: option.splits)

subsection \<open>Constructors that refuse nil\<close>

definition NewProductHandler :: "unit option \<Rightarrow> 'c os_transport option \<Rightarrow> string \<Rightarrow> go_error + 'c os_transport \<times> string" where
  "NewProductHandler logger searcher index = (if logger = None then Inl (TextError ''logger is nil'')
     else (case searcher of None \<Rightarrow> Inl (TextError ''opensearch client is nil'') | Some s \<Rightarrow> Inr (s, index)))"

definition New_search_router :: "ext \<Rightarrow> unit option \<Rightarrow> ('c os_transport \<times> string) option \<Rightarrow> go_error + 'c handler" where
  "New_search_router X logger productHandler = (if logger = None then Inl (TextError ''logger is nil'')
     else (case productHandler of None \<Rightarrow> Inl (TextError ''product handler is nil'')
       | Some (os_do, index) \<Rightarrow> Inr (search_mux X os_do index)))"

text \<open>The proxy of the gateway to the search service: \<open>forward\<close> is the reverse proxy of the standard library for a target and
  the host it is told to name.\<close>

definition NewSearchHandler :: "('u \<Rightarrow> string) \<Rightarrow> ('u \<Rightarrow> string \<Rightarrow> 'c handler) \<Rightarrow> 'u option \<Rightarrow> go_error + 'c handler" where
  "NewSearchHandler host forward targetURL = (case targetURL of
     None \<Rightarrow> Inl (TextError ''target URL is nil'') | Some u \<Rightarrow> Inr (forward u (host u)))"

subsection \<open>Logging\<close>

datatype log_level = LevelDebug | LevelInfo | LevelWarn | LevelError

text \<open>The levels of \<^verbatim>\<open>log/slog\<close> are numbers.\<close>

fun slog_level :: "log_level \<Rightarrow> int" where
  "slog_level LevelDebug = - 4"
| "slog_level LevelInfo = 0"
| "slog_level LevelWarn = 4"
| "slog_level LevelError = 8"

instantiation log_level :: linorder
begin

definition less_eq_log_level :: "log_level \<Rightarrow> log_level \<Rightarrow> bool" where
  "l \<le> k \<longleftrightarrow> slog_level l \<le> slog_level k"

definition less_log_level :: "log_level \<Rightarrow> log_level \<Rightarrow> bool" where
  "l < k \<longleftrightarrow> slog_level l < slog_level k"

instance
proof
  fix x y z :: log_level
  show "x \<le> y \<Longrightarrow> y \<le> x \<Longrightarrow> x = y" by (cases x; cases y) (simp_all add: less_eq_log_level_def)
qed (auto simp: less_eq_log_level_def less_log_level_def)

end

definition configLogLevel :: "string \<Rightarrow> log_level" where
  "configLogLevel level = (if level = ''DEBUG'' then LevelDebug else if level = ''INFO'' then LevelInfo
     else if level = ''WARN'' then LevelWarn else if level = ''ERROR'' then LevelError else LevelInfo)"

text \<open>The log of a process is the list of its lines. A logger is its level: a handler of \<^verbatim>\<open>log/slog\<close> writes the lines that have at least
  its level. The attributes of a line are left out.\<close>

type_synonym log_lines = "(log_level \<times> string) list"

definition log_at :: "log_level \<Rightarrow> log_level \<Rightarrow> string \<Rightarrow> (log_lines, unit) state" where
  "log_at logger level t = State (\<lambda>ls. ((), if logger \<le> level then ls @ [(level, t)] else ls))"

definition NewSlogLogger :: "(string \<Rightarrow> string) \<Rightarrow> (log_lines, log_level) state" where
  "NewSlogLogger env = do {
     let logLevel = configLogLevel (env ''LOG_LEVEL'');
     _ \<leftarrow> log_at logLevel LevelInfo ''logger initialized'';
     State_Monad.return logLevel }"

definition Debug_log :: "log_level \<Rightarrow> string \<Rightarrow> (log_lines, unit) state" where
  "Debug_log s t = log_at s LevelDebug t"

definition Info_log :: "log_level \<Rightarrow> string \<Rightarrow> (log_lines, unit) state" where
  "Info_log s t = log_at s LevelInfo t"

definition Warn_log :: "log_level \<Rightarrow> string \<Rightarrow> (log_lines, unit) state" where
  "Warn_log s t = log_at s LevelWarn t"

definition Error_log :: "log_level \<Rightarrow> string \<Rightarrow> (log_lines, unit) state" where
  "Error_log s t = log_at s LevelError t"

text \<open>Whatever the variable says, errors are written; what is less than the configured level never is.\<close>

lemma level_at_most_error: "l \<le> LevelError"
  by (cases l) (simp_all add: less_eq_log_level_def)

lemma errors_are_logged:
  "run_state (do { logger \<leftarrow> NewSlogLogger env; Error_log logger t }) ls = ((), ls') \<Longrightarrow> last ls' = (LevelError, t)"
  by (auto simp: NewSlogLogger_def Error_log_def log_at_def level_at_most_error Let_def)

lemma log_below_level:
  "run_state (log_at logger level t) ls = ((), ls') \<Longrightarrow> \<forall>(l, m) \<in> set ls. logger \<le> l \<Longrightarrow> \<forall>(l, m) \<in> set ls'. logger \<le> l"
  by (auto simp: log_at_def split: if_splits)

subsection \<open>The health checker\<close>

text \<open>The exit status of \<^verbatim>\<open>tools/health-checker\<close>: \<open>get\<close> is the request with its time-out.\<close>

definition main_health_checker :: "string list \<Rightarrow> (string \<Rightarrow> go_error + int) \<Rightarrow> int" where
  "main_health_checker args get = (case args of
     program # url # _ \<Rightarrow> (case get url of Inl _ \<Rightarrow> 1 | Inr status \<Rightarrow> if 200 \<le> status \<and> status < 300 then 0 else 1)
   | _ \<Rightarrow> 1)"

end
