(* ===== verification/Programs.thy ===== *)
theory Programs
  imports Startup
begin

text \<open>
  The programs from their start to their exit status: \<^verbatim>\<open>main\<close> of the seven services and of the gateway
  (\<^verbatim>\<open>cmd/*/main.go\<close>). A program initialises what it needs and exits with 1 when something fails; then its goroutines
  run until the \<^verbatim>\<open>errgroup\<close> is done. What happens to a running process is a list of events; the result is \<open>None\<close> while it
  runs, and its exit status after that. What the goroutines do meanwhile is modelled by the theories of their components.
\<close>

subsection \<open>The goroutines of a program\<close>

text \<open>\<^verbatim>\<open>errors.Is(err, context.Canceled)\<close>\<close>

fun is_canceled :: "go_error \<Rightarrow> bool" where
  "is_canceled (CtxError CtxCanceled) = True"
| "is_canceled (WrappedError t e) = is_canceled e"
| "is_canceled _ = False"

datatype life_event = Interrupted | RelayerStarted | ServerEnded server_end | ConsumerEnded "go_error option"

datatype group_end = Waiting | Killed int | Finished "go_error option"

text \<open>\<^verbatim>\<open>g.Wait()\<close> gives the first error of the group's two goroutines, when both have returned; the flags say which is still
  running. The relayer is a goroutine outside the group, which may end the whole process with the status \<open>worker\<close>.\<close>

definition first_error :: "go_error option \<Rightarrow> go_error option \<Rightarrow> go_error option" where
  "first_error err r = (case err of None \<Rightarrow> r | Some e \<Rightarrow> Some e)"

fun group_wait ::
  "int option \<Rightarrow> (server_end \<Rightarrow> go_error option) \<Rightarrow> (go_error option \<Rightarrow> go_error option) \<Rightarrow> bool \<Rightarrow> bool \<Rightarrow> go_error option \<Rightarrow>
   life_event list \<Rightarrow> group_end" where
  "group_wait worker server consumer sr cr err [] = (if sr \<or> cr then Waiting else Finished err)"
| "group_wait worker server consumer sr cr err (e # es) = (if sr \<or> cr then (case e of
     Interrupted \<Rightarrow> group_wait worker server consumer sr cr err es
   | RelayerStarted \<Rightarrow> (case worker of
       Some status \<Rightarrow> Killed status | None \<Rightarrow> group_wait worker server consumer sr cr err es)
   | ServerEnded x \<Rightarrow> if sr then group_wait worker server consumer False cr (first_error err (server x)) es
       else group_wait worker server consumer sr cr err es
   | ConsumerEnded r \<Rightarrow> if cr then group_wait worker server consumer sr False (first_error err (consumer r)) es
       else group_wait worker server consumer sr cr err es)
   else Finished err)"

definition group_status :: "group_end \<Rightarrow> (go_error option \<Rightarrow> int) \<Rightarrow> int option" where
  "group_status g status = (case g of Waiting \<Rightarrow> None | Killed s \<Rightarrow> Some s | Finished err \<Rightarrow> Some (status err))"

text \<open>\<^verbatim>\<open>if err != nil && !errors.Is(err, context.Canceled) { os.Exit(1) }\<close>, and without the second condition.\<close>

definition status_unless_canceled :: "go_error option \<Rightarrow> int" where
  "status_unless_canceled err = (case err of None \<Rightarrow> 0 | Some e \<Rightarrow> if is_canceled e then 0 else 1)"

definition status_of_error :: "go_error option \<Rightarrow> int" where
  "status_of_error err = (case err of None \<Rightarrow> 0 | Some e \<Rightarrow> 1)"

text \<open>\<^verbatim>\<open>if err != nil { logger.Error(...); os.Exit(1) }\<close>\<close>

definition exit_on :: "'e + 'a \<Rightarrow> ('a \<Rightarrow> int option) \<Rightarrow> int option" where
  "exit_on r k = (case r of Inl _ \<Rightarrow> Some 1 | Inr x \<Rightarrow> k x)"

text \<open>The relayer's goroutine: an interval that is not positive makes \<^verbatim>\<open>time.NewTicker\<close> panic, which ends the process with
  status 2.\<close>

definition relayer_status :: "go_error + int \<times> int32 \<Rightarrow> int option" where
  "relayer_status config = (case config of Inl _ \<Rightarrow> Some 1 | Inr (pollInterval, _) \<Rightarrow> if pollInterval \<le> 0 then Some 2 else None)"

subsection \<open>The order service\<close>

definition startGRPCServer_order :: "system \<Rightarrow> server_end \<Rightarrow> go_error option" where
  "startGRPCServer_order S x = with_listener S ''ORDER_SERVICE_GRPC_PORT'' (StartGRPCServerAndWaitForShutdown x)"

definition StockUpdateFailedConsumer_task :: "go_error option \<Rightarrow> go_error option" where
  "StockUpdateFailedConsumer_task r = map_option (WrappedError ''StockUpdateFailedConsumer failed'') r"

definition initializeServicesAndWaitForShutdown_order :: "system \<Rightarrow> life_event list \<Rightarrow> int option" where
  "initializeServicesAndWaitForShutdown_order S es = (let config = getMessageRelayerConfigFromEnv (sy_env S) in
     exit_on config (\<lambda>_.
     group_status (group_wait (relayer_status config) (startGRPCServer_order S) StockUpdateFailedConsumer_task True True None es)
       status_unless_canceled))"

definition main_order :: "system \<Rightarrow> life_event list \<Rightarrow> int option" where
  "main_order S es =
     exit_on (InitializePostgresDB S) (\<lambda>pgDb.
     exit_on (initializegRPCClients S) (\<lambda>grpcClients.
     exit_on (initializeRabbitMQ_order S) (\<lambda>rabbitmq.
     initializeServicesAndWaitForShutdown_order S es)))"

subsection \<open>The product service\<close>

definition startGRPCServer_product :: "system \<Rightarrow> server_end \<Rightarrow> go_error option" where
  "startGRPCServer_product S x = with_listener S ''PRODUCT_SERVICE_GRPC_PORT'' (StartGRPCServerAndWaitForShutdown x)"

definition startMessageRelayerWorker :: "system \<Rightarrow> int option" where
  "startMessageRelayerWorker S = relayer_status (getMessageRelayerConfigFromEnv (sy_env S))"

definition startRabbitMQConsumer_product :: "go_error option \<Rightarrow> go_error option" where
  "startRabbitMQConsumer_product r = map_option (WrappedError ''OrderCreatedConsumer failed'') r"

definition initializeServicesAndWaitForShutdown_product :: "system \<Rightarrow> life_event list \<Rightarrow> int option" where
  "initializeServicesAndWaitForShutdown_product S es =
     group_status (group_wait (startMessageRelayerWorker S) (startGRPCServer_product S) startRabbitMQConsumer_product True True None es)
       status_unless_canceled"

definition main_product :: "system \<Rightarrow> life_event list \<Rightarrow> int option" where
  "main_product S es =
     exit_on (InitializePostgresDB S) (\<lambda>pgDb.
     exit_on (initializeRedisClient_product S) (\<lambda>redisClient.
     exit_on (initializeRabbitMQClients_product S) (\<lambda>(fanoutPublisher, rabbitmqClient).
     initializeServicesAndWaitForShutdown_product S es)))"

subsection \<open>The cart service\<close>

definition startGRPCServer_cart :: "system \<Rightarrow> server_end \<Rightarrow> go_error option" where
  "startGRPCServer_cart S x = (case then_call (require_env S ''PRODUCT_SERVICE_GRPC_URL'') (\<lambda>url.
       wrap_error ''failed to create product client'' (NewProductClient S url)) of
     Inl e \<Rightarrow> Some e
   | Inr _ \<Rightarrow> with_listener S ''CART_SERVICE_GRPC_PORT'' (StartGRPCServerAndWaitForShutdown x))"

definition startRabbitMQConsumer_cart :: "go_error option \<Rightarrow> go_error option" where
  "startRabbitMQConsumer_cart r = map_option (WrappedError ''OrderCreatedConsumer failed'') r"

definition main_cart :: "system \<Rightarrow> life_event list \<Rightarrow> int option" where
  "main_cart S es =
     exit_on (InitializePostgresDB S) (\<lambda>pgDb.
     exit_on (initializeRedisClient_cart S) (\<lambda>redisClient.
     exit_on (initializeRabbitMQ_cart S) (\<lambda>rabbitmq.
     group_status (group_wait None (startGRPCServer_cart S) startRabbitMQConsumer_cart True True None es) status_of_error)))"

subsection \<open>The search service\<close>

definition initializeOpenSearchClient :: "system \<Rightarrow> go_error + 'c os_transport \<Rightarrow> go_error + 'c os_transport" where
  "initializeOpenSearchClient S made =
     NewClient_opensearch [sy_env S ''OPENSEARCH_ADDRESS''] (sy_env S ''OPENSEARCH_USERNAME'') (sy_env S ''OPENSEARCH_PASSWORD'') made"

text \<open>The server that is shut down returns \<^verbatim>\<open>http.ErrServerClosed\<close>, which is no failure.\<close>

definition startHTTPServer :: "system \<Rightarrow> server_end \<Rightarrow> go_error option" where
  "startHTTPServer S x = (case InitializeServer (sy_env S ''PORT'') of
     Inl e \<Rightarrow> Some e
   | Inr srv \<Rightarrow> (case x of CtxEnded _ \<Rightarrow> None | ServeFailed e \<Rightarrow> Some (WrappedError ''HTTP server failed'' e)))"

definition startServices :: "system \<Rightarrow> life_event list \<Rightarrow> group_end" where
  "startServices S es = group_wait None (startHTTPServer S) id True True None es"

definition main_search :: "ext \<Rightarrow> system \<Rightarrow> go_error + 'c os_transport \<Rightarrow> life_event list \<Rightarrow> int option" where
  "main_search X S made es =
     exit_on (initializeRabbitMQClient_search S) (\<lambda>rabbitmqClient.
     exit_on (initializeOpenSearchClient S made) (\<lambda>opensearchClient.
     let opensearchProductIndex = sy_env S ''OPENSEARCH_PRODUCT_INDEX'' in
     if opensearchProductIndex = [] then Some 1
     else exit_on (NewProductHandler (Some ()) (Some opensearchClient) opensearchProductIndex) (\<lambda>productHandler.
     exit_on (New_search_router X (Some ()) (Some productHandler)) (\<lambda>router.
     group_status (startServices S es) status_unless_canceled))))"

subsection \<open>The user, the payment and the notification service\<close>

text \<open>Two services run nothing but their server, in the foreground and with a context that is never done; what it returns
  is not looked at.\<close>

definition startGRPCServer_user :: "system \<Rightarrow> server_end option \<Rightarrow> int option" where
  "startGRPCServer_user S x = exit_on (then_call (require_env S ''USER_SERVICE_GRPC_PORT'') (\<lambda>port. check_call (sy_listen S (CHR '':'' # port))))
     (\<lambda>_. case map_option StartGRPCServerAndWaitForShutdown x of None \<Rightarrow> None | Some _ \<Rightarrow> Some 0)"

definition main_user :: "system \<Rightarrow> server_end option \<Rightarrow> int option" where
  "main_user S x =
     exit_on (InitializePostgresDB S) (\<lambda>pgDb.
     exit_on (initializeRedisClient_user S) (\<lambda>redisClient. startGRPCServer_user S x))"

definition startGRPCServer_payment :: "system \<Rightarrow> server_end option \<Rightarrow> int option" where
  "startGRPCServer_payment S x =
     exit_on (then_call (require_env S ''PAYMENT_SERVICE_GRPC_PORT'') (\<lambda>port. check_call (sy_listen S (CHR '':'' # port))))
     (\<lambda>_. case map_option StartGRPCServerAndWaitForShutdown x of None \<Rightarrow> None | Some _ \<Rightarrow> Some 0)"

definition main_payment :: "system \<Rightarrow> server_end option \<Rightarrow> int option" where
  "main_payment S x = exit_on (InitializePostgresDB S) (\<lambda>pgDb. startGRPCServer_payment S x)"

text \<open>The notification service logs what its consumer returns and exits with 0.\<close>

definition main_notification :: "system \<Rightarrow> go_error option option \<Rightarrow> int option" where
  "main_notification S ended =
     exit_on (initializeSMTPSender (sy_env S)) (\<lambda>smtpSender.
     exit_on (initializeRabbitMQ_notification S) (\<lambda>rabbitmqConn.
     case ended of None \<Rightarrow> None | Some r \<Rightarrow> Some 0))"

subsection \<open>The gateway\<close>

text \<open>From the start of \<open>main_gateway\<close> to the end of the server.\<close>

definition run_gateway :: "string + ('s, 'p, 'c) gateway \<Rightarrow> http_event list \<Rightarrow> int option" where
  "run_gateway started es = exit_on started (\<lambda>_. if hn_returned (StartServerAndWaitForShutdown es) then Some 0 else None)"

subsection \<open>Exit statuses\<close>

text \<open>A goroutine of a group returns nil or a cancellation only when the group's context is done: the process was interrupted or
  the other goroutine has failed; and it returns once.\<close>

definition fails :: "go_error option \<Rightarrow> bool" where
  "fails r \<longleftrightarrow> (case r of None \<Rightarrow> False | Some e \<Rightarrow> \<not> is_canceled e)"

fun causal ::
  "(server_end \<Rightarrow> go_error option) \<Rightarrow> (go_error option \<Rightarrow> go_error option) \<Rightarrow> bool \<Rightarrow> bool \<Rightarrow> bool \<Rightarrow> life_event list \<Rightarrow> bool" where
  "causal server consumer sr cr cancelled [] = True"
| "causal server consumer sr cr cancelled (Interrupted # es) = causal server consumer sr cr True es"
| "causal server consumer sr cr cancelled (RelayerStarted # es) = causal server consumer sr cr cancelled es"
| "causal server consumer sr cr cancelled (ServerEnded x # es) =
     (sr \<and> (cancelled \<or> fails (server x)) \<and> causal server consumer False cr True es)"
| "causal server consumer sr cr cancelled (ConsumerEnded r # es) =
     (cr \<and> (cancelled \<or> fails (consumer r)) \<and> causal server consumer sr False True es)"

lemma first_error_fails [simp]: "fails err \<Longrightarrow> first_error err r = err" "first_error None r = r"
  by (auto simp: fails_def first_error_def split: option.splits)

lemma status_zero [simp]: "status_unless_canceled r = 0 \<longleftrightarrow> \<not> fails r"
  by (simp add: status_unless_canceled_def fails_def split: option.splits)

lemma group_clean:
  assumes "causal server consumer sr cr cancelled es" and "Interrupted \<notin> set es"
    and "cancelled \<longrightarrow> fails err" and "\<not> cancelled \<longrightarrow> err = None \<and> sr \<and> cr"
    and "group_wait worker server consumer sr cr err es = Finished r"
  shows "fails r"
  using assms
proof (induction server consumer sr cr cancelled es arbitrary: err rule: causal.induct)
  case (4 server consumer sr cr cancelled x es)
  then show ?case by (cases cancelled) (auto split: if_splits)
next
  case (5 server consumer sr cr cancelled x es)
  then show ?case by (cases cancelled) (auto split: if_splits)
qed (auto split: if_splits option.splits)

lemma worker_status: "relayer_status c = Some s \<Longrightarrow> s \<noteq> 0"
  by (auto simp: relayer_status_def split: sum.splits if_splits)

lemma group_killed: "group_wait worker server consumer sr cr err es = Killed s \<Longrightarrow> worker = Some s"
  by (induction es arbitrary: sr cr err) (auto split: if_splits life_event.splits option.splits)

lemma exit_on_zero [simp]: "exit_on r k = Some 0 \<longleftrightarrow> (\<exists>x. r = Inr x \<and> k x = Some 0)"
  by (simp add: exit_on_def split: sum.splits)

lemma group_zero:
  assumes "group_status (group_wait worker server consumer True True None es) status_unless_canceled = Some 0"
    and "causal server consumer True True False es" and "worker \<noteq> Some 0"
  shows "Interrupted \<in> set es"
  using assms group_clean [OF assms(2), of None worker] group_killed [of worker server consumer True True None es]
  by (cases "group_wait worker server consumer True True None es") (auto simp: group_status_def)

text \<open>C33. The order, the product and the search service report success only when they were told to stop: if nobody has
  interrupted the process, its exit status is not 0, whatever went wrong and whenever it did.\<close>

theorem clean_exit_needs_interrupt:
  assumes "main_order S es = Some 0 \<and> causal (startGRPCServer_order S) StockUpdateFailedConsumer_task True True False es \<or>
    main_product S es = Some 0 \<and> causal (startGRPCServer_product S) startRabbitMQConsumer_product True True False es \<or>
    main_search X S made es = Some 0 \<and> causal (startHTTPServer S) id True True False es"
  shows "Interrupted \<in> set es"
  using assms worker_status
  by (auto simp: main_order_def main_product_def main_search_def initializeServicesAndWaitForShutdown_order_def
      initializeServicesAndWaitForShutdown_product_def startMessageRelayerWorker_def startServices_def Let_def
      dest: group_zero split: prod.splits if_splits)

lemma cart_server_error: "startGRPCServer_cart S x \<noteq> None"
  by (auto simp: startGRPCServer_cart_def with_listener_def StartGRPCServerAndWaitForShutdown_def split: sum.splits server_end.splits)

lemma group_server_error:
  assumes "\<forall>x. server x \<noteq> None" and "group_wait worker server consumer sr cr err es = Finished r" and "\<not> sr \<longrightarrow> err \<noteq> None"
  shows "r \<noteq> None"
  using assms(2,3)
proof (induction es arbitrary: sr cr err)
  case (Cons e es)
  have "first_error err (server x) \<noteq> None" for x using assms(1) by (auto simp: first_error_def split: option.splits)
  moreover have "err \<noteq> None \<Longrightarrow> first_error err q \<noteq> None" for q by (auto simp: first_error_def split: option.splits)
  ultimately show ?case using Cons by (auto split: if_splits life_event.splits option.splits)
qed (auto split: if_splits)

text \<open>C34. The cart service never exits with 0: its \<^verbatim>\<open>main\<close> takes the cancellation that its server returns for an error, so also
  a process that was asked to stop and stopped gracefully reports a failure.\<close>

theorem cart_exit_status: "main_cart S es \<in> {None, Some 1}"
  using group_server_error [of "startGRPCServer_cart S" None startRabbitMQConsumer_cart True True None es] cart_server_error
    group_killed [of None "startGRPCServer_cart S" startRabbitMQConsumer_cart True True None es]
  by (auto simp: main_cart_def exit_on_def group_status_def status_of_error_def split: sum.splits group_end.splits option.splits)

text \<open>An order service that is running, or that ended in another way than with a failure, has all of its configuration: the
  addresses of the services it calls and of the broker, a database that answered and whose schema is up to date, a
  connection to the broker, and a valid interval and batch size for its relayer.\<close>

theorem running_order_configured:
  assumes "main_order S es \<noteq> Some 1"
  shows "list_all (\<lambda>v. sy_env S v \<noteq> [])
      [''CART_SERVICE_GRPC_URL'', ''PAYMENT_SERVICE_GRPC_URL'', ''USER_SERVICE_GRPC_URL'', ''RABBITMQ_URL''] \<and>
    sy_ping_db S (sy_env S ''DATABASE_URL'') = None \<and>
    sy_migrate_up S (default_to ''/migrations'' (sy_env S ''MIGRATIONS_DIR'')) (sy_env S ''DATABASE_URL'') \<in> {Migrated, NoChange} \<and>
    (\<exists>w. initializeRabbitMQ_order S = Inr w \<and> rb_connection w = Some True) \<and>
    (\<exists>interval batch. getMessageRelayerConfigFromEnv (sy_env S) = Inr (interval, batch))"
proof -
  obtain pgDb urls w config where d: "InitializePostgresDB S = Inr pgDb" and c: "initializegRPCClients S = Inr urls"
    and r: "initializeRabbitMQ_order S = Inr w" and m: "getMessageRelayerConfigFromEnv (sy_env S) = Inr config"
    using assms by (auto simp: main_order_def exit_on_def initializeServicesAndWaitForShutdown_order_def Let_def split: sum.splits)
  have "rb_connection w = Some True"
    using r by (auto simp: initializeRabbitMQ_order_def NewConnection_def newConnectionManager_def connect_def
        split: prod.splits sum.splits)
  moreover have "\<exists>interval batch. config = (interval, batch)" by (cases config) simp
  ultimately show ?thesis using d c r m
    by (auto simp: InitializePostgresDB_def executeMigrations_def initializegRPCClients_def initializeRabbitMQ_order_def Let_def
        split: migration.splits)
qed

subsection \<open>A sample\<close>

definition system_sample :: system where
  "system_sample = \<lparr>sy_env = (\<lambda>n. if n \<in> {''MESSAGE_RELAYER_POLL_INTERVAL'', ''MESSAGE_RELAYER_BATCH_SIZE''} then [] else ''x''),
     sy_pool = (\<lambda>u. None), sy_ping_db = (\<lambda>u. None), sy_migrate_new = (\<lambda>d u. None), sy_migrate_up = (\<lambda>d u. NoChange),
     sy_redis_url = (\<lambda>u. None), sy_redis_ping = (\<lambda>u. None),
     sy_broker = (\<lambda>u. \<lparr>rb_connection = None, rb_channel = None, rb_log = [], rb_ops = 0, rb_answer = (\<lambda>n. Done), rb_waits = 0,
       rb_wait = (\<lambda>n. None), rb_slept = 0\<rparr>),
     sy_grpc = (\<lambda>u. None), sy_listen = (\<lambda>u. None)\<rparr>"

definition stop_sample :: "life_event list" where
  "stop_sample = [RelayerStarted, Interrupted, ConsumerEnded (Some (CtxError CtxCanceled)), ServerEnded (CtxEnded CtxCanceled)]"

lemma order_sample_started:
  "main_order system_sample [] = None" "main_order system_sample stop_sample = Some 0"
  "causal (startGRPCServer_order system_sample) StockUpdateFailedConsumer_task True True False stop_sample"
proof -
  have cfg: "getMessageRelayerConfigFromEnv (sy_env system_sample) = Inr (5 * 10 ^ 9, 25)"
    by (simp add: system_sample_def getMessageRelayerConfigFromEnv_def default_to_def five_seconds parse_int_def parse_nat_def
        digit_val_def)
  have d: "InitializePostgresDB system_sample = Inr ''x''"
    by (simp add: InitializePostgresDB_def executeMigrations_def system_sample_def Let_def)
  have c: "\<exists>urls. initializegRPCClients system_sample = Inr urls"
    by (simp add: initializegRPCClients_def NewClients_def NewClienstURL_def grpc_connection_def system_sample_def)
  have r: "\<exists>w. initializeRabbitMQ_order system_sample = Inr w"
    by (simp add: initializeRabbitMQ_order_def NewConnection_def newConnectionManager_def connect_def amqp_def system_sample_def)
  have s: "startGRPCServer_order system_sample (CtxEnded CtxCanceled) = Some (CtxError CtxCanceled)"
    by (simp add: startGRPCServer_order_def with_listener_def StartGRPCServerAndWaitForShutdown_def system_sample_def then_call_def
        require_env_def wrap_error_def check_call_def)
  show "main_order system_sample [] = None" "main_order system_sample stop_sample = Some 0"
    using c r by (auto simp: main_order_def exit_on_def d initializeServicesAndWaitForShutdown_order_def cfg Let_def group_status_def
        stop_sample_def relayer_status_def s StockUpdateFailedConsumer_task_def first_error_def fails_def)
  show "causal (startGRPCServer_order system_sample) StockUpdateFailedConsumer_task True True False stop_sample"
    by (simp add: stop_sample_def)
qed

theorem clean_exit_needs_interrupt_witness: "Interrupted \<in> set stop_sample"
  using clean_exit_needs_interrupt [of system_sample stop_sample] order_sample_started by blast

theorem running_order_configured_witness:
  "sy_ping_db system_sample (sy_env system_sample ''DATABASE_URL'') = None \<and> main_order system_sample [] = None"
  using running_order_configured [of system_sample "[]"] order_sample_started(1) by simp

text \<open>What the user and the payment service report does not depend on how their server ended, and a gateway whose listener
  failed keeps running.\<close>

lemma hidden_failures:
  "main_user S (Some x) = main_user S (Some y)" "main_payment S (Some x) = main_payment S (Some y)"
  "run_gateway (Inr G) [ListenerFailed] = None"
  by (simp_all add: main_user_def startGRPCServer_user_def main_payment_def startGRPCServer_payment_def run_gateway_def exit_on_def
      StartServerAndWaitForShutdown_def)

end
