(* ===== verification/Fulfilment.thy ===== *)
theory Fulfilment
  imports OrderService OrderConsumer ProductEvents CartConsumer NotificationService
begin

text \<open>
  What the services that an order passes through have to fit together: the exchanges, the payload of an order's
  event as its consumers decode it, and the run of each consumer on it while its database answers. The properties that
  span the services are in the root theory.
\<close>

subsection \<open>The event of an order\<close>

text \<open>The exchange an order's event is published on is the one the three consumers of created orders listen on.\<close>

lemma order_exchange:
  "fst (fanout_route orderCreatedEventName) = occ_exchangeName" "fst (fanout_route orderCreatedEventName) = cart_exchangeName"
  "fst (fanout_route orderCreatedEventName) = notification_exchangeName"
  by (simp_all add: fanout_route_def orderCreatedEventName_def occ_exchangeName_def cart_exchangeName_def
      notification_exchangeName_def)

lemma same_exchange: "cart_exchangeName = occ_exchangeName" "notification_exchangeName = occ_exchangeName"
  by (simp_all add: occ_exchangeName_def cart_exchangeName_def notification_exchangeName_def)

lemma failure_exchange: "delegating_route stockUpdateFailedEventName = (sufc_exchangeName, [])"
  by (simp add: delegating_route_def split_colon_def stockUpdateFailedEventName_def sufc_exchangeName_def)

definition event_of_order :: "ext \<Rightarrow> string \<Rightarrow> CartProductV1 list \<Rightarrow> OrderRow \<Rightarrow> OrderCreatedEvent" where
  "event_of_order X email products row = \<lparr>oce_OrderID = uuid_text X (or_ID row), oce_UserID = uuid_text X (or_UserID row),
     oce_UserEmail = email,
     oce_Products = Some (map (\<lambda>p. \<lparr>oi_ProductID = cpv_ProductId p, oi_Quantity = cpv_Quantity p\<rparr>) products)\<rparr>"

lemma recorded_decodes:
  "recorded X user email amount products w row ev w' \<Longrightarrow>
     unmarshal_order_created (Some (ob_Payload ev)) = Inr (event_of_order X email products row)"
  using order_created_decodes by (simp add: recorded_def generateOrderCreatedEventPayload_def event_of_order_def)

subsection \<open>The cart\<close>

text \<open>What the transaction of an order needs to run to its end: the database answers, the order is not marked, and the mark has a new
  identifier.\<close>

definition cart_ready :: "uuid \<Rightarrow> cart_db \<Rightarrow> bool" where
  "cart_ready order d \<longleftrightarrow> (\<forall>n. fault_at d n = None) \<and> txn d = NoTx \<and> \<not> cart_marked order d \<and>
     uuid_at d (calls d + 3) \<notin> ce_ID ` set (cd_processed d)"

lemma run_cart_tx:
  assumes "parse_uuid X (oce_UserID event) = Inr user" and "parse_uuid X (oce_OrderID event) = Inr order"
    and "\<forall>n. fault_at d n = None" and "txn d = NoTx" and "\<not> cart_marked order d"
    and "uuid_at d (calls d + 2) \<notin> ce_ID ` set (cd_processed d)"
  shows "fst (run_state (DeleteCartAndCreateProcessedEvent X event cart_exchangeName) d) = Inr ()"
  using assms
  by (simp add: DeleteCartAndCreateProcessedEvent_def run_with_tx DeleteCartByUserID_def run_db_call delete_carts_def Let_def
      CreateProcessedEvent_cart_def insert_processed_def run_tx_commit cart_marked_def)

lemma run_handle_cart:
  assumes "cart_unmarshalEvent body = Inr event" and "parse_uuid X (oce_UserID event) = Inr user"
    and "parse_uuid X (oce_OrderID event) = Inr order" and "cart_ready order (cw_db w)"
  shows "\<exists>w'. run_state (handleOrderCreatedEvent_cart X body) w = (Ack, w') \<and> cart_cleared user order (cw_db w) (cw_db w')"
proof -
  let ?d = "(cw_db w)\<lparr>calls := Suc (calls (cw_db w))\<rparr>"
  have none: "find (\<lambda>r. ce_AggregateID r = order \<and> ce_EventName r = cart_exchangeName) (cd_processed (cw_db w)) = None"
    using assms(4) by (auto simp: cart_ready_def cart_marked_def find_None_iff)
  have check: "run_state (shouldSkipProcessing_cart X (oce_OrderID event)) w = (None, w\<lparr>cw_db := ?d\<rparr>)"
    using assms(3,4) none by (simp add: cart_ready_def shouldSkipProcessing_cart_def isEventProcessed_cart_def
        GetProcessedEvent_cart_def run_query_row run_db_call)
  have d: "\<forall>n. fault_at ?d n = None" "txn ?d = NoTx" "\<not> cart_marked order ?d" "uuid_at ?d (calls ?d + 2) \<notin> ce_ID ` set (cd_processed ?d)"
    using assms(4) by (auto simp: cart_ready_def cart_marked_def numeral_3_eq_3)
  obtain d' where tx: "run_state (DeleteCartAndCreateProcessedEvent X event cart_exchangeName) ?d = (Inr (), d')"
    using run_cart_tx [OF assms(2,3) d] by (metis prod.collapse)
  then obtain w' where clear: "run_state (clearOrderedCart X event) (w\<lparr>cw_db := ?d\<rparr>) = (Ack, w')"
    by (simp add: clearOrderedCart_def)
  have "cart_cleared user order ?d (cw_db w')" using clear_effect [OF clear] assms(2,3) by auto
  then have "cart_cleared user order (cw_db w) (cw_db w')" by (simp add: cart_cleared_def cart_marked_def)
  then show ?thesis using assms(1) check clear by (auto simp: handleOrderCreatedEvent_cart_def)
qed

end
