(* ===== verification/Subscriptions.thy ===== *)
theory Subscriptions
  imports Rabbit
begin

text \<open>
  What a subscription of \<^verbatim>\<open>shared/rabbitmq\<close> guarantees its consumer when the broker closes its channel: the client
  reconnects, sets the subscription up again and goes on, until its context is done. The two clients differ in their
  set-up only; the locale states what the loop relies on, and both set-ups interpret it.
\<close>

subsection \<open>A broker that can be reached\<close>

definition calm :: "rabbit \<Rightarrow> bool" where
  "calm w \<longleftrightarrow> broker_up w \<and> (\<forall>n. rb_wait w n = None)"

definition logged :: "broker_op \<Rightarrow> rabbit \<Rightarrow> rabbit" where
  "logged op w = w\<lparr>rb_ops := Suc (rb_ops w), rb_log := rb_log w @ [op]\<rparr>"

text \<open>How often the client has started to consume.\<close>

definition consumes :: "broker_op \<Rightarrow> rabbit \<Rightarrow> nat" where
  "consumes op w = length (filter (\<lambda>x. x = op) (rb_log w))"

lemma calm_logged [simp]: "calm (logged op w) = calm w"
  by (simp add: calm_def broker_up_def logged_def)

lemma consumes_logged [simp]: "consumes op (logged x w) = (if x = op then Suc (consumes op w) else consumes op w)"
  by (simp add: consumes_def logged_def)

lemma run_amqp_calm [simp]: "calm w \<Longrightarrow> run_state (amqp op) w = (Inr (), logged op w)"
  by (simp add: amqp_def calm_def broker_up_def logged_def Let_def)

lemma run_reconnect_calm:
  assumes "calm w"
  shows "\<exists>w'. run_state reconnect w = (Inr (), w') \<and> calm w' \<and> consumes (Consume queue tag) w' = consumes (Consume queue tag) w"
proof -
  let ?w = "w\<lparr>rb_waits := Suc (rb_waits w), rb_slept := rb_slept w + 1000\<rparr>"
  have wait: "run_state (wait 1000) w = (Inr (), ?w)" and calm: "calm ?w"
    using assms by (simp_all add: wait_def calm_def broker_up_def)
  have "calm ((logged OpenChannel (logged Dial ?w))\<lparr>rb_connection := Some True, rb_channel := Some ()\<rparr>)"
    using calm by (simp add: calm_def broker_up_def logged_def)
  moreover have "consumes (Consume queue tag) ((logged OpenChannel (logged Dial ?w))\<lparr>rb_connection := Some True, rb_channel := Some ()\<rparr>) =
      consumes (Consume queue tag) w" by (simp add: consumes_def logged_def)
  ultimately show ?thesis using wait calm
    by (simp add: reconnect_def reconnect_loop.simps [of 0] maxAttempts_def connect_def)
qed

subsection \<open>Sessions\<close>

text \<open>What one session receives: some deliveries, and then the broker closes the channel, or the context ends.\<close>

definition closed_session :: "'d list \<Rightarrow> 'd session" where
  "closed_session ds = (map Delivery ds @ [ChannelClosed], None)"

definition ended_session :: "'d list \<Rightarrow> ctx_err \<Rightarrow> 'd session" where
  "ended_session ds e = (map Delivery ds @ [CtxDoneWith e], Some e)"

lemma consume_deliveries [simp]:
  "consumeMessages tag (map Delivery ds @ rs) = (case consumeMessages tag rs of (ds', e) \<Rightarrow> (ds @ ds', e))"
  by (induction ds) (auto split: prod.split)

subsection \<open>The loop\<close>

locale subscribing =
  fixes prepare :: "(rabbit, go_error + unit) state"
  assumes set_up: "calm w \<Longrightarrow> \<exists>w'. run_state prepare w = (Inr (), w') \<and> calm w' \<and>
    consumes (Consume queue tag) w' = consumes (Consume queue tag) w"
begin

lemma round_ended:
  assumes "calm w"
  obtains w' where "consumes (Consume queue tag) w' = Suc (consumes (Consume queue tag) w)"
    "run_state (Subscribe_loop X what prepare queue tag (Suc n) (ended_session ds e # ss) acc) w = ((Some (CtxError e), acc @ ds), w')"
proof -
  obtain v where "run_state prepare w = (Inr (), v)" "calm v" "consumes (Consume queue tag) v = consumes (Consume queue tag) w"
    using set_up [OF assms] by blast
  then show ?thesis by (intro that [of "logged (Consume queue tag) v"]) (simp_all add: ended_session_def)
qed

lemma round_closed:
  assumes "calm w"
  obtains w' where "calm w'" "consumes (Consume queue tag) w' = Suc (consumes (Consume queue tag) w)"
    "run_state (Subscribe_loop X what prepare queue tag (Suc n) (closed_session ds # ss) acc) w =
     run_state (Subscribe_loop X what prepare queue tag n ss (acc @ ds)) w'"
proof -
  obtain v where v: "run_state prepare w = (Inr (), v)" "calm v" "consumes (Consume queue tag) v = consumes (Consume queue tag) w"
    using set_up [OF assms] by blast
  obtain w' where "run_state reconnect (logged (Consume queue tag) v) = (Inr (), w')" "calm w'"
    "consumes (Consume queue tag) w' = Suc (consumes (Consume queue tag) v)"
    using run_reconnect_calm [of "logged (Consume queue tag) v" queue tag] v(2) by auto
  then show ?thesis using v by (intro that [of w']) (simp_all add: closed_session_def)
qed

text \<open>After \<open>n\<close> rounds: as long as channels are closed the subscription goes on, and it ends with the context.\<close>

lemma survives:
  "calm w \<Longrightarrow> \<exists>w'. run_state (Subscribe_loop X what prepare queue tag n (map closed_session dss @ [ended_session ds e]) acc) w =
     (if n \<le> length dss then (None, acc @ concat (take n dss)) else (Some (CtxError e), acc @ concat dss @ ds), w') \<and>
     consumes (Consume queue tag) w' = consumes (Consume queue tag) w + min n (Suc (length dss))"
proof (induction n arbitrary: w dss acc)
  case 0
  then show ?case by simp
next
  case (Suc n)
  show ?case
  proof (cases dss)
    case Nil
    obtain w' where "consumes (Consume queue tag) w' = Suc (consumes (Consume queue tag) w)"
      "run_state (Subscribe_loop X what prepare queue tag (Suc n) [ended_session ds e] acc) w = ((Some (CtxError e), acc @ ds), w')"
      by (rule round_ended [OF Suc(2)])
    then show ?thesis by (simp add: Nil del: Subscribe_loop.simps)
  next
    case (Cons d rest)
    obtain w'' where "calm w''" "consumes (Consume queue tag) w'' = Suc (consumes (Consume queue tag) w)"
      "run_state (Subscribe_loop X what prepare queue tag (Suc n) (closed_session d # map closed_session rest @ [ended_session ds e]) acc) w =
       run_state (Subscribe_loop X what prepare queue tag n (map closed_session rest @ [ended_session ds e]) (acc @ d)) w''"
      by (rule round_closed [OF Suc(2)])
    then show ?thesis using Suc(1) [of w'' rest "acc @ d"] by (auto simp: Cons min_def simp del: Subscribe_loop.simps split: if_splits)
  qed
qed

end

lemma sets_up_fanout:
  "calm w \<Longrightarrow> \<exists>w'. run_state (setupFanoutSubscription exchange name) w = (Inr (), w') \<and> calm w' \<and>
     consumes (Consume queue tag) w' = consumes (Consume queue tag) w"
  by (simp add: setupFanoutSubscription_def ensureFanoutExchange_def Let_def)

lemma sets_up_topic:
  "calm w \<Longrightarrow> \<exists>w'. run_state (setupSubscription opts) w = (Inr (), w') \<and> calm w' \<and>
     consumes (Consume queue tag) w' = consumes (Consume queue tag) w"
  by (simp add: setupSubscription_def ensureExchange_def Let_def)

interpretation fanout_subscription: subscribing "setupFanoutSubscription exchange queue"
  by unfold_locales (rule sets_up_fanout)

interpretation topic_subscription: subscribing "setupSubscription opts"
  by unfold_locales (rule sets_up_topic)

subsection \<open>The property\<close>

text \<open>C32. A subscription outlives the channels the broker closes: over a broker that can be reached it has started a
  handler for every delivery of its sessions, once and in their order, subscribes again after every closed channel, and returns when
  its context is done and not before. This holds for the fan-out client and for the client of topics, after any number of rounds.\<close>

theorem subscription_survives_closed_channels:
  assumes "calm w"
  shows "(\<exists>w'. run_state (Subscribe_fanout X exchange queue tag n (map closed_session dss @ [ended_session ds e])) w =
      (if n \<le> length dss then (None, concat (take n dss)) else (Some (CtxError e), concat dss @ ds), w') \<and>
      consumes (Consume queue tag) w' = consumes (Consume queue tag) w + min n (Suc (length dss))) \<and>
    (\<exists>w'. run_state (Subscribe_client X opts n (map closed_session dss @ [ended_session ds e])) w =
      (if n \<le> length dss then (None, concat (take n dss)) else (Some (CtxError e), concat dss @ ds), w') \<and>
      consumes (Consume (so_QueueName opts) (so_ConsumerTag opts)) w' =
      consumes (Consume (so_QueueName opts) (so_ConsumerTag opts)) w + min n (Suc (length dss)))"
  using fanout_subscription.survives [OF assms, where acc = "[]"] topic_subscription.survives [OF assms, where acc = "[]"]
  unfolding Subscribe_fanout_def Subscribe_client_def append_Nil by blast

definition live_rabbit_sample :: rabbit where
  "live_rabbit_sample = \<lparr>rb_connection = Some True, rb_channel = Some (), rb_log = [], rb_ops = 0, rb_answer = (\<lambda>_. Done),
     rb_waits = 0, rb_wait = (\<lambda>_. None), rb_slept = 0\<rparr>"

theorem subscription_survives_closed_channels_witness:
  "\<exists>w'. run_state (Subscribe_fanout sample_ext ''e'' ''q'' ''c'' 3 [closed_session [1, 2], closed_session [], ended_session [3 :: nat] CtxCanceled])
     live_rabbit_sample = ((Some (CtxError CtxCanceled), [1, 2, 3]), w') \<and> consumes (Consume ''q'' ''c'') w' = 3"
proof -
  have "calm live_rabbit_sample" by (simp add: calm_def broker_up_def live_rabbit_sample_def)
  from conjunct1 [OF subscription_survives_closed_channels [OF this, of sample_ext "''e''" "''q''" "''c''" 3 "[[1, 2], []]" "[3 :: nat]" CtxCanceled]]
  show ?thesis by (simp add: consumes_def live_rabbit_sample_def numeral_3_eq_3 del: Subscribe_loop.simps)
qed

end
