(* ===== verification/Saga.thy ===== *)
theory Saga
  imports OrderService OrderConsumer ProductEvents Relay ProductSpec Fulfilment
begin

text \<open>
  The order saga as one system: the order service, its relayer, the broker, the consumers and handlers of the product
  service, its relayer, and the order service's consumer of stock failures. A step of the system is a step of one of
  them, in any order; the broker delivers what it has been handed any number of times, and consumers may crash. The
  invariant ties the two databases together through the messages between them.
\<close>

subsection \<open>What the product service records\<close>

text \<open>The payloads of the failures in the outbox, and the names of its events.\<close>

definition fail_payloads :: "product_db \<Rightarrow> json set" where
  "fail_payloads d = ob_Payload ` {r \<in> set (pb_outbox d). ob_EventName r = stockUpdateFailedEventName}"

definition product_event_names :: "string set" where
  "product_event_names = {ProductCreatedEventName, ProductUpdatedEventName, ProductDeletedEventName, stockUpdateFailedEventName}"

definition saga_part :: "ProcessedEventRow list \<Rightarrow> json set \<Rightarrow> product_db \<Rightarrow> bool" where
  "saga_part P F d \<longleftrightarrow> pb_processed d = P \<and> fail_payloads d = F \<and>
     (\<forall>r \<in> set (pb_outbox d). ob_EventName r \<in> product_event_names)"

lemma of_tables_saga: "of_tables (saga_part P F)"
  by (simp add: of_tables_def saga_part_def fail_payloads_def)

lemma catalogue_names:
  "ProductCreatedEventName \<noteq> stockUpdateFailedEventName" "ProductUpdatedEventName \<noteq> stockUpdateFailedEventName"
  "ProductDeletedEventName \<noteq> stockUpdateFailedEventName"
  by (simp_all add: ProductCreatedEventName_def ProductUpdatedEventName_def ProductDeletedEventName_def
      ProductExchangeName_def stockUpdateFailedEventName_def)

lemma saga_outbox:
  "n \<in> {ProductCreatedEventName, ProductUpdatedEventName, ProductDeletedEventName} \<Longrightarrow> keeps (saga_part P F) (CreateOutboxEvent_product a n b)"
  unfolding CreateOutboxEvent_product_def
  by (intro keeps_db_call of_tables_saga stmt_keepsI)
    (auto simp: saga_part_def fail_payloads_def insert_outbox_def product_event_names_def catalogue_names split: if_splits)

lemma saga_products [keeps_intros]:
  "keeps (saga_part P F) (CreateProduct_q p)" "keeps (saga_part P F) (UpdateProduct_q q)" "keeps (saga_part P F) (DeleteProduct_q i)"
  "keeps (saga_part P F) (UpdateStockBatch_q X params)"
  unfolding CreateProduct_q_def UpdateProduct_q_def DeleteProduct_q_def UpdateStockBatch_q_def
  by (intro keeps_query_row keeps_db_call of_tables_saga stmt_keepsI;
      auto simp: saga_part_def fail_payloads_def insert_product_def update_product_def update_stock_def Let_def
        split: sum.splits option.splits if_splits)+

lemma saga_categories [keeps_intros]:
  "keeps (saga_part P F) (CreateProductCategory_q m d)" "keeps (saga_part P F) (UpdateProductCategory_q i m d)"
  "keeps (saga_part P F) (DeleteProductCategory_q i)"
  unfolding CreateProductCategory_q_def UpdateProductCategory_q_def DeleteProductCategory_q_def
  by (intro keeps_query_row keeps_db_call of_tables_saga stmt_keepsI;
      auto simp: saga_part_def fail_payloads_def Let_def split: if_splits)+

lemma saga_reads [keeps_intros]:
  "keeps (saga_part P F) (GetProduct_q i)" "keeps (saga_part P F) (GetProductsByCategoryID_q c)"
  "keeps (saga_part P F) (GetProductsByIDs_q is)" "keeps (saga_part P F) (GetProductCategories_q X)"
  "keeps (saga_part P F) (ListProductsPaginated X l f)"
  "keeps (saga_part P F) (GetProcessedEventByAggregateIDAndEventName a m)"
  unfolding GetProduct_q_def GetProductsByCategoryID_q_def GetProductsByIDs_q_def GetProductCategories_q_def
    ListProductsPaginated_def GetProcessedEventByAggregateIDAndEventName_def
  by (intro keeps_query_row keeps_db_call of_tables_saga stmt_keeps_read_only stmt_keepsI; auto split: if_splits)+

lemma saga_status:
  assumes "set_outbox_status ls i st t (pb_outbox d) = Inr rows" and "saga_part P F d"
  shows "saga_part P F (d\<lparr>pb_outbox := rows\<rparr>)"
proof -
  obtain f where rows: "rows = map f (pb_outbox d)" and f: "\<And>X r. msg (row_event X (f r)) = msg (row_event X r)"
    using assms(1) by (rule set_status_map) blast
  have f: "ob_EventName (f r) = ob_EventName r" "ob_Payload (f r) = ob_Payload r" for r using f by simp_all
  have "{r \<in> f ` A. ob_EventName r = n} = f ` {r \<in> A. ob_EventName r = n}" for A n by (auto simp: f)
  then show ?thesis using assms(2) f unfolding saga_part_def fail_payloads_def rows by (simp add: image_image)
qed

lemma saga_relayer [keeps_intros]:
  "keeps (saga_part P F) (GetUnpublishedOutboxEvents_product n)" "keeps (saga_part P F) (UpdateOutboxEventStatus_product i)"
  unfolding GetUnpublishedOutboxEvents_product_def UpdateOutboxEventStatus_product_def
  by (intro keeps_db_call of_tables_saga stmt_keepsI; auto dest: saga_status split: sum.splits)+

lemma saga_repo [keeps_intros]:
  "keeps (saga_part P F) (CreateProduct_repo X p)" "keeps (saga_part P F) (UpdateProduct_repo X q)"
  "keeps (saga_part P F) (DeleteProduct_repo X i)"
  unfolding CreateProduct_repo_def UpdateProduct_repo_def DeleteProduct_repo_def withProductTx_def withTx_def addOutboxEvent_def
  by (intro keeps_with_tx_body of_tables_saga keeps_intros saga_outbox; simp)+

text \<open>The same of the service's state.\<close>

definition saga_world :: "ProcessedEventRow list \<Rightarrow> json set \<Rightarrow> product_world \<Rightarrow> bool" where
  "saga_world P F w \<longleftrightarrow> saga_part P F (pw_db w)"

lemma saga_p [keeps_intros]:
  "keeps (saga_part P F) m \<Longrightarrow> keeps (saga_world P F) (p_db m)"
  "keeps (saga_world P F) (p_redis n)" "keeps (saga_world P F) (p_go t)"
  unfolding p_db_def by (auto simp: keeps_def saga_world_def split: prod.splits)

lemma saga_cacheProducts [keeps_intros]: "keeps (saga_world P F) (cacheProducts ps)"
  by (induction ps) (auto intro!: keeps_intros)

lemma saga_fromDB [keeps_intros]:
  "keeps (saga_world P F) (getProductsFromDB X is)" "keeps (saga_world P F) (getProductCategoriesFromDB X)"
  unfolding getProductsFromDB_def getProductCategoriesFromDB_def by (intro keeps_intros)+

lemma saga_check [keeps_intros]: "keeps (saga_world P F) (shouldSkipProcessing X i)"
  unfolding shouldSkipProcessing_def isEventProcessed_def by (intro keeps_intros)

text \<open>A request to the product or the category server.\<close>

datatype product_call = CreateProductCall CreateProductRequest | UpdateProductCall UpdateProductRequest
  | DeleteProductCall DeleteProductRequest | UpdateStockBatchCall UpdateStockBatchRequest | GetProductCall GetProductRequest
  | GetProductsByIDsCall GetProductsByIDsRequest | ListProductsCall ListProductsRequest
  | GetProductsByCategoryIDCall GetProductsByCategoryIDRequest | CreateCategoryCall CreateProductCategoryRequest
  | UpdateCategoryCall UpdateProductCategoryRequest | DeleteCategoryCall DeleteProductCategoryRequest | GetCategoriesCall

definition ignored :: "('w, 'a) state \<Rightarrow> ('w, unit) state" where
  "ignored m = do { _ \<leftarrow> m; State_Monad.return () }"

fun answer_call :: "ext \<Rightarrow> ctx_err option \<Rightarrow> product_call \<Rightarrow> (product_world, unit) state" where
  "answer_call X ctx (CreateProductCall r) = ignored (CreateProduct X ctx r)"
| "answer_call X ctx (UpdateProductCall r) = ignored (UpdateProduct X ctx r)"
| "answer_call X ctx (DeleteProductCall r) = ignored (DeleteProduct X ctx r)"
| "answer_call X ctx (UpdateStockBatchCall r) = ignored (UpdateStockBatch X ctx r)"
| "answer_call X ctx (GetProductCall r) = ignored (GetProduct X ctx r)"
| "answer_call X ctx (GetProductsByIDsCall r) = ignored (GetProductsByIDs X r)"
| "answer_call X ctx (ListProductsCall r) = ignored (ListProducts X ctx r)"
| "answer_call X ctx (GetProductsByCategoryIDCall r) = ignored (GetProductsByCategoryID X ctx r)"
| "answer_call X ctx (CreateCategoryCall r) = ignored (CreateProductCategory X ctx r)"
| "answer_call X ctx (UpdateCategoryCall r) = ignored (UpdateProductCategory X ctx r)"
| "answer_call X ctx (DeleteCategoryCall r) = ignored (DeleteProductCategory X ctx r)"
| "answer_call X ctx GetCategoriesCall = ignored (GetProductCategories X ctx)"

lemma keeps_ignored: "keeps I m \<Longrightarrow> keeps I (ignored m)"
  unfolding ignored_def by (intro keeps_intros)

lemma saga_call: "keeps (saga_world P F) (answer_call X ctx c)"
  by (cases c; simp; intro keeps_ignored;
      simp only: CreateProduct_def UpdateProduct_def DeleteProduct_def UpdateStockBatch_def GetProduct_def
        GetProductsByIDs_def ListProducts_def GetProductsByCategoryID_def CreateProductCategory_def
        UpdateProductCategory_def DeleteProductCategory_def GetProductCategories_def; intro keeps_intros)

lemma tables_call: "keeps product_ok (answer_call X ctx c)"
  by (cases c; simp; intro keeps_ignored; use keeps_product_handlers in blast)

subsection \<open>The system\<close>

record 'c shop =
  sh_orders :: order_db
  sh_rest :: 'c
  sh_order_broker :: rabbit
  sh_products :: product_world
  sh_brokers :: "rabbit \<times> rabbit"
  sh_deliveries :: "delivery list"

text \<open>A handler of the order service is one step: after the transaction that records an order it changes no table. The
  deliveries of created orders interleave as in \<open>consuming\<close>. \<open>s\<close> is the status the failure consumer has fetched.\<close>

inductive shop_step :: "ext \<Rightarrow> 'c Clients_order \<Rightarrow> uuid \<Rightarrow> 'c shop \<Rightarrow> 'c shop \<Rightarrow> bool" for X C s where
  place: "run_state (CreateOrder X (order_server X C) ctx req) (sh_orders w, sh_rest w) = (r, v) \<Longrightarrow>
     shop_step X C s w (w\<lparr>sh_orders := fst v, sh_rest := snd v\<rparr>)"
| relay_orders: "run_state (order_batch X batch) (sh_orders w, sh_order_broker w) = (q, v) \<Longrightarrow>
     shop_step X C s w (w\<lparr>sh_orders := fst v, sh_order_broker := snd v\<rparr>)"
| deliver: "((occ_exchangeName, k), body) \<in># fanout_sends (sh_order_broker w) \<Longrightarrow>
     shop_step X C s w (w\<lparr>sh_deliveries := sh_deliveries w @ [Waiting (Some body)]\<rparr>)"
| consume: "consuming X (sh_deliveries w, sh_products w) v \<Longrightarrow>
     shop_step X C s w (w\<lparr>sh_deliveries := fst v, sh_products := snd v\<rparr>)"
| crash: "shop_step X C s w (w\<lparr>sh_deliveries := []\<rparr>)"
| answer: "run_state (answer_call X ctx c) (sh_products w) = (u, v) \<Longrightarrow> shop_step X C s w (w\<lparr>sh_products := v\<rparr>)"
| goroutine: "t \<in> set (pw_tasks (sh_products w)) \<Longrightarrow> run_state (p_redis (run_task X t)) (sh_products w) = (u, v) \<Longrightarrow>
     shop_step X C s w (w\<lparr>sh_products := v\<lparr>pw_tasks := remove1 t (pw_tasks v)\<rparr>\<rparr>)"
| relay_products: "run_state (product_batch X batch) (pw_db (sh_products w), sh_brokers w) = (q, v) \<Longrightarrow>
     shop_step X C s w (w\<lparr>sh_products := (sh_products w)\<lparr>pw_db := fst v\<rparr>, sh_brokers := snd v\<rparr>)"
| cancel: "((sufc_exchangeName, k), body) \<in># delegating_sends (sh_brokers w) \<Longrightarrow>
     run_state (handleStockUpdateFailedEvent X (Some s) (Some body)) (sh_orders w) = (d, v) \<Longrightarrow>
     shop_step X C s w (w\<lparr>sh_orders := v\<rparr>)"

subsection \<open>The invariant\<close>

definition order_ids :: "order_db \<Rightarrow> uuid set" where
  "order_ids d = or_ID ` set (od_orders d)"

text \<open>The events the order service has recorded.\<close>

definition order_payloads :: "order_db \<Rightarrow> json set" where
  "order_payloads d = ob_Payload ` set (od_outbox d)"

definition order_events :: "json set \<Rightarrow> OrderCreatedEvent set" where
  "order_events J = {e. \<exists>j \<in> J. unmarshal_order_created (Some j) = Inr e}"

definition about_ids :: "ext \<Rightarrow> uuid set \<Rightarrow> json \<Rightarrow> bool" where
  "about_ids X I j \<longleftrightarrow> (\<exists>e. \<exists>i \<in> I. unmarshal_order_created (Some j) = Inr e \<and> oce_OrderID e = uuid_text X i)"

definition failure_payload :: "OrderCreatedEvent \<Rightarrow> json" where
  "failure_payload e = enc_stock_failed \<lparr>sfe_OrderID = oce_OrderID e, sfe_Products = oce_Products e\<rparr>"

text \<open>An event of the order is among \<open>J\<close>, the failure of this event among \<open>F\<close>.\<close>

definition was_short :: "ext \<Rightarrow> json set \<Rightarrow> json set \<Rightarrow> uuid \<Rightarrow> bool" where
  "was_short X J F i \<longleftrightarrow> (\<exists>e \<in> order_events J. oce_OrderID e = uuid_text X i \<and> failure_payload e \<in> F)"

definition order_marks :: "product_db \<Rightarrow> uuid set" where
  "order_marks d = pd_AggregateID ` set (pb_processed d)"

text \<open>The order service: its tables, \<open>s\<close> is its cancelled status, every event is about an order, and every cancelled order
  has a failure among \<open>F\<close>.\<close>

definition orders_ok :: "ext \<Rightarrow> uuid \<Rightarrow> json set \<Rightarrow> order_db \<Rightarrow> bool" where
  "orders_ok X s F d \<longleftrightarrow> order_tables_ok d \<and>
     (\<forall>r \<in> set (od_statuses d). os_Name r = ''CREATED'' \<longrightarrow> os_ID r \<noteq> s) \<and>
     (\<forall>j \<in> order_payloads d. about_ids X (order_ids d) j) \<and>
     (\<forall>r \<in> set (od_orders d). or_Status r = s \<longrightarrow> was_short X (order_payloads d) F (or_ID r))"

text \<open>What is on its way to the product service comes from the events \<open>J\<close>.\<close>

fun delivery_from :: "json set \<Rightarrow> delivery \<Rightarrow> bool" where
  "delivery_from J (Waiting b) = (\<exists>j \<in> J. b = Some j)"
| "delivery_from J (Checked e) = (e \<in> order_events J)"
| "delivery_from J (Settled _) = True"

text \<open>The product service: every mark is of an order, every failure is of an event that is marked, and what is sent to the
  exchange of failures is a failure of the outbox.\<close>

definition products_ok :: "ext \<Rightarrow> uuid set \<Rightarrow> json set \<Rightarrow> product_db \<Rightarrow> bool" where
  "products_ok X I J d \<longleftrightarrow> product_tables_ok d \<and> order_marks d \<subseteq> I \<and>
     (\<forall>r \<in> set (pb_outbox d). ob_EventName r \<in> product_event_names) \<and>
     (\<forall>j \<in> fail_payloads d. \<exists>e \<in> order_events J. j = failure_payload e \<and> oce_OrderID e \<in> uuid_text X ` order_marks d)"

definition failures_sent :: "product_db \<Rightarrow> rabbit \<times> rabbit \<Rightarrow> bool" where
  "failures_sent d b \<longleftrightarrow> (\<forall>m. m \<in># delegating_sends b \<longrightarrow> fst (fst m) = sufc_exchangeName \<longrightarrow> snd m \<in> fail_payloads d)"

definition saga_ok :: "ext \<Rightarrow> uuid \<Rightarrow> 'c shop \<Rightarrow> bool" where
  "saga_ok X s w \<longleftrightarrow>
     orders_ok X s (fail_payloads (pw_db (sh_products w))) (sh_orders w) \<and>
     snd ` set_mset (fanout_sends (sh_order_broker w)) \<subseteq> order_payloads (sh_orders w) \<and>
     list_all (delivery_from (order_payloads (sh_orders w))) (sh_deliveries w) \<and>
     products_ok X (order_ids (sh_orders w)) (order_payloads (sh_orders w)) (pw_db (sh_products w)) \<and>
     failures_sent (pw_db (sh_products w)) (sh_brokers w)"

subsection \<open>The order service\<close>

lemma order_events_mono: "J \<subseteq> J' \<Longrightarrow> order_events J \<subseteq> order_events J'"
  by (auto simp: order_events_def)

lemma about_ids_mono: "about_ids X I j \<Longrightarrow> I \<subseteq> I' \<Longrightarrow> about_ids X I' j"
  unfolding about_ids_def by blast

lemma was_short_mono: "was_short X J F i \<Longrightarrow> J \<subseteq> J' \<Longrightarrow> F \<subseteq> F' \<Longrightarrow> was_short X J' F' i"
  unfolding was_short_def using order_events_mono [of J J'] by blast

lemma orders_ok_failures: "orders_ok X s F d \<Longrightarrow> F \<subseteq> F' \<Longrightarrow> orders_ok X s F' d"
  unfolding orders_ok_def by (blast intro: was_short_mono)

lemma orders_ok_same:
  assumes "orders_ok X s F d" and "od_orders d' = od_orders d" and "od_statuses d' = od_statuses d"
    and "order_payloads d' = order_payloads d" and "order_tables_ok d'"
  shows "orders_ok X s F d'"
  using assms unfolding orders_ok_def order_ids_def by simp

lemma orders_ok_place:
  assumes "orders_ok X s F (fst v)" and "run_state (CreateOrder X (order_server X C) ctx req) v = (r, v')"
  shows "orders_ok X s F (fst v') \<and> order_payloads (fst v) \<subseteq> order_payloads (fst v') \<and> order_ids (fst v) \<subseteq> order_ids (fst v')"
proof -
  have t: "order_tables_ok (fst v')"
    using keepsD [OF tables_CreateOrder _ assms(2)] assms(1) by (simp add: orders_ok_def)
  have "migrated (fst v)" using assms(1) by (simp add: orders_ok_def order_tables_ok_def)
  from CreateOrder_effect [OF this assms(2)] consider (same) "same_order_tables (fst v) (fst v')"
    | (new) email row ev and cart :: GetCartResponse where
      "recorded X (cor_UserId req) email (gc_TotalPrice cart) (gc_Products cart) (fst v) row ev (fst v')"
    by blast
  then show ?thesis
  proof cases
    case same
    then show ?thesis using orders_ok_same [OF assms(1) _ _ _ t] by (simp add: same_order_tables_def order_payloads_def order_ids_def)
  next
    case rec: new
    have ids: "order_ids (fst v') = insert (or_ID row) (order_ids (fst v))"
      and pay: "order_payloads (fst v') = insert (ob_Payload ev) (order_payloads (fst v))"
      using rec by (auto simp: recorded_def order_ids_def order_payloads_def)
    have "about_ids X (order_ids (fst v')) (ob_Payload ev)"
      using recorded_decodes [OF rec] by (auto simp: about_ids_def ids event_of_order_def)
    moreover have "or_Status row \<noteq> s" using rec assms(1)
      by (auto simp: recorded_def orders_ok_def dest!: find_Some_in)
    moreover have "od_orders (fst v') = od_orders (fst v) @ [row]" "od_statuses (fst v') = od_statuses (fst v)"
      using rec by (auto simp: recorded_def)
    ultimately show ?thesis using assms(1) t unfolding orders_ok_def
      by (auto simp: ids pay intro: about_ids_mono was_short_mono [OF _ subset_insertI subset_refl])
  qed
qed

lemma od_frame_relayer:
  "keeps (\<lambda>d. od_orders d = rs \<and> od_statuses d = ss) (GetUnpublished_order_relayer X n)"
  "keeps (\<lambda>d. od_orders d = rs \<and> od_statuses d = ss) (UpdateStatus_order_relayer X i)"
proof -
  have q: "keeps (\<lambda>d. od_orders d = rs \<and> od_statuses d = ss) (GetUnpublishedOutboxEvents_order n)"
    "keeps (\<lambda>d. od_orders d = rs \<and> od_statuses d = ss) (UpdateOutboxEventStatus_order u t)" for u t
    unfolding GetUnpublishedOutboxEvents_order_def UpdateOutboxEventStatus_order_def
    by (intro keeps_db_call stmt_keepsI; auto simp: of_tables_def split: sum.splits)+
  show "keeps (\<lambda>d. od_orders d = rs \<and> od_statuses d = ss) (GetUnpublished_order_relayer X n)"
    "keeps (\<lambda>d. od_orders d = rs \<and> od_statuses d = ss) (UpdateStatus_order_relayer X i)"
    unfolding GetUnpublished_order_relayer_def UpdateStatus_order_relayer_def by (intro keeps_intros q)+
qed

lemma tables_relayer:
  "keeps order_tables_ok (GetUnpublished_order_relayer X n)" "keeps order_tables_ok (UpdateStatus_order_relayer X i)"
  unfolding GetUnpublished_order_relayer_def UpdateStatus_order_relayer_def by (intro keeps_intros)+

text \<open>An invariant of the store is one of a batch.\<close>

lemma keeps_fst: "keeps P m \<Longrightarrow> keeps (\<lambda>w. P (fst w)) (zoom fst (\<lambda>s w. (s, snd w)) m)"
  by (rule keeps_zoom) simp_all

lemma keeps_snd: "keeps (\<lambda>w. P (fst w)) (zoom snd (\<lambda>b w. (fst w, b)) m)"
  by (auto simp: keeps_def split: prod.splits)

lemma keeps_order_batch:
  "(\<And>n. keeps P (GetUnpublished_order_relayer X n)) \<Longrightarrow> (\<And>i. keeps P (UpdateStatus_order_relayer X i)) \<Longrightarrow>
     keeps (\<lambda>w. P (fst w)) (order_batch X batch)"
  unfolding order_batch_def by (intro keeps_processEvents keeps_fst keeps_snd)

lemma keeps_product_batch:
  "(\<And>n. keeps P (GetUnpublished_product_relayer X n)) \<Longrightarrow> (\<And>i. keeps P (UpdateStatus_product_relayer X i)) \<Longrightarrow>
     keeps (\<lambda>w. P (fst w)) (product_batch X batch)"
  unfolding product_batch_def by (intro keeps_processEvents keeps_fst keeps_snd)

lemma row_msgs_payloads: "(\<lambda>m. snd (snd m)) ` row_msgs X rows = ob_Payload ` set rows"
  by (simp add: row_msgs_def image_image)

lemma orders_ok_relay:
  assumes "orders_ok X s F (fst v)" and "uuid_round_trip X" and "run_state (order_batch X batch) v = (q, v')"
  shows "orders_ok X s F (fst v') \<and> order_payloads (fst v') = order_payloads (fst v) \<and> order_ids (fst v') = order_ids (fst v) \<and>
    snd ` set_mset (fanout_sends (snd v')) \<subseteq> order_payloads (fst v) \<union> snd ` set_mset (fanout_sends (snd v))"
proof -
  have same: "od_orders (fst v') = od_orders (fst v)" "od_statuses (fst v') = od_statuses (fst v)"
    using keepsD [OF keeps_order_batch [OF od_frame_relayer, of _ _ _ batch] _ assms(3)] by auto
  have t: "order_tables_ok (fst v')"
    using keepsD [OF keeps_order_batch [OF tables_relayer] _ assms(3)] assms(1) by (simp add: orders_ok_def)
  have ok: "table_store_ok X (od_outbox (fst v))"
    using assms(1,2) by (simp add: table_store_ok_def orders_ok_def order_tables_ok_def)
  have run: "run_state (order_relay.process X batch) v = (q, v')"
    using assms(3) by (simp add: order_batch_def order_relay.in_store_def order_relay.in_broker_def)
  note m = order_relay.process_sends [OF ok run, THEN conjunct2, THEN conjunct1]
    order_relay.process_sends [OF ok run, THEN conjunct2, THEN conjunct2]
  have p: "order_payloads (fst v') = order_payloads (fst v)"
    using m(1) unfolding order_payloads_def row_msgs_payloads [of X, symmetric] by simp
  have "snd ` order_relay.handed ` row_msgs X (od_outbox (fst v)) = order_payloads (fst v)"
    unfolding order_payloads_def row_msgs_payloads [of X, symmetric] by (simp add: image_image order_relay.handed_def)
  with image_mono [OF m(2), of snd]
  have "snd ` set_mset (fanout_sends (snd v')) \<subseteq> order_payloads (fst v) \<union> snd ` set_mset (fanout_sends (snd v))"
    by (simp only: image_Un)
  then show ?thesis using orders_ok_same [OF assms(1) same p t] p same by (simp add: order_ids_def)
qed

lemma orders_ok_cancel:
  assumes "orders_ok X s F d" and "failure_payload e \<in> F" and "e \<in> order_events (order_payloads d)"
    and "oce_OrderID e = uuid_text X i" and "uuid_round_trip X"
    and "run_state (handleStockUpdateFailedEvent X (Some s) (Some (failure_payload e))) d = (z, d')"
  shows "orders_ok X s F d' \<and> order_payloads d' = order_payloads d \<and> order_ids d' = order_ids d"
proof -
  have t: "order_tables_ok d'"
    using keepsD [OF keeps_handleStockUpdateFailed _ assms(6)] assms(1) by (simp add: orders_ok_def)
  from handle_effect [OF assms(6)] show ?thesis
  proof (elim disjE exE conjE)
    assume "same_order_tables d d'"
    then show ?thesis using orders_ok_same [OF assms(1) _ _ _ t] by (simp add: same_order_tables_def order_payloads_def order_ids_def)
  next
    fix f j
    assume f: "unmarshal_stock_failed (Some (failure_payload e)) = Inr f" "parse_uuid X (sfe_OrderID f) = Inr j"
      and d': "od_statuses d' = od_statuses d" "od_outbox d' = od_outbox d"
        "od_orders d' = map (\<lambda>r. if or_ID r = j then r\<lparr>or_Status := s\<rparr> else r) (od_orders d)"
    have "j = i" using f assms(4,5) by (auto simp: failure_payload_def stock_failed_decodes parse_uuid_text)
    moreover have "order_ids d' = order_ids d" "order_payloads d' = order_payloads d"
      unfolding order_ids_def order_payloads_def d' set_map [symmetric] map_if_ids by (rule refl)+
    moreover have "was_short X (order_payloads d) F i" using assms(2-4) by (auto simp: was_short_def)
    moreover have "was_short X (order_payloads d) F (or_ID r)" if "r \<in> set (od_orders d')" "or_Status r = s" for r
    proof -
      from that(1) obtain x where "x \<in> set (od_orders d)" "r = (if or_ID x = j then x\<lparr>or_Status := s\<rparr> else x)"
        by (auto simp: d'(3))
      then show ?thesis using assms(1) that(2) calculation by (cases "or_ID x = j") (simp_all add: orders_ok_def)
    qed
    ultimately show ?thesis using assms(1) t unfolding orders_ok_def
      by (simp add: d'(1))
  qed
qed

subsection \<open>The product service\<close>

lemma saga_part_self: "products_ok X I J d \<Longrightarrow> saga_part (pb_processed d) (fail_payloads d) d"
  by (simp add: saga_part_def products_ok_def)

text \<open>What neither marks an order nor records a failure.\<close>

lemma products_ok_part:
  assumes "products_ok X I J d" and "product_tables_ok d'" and "saga_part (pb_processed d) (fail_payloads d) d'"
  shows "products_ok X I J d' \<and> fail_payloads d' = fail_payloads d"
  using assms by (simp add: products_ok_def saga_part_def order_marks_def)

lemma products_ok_mono:
  assumes "products_ok X I J d" and "I \<subseteq> I'" and "J \<subseteq> J'"
  shows "products_ok X I' J' d"
  using assms order_events_mono [OF assms(3)] unfolding products_ok_def by blast

lemma list_all_update: "list_all P xs \<Longrightarrow> P x \<Longrightarrow> list_all P (xs[i := x])"
  using set_update_subset_insert [of xs i x] by (auto simp: list_all_iff)

lemma products_ok_taken:
  assumes "products_ok X I J d" and "product_tables_ok d'" and "stock_taken X e d k d'"
    and "e \<in> order_events J" and "\<forall>j \<in> J. about_ids X I j" and "uuid_round_trip X"
  shows "products_ok X I J d' \<and> fail_payloads d \<subseteq> fail_payloads d'"
proof -
  obtain i where i: "i \<in> I" "oce_OrderID e = uuid_text X i"
    using assms(4,5) by (fastforce simp: order_events_def about_ids_def)
  obtain u p where u: "parse_uuid X (oce_OrderID e) = Inr u" and p: "pb_processed d' = pb_processed d @ [p]" "pd_AggregateID p = u"
    and ob: "pb_outbox d' = pb_outbox d \<or> (\<exists>ev. pb_outbox d' = pb_outbox d @ [ev] \<and>
      ob_EventName ev = stockUpdateFailedEventName \<and> ob_Payload ev = failure_payload e)"
    using assms(3) unfolding stock_taken_def failure_payload_def by (metis (no_types, lifting))
  have marks: "order_marks d' = insert i (order_marks d)"
    using u p i assms(6) by (simp add: order_marks_def parse_uuid_text)
  from ob show ?thesis
  proof (elim disjE exE conjE)
    assume ob: "pb_outbox d' = pb_outbox d"
    then have "fail_payloads d' = fail_payloads d" by (simp add: fail_payloads_def)
    then show ?thesis using assms(1,2) i ob unfolding products_ok_def marks by fastforce
  next
    fix ev assume ev: "pb_outbox d' = pb_outbox d @ [ev]" "ob_EventName ev = stockUpdateFailedEventName"
      "ob_Payload ev = failure_payload e"
    then have "fail_payloads d' = insert (failure_payload e) (fail_payloads d)" by (force simp: fail_payloads_def)
    moreover have "stockUpdateFailedEventName \<in> product_event_names" by (simp add: product_event_names_def)
    ultimately show ?thesis using assms(1,2,4) i ev unfolding products_ok_def marks by fastforce
  qed
qed

lemma products_ok_same:
  "products_ok X I J d \<Longrightarrow> same_product_tables d d' \<Longrightarrow> products_ok X I J d' \<and> fail_payloads d' = fail_payloads d"
  by (simp add: products_ok_def product_tables_ok_def same_product_tables_def order_marks_def fail_payloads_def)

lemma products_ok_consume:
  assumes "consuming X (ds, p) (ds', p')" and "products_ok X I J (pw_db p)" and "list_all (delivery_from J) ds"
    and "\<forall>j \<in> J. about_ids X I j" and "uuid_round_trip X"
  shows "products_ok X I J (pw_db p') \<and> fail_payloads (pw_db p) \<subseteq> fail_payloads (pw_db p') \<and> list_all (delivery_from J) ds'"
  using assms(1)
proof (cases rule: consuming.cases)
  case (refuse i body e)
  then show ?thesis using assms(2,3) by (simp add: list_all_update)
next
  case (skip i body event d)
  then show ?thesis using products_ok_same [OF assms(2) shouldSkip_effect [OF skip(5)]] assms(3) by (simp add: list_all_update)
next
  case (check i body event)
  have "delivery_from J (Waiting body)" using assms(3) check(2,3) by (metis list_all_length)
  then have "delivery_from J (Checked event)" using check(4) by (auto simp: order_events_def occ_unmarshalEvent_def)
  then show ?thesis using products_ok_same [OF assms(2) shouldSkip_effect [OF check(5)]] assms(3) check(1) by (simp add: list_all_update)
next
  case (update i event d)
  have "delivery_from J (Checked event)" using assms(3) update(2,3) by (metis list_all_length)
  then have e: "event \<in> order_events J" by simp
  have t: "product_tables_ok (pw_db p')"
    using consuming_keeps [OF assms(1)] assms(2) by (simp add: product_ok_def products_ok_def)
  have "same_product_tables (pw_db p) (pw_db p') \<or> (\<exists>k. stock_taken X event (pw_db p) k (pw_db p'))"
    using process_effect [OF update(4)] by blast
  then show ?thesis using products_ok_same [OF assms(2)] products_ok_taken [OF assms(2) t _ e assms(4,5)] assms(3) update(1)
    by (auto simp: list_all_update)
qed

lemma saga_batch: "keeps (\<lambda>w. saga_part P F (fst w)) (product_batch X batch)"
  by (rule keeps_product_batch)
    (unfold GetUnpublished_product_relayer_def UpdateStatus_product_relayer_def, (intro keeps_intros)+)

lemma tables_batch: "keeps (\<lambda>w. product_tables_ok (fst w)) (product_batch X batch)"
  by (rule keeps_product_batch)
    (unfold GetUnpublished_product_relayer_def UpdateStatus_product_relayer_def, (intro keeps_intros)+)

text \<open>Only the failures of stock go to their exchange.\<close>

lemma failure_route:
  assumes "n \<in> product_event_names" and "fst (delegating_route n) = sufc_exchangeName"
  shows "n = stockUpdateFailedEventName"
  using assms unfolding product_event_names_def
  by (auto simp: delegating_route_def split_colon_def sufc_exchangeName_def ProductCreatedEventName_def ProductUpdatedEventName_def
      ProductDeletedEventName_def ProductExchangeName_def)

lemma products_ok_relay:
  assumes "products_ok X I J (fst v)" and "failures_sent (fst v) (snd v)" and "uuid_round_trip X"
    and "run_state (product_batch X batch) v = (q, v')"
  shows "products_ok X I J (fst v') \<and> fail_payloads (fst v') = fail_payloads (fst v) \<and> failures_sent (fst v') (snd v')"
proof -
  have "product_tables_ok (fst v')"
    using keepsD [OF tables_batch _ assms(4)] assms(1) by (simp add: products_ok_def)
  moreover have "saga_part (pb_processed (fst v)) (fail_payloads (fst v)) (fst v')"
    using keepsD [OF saga_batch _ assms(4)] saga_part_self [OF assms(1)] by blast
  ultimately have p: "products_ok X I J (fst v') \<and> fail_payloads (fst v') = fail_payloads (fst v)"
    by (rule products_ok_part [OF assms(1)])
  have ok: "table_store_ok X (pb_outbox (fst v))"
    using assms(1,3) by (simp add: table_store_ok_def products_ok_def product_tables_ok_def)
  have run: "run_state (product_relay.process X batch) v = (q, v')"
    using assms(4) by (simp add: product_batch_def product_relay.in_store_def product_relay.in_broker_def)
  note sends = product_relay.process_sends [OF ok run, THEN conjunct2, THEN conjunct2]
  have "snd m \<in> fail_payloads (fst v)" if m: "m \<in># delegating_sends (snd v')" "fst (fst m) = sufc_exchangeName" for m
  proof (cases "m \<in># delegating_sends (snd v)")
    case True
    then show ?thesis using assms(2) m(2) unfolding failures_sent_def by blast
  next
    case False
    then have "m \<in> product_relay.handed ` row_msgs X (pb_outbox (fst v))" using subsetD [OF sends m(1)] by simp
    then obtain r where r: "r \<in> set (pb_outbox (fst v))" "m = (delegating_route (ob_EventName r), ob_Payload r)"
      by (auto simp: product_relay.handed_def row_msgs_def)
    then have "ob_EventName r = stockUpdateFailedEventName"
      using assms(1) m(2) by (intro failure_route) (simp_all add: products_ok_def)
    then show ?thesis using r by (auto simp: fail_payloads_def)
  qed
  then show ?thesis using p by (simp add: failures_sent_def)
qed

subsection \<open>Every step keeps the invariant\<close>

lemma failures_sent_mono: "failures_sent d b \<Longrightarrow> fail_payloads d \<subseteq> fail_payloads d' \<Longrightarrow> failures_sent d' b"
  unfolding failures_sent_def by blast

lemma delivery_from_mono: "delivery_from J x \<Longrightarrow> J \<subseteq> J' \<Longrightarrow> delivery_from J' x"
  using order_events_mono [of J J'] by (cases x) auto

text \<open>The order service has moved, the product service has not.\<close>

lemma saga_ok_orders:
  assumes "saga_ok X s w" and "orders_ok X s (fail_payloads (pw_db (sh_products w))) d"
    and "order_payloads (sh_orders w) \<subseteq> order_payloads d" and "order_ids (sh_orders w) \<subseteq> order_ids d"
    and "snd ` set_mset (fanout_sends b) \<subseteq> order_payloads d"
  shows "saga_ok X s (w\<lparr>sh_orders := d, sh_rest := c, sh_order_broker := b\<rparr>)"
  using assms products_ok_mono [OF _ assms(4,3)] delivery_from_mono [OF _ assms(3)]
  unfolding saga_ok_def by (auto simp: list_all_iff)

text \<open>The product service has moved, the order service has not.\<close>

lemma saga_ok_products:
  assumes "saga_ok X s w" and "products_ok X (order_ids (sh_orders w)) (order_payloads (sh_orders w)) (pw_db p)"
    and "fail_payloads (pw_db (sh_products w)) \<subseteq> fail_payloads (pw_db p)" and "failures_sent (pw_db p) b"
    and "list_all (delivery_from (order_payloads (sh_orders w))) ds"
  shows "saga_ok X s (w\<lparr>sh_deliveries := ds, sh_products := p, sh_brokers := b\<rparr>)"
  using assms orders_ok_failures [OF _ assms(3)] unfolding saga_ok_def by simp

lemma saga_step:
  assumes "shop_step X C s w w'" and "saga_ok X s w" and "uuid_round_trip X"
  shows "saga_ok X s w'"
  using assms(1)
proof (cases rule: shop_step.cases)
  case (place ctx req r v)
  have o: "orders_ok X s (fail_payloads (pw_db (sh_products w))) (fst (sh_orders w, sh_rest w))"
    using assms(2) by (simp add: saga_ok_def)
  from saga_ok_orders [OF assms(2), where d = "fst v" and b = "sh_order_broker w" and c = "snd v"] orders_ok_place [OF o place(2)]
  show ?thesis using assms(2) unfolding place(1) saga_ok_def by auto
next
  case (relay_orders batch q v)
  have o: "orders_ok X s (fail_payloads (pw_db (sh_products w))) (fst (sh_orders w, sh_order_broker w))"
    using assms(2) by (simp add: saga_ok_def)
  from saga_ok_orders [OF assms(2), where d = "fst v" and b = "snd v" and c = "sh_rest w"]
    orders_ok_relay [OF o assms(3) relay_orders(2)]
  have "saga_ok X s (w\<lparr>sh_orders := fst v, sh_rest := sh_rest w, sh_order_broker := snd v\<rparr>)"
    using assms(2) unfolding saga_ok_def by (elim conjE) (simp add: Un_absorb2)
  then show ?thesis unfolding relay_orders(1) by simp
next
  case (deliver k body)
  then have "body \<in> order_payloads (sh_orders w)" using assms(2) unfolding saga_ok_def by force
  then show ?thesis using assms(2) unfolding deliver(1) saga_ok_def by simp
next
  case (consume v)
  have j: "\<forall>j \<in> order_payloads (sh_orders w). about_ids X (order_ids (sh_orders w)) j"
    using assms(2) unfolding saga_ok_def orders_ok_def by blast
  have p: "products_ok X (order_ids (sh_orders w)) (order_payloads (sh_orders w)) (pw_db (sh_products w))"
    "list_all (delivery_from (order_payloads (sh_orders w))) (sh_deliveries w)"
    "failures_sent (pw_db (sh_products w)) (sh_brokers w)"
    using assms(2) unfolding saga_ok_def by blast+
  have "consuming X (sh_deliveries w, sh_products w) (fst v, snd v)" using consume(2) by simp
  from products_ok_consume [OF this p(1,2) j assms(3)] show ?thesis
    using saga_ok_products [OF assms(2), where p = "snd v" and b = "sh_brokers w" and ds = "fst v"]
      failures_sent_mono [OF p(3)] unfolding consume(1) by simp
next
  case crash
  then show ?thesis using assms(2) by (simp add: saga_ok_def)
next
  case (answer ctx c u v)
  have p: "products_ok X (order_ids (sh_orders w)) (order_payloads (sh_orders w)) (pw_db (sh_products w))"
    using assms(2) unfolding saga_ok_def by blast
  have "product_tables_ok (pw_db v)"
    using keepsD [OF tables_call _ answer(2)] p by (simp add: product_ok_def products_ok_def)
  moreover have "saga_part (pb_processed (pw_db (sh_products w))) (fail_payloads (pw_db (sh_products w))) (pw_db v)"
    using keepsD [OF saga_call _ answer(2)] saga_part_self [OF p] unfolding saga_world_def by blast
  ultimately have v: "products_ok X (order_ids (sh_orders w)) (order_payloads (sh_orders w)) (pw_db v) \<and>
      fail_payloads (pw_db v) = fail_payloads (pw_db (sh_products w))"
    by (rule products_ok_part [OF p])
  show ?thesis using assms(2) v unfolding answer(1) saga_ok_def failures_sent_def by simp
next
  case (goroutine t u v)
  then have "pw_db v = pw_db (sh_products w)" by (auto split: prod.splits)
  then show ?thesis using assms(2) unfolding goroutine(1) saga_ok_def by simp
next
  case (relay_products batch q v)
  have p: "products_ok X (order_ids (sh_orders w)) (order_payloads (sh_orders w)) (fst (pw_db (sh_products w), sh_brokers w))"
    "failures_sent (fst (pw_db (sh_products w), sh_brokers w)) (snd (pw_db (sh_products w), sh_brokers w))"
    using assms(2) unfolding saga_ok_def by auto
  from products_ok_relay [OF p assms(3) relay_products(2)] show ?thesis
    using assms(2) unfolding relay_products(1) saga_ok_def by simp
next
  case (cancel k body d v)
  have p: "products_ok X (order_ids (sh_orders w)) (order_payloads (sh_orders w)) (pw_db (sh_products w))"
    and f: "failures_sent (pw_db (sh_products w)) (sh_brokers w)"
    and o: "orders_ok X s (fail_payloads (pw_db (sh_products w))) (sh_orders w)"
    using assms(2) unfolding saga_ok_def by blast+
  have b: "body \<in> fail_payloads (pw_db (sh_products w))" using f cancel(2) unfolding failures_sent_def by force
  then obtain e i where e: "e \<in> order_events (order_payloads (sh_orders w))" "body = failure_payload e" "oce_OrderID e = uuid_text X i"
    using p unfolding products_ok_def by blast
  from orders_ok_cancel [OF o b [unfolded e(2)] e(1,3) assms(3) cancel(3) [unfolded e(2)]] show ?thesis
    using assms(2) unfolding cancel(1) saga_ok_def by simp
qed

text \<open>A shop that has not taken an order yet; it may have a catalogue.\<close>

definition shop_fresh :: "uuid \<Rightarrow> 'c shop \<Rightarrow> bool" where
  "shop_fresh s w \<longleftrightarrow> order_tables_ok (sh_orders w) \<and> od_orders (sh_orders w) = [] \<and> od_outbox (sh_orders w) = [] \<and>
     (\<exists>r \<in> set (od_statuses (sh_orders w)). os_Name r = orderStatusCancelled \<and> os_ID r = s) \<and>
     fanout_sends (sh_order_broker w) = {#} \<and> sh_deliveries w = [] \<and> delegating_sends (sh_brokers w) = {#} \<and>
     product_tables_ok (pw_db (sh_products w)) \<and> pb_processed (pw_db (sh_products w)) = [] \<and>
     ob_EventName ` set (pb_outbox (pw_db (sh_products w))) \<subseteq> product_event_names - {stockUpdateFailedEventName}"

lemma fresh_ok:
  assumes "shop_fresh s w"
  shows "saga_ok X s w"
proof -
  have "fail_payloads (pw_db (sh_products w)) = {}" "order_payloads (sh_orders w) = {}"
    "\<forall>r \<in> set (pb_outbox (pw_db (sh_products w))). ob_EventName r \<in> product_event_names"
    using assms by (auto simp: shop_fresh_def fail_payloads_def order_payloads_def)
  moreover have "os_ID r \<noteq> s" if r: "r \<in> set (od_statuses (sh_orders w))" "os_Name r = ''CREATED''" for r
  proof -
    obtain c where "c \<in> set (od_statuses (sh_orders w))" "os_Name c = orderStatusCancelled" "os_ID c = s"
      using assms unfolding shop_fresh_def by blast
    moreover have "distinct (map os_ID (od_statuses (sh_orders w)))"
      using assms by (simp add: shop_fresh_def order_tables_ok_def migrated_def)
    ultimately show ?thesis using r by (auto simp: orderStatusCancelled_def distinct_map inj_on_def)
  qed
  ultimately show ?thesis using assms
    by (simp add: shop_fresh_def saga_ok_def orders_ok_def products_ok_def failures_sent_def order_marks_def)
qed

lemma saga_reachable:
  assumes "(shop_step X C s)\<^sup>*\<^sup>* w w'" and "saga_ok X s w" and "uuid_round_trip X"
  shows "saga_ok X s w'"
  using assms(1) by (induction rule: rtranclp_induct) (simp_all add: assms saga_step)

subsection \<open>Properties\<close>

text \<open>C4. In every state a shop can reach, whatever its databases and brokers do and however its steps interleave, an order is
  cancelled only for a reason that both databases show: its own event is in the outbox of the order service, the product
  service has marked the order as processed and recorded, in its outbox, that the stock did not cover the items of this event.
  No mark is of an unknown order, and the tables of both services are well formed.\<close>

theorem cancelled_orders_were_short:
  assumes "uuid_round_trip X" and "shop_fresh s w" and "(shop_step X C s)\<^sup>*\<^sup>* w w'"
  shows "(\<forall>row \<in> set (od_orders (sh_orders w')). or_Status row = s \<longrightarrow>
      (\<exists>ev \<in> set (od_outbox (sh_orders w')). \<exists>e. \<exists>mark \<in> set (pb_processed (pw_db (sh_products w'))).
       \<exists>failure \<in> set (pb_outbox (pw_db (sh_products w'))).
         unmarshal_order_created (Some (ob_Payload ev)) = Inr e \<and> oce_OrderID e = uuid_text X (or_ID row) \<and>
         pd_AggregateID mark = or_ID row \<and> ob_EventName failure = stockUpdateFailedEventName \<and>
         unmarshal_stock_failed (Some (ob_Payload failure)) =
           Inr \<lparr>sfe_OrderID = uuid_text X (or_ID row), sfe_Products = oce_Products e\<rparr>)) \<and>
    pd_AggregateID ` set (pb_processed (pw_db (sh_products w'))) \<subseteq> or_ID ` set (od_orders (sh_orders w')) \<and>
    order_tables_ok (sh_orders w') \<and> product_ok (sh_products w')"
proof -
  let ?d = "sh_orders w'" and ?p = "pw_db (sh_products w')"
  have ok: "orders_ok X s (fail_payloads ?p) ?d" "products_ok X (order_ids ?d) (order_payloads ?d) ?p"
    using saga_reachable [OF assms(3) fresh_ok [OF assms(2)] assms(1)] unfolding saga_ok_def by blast+
  have "\<exists>ev \<in> set (od_outbox ?d). \<exists>e. \<exists>mark \<in> set (pb_processed ?p). \<exists>failure \<in> set (pb_outbox ?p).
       unmarshal_order_created (Some (ob_Payload ev)) = Inr e \<and> oce_OrderID e = uuid_text X (or_ID row) \<and>
       pd_AggregateID mark = or_ID row \<and> ob_EventName failure = stockUpdateFailedEventName \<and>
       unmarshal_stock_failed (Some (ob_Payload failure)) =
         Inr \<lparr>sfe_OrderID = uuid_text X (or_ID row), sfe_Products = oce_Products e\<rparr>"
    if row: "row \<in> set (od_orders ?d)" "or_Status row = s" for row
  proof -
    obtain e where e: "e \<in> order_events (order_payloads ?d)" "oce_OrderID e = uuid_text X (or_ID row)"
      and f: "failure_payload e \<in> fail_payloads ?p"
      using ok(1) row by (auto simp: orders_ok_def was_short_def)
    obtain e' where "failure_payload e = failure_payload e'" "oce_OrderID e' \<in> uuid_text X ` order_marks ?p"
      using ok(2) f unfolding products_ok_def by blast
    then have "oce_OrderID e = oce_OrderID e'"
      unfolding failure_payload_def
      by (metis stock_failed_decodes sum.inject(2) StockUpdateFailedEvent.ext_inject)
    then have "or_ID row \<in> order_marks ?p"
      using \<open>oce_OrderID e' \<in> _\<close> e(2) uuid_text_eq [OF assms(1)] by auto
    then obtain mark where "mark \<in> set (pb_processed ?p)" "pd_AggregateID mark = or_ID row"
      by (auto simp: order_marks_def)
    moreover obtain ev where "ev \<in> set (od_outbox ?d)" "unmarshal_order_created (Some (ob_Payload ev)) = Inr e"
      using e(1) by (auto simp: order_events_def order_payloads_def)
    moreover obtain failure where "failure \<in> set (pb_outbox ?p)" "ob_EventName failure = stockUpdateFailedEventName"
      "ob_Payload failure = failure_payload e"
      using f by (auto simp: fail_payloads_def)
    ultimately show ?thesis using e(2)
      by (intro bexI [of _ ev] exI [of _ e] bexI [of _ mark] bexI [of _ failure])
        (simp_all add: failure_payload_def stock_failed_decodes)
  qed
  then show ?thesis using ok by (simp add: orders_ok_def products_ok_def order_marks_def order_ids_def product_ok_def)
qed

subsection \<open>An instance\<close>

text \<open>A product is ordered that is not in stock: the order is placed, its event is relayed and delivered, the product service
  checks and takes it, its failure is relayed, and the order is cancelled.\<close>

definition shop_clients_sample :: "unit Clients_order" where
  "shop_clients_sample = (clients_sample True)\<lparr>cl_GetCart := (\<lambda>_. ok (cart_sample\<lparr>gc_Products :=
     [\<lparr>cpv_ProductId = ''6'', cpv_Name = ''tea'', cpv_Description = [], cpv_Price = Fin (5 / 2), cpv_Quantity = 2\<rparr>]\<rparr>))\<rparr>"

definition short_event_sample :: OrderCreatedEvent where
  "short_event_sample = \<lparr>oce_OrderID = ''101'', oce_UserID = ''7'', oce_UserEmail = ''a@b.c'',
     oce_Products = Some [\<lparr>oi_ProductID = ''6'', oi_Quantity = 2\<rparr>]\<rparr>"

definition placed_sample :: "order_db \<times> unit" where
  "placed_sample = snd (run_state (CreateOrder sample_ext (order_server sample_ext shop_clients_sample) None \<lparr>cor_UserId = ''7''\<rparr>)
     (order_db_sample, ()))"

definition relayed_sample :: "order_db \<times> rabbit" where
  "relayed_sample = snd (run_state (order_batch sample_ext 10) (fst placed_sample, rabbit_sample))"

definition checked_sample :: product_world where
  "checked_sample = snd (run_state (shouldSkipProcessing sample_ext (oce_OrderID short_event_sample)) product_world_sample)"

definition processed_sample :: product_world where
  "processed_sample = snd (run_state (processOrderCreated sample_ext short_event_sample) checked_sample)"

definition reported_sample :: "product_db \<times> rabbit \<times> rabbit" where
  "reported_sample = snd (run_state (product_batch sample_ext 10) (pw_db processed_sample, rabbit_sample, rabbit_sample))"

definition cancelled_sample :: order_db where
  "cancelled_sample = snd (run_state (handleStockUpdateFailedEvent sample_ext (Some 3) (Some (failure_payload short_event_sample)))
     (fst relayed_sample))"

lemma order_sent_sample:
  "sends_of (snd relayed_sample) = [((occ_exchangeName, []), enc_order_created short_event_sample)]" by code_simp

lemma checked_none_sample:
  "fst (run_state (shouldSkipProcessing sample_ext (oce_OrderID short_event_sample)) product_world_sample) = None" by code_simp

lemma failure_sent_sample:
  "sends_of (fst (snd reported_sample)) = [((sufc_exchangeName, []), failure_payload short_event_sample)]" by code_simp

lemma cancelled_status_sample: "map or_Status (od_orders cancelled_sample) = [3]" by code_simp

definition shop_sample :: "unit shop" where
  "shop_sample = \<lparr>sh_orders = order_db_sample, sh_rest = (), sh_order_broker = rabbit_sample, sh_products = product_world_sample,
     sh_brokers = (rabbit_sample, rabbit_sample), sh_deliveries = []\<rparr>"

definition shop_after_sample :: "unit shop" where
  "shop_after_sample = \<lparr>sh_orders = cancelled_sample, sh_rest = (), sh_order_broker = snd relayed_sample,
     sh_products = processed_sample\<lparr>pw_db := fst reported_sample\<rparr>, sh_brokers = snd reported_sample,
     sh_deliveries = [Settled (fst (run_state (processOrderCreated sample_ext short_event_sample) checked_sample))]\<rparr>"

lemma shop_sample_fresh: "shop_fresh 3 shop_sample"
  by (simp add: shop_fresh_def shop_sample_def order_db_sample_def order_statuses_sample_def order_tables_ok_def migrated_def
      fanout_sends_def delegating_sends_def rabbit_sample_def sends_of_def product_world_sample_def product_sample_ok
      orderStatusCancelled_def) (simp add: product_db_sample_def)

lemma consume_sample:
  "shop_step sample_ext C s (shop_sample\<lparr>sh_orders := d, sh_order_broker := b, sh_deliveries := [Waiting (Some (enc_order_created short_event_sample))]\<rparr>)
     (shop_sample\<lparr>sh_orders := d, sh_order_broker := b, sh_deliveries := [Checked short_event_sample], sh_products := checked_sample\<rparr>)"
  "shop_step sample_ext C s
     (shop_sample\<lparr>sh_orders := d, sh_order_broker := b, sh_deliveries := [Checked short_event_sample], sh_products := checked_sample\<rparr>)
     (shop_sample\<lparr>sh_orders := d, sh_order_broker := b, sh_products := processed_sample,
       sh_deliveries := [Settled (fst (run_state (processOrderCreated sample_ext short_event_sample) checked_sample))]\<rparr>)"
proof -
  have "run_state (shouldSkipProcessing sample_ext (oce_OrderID short_event_sample)) product_world_sample = (None, checked_sample)"
    using checked_none_sample by (simp add: checked_sample_def prod_eq_iff)
  from consuming.check [OF _ _ _ this, of 0 "[Waiting (Some (enc_order_created short_event_sample))]"]
  have c: "consuming sample_ext ([Waiting (Some (enc_order_created short_event_sample))], product_world_sample)
      ([Checked short_event_sample], checked_sample)"
    by (simp add: occ_unmarshalEvent_def order_created_decodes)
  have "run_state (processOrderCreated sample_ext short_event_sample) checked_sample =
      (fst (run_state (processOrderCreated sample_ext short_event_sample) checked_sample), processed_sample)"
    by (simp add: processed_sample_def)
  from consuming.update [OF _ _ this, of 0 "[Checked short_event_sample]"]
  have u: "consuming sample_ext ([Checked short_event_sample], checked_sample)
      ([Settled (fst (run_state (processOrderCreated sample_ext short_event_sample) checked_sample))], processed_sample)"
    by simp
  let ?w = "shop_sample\<lparr>sh_orders := d, sh_order_broker := b, sh_deliveries := [Waiting (Some (enc_order_created short_event_sample))]\<rparr>"
  let ?v = "shop_sample\<lparr>sh_orders := d, sh_order_broker := b, sh_deliveries := [Checked short_event_sample], sh_products := checked_sample\<rparr>"
  show "shop_step sample_ext C s ?w ?v"
    using shop_step.consume [of sample_ext ?w "([Checked short_event_sample], checked_sample)" C s] c by (simp add: shop_sample_def)
  show "shop_step sample_ext C s ?v (shop_sample\<lparr>sh_orders := d, sh_order_broker := b, sh_products := processed_sample,
       sh_deliveries := [Settled (fst (run_state (processOrderCreated sample_ext short_event_sample) checked_sample))]\<rparr>)"
    using shop_step.consume [of sample_ext ?v
        "([Settled (fst (run_state (processOrderCreated sample_ext short_event_sample) checked_sample))], processed_sample)" C s] u
    by (simp add: shop_sample_def)
qed

lemma shop_run_sample: "(shop_step sample_ext shop_clients_sample 3)\<^sup>*\<^sup>* shop_sample shop_after_sample"
proof -
  let ?S = "shop_step sample_ext shop_clients_sample 3" and ?d = "fst relayed_sample" and ?b = "snd relayed_sample"
  let ?w1 = "shop_sample\<lparr>sh_orders := fst placed_sample\<rparr>"
  let ?w2 = "shop_sample\<lparr>sh_orders := ?d, sh_order_broker := ?b\<rparr>"
  let ?w3 = "?w2\<lparr>sh_deliveries := [Waiting (Some (enc_order_created short_event_sample))]\<rparr>"
  let ?w5 = "?w2\<lparr>sh_products := processed_sample,
     sh_deliveries := [Settled (fst (run_state (processOrderCreated sample_ext short_event_sample) checked_sample))]\<rparr>"
  let ?w6 = "?w5\<lparr>sh_products := processed_sample\<lparr>pw_db := fst reported_sample\<rparr>, sh_brokers := snd reported_sample\<rparr>"
  have "?S shop_sample ?w1"
    using shop_step.place [of sample_ext shop_clients_sample None "\<lparr>cor_UserId = ''7''\<rparr>" shop_sample, OF prod.collapse [symmetric]]
    by (simp add: shop_sample_def placed_sample_def)
  moreover have "?S ?w1 ?w2"
    using shop_step.relay_orders [of sample_ext 10 ?w1, OF prod.collapse [symmetric]]
    by (simp add: shop_sample_def relayed_sample_def)
  moreover have "?S ?w2 ?w3"
    using shop_step.deliver [of "[]" "enc_order_created short_event_sample" ?w2] order_sent_sample
    by (simp add: shop_sample_def fanout_sends_def)
  moreover have "?S\<^sup>*\<^sup>* ?w3 ?w5" using consume_sample [where C = shop_clients_sample and s = 3 and d = ?d and b = ?b] by (simp add: r_into_rtranclp rtranclp_trans)
  moreover have "?S ?w5 ?w6"
    using shop_step.relay_products [of sample_ext 10 ?w5, OF prod.collapse [symmetric]]
    by (simp add: shop_sample_def reported_sample_def)
  moreover have "?S ?w6 shop_after_sample"
    using shop_step.cancel [of "[]" "failure_payload short_event_sample" ?w6, OF _ prod.collapse [symmetric]] failure_sent_sample
    by (simp add: shop_sample_def shop_after_sample_def cancelled_sample_def delegating_sends_def)
  ultimately show ?thesis by (meson converse_rtranclp_into_rtranclp rtranclp.rtrancl_into_rtrancl rtranclp_trans)
qed

theorem cancelled_orders_were_short_witness:
  "(shop_step sample_ext shop_clients_sample 3)\<^sup>*\<^sup>* shop_sample shop_after_sample \<and>
   (\<exists>row \<in> set (od_orders (sh_orders shop_after_sample)). or_Status row = 3 \<and>
     (\<exists>failure \<in> set (pb_outbox (pw_db (sh_products shop_after_sample))). ob_EventName failure = stockUpdateFailedEventName))"
proof -
  obtain row where "row \<in> set (od_orders (sh_orders shop_after_sample))" "or_Status row = 3"
    using cancelled_status_sample by (auto simp: shop_after_sample_def)
  then show ?thesis
    using cancelled_orders_were_short [OF sample_uuids shop_sample_fresh shop_run_sample] shop_run_sample by blast
qed

end
