(* ===== verification/Ledger.thy ===== *)
theory Ledger
  imports OrderService OrderConsumer PaymentService
begin

text \<open>
  The order service over the payment service: the orders of one database and the payments of the other. The client of
  the payment service is its server behind a connection that may lose a request or a reply; the clients of the cart and
  the user service act on the rest of the state. The order service never sees the payments' table: what keeps the two in
  step is the order of its calls and the unique order of a payment.
\<close>

subsection \<open>The client of the payment service\<close>

text \<open>A call over the network: the server's status is the error the caller sees, and so is the loss of a request or a reply.\<close>

definition rpc :: "fault option \<Rightarrow> ('s, status + 'a) state \<Rightarrow> ('s, go_error + 'a) state" where
  "rpc f m = (case f of
     None \<Rightarrow> attempt m StatusError ok
   | Some (Before t) \<Rightarrow> fail (StatusError (Errorf Unavailable t))
   | Some (LostReply t) \<Rightarrow> do { _ \<leftarrow> m; fail (StatusError (Errorf Unavailable t)) })"

text \<open>What a call meets depends on the rest of the state.\<close>

record 'c network =
  nw_fault :: "'c \<Rightarrow> fault option"
  nw_ctx :: "'c \<Rightarrow> ctx_err option"

definition paying_clients :: "ext \<Rightarrow> 'c network \<Rightarrow> 'c Clients_order \<Rightarrow> ('c \<times> payment_db) Clients_order" where
  "paying_clients X N C = \<lparr>cl_GetCart = (\<lambda>r. on_db (cl_GetCart C r)), cl_GetUserByID = (\<lambda>r. on_db (cl_GetUserByID C r)),
     cl_ProcessPayment = (\<lambda>q. State (\<lambda>w. run_state (on_rest (rpc (nw_fault N (fst w)) (ProcessPayment X (nw_ctx N (fst w)) q))) w))\<rparr>"

lemma rpc_Inr: "run_state (rpc f m) s = (Inr x, s') \<Longrightarrow> run_state m s = (Inr x, s')"
  by (auto simp: rpc_def split: option.splits fault.splits prod.splits sum.splits)

lemma rpc_state: "run_state (rpc f m) s = (r, s') \<Longrightarrow> s' = s \<or> (\<exists>q. run_state m s = (q, s'))"
  by (auto simp: rpc_def split: option.splits fault.splits prod.splits sum.splits)

subsection \<open>The books\<close>

definition pays_for :: "PaymentRow \<Rightarrow> OrderRow \<Rightarrow> bool" where
  "pays_for p r \<longleftrightarrow> py_OrderID p = or_ID r \<and> py_UserID p = or_UserID r \<and> py_Amount p = or_TotalAmount r"

definition ledger_ok :: "order_db \<Rightarrow> payment_db \<Rightarrow> bool" where
  "ledger_ok d p \<longleftrightarrow> order_tables_ok d \<and> payment_tables_ok p \<and>
     (\<forall>q \<in> set (pd_payments p). \<exists>r \<in> set (od_orders d). pays_for q r)"

type_synonym 'c ledger = "order_db \<times> 'c \<times> payment_db"

text \<open>The order service places an order or cancels one after a failure of the stock; the rest changes as it likes.\<close>

inductive ledger_step :: "ext \<Rightarrow> 'c network \<Rightarrow> 'c Clients_order \<Rightarrow> 'c ledger \<Rightarrow> 'c ledger \<Rightarrow> bool" for X N C where
  place: "run_state (CreateOrder X (order_server X (paying_clients X N C)) ctx req) w = (r, w') \<Longrightarrow> ledger_step X N C w w'"
| cancel: "run_state (handleStockUpdateFailedEvent X (Some s) body) d = (z, d') \<Longrightarrow> ledger_step X N C (d, c) (d', c)"
| rest: "ledger_step X N C (d, c, p) (d, c', p)"

subsection \<open>Placing an order\<close>

lemma keeps_ProcessPayment: "keeps payment_tables_ok (ProcessPayment X ctx req)"
  unfolding ProcessPayment_def processCreateAndUpdatePayment_def createDBPayment_def updateDBPaymentStatus_def
  by (intro keeps_intros)

lemma paying_calls:
  "run_state (cl_GetCart (paying_clients X N C) q) v = (r, v') \<Longrightarrow> snd v' = snd v"
  "run_state (cl_GetUserByID (paying_clients X N C) g) v = (u, v') \<Longrightarrow> snd v' = snd v"
  by (auto simp: paying_clients_def split: prod.splits)

lemma getCart_rest:
  "run_state (getCart X (order_server X (paying_clients X N C)) i) w = (r, w') \<Longrightarrow> snd (snd w') = snd (snd w)"
  by (auto simp: getCart_def dest!: paying_calls split: prod.splits sum.splits if_splits)

lemma getUserEmail_rest:
  "run_state (getUserEmail X (order_server X (paying_clients X N C)) i) w = (r, w') \<Longrightarrow> snd (snd w') = snd (snd w)"
  by (auto simp: getUserEmail_def dest!: paying_calls split: prod.splits sum.splits)

text \<open>The payment that is asked for an order that has been recorded is its payment.\<close>

lemma payment_of_order:
  assumes "recorded X user email amount products d row ev d'" and "uuid_round_trip X"
    and "payment_recorded a st p v v'" and "validateProcessPaymentRequest X \<lparr>ppr_OrderId = uuid_text X (or_ID row),
      ppr_UserId = user, ppr_Amount = amount\<rparr> = Inr a"
  shows "pays_for p row"
proof -
  have a: "a = \<lparr>cpm_OrderID = or_ID row, cpm_UserID = or_UserID row, cpm_Amount = cpm_Amount a\<rparr>"
    "parse_numeric X (sprintf_2f amount) = Inr (cpm_Amount a)"
    using assms(1,4) parse_uuid_text [OF assms(2)]
    by (auto simp: validateProcessPaymentRequest_def recorded_def split: sum.splits if_splits)
  then have "numeric_10_2 (cpm_Amount a) = Inr (or_TotalAmount row)"
    using assms(1) by (auto simp: recorded_def mapFloatToPgNumeric_def)
  moreover have "cpm_OrderID a = or_ID row" "cpm_UserID a = or_UserID row" using a(1) by (metis CreatePaymentParams.select_convs)+
  ultimately show ?thesis using assms(3) by (auto simp: pays_for_def payment_recorded_def)
qed

text \<open>One payment call leaves the payments as they are, or adds a payment for the order it names.\<close>

lemma processPayment_ledger:
  assumes run: "run_state (processPayment X (order_server X (paying_clients X N C)) i user amount) w = (r, w')"
    and rec: "recorded X user email amount products d row ev (fst w)" and i: "i = uuid_text X (or_ID row)"
    and "uuid_round_trip X" and "payment_tables_ok (snd (snd w))"
  shows "payment_tables_ok (snd (snd w')) \<and> fst w' = fst w \<and>
    ((\<exists>e. r = Inl e) \<and> pd_payments (snd (snd w')) = pd_payments (snd (snd w)) \<or>
     (\<exists>p. pd_payments (snd (snd w')) = pd_payments (snd (snd w)) @ [p] \<and> pays_for p row \<and>
       (\<forall>x. r = Inr x \<longrightarrow> (\<exists>s \<in> set (pd_statuses (snd (snd w'))). ps_Name s = ''SUCCEEDED'' \<and> py_Status p = ps_ID s))))"
proof -
  let ?q = "\<lparr>ppr_OrderId = uuid_text X (or_ID row), ppr_UserId = user, ppr_Amount = amount\<rparr>"
  let ?f = "nw_fault N (fst (snd w))" and ?c = "nw_ctx N (fst (snd w))"
  obtain z v where z: "run_state (rpc ?f (ProcessPayment X ?c ?q)) (snd (snd w)) = (z, v)" by (rule run_pair)
  then have v: "snd (snd w') = v" "fst w' = fst w" "\<forall>x. r = Inr x \<longrightarrow> z = Inr x" "\<forall>e. z = Inl e \<longrightarrow> (\<exists>e. r = Inl e)"
    using run by (auto simp: processPayment_def paying_clients_def i split: sum.splits)
  have keep: "payment_tables_ok v" if "run_state (ProcessPayment X ?c ?q) (snd (snd w)) = (y, v)" for y
    by (rule keepsD [OF keeps_ProcessPayment assms(5) that])
  have added: "\<exists>p. pd_payments v = pd_payments (snd (snd w)) @ [p] \<and> pays_for p row \<and>
      (st = ''SUCCEEDED'' \<longrightarrow> (\<exists>s \<in> set (pd_statuses v). ps_Name s = ''SUCCEEDED'' \<and> py_Status p = ps_ID s))"
    if "validateProcessPaymentRequest X ?q = Inr a" "payment_recorded a st p (snd (snd w)) v" for a st p
    using that(2) payment_of_order [OF rec assms(4) that(2,1)] by (auto simp: payment_recorded_def)
  show ?thesis
  proof (cases z)
    case (Inr x)
    have pay: "run_state (ProcessPayment X ?c ?q) (snd (snd w)) = (Inr x, v)" by (rule rpc_Inr [OF z [unfolded Inr]])
    from ProcessPayment_effect [OF this] obtain a p where a: "validateProcessPaymentRequest X ?q = Inr a"
      "payment_recorded a ''SUCCEEDED'' p (snd (snd w)) v" by auto
    show ?thesis using added [OF a] keep [OF pay] v by auto
  next
    case (Inl e)
    from rpc_state [OF z] show ?thesis
    proof (elim disjE exE)
      assume "v = snd (snd w)"
      then show ?thesis using v Inl assms(5) by auto
    next
      fix y assume pay: "run_state (ProcessPayment X ?c ?q) (snd (snd w)) = (y, v)"
      from ProcessPayment_effect [OF pay] have "pd_payments v = pd_payments (snd (snd w)) \<or>
          (\<exists>a st p. validateProcessPaymentRequest X ?q = Inr a \<and> payment_recorded a st p (snd (snd w)) v)"
        by (auto simp: same_payment_tables_def)
      then show ?thesis using keep [OF pay] v Inl by (auto dest: added)
    qed
  qed
qed

lemma mapped_id: "mapRepositoryToGRPC X row st = Inr o' \<Longrightarrow> ov_Id o' = uuid_text X (or_ID row)"
  by (auto simp: mapRepositoryToGRPC_def split: sum.splits)

lemma ledger_more_orders:
  "ledger_ok d p \<Longrightarrow> order_tables_ok d' \<Longrightarrow> set (od_orders d) \<subseteq> set (od_orders d') \<Longrightarrow> ledger_ok d' p"
  unfolding ledger_ok_def by blast

text \<open>The order has been recorded; then the payment is asked for.\<close>

lemma ledger_pay:
  assumes "ledger_ok (fst w) v" and "order_tables_ok d"
    and rec: "recorded X user email amount products (fst w) row ev d" and "mapRepositoryToGRPC X row ''CREATED'' = Inr order"
    and "run_state (processPayment X (order_server X (paying_clients X N C)) (ov_Id order) user amount) (d, c, v) = (r, w')"
    and "uuid_round_trip X"
  shows "ledger_ok (fst w') (snd (snd w')) \<and> fst w' = d \<and>
    (\<forall>x. r = Inr x \<longrightarrow> (\<exists>p \<in> set (pd_payments (snd (snd w'))). pays_for p row \<and>
       (\<exists>s \<in> set (pd_statuses (snd (snd w'))). ps_Name s = ''SUCCEEDED'' \<and> py_Status p = ps_ID s)))"
proof -
  have "ledger_ok d v" by (rule ledger_more_orders [OF assms(1,2)]) (use rec in \<open>auto simp: recorded_def\<close>)
  moreover have "row \<in> set (od_orders d)" using rec by (simp add: recorded_def)
  moreover have "recorded X user email amount products (fst w) row ev (fst (d, c, v))" using rec by simp
  ultimately show ?thesis
    using processPayment_ledger [OF assms(5) _ mapped_id [OF assms(4)] assms(6)] by (fastforce simp: ledger_ok_def)
qed

text \<open>A request as a whole.\<close>

lemma ledger_place:
  assumes "run_state (CreateOrder X (order_server X (paying_clients X N C)) ctx req) w = (r, w')"
    and "ledger_ok (fst w) (snd (snd w))" and "uuid_round_trip X"
  shows "ledger_ok (fst w') (snd (snd w')) \<and>
    (\<forall>order. r = Inr order \<longrightarrow> (\<exists>row \<in> set (od_orders (fst w')). \<exists>p \<in> set (pd_payments (snd (snd w'))).
       ov_Id order = uuid_text X (or_ID row) \<and> pays_for p row \<and>
       (\<exists>s \<in> set (pd_statuses (snd (snd w'))). ps_Name s = ''SUCCEEDED'' \<and> py_Status p = ps_ID s)))"
proof -
  let ?S = "order_server X (paying_clients X N C)"
  have t: "order_tables_ok (fst w')"
    using keepsD [OF tables_CreateOrder _ assms(1)] assms(2) by (simp add: ledger_ok_def)
  have m: "migrated (fst w)" using assms(2) by (simp add: ledger_ok_def order_tables_ok_def)
  have fetched: "fst w1 = fst w" "snd (snd w1) = snd (snd w)"
    if "run_state (getCart X ?S (cor_UserId req)) w = (a, c1)" "run_state (getUserEmail X ?S (cor_UserId req)) c1 = (b, w1)" for a c1 b w1
    using getCart_db [OF that(1)] getUserEmail_db [OF that(2)] getCart_rest [OF that(1)] getUserEmail_rest [OF that(2)] by simp_all
  from assms(1) show ?thesis
  proof (cases rule: CreateOrder_steps)
    case (early s)
    have "snd (snd w') = snd (snd w)" using early(3) fetched(2) getCart_rest by blast
    then show ?thesis using early assms(2) by simp
  next
    case (repo cart c1 email w1 e)
    have "set (od_orders (fst w)) \<subseteq> set (od_orders (fst w'))"
      using CreateOrder_repo_effect [OF repo(3)] fetched(1) [OF repo(1,2)] by (auto simp: same_order_tables_def recorded_def)
    then show ?thesis using ledger_more_orders [OF assms(2) t] fetched(2) [OF repo(1,2)] repo(4,5) by simp
  next
    case (paid cart c1 email w1 order d p)
    obtain row ev where rec: "recorded X (cor_UserId req) email (gc_TotalPrice cart) (gc_Products cart) (fst w) row ev d"
      "mapRepositoryToGRPC X row ''CREATED'' = Inr order"
      using CreateOrder_repo_effect [OF paid(4)] fetched(1) [OF paid(2,3)] by auto
    have d: "d = fst w'" using processPayment_db [OF paid(5)] by simp
    have run: "run_state (processPayment X ?S (ov_Id order) (cor_UserId req) (gc_TotalPrice cart)) (d, fst (snd w1), snd (snd w)) =
        (Inr p, w')"
      using paid(5) fetched(2) [OF paid(2,3)] by (metis prod.collapse)
    have "ledger_ok (fst w') (snd (snd w'))" "\<exists>q \<in> set (pd_payments (snd (snd w'))). pays_for q row \<and>
        (\<exists>s \<in> set (pd_statuses (snd (snd w'))). ps_Name s = ''SUCCEEDED'' \<and> py_Status q = ps_ID s)"
      using ledger_pay [OF assms(2) t [folded d] rec run assms(3)] by blast+
    moreover have "row \<in> set (od_orders (fst w'))" using rec(1) d by (simp add: recorded_def)
    ultimately show ?thesis using mapped_id [OF rec(2)] paid(6) by blast
  next
    case (unpaid cart c1 email w1 order d s w2 q)
    obtain row ev where rec: "recorded X (cor_UserId req) email (gc_TotalPrice cart) (gc_Products cart) (fst w) row ev d"
      "mapRepositoryToGRPC X row ''CREATED'' = Inr order"
      using CreateOrder_repo_effect [OF unpaid(4)] fetched(1) [OF unpaid(2,3)] by auto
    have d: "fst w2 = d" using processPayment_db [OF unpaid(5)] by simp
    have "migrated d" using m rec(1) by (simp add: migrated_def recorded_def)
    then have same: "same_order_tables d (fst w')" using CancelOrder_repo_effect unpaid(6) d by blast
    then have td: "order_tables_ok d" using t by (simp add: order_tables_ok_def migrated_def same_order_tables_def)
    have "run_state (processPayment X ?S (ov_Id order) (cor_UserId req) (gc_TotalPrice cart)) (d, fst (snd w1), snd (snd w)) =
        (Inl s, w2)"
      using unpaid(5) fetched(2) [OF unpaid(2,3)] by (metis prod.collapse)
    from ledger_pay [OF assms(2) td rec this assms(3)] have "ledger_ok d (snd (snd w2))" using d by simp
    then show ?thesis using ledger_more_orders [OF _ t] same unpaid(7,8) by (simp add: same_order_tables_def)
  qed
qed

lemma ledger_cancel:
  assumes "run_state (handleStockUpdateFailedEvent X (Some s) body) d = (z, d')" and "ledger_ok d p"
  shows "ledger_ok d' p"
proof -
  have t: "order_tables_ok d'" using keepsD [OF keeps_handleStockUpdateFailed _ assms(1)] assms(2) by (simp add: ledger_ok_def)
  obtain f where f: "od_orders d' = map f (od_orders d)" "\<And>q r. pays_for q (f r) = pays_for q r"
    using handle_effect [OF assms(1)]
  proof (elim disjE exE conjE)
    assume "same_order_tables d d'"
    then show ?thesis using that [of "\<lambda>r. r"] by (simp add: same_order_tables_def)
  next
    fix event i assume "od_orders d' = map (\<lambda>r. if or_ID r = i then r\<lparr>or_Status := s\<rparr> else r) (od_orders d)"
    then show ?thesis by (rule that) (simp add: pays_for_def)
  qed
  then show ?thesis using assms(2) t by (simp add: ledger_ok_def)
qed

lemma ledger_reachable:
  assumes "(ledger_step X N C)\<^sup>*\<^sup>* w w'" and "ledger_ok (fst w) (snd (snd w))" and "uuid_round_trip X"
  shows "ledger_ok (fst w') (snd (snd w'))"
  using assms(1)
proof (induction rule: rtranclp_induct)
  case (step v v')
  from step(2) show ?case
  proof (cases rule: ledger_step.cases)
    case (place ctx req r)
    then show ?thesis using ledger_place [OF place(1) step(3) assms(3)] by simp
  next
    case (cancel s body d z d' c)
    then show ?thesis using ledger_cancel [OF cancel(3)] step(3) by simp
  next
    case (rest d c p c')
    then show ?thesis using step(3) by simp
  qed
qed (rule assms(2))

subsection \<open>An instance\<close>

text \<open>A payment service behind a connection that works, or that loses the reply.\<close>

definition network_sample :: "fault option \<Rightarrow> unit network" where
  "network_sample f = \<lparr>nw_fault = (\<lambda>_. f), nw_ctx = (\<lambda>_. None)\<rparr>"

definition ledger_sample :: "unit ledger" where
  "ledger_sample = (order_db_sample, (), payment_db_sample\<lparr>pd_payments := []\<rparr>)"

definition ledger_run_sample :: "fault option \<Rightarrow> (status + OrderV1) \<times> unit ledger" where
  "ledger_run_sample f = run_state (CreateOrder sample_ext (order_server sample_ext
     (paying_clients sample_ext (network_sample f) (clients_sample True))) None \<lparr>cor_UserId = ''7''\<rparr>) ledger_sample"

lemma ledger_sample_start:
  "order_tables_ok (fst ledger_sample)" "payment_tables_ok (snd (snd ledger_sample))" "pd_payments (snd (snd ledger_sample)) = []"
  by (simp_all add: ledger_sample_def order_tables_ok_def migrated_sample payment_tables_ok_def payment_statuses_seeded_def
      payment_db_sample_def) (simp add: order_db_sample_def)

lemma ledger_paid_sample: "\<not> isl (fst (ledger_run_sample None))"
  by code_simp

lemma ledger_lost_sample:
  "case ledger_run_sample (Some (LostReply ''connection reset'')) of (r, w) \<Rightarrow> isl r \<and> length (pd_payments (snd (snd w))) = 1"
  by code_simp

lemma ledger_run_step:
  "(ledger_step sample_ext (network_sample f) (clients_sample True))\<^sup>*\<^sup>* ledger_sample (snd (ledger_run_sample f))"
  unfolding ledger_run_sample_def by (rule r_into_rtranclp, rule ledger_step.place, rule prod.collapse [symmetric])

subsection \<open>Properties\<close>

text \<open>C5. The books of the two services agree in every state that requests, cancellations after a failure of the stock and changes
  elsewhere can reach, whatever the databases do and whichever requests and replies to the payment service are lost: every
  payment is for a recorded order, of the user who placed it and of exactly the amount stored with it, and no order has two.\<close>

theorem payments_match_orders:
  assumes "(ledger_step X N C)\<^sup>*\<^sup>* w w'" and "uuid_round_trip X"
    and "order_tables_ok (fst w)" and "payment_tables_ok (snd (snd w))" and "pd_payments (snd (snd w)) = []"
  shows "(\<forall>p \<in> set (pd_payments (snd (snd w'))). \<exists>row \<in> set (od_orders (fst w')).
      py_OrderID p = or_ID row \<and> py_UserID p = or_UserID row \<and> py_Amount p = or_TotalAmount row) \<and>
    distinct (map py_OrderID (pd_payments (snd (snd w')))) \<and> distinct (map or_ID (od_orders (fst w')))"
proof -
  have "ledger_ok (fst w) (snd (snd w))" using assms(3-5) by (simp add: ledger_ok_def)
  from ledger_reachable [OF assms(1) this assms(2)] show ?thesis
    unfolding ledger_ok_def pays_for_def payment_tables_ok_def order_tables_ok_def by blast
qed

text \<open>The reply is lost: the caller gets an error, the payment is there, and it is the order's.\<close>

theorem payments_match_orders_witness:
  "\<exists>r w' p. ledger_run_sample (Some (LostReply ''connection reset'')) = (Inl r, w') \<and> pd_payments (snd (snd w')) = [p] \<and>
     (\<exists>row \<in> set (od_orders (fst w')). py_OrderID p = or_ID row \<and> py_Amount p = or_TotalAmount row)"
proof -
  obtain r w' p where run: "ledger_run_sample (Some (LostReply ''connection reset'')) = (Inl r, w')" "pd_payments (snd (snd w')) = [p]"
    using ledger_lost_sample by (auto simp: isl_def length_Suc_conv split: prod.splits)
  then show ?thesis
    using payments_match_orders [OF ledger_run_step sample_uuids ledger_sample_start, of "Some (LostReply ''connection reset'')"] by auto
qed

text \<open>C18. An order that is returned is paid in full: its row is in the order service's table under the returned identifier, and the
  payment service holds the payment of this row, of its user and of exactly its total, with the status \<^verbatim>\<open>SUCCEEDED\<close>.\<close>

theorem returned_order_paid_in_full:
  assumes "run_state (CreateOrder X (order_server X (paying_clients X N C)) ctx req) w = (Inr order, w')"
    and "(ledger_step X N C)\<^sup>*\<^sup>* w0 w" and "uuid_round_trip X"
    and "order_tables_ok (fst w0)" and "payment_tables_ok (snd (snd w0))" and "pd_payments (snd (snd w0)) = []"
  shows "\<exists>row \<in> set (od_orders (fst w')). \<exists>p \<in> set (pd_payments (snd (snd w'))). \<exists>s \<in> set (pd_statuses (snd (snd w'))).
    ov_Id order = uuid_text X (or_ID row) \<and> py_OrderID p = or_ID row \<and> py_UserID p = or_UserID row \<and>
    py_Amount p = or_TotalAmount row \<and> py_Status p = ps_ID s \<and> ps_Name s = ''SUCCEEDED''"
proof -
  have "ledger_ok (fst w0) (snd (snd w0))" using assms(4-6) by (simp add: ledger_ok_def)
  from ledger_place [OF assms(1) ledger_reachable [OF assms(2) this assms(3)] assms(3)]
  show ?thesis unfolding pays_for_def by blast
qed

theorem returned_order_paid_in_full_witness:
  "\<exists>order w'. ledger_run_sample None = (Inr order, w') \<and>
     (\<exists>row \<in> set (od_orders (fst w')). \<exists>p \<in> set (pd_payments (snd (snd w'))). ov_Id order = uuid_text sample_ext (or_ID row) \<and>
        py_Amount p = or_TotalAmount row)"
proof -
  obtain order w' where run: "ledger_run_sample None = (Inr order, w')"
    using ledger_paid_sample by (metis isl_def obj_sumE prod.collapse)
  from returned_order_paid_in_full [OF this [unfolded ledger_run_sample_def] rtranclp.rtrancl_refl sample_uuids ledger_sample_start]
  show ?thesis using run by blast
qed

end
