(* ===== verification/Access.thy ===== *)
theory Access
  imports GatewaySpec UserSpec
begin

text \<open>
  The gateway over the user service: a registration and a login as requests of a browser, the user service behind the
  gateway's clients, and the requests that the cookie of the login lets through. Between them the user service answers
  other calls, its goroutines run and its cache loses keys (\<open>user_step\<close>).
\<close>

subsection \<open>The clients of the user service\<close>

definition user_call :: "(user_world, status + 'a) state \<Rightarrow> (user_world \<times> 'c, go_error + 'a) state" where
  "user_call m = zoom fst (\<lambda>v w. (v, snd w)) (attempt m StatusError ok)"

definition over_users :: "ext \<Rightarrow> hasher \<Rightarrow> (user_world \<times> 'c) GRPCClient \<Rightarrow> (user_world \<times> 'c) GRPCClient" where
  "over_users X H C = C\<lparr>gw_CreateUser := (\<lambda>q. user_call (CreateUser X H None q)),
     gw_GetUserByID := (\<lambda>q. user_call (GetUserByID X None q)),
     gw_AuthorizeUser := (\<lambda>q. user_call (AuthorizeUser X H None q))\<rparr>"

lemma run_user_call [simp]:
  "run_state (user_call m) w = (case run_state m (fst w) of (r, v) \<Rightarrow>
     (case r of Inl e \<Rightarrow> Inl (StatusError e) | Inr x \<Rightarrow> Inr x, (v, snd w)))"
  by (simp add: user_call_def split: prod.splits sum.splits)

subsection \<open>What the user service does meanwhile\<close>

inductive user_step :: "ext \<Rightarrow> hasher \<Rightarrow> user_world \<Rightarrow> user_world \<Rightarrow> bool" for X H where
  create: "run_state (CreateUser X H ctx creq) w = (cr, w') \<Longrightarrow> user_step X H w w'"
| get: "run_state (GetUserByID X ctx greq) w = (gr, w') \<Longrightarrow> user_step X H w w'"
| authorize: "run_state (AuthorizeUser X H ctx areq) w = (ar, w') \<Longrightarrow> user_step X H w w'"
| task: "t \<in> set (uw_tasks w) \<Longrightarrow> run_state (run_user_task t) (uw_redis w) = (x, c) \<Longrightarrow>
    user_step X H w (w\<lparr>uw_redis := c, uw_tasks := remove1 t (uw_tasks w)\<rparr>)"
| forget: "rd_data c \<subseteq>\<^sub>m rd_data (uw_redis w) \<Longrightarrow> user_step X H w (w\<lparr>uw_redis := c\<rparr>)"

lemma users_of_calls:
  "run_state (CreateUser X H ctx creq) w = (cr, w') \<Longrightarrow> set (ud_users (uw_db w)) \<subseteq> set (ud_users (uw_db w'))"
  "run_state (GetUserByID X ctx greq) w = (gr, w') \<Longrightarrow> ud_users (uw_db w') = ud_users (uw_db w)"
  "run_state (AuthorizeUser X H ctx areq) w = (ar, w') \<Longrightarrow> ud_users (uw_db w') = ud_users (uw_db w)"
  by (auto simp: CreateUser_def GetUserByID_def AuthorizeUser_def Let_def
      dest!: CreateUser_q_effect GetUserByID_q_effect getUserFromDatabase_effect split: option.splits sum.splits prod.splits)

lemma user_step_keeps:
  assumes "user_step X H w w'" and "user_reachable X H w"
  shows "user_reachable X H w' \<and> set (ud_users (uw_db w)) \<subseteq> set (ud_users (uw_db w'))"
  using assms(1)
proof (cases rule: user_step.cases)
  case (create ctx creq cr)
  then show ?thesis using user_reachable.create [OF assms(2) create] users_of_calls(1) [OF create] by simp
next
  case (get ctx greq gr)
  then show ?thesis using user_reachable.get [OF assms(2) get] users_of_calls(2) [OF get] by simp
next
  case (authorize ctx areq ar)
  then show ?thesis using user_reachable.authorize [OF assms(2) authorize] users_of_calls(3) [OF authorize] by simp
next
  case (task t x c)
  then show ?thesis using user_reachable.task [OF assms(2)] by simp
next
  case (forget c)
  then show ?thesis using user_reachable.forget [OF assms(2)] by simp
qed

lemma user_steps_keep:
  assumes "(user_step X H)\<^sup>*\<^sup>* w w'" and "user_reachable X H w"
  shows "user_reachable X H w' \<and> set (ud_users (uw_db w)) \<subseteq> set (ud_users (uw_db w'))"
  using assms by (induction rule: rtranclp_induct) (use user_step_keeps in blast)+

subsection \<open>A registration and a login\<close>

lemma registered:
  assumes "run_state (endpoint_handler G t CreateUserEP reg) w = (resp, w')" and "rs_Status resp = 201"
    and "gt_clients G = over_users (gt_ext G) H C"
    and "unmarshal into_create_user \<lparr>cur_Username = [], cur_Email = [], cur_Password = []\<rparr> (hr_Body reg) = Inr req"
  shows "\<exists>u. run_state (CreateUser (gt_ext G) H None req) (fst w) = (Inr u, fst w')"
proof -
  have same: "\<lparr>cur_Username = cur_Username req, cur_Email = cur_Email req, cur_Password = cur_Password req\<rparr> = req" by (cases req) simp
  have "\<exists>u. run_state (CreateUser (gt_ext G) H None \<lparr>cur_Username = cur_Username req, cur_Email = cur_Email req,
      cur_Password = cur_Password req\<rparr>) (fst w) = (Inr u, fst w')"
    using assms by (auto simp: CreateUserHandler_def decode_body_def over_users_def RespondWithError_def respond_def split: prod.splits sum.splits)
  then show ?thesis unfolding same .
qed

lemma login_answer:
  assumes "run_state (endpoint_handler G t LoginEP login) w = (resp, w')" and "rs_Status resp \<noteq> 500"
    and "unmarshal into_login \<lparr>lr_Email = [], lr_Password = []\<rparr> (hr_Body login) = Inr req"
    and "run_state (gw_AuthorizeUser (gt_clients G) \<lparr>aur_Email = lr_Email req, aur_Password = lr_Password req\<rparr>) w = (Inr u, v)"
  shows "rs_Status resp = 200 \<and> (\<exists>ck. rs_Cookies resp = [ck])"
  using assms
  by (auto simp: LoginHandler_def decode_body_def call_grpc_or_def RespondWithError_def RespondWithJSON_def respond_def Let_def
      split: sum.splits)

subsection \<open>The property\<close>

text \<open>C29. Whoever has registered gets in: after a registration that the gateway has answered with 201, a login with the same address and
  password is answered with 200 and one cookie, whatever the user service, its goroutines and its cache did in between, if the
  database answers and the token can be signed. Until the token expires every request with this cookie for a protected
  endpoint runs as the registered user.\<close>

theorem registered_user_gets_in:
  assumes "gt_clients G = over_users (gt_ext G) H C" and "uuid_round_trip (gt_ext G)"
    and "jwt_documented (gt_jwt G) (jm_privateKey (gt_manager G)) (jm_publicKey (gt_manager G))"
    and "\<forall>p h. create_hash H p = Inr h \<longrightarrow> compare_hash H p h = Inr True"
    and "user_reachable (gt_ext G) H (fst w0)"
    and "unmarshal into_create_user \<lparr>cur_Username = [], cur_Email = [], cur_Password = []\<rparr> (hr_Body reg) = Inr req"
    and "run_state (endpoint_handler G t0 CreateUserEP reg) w0 = (created, w1)" and "rs_Status created = 201"
    and "(user_step (gt_ext G) H)\<^sup>*\<^sup>* (fst w1) (fst w2)"
    and "\<forall>n. fault_at (uw_db (fst w2)) n = None" and "txn (uw_db (fst w2)) = NoTx"
    and "unmarshal into_login \<lparr>lr_Email = [], lr_Password = []\<rparr> (hr_Body login) =
      Inr \<lparr>lr_Email = cur_Email req, lr_Password = cur_Password req\<rparr>"
    and "run_state (endpoint_handler G t LoginEP login) w2 = (resp, w3)" and "rs_Status resp \<noteq> 500"
  shows "rs_Status resp = 200 \<and> (\<exists>ck. rs_Cookies resp = [ck] \<and> (\<exists>row \<in> set (ud_users (uw_db (fst w2))).
    us_Email row = trim_space (cur_Email req) \<and>
    (\<forall>t' r route. request_cookie r (gt_env G ''COOKIE_AUTH_NAME'') = Inr (ck_Value ck) \<longrightarrow> t \<le> t' \<longrightarrow>
      t' < t + jm_ttl (gt_manager G) - (t + jm_ttl (gt_manager G)) mod 10 ^ 9 + jm_leeway (gt_manager G) \<longrightarrow>
      0 \<le> jm_leeway (gt_manager G) \<longrightarrow> find_route (hr_Method r) (hr_Path r) = Some route \<longrightarrow> rt_Auth route \<longrightarrow>
      (\<exists>c. cl_Subject c = uuid_text (gt_ext G) (us_ID row) \<and> cl_Email c = us_Email row \<and>
        serve_mux G t' r = endpoint_handler G t' (rt_Endpoint route)
          (r\<lparr>hr_PathValue := path_values route (hr_Path r), hr_Claims := Some c\<rparr>)))))"
proof -
  let ?X = "gt_ext G" and ?a = "\<lparr>aur_Email = cur_Email req, aur_Password = cur_Password req\<rparr>"
  obtain u where u: "run_state (CreateUser ?X H None req) (fst w0) = (Inr u, fst w1)"
    using registered [OF assms(7,8,1,6)] by blast
  obtain row where row: "row \<in> set (ud_users (uw_db (fst w1)))" "us_Email row = trim_space (cur_Email req)"
    "compare_hash H (trim_space (cur_Password req)) (us_Password row) = Inr True"
    using CreateUser_Inr [OF u] assms(4) by blast
  have w2: "user_reachable ?X H (fst w2)" "row \<in> set (ud_users (uw_db (fst w2)))"
    using user_steps_keep [OF assms(9) user_reachable.create [OF assms(5) u]] row(1) by blast+
  obtain u' v where auth: "run_state (AuthorizeUser ?X H None ?a) (fst w2) = (Inr u', v)"
    "uv_Id u' = uuid_text ?X (us_ID row)" "uv_Email u' = us_Email row"
    using row_authorized [OF w2(1) assms(2) w2(2), of ?a] row assms(10,11) by auto
  then have call: "run_state (gw_AuthorizeUser (gt_clients G) ?a) w2 = (Inr u', (v, snd w2))"
    by (simp add: assms(1) over_users_def)
  obtain ck where ck: "rs_Status resp = 200" "rs_Cookies resp = [ck]"
    using login_answer [OF assms(13,14,12)] call by auto
  from login_cookie [OF assms(3,13) ck(2) assms(12)] show ?thesis
    using call ck auth(2,3) row(2) w2(2) by (intro conjI exI [of _ ck] bexI [of _ row]) simp_all
qed

subsection \<open>An instance\<close>

definition away_clients_sample :: "(user_world \<times> unit) GRPCClient" where
  "away_clients_sample = \<lparr>gw_CreateUser = away, gw_GetUserByID = away, gw_AuthorizeUser = away, gw_CreateProduct = away,
     gw_GetProduct = away, gw_ListProducts = away, gw_UpdateProduct = away, gw_DeleteProduct = away,
     gw_GetProductsByCategoryID = away, gw_GetProductCategories = away (), gw_CreateProductCategory = away,
     gw_UpdateProductCategory = away, gw_DeleteProductCategory = away, gw_GetCart = away, gw_AddProductToCart = away,
     gw_RemoveProductFromCart = away, gw_ClearCart = away, gw_DeleteCart = away, gw_CreateOrder = away\<rparr>"

definition user_gateway_sample :: "(unit, unit, user_world \<times> unit) gateway" where
  "user_gateway_sample = \<lparr>gt_ext = sample_ext, gt_jwt = jwt_sample, gt_manager = manager_sample, gt_env = (\<lambda>n. ''auth''),
     gt_limits = gt_limits gateway_sample,
     gt_limiter = (\<lambda>i l. State_Monad.return (Inr \<lparr>rr_Allowed = 1, rr_Remaining = rl_Burst l - 1, rr_RetryAfter = 0\<rparr>)),
     gt_clients = over_users sample_ext hasher_sample away_clients_sample, gt_search = (\<lambda>r. State_Monad.return (respond 200 [] NoBody))\<rparr>"

definition register_sample :: http_request where
  "register_sample = request_sample ''POST'' [''api'', ''users''] []
     (Some (JObj [(''username'', JStr ''ann''), (''email'', JStr ''a@b.c''), (''password'', JStr ''pw'')]))"

definition registration_sample :: CreateUserRequest where
  "registration_sample = \<lparr>cur_Username = ''ann'', cur_Email = ''a@b.c'', cur_Password = ''pw''\<rparr>"

lemma register_decodes:
  "unmarshal into_create_user \<lparr>cur_Username = [], cur_Email = [], cur_Password = []\<rparr> (hr_Body register_sample) = Inr registration_sample"
  "unmarshal into_login \<lparr>lr_Email = [], lr_Password = []\<rparr> (hr_Body login_sample) =
     Inr \<lparr>lr_Email = cur_Email registration_sample, lr_Password = cur_Password registration_sample\<rparr>"
  by (simp_all add: register_sample_def login_sample_def registration_sample_def unmarshal_def into_create_user_def into_login_def
      field_of_def fld_def)

lemma register_sample_run:
  "\<exists>w. run_state (endpoint_handler user_gateway_sample 0 CreateUserEP register_sample) (user_world_sample, ()) =
     (RespondWithJSON 201 None, (w, ())) \<and> ud_users (uw_db w) = [\<lparr>us_ID = 7, us_Username = trim_space ''ann'', us_Email = trim_space ''a@b.c'',
       us_Password = ''#'' @ trim_space ''pw'', us_CreatedAt = 0, us_UpdatedAt = None\<rparr>] \<and>
     fault_at (uw_db w) = (\<lambda>n. None) \<and> txn (uw_db w) = NoTx"
  using register_decodes(1)
  by (simp add: user_gateway_sample_def CreateUserHandler_def decode_body_def over_users_def registration_sample_def CreateUser_def
      hasher_sample_def user_world_sample_def CreateUser_q_def insert_user_def run_query_row run_db_call Let_def now_def)

text \<open>The token of the sample library is for this user.\<close>

lemma trim_sample: "trim_space ''a@b.c'' = ''a@b.c''" "uuid_text sample_ext 7 = ''7''"
  by (rule trim_ends, simp_all add: token_char_def) code_simp

lemma login_sample_run:
  assumes "run_state (AuthorizeUser sample_ext hasher_sample None \<lparr>aur_Email = ''a@b.c'', aur_Password = ''pw''\<rparr>) w = (Inr u, w')"
    and "uv_Id u = ''7''" and "uv_Email u = ''a@b.c''"
  shows "\<exists>resp. run_state (endpoint_handler user_gateway_sample 0 LoginEP login_sample) (w, ()) = (resp, (w', ())) \<and>
    rs_Status resp = 200 \<and> map ck_Value (rs_Cookies resp) = [''h.c.s'']"
  using register_decodes(2) assms jwt_sample_token
  by (simp add: user_gateway_sample_def LoginHandler_def decode_body_def over_users_def call_grpc_or_def registration_sample_def
      RespondWithJSON_def respond_def auth_cookie_def Let_def)

theorem registered_user_gets_in_witness:
  "\<exists>w resp w' c. run_state (endpoint_handler user_gateway_sample 0 CreateUserEP register_sample) (user_world_sample, ()) =
      (RespondWithJSON 201 None, w) \<and>
    run_state (endpoint_handler user_gateway_sample 0 LoginEP login_sample) w = (resp, w') \<and> rs_Status resp = 200 \<and>
    cl_Subject c = ''7'' \<and> serve_mux user_gateway_sample (5 * 10 ^ 9) (request_sample ''GET'' [''api'', ''carts''] [(''auth'', ''h.c.s'')] None) =
      endpoint_handler user_gateway_sample (5 * 10 ^ 9) GetCartEP
        ((request_sample ''GET'' [''api'', ''carts''] [(''auth'', ''h.c.s'')] None)
          \<lparr>hr_PathValue := path_values (mk_route ''GET'' [Lit ''carts''] True GetCartEP) [''api'', ''carts''], hr_Claims := Some c\<rparr>)"
proof -
  let ?G = user_gateway_sample and ?r = "request_sample ''GET'' [''api'', ''carts''] [(''auth'', ''h.c.s'')] None"
  let ?row = "\<lparr>us_ID = 7, us_Username = trim_space ''ann'', us_Email = trim_space ''a@b.c'', us_Password = ''#'' @ trim_space ''pw'',
    us_CreatedAt = 0, us_UpdatedAt = None\<rparr>"
  obtain w where reg: "run_state (endpoint_handler ?G 0 CreateUserEP register_sample) (user_world_sample, ()) =
      (RespondWithJSON 201 None, (w, ()))" and w: "ud_users (uw_db w) = [?row]"
    "\<forall>n. fault_at (uw_db (fst (w, ()))) n = None" "txn (uw_db (fst (w, ()))) = NoTx"
    using register_sample_run by auto
  have G: "gt_clients ?G = over_users (gt_ext ?G) hasher_sample away_clients_sample" "uuid_round_trip (gt_ext ?G)"
    "jwt_documented (gt_jwt ?G) (jm_privateKey (gt_manager ?G)) (jm_publicKey (gt_manager ?G))"
    "\<forall>p h. create_hash hasher_sample p = Inr h \<longrightarrow> compare_hash hasher_sample p h = Inr True"
    "user_reachable (gt_ext ?G) hasher_sample (fst (user_world_sample, ()))" "rs_Status (RespondWithJSON 201 None) = 201"
    by (simp_all add: user_gateway_sample_def sample_uuids jwt_sample_documented hasher_sample_def user_sample_reachable
        RespondWithJSON_def respond_def)
  have reach: "user_reachable sample_ext hasher_sample w"
    using registered [OF reg G(6,1) register_decodes(1)] user_reachable.create [OF user_sample_reachable]
    by (auto simp: user_gateway_sample_def)
  obtain u w' where auth: "run_state (AuthorizeUser sample_ext hasher_sample None \<lparr>aur_Email = ''a@b.c'', aur_Password = ''pw''\<rparr>) w = (Inr u, w')"
    "uv_Id u = ''7''" "uv_Email u = ''a@b.c''"
    using row_authorized [OF reach sample_uuids, of ?row "\<lparr>aur_Email = ''a@b.c'', aur_Password = ''pw''\<rparr>"] w trim_sample
    by (auto simp: hasher_sample_def)
  obtain resp where resp: "run_state (endpoint_handler ?G 0 LoginEP login_sample) (w, ()) = (resp, (w', ()))" "rs_Status resp = 200"
    "map ck_Value (rs_Cookies resp) = [''h.c.s'']"
    using login_sample_run [OF auth] by (elim exE conjE) (rule that)
  have "rs_Status resp \<noteq> 500" using resp(2) by simp
  from registered_user_gets_in [OF G(1-5) register_decodes(1) reg G(6) rtranclp.rtrancl_refl w(2,3) register_decodes(2) resp(1) this]
  obtain ck row where ck: "rs_Cookies resp = [ck]" "row \<in> set (ud_users (uw_db (fst (w, ()))))"
    and served: "\<forall>t' r route. request_cookie r (gt_env ?G ''COOKIE_AUTH_NAME'') = Inr (ck_Value ck) \<longrightarrow> 0 \<le> t' \<longrightarrow>
      t' < 0 + jm_ttl (gt_manager ?G) - (0 + jm_ttl (gt_manager ?G)) mod 10 ^ 9 + jm_leeway (gt_manager ?G) \<longrightarrow>
      0 \<le> jm_leeway (gt_manager ?G) \<longrightarrow> find_route (hr_Method r) (hr_Path r) = Some route \<longrightarrow> rt_Auth route \<longrightarrow>
      (\<exists>c. cl_Subject c = uuid_text (gt_ext ?G) (us_ID row) \<and> cl_Email c = us_Email row \<and>
        serve_mux ?G t' r = endpoint_handler ?G t' (rt_Endpoint route)
          (r\<lparr>hr_PathValue := path_values route (hr_Path r), hr_Claims := Some c\<rparr>))"
    by blast
  have "ck_Value ck = ''h.c.s''" "us_ID row = 7" using resp(3) ck w(1) by simp_all
  then have "\<exists>c. cl_Subject c = uuid_text (gt_ext ?G) 7 \<and> serve_mux ?G (5 * 10 ^ 9) ?r = endpoint_handler ?G (5 * 10 ^ 9)
      (rt_Endpoint (mk_route ''GET'' [Lit ''carts''] True GetCartEP))
      (?r\<lparr>hr_PathValue := path_values (mk_route ''GET'' [Lit ''carts''] True GetCartEP) (hr_Path ?r), hr_Claims := Some c\<rparr>)"
    using served [rule_format, of ?r "5 * 10 ^ 9" "mk_route ''GET'' [Lit ''carts''] True GetCartEP"] carts_route
    by (auto simp: user_gateway_sample_def manager_sample_def request_cookie_def mk_route_def)
  then obtain c where "cl_Subject c = ''7''" "serve_mux ?G (5 * 10 ^ 9) ?r = endpoint_handler ?G (5 * 10 ^ 9) GetCartEP
      (?r\<lparr>hr_PathValue := path_values (mk_route ''GET'' [Lit ''carts''] True GetCartEP) [''api'', ''carts''], hr_Claims := Some c\<rparr>)"
    using trim_sample(2) by (auto simp: user_gateway_sample_def mk_route_def)
  then show ?thesis using reg resp by (intro exI [of _ "(w, ())"] exI [of _ resp] exI [of _ "(w', ())"] exI [of _ c]) simp
qed

end
