(* ===== verification/Spec2Isabelle.thy ===== *)
theory Spec2Isabelle
  imports OrderService OrderConsumer ProductEvents Relay ProductLog PaymentService CartCatalogue UserSpec GatewayTypes
    SearchSpec Programs Fulfilment Subscriptions Saga Ledger Access
begin

text \<open>
  \<^bold>\<open>An online shop of eight Go programs, verified.\<close>
  A shop of seven services behind an API gateway (\<^verbatim>\<open>src/\<close>, Go). The services talk by gRPC calls and by events over RabbitMQ;
  five have a PostgreSQL database (user, product, cart, order, payment), four use Redis (the gateway for its limits, the
  user, product and cart service as a cache), the search service keeps an index in OpenSearch. This development translates
  the code into definitions of HOL, one theory per component, and proves what the components promise, alone and together.

  \<^bold>\<open>How the parts interact.\<close>
  The gateway authenticates a request, limits its rate and calls one service (\<open>serve\<close>). \<open>CreateOrder\<close> of the order service fetches
  the cart and the user, records the order and, in the same transaction, an event in its outbox, and then has the payment
  service accept the payment. A relayer publishes the waiting events of the outbox. The event of an order reaches three consumers:
  the product service takes the stock, the cart service deletes the cart, the notification service sends a mail. When the stock
  is short the product service records a failure event in its own outbox; its relayer sends it to the order service, which
  cancels the order. The events of the catalogue take the same way from the product to the search service.

  \<^bold>\<open>Conventions.\<close>
  A Go function that may fail is a state transformer (\<^theory_text>\<open>HOL-Library.State_Monad\<close>) whose result is a sum: \<open>Inl\<close> an error, \<open>Inr\<close> a value;
  \<open>attempt m f k\<close> is the idiom \<^verbatim>\<open>if err != nil { return f(err) }\<close>. A struct is a record, a nil pointer or slice is \<open>None\<close>, \<open>int32\<close> is \<open>32 word\<close>,
  a \<open>float64\<close> is an exact rational value or one of the three special values, and its operations round. Names are those of the code; a suffix
  tells apart what several services name alike (\<open>handleOrderCreatedEvent_cart\<close>). Where the code starts a goroutine, the model appends
  a task to a list in the state and the properties say what the task does whenever it runs. The order of PostgreSQL's numbers and of the levels of the log are
  instances of \<^theory_text>\<open>linorder\<close>. Definitions compute: the witnesses evaluate them.

  \<^bold>\<open>Theories\<close>, in the order of the components:
  \<^item> \<^theory_text>\<open>Prelude\<close>: the shape of a Go call, operations on a part of a state (\<open>zoom\<close>), the calculus \<open>keeps\<close> of invariants. \<^theory_text>\<open>Status\<close>: errors, gRPC statuses, the third-party
    functions. \<^theory_text>\<open>Float64\<close>, \<^theory_text>\<open>Decimal\<close>, \<^theory_text>\<open>Json\<close>: Go's \<^verbatim>\<open>float64\<close> and \<^verbatim>\<open>fmt\<close> verbs, \<^verbatim>\<open>strconv\<close>, \<^verbatim>\<open>encoding/json\<close>. \<^theory_text>\<open>Api\<close>: the messages of \<^verbatim>\<open>gen/*/v1\<close>.
  \<^item> \<^theory_text>\<open>Db\<close>: a PostgreSQL connection with its faults and transactions (\<open>db_call\<close>, \<open>with_tx\<close>). \<^theory_text>\<open>Redis\<close>: the cache. \<^theory_text>\<open>Rabbit\<close>: \<^verbatim>\<open>shared/rabbitmq\<close>
    and the product service's \<^verbatim>\<open>publisher.go\<close>; \<^theory_text>\<open>Subscriptions\<close>: its subscriptions. \<^theory_text>\<open>Web\<close>: \<^verbatim>\<open>shared/web/response.go\<close>. \<^theory_text>\<open>Jwt\<close>: \<^verbatim>\<open>shared/auth/jwt.go\<close>.
  \<^item> \<^theory_text>\<open>Events\<close>, \<^theory_text>\<open>Outbox\<close>: \<^verbatim>\<open>shared/events\<close> and its \<^verbatim>\<open>worker\<close>. \<^theory_text>\<open>OutboxTable\<close>: the table \<^verbatim>\<open>outbox_events\<close> of two services. \<^theory_text>\<open>Relay\<close>: the worker on the
    order and the product service's tables and publishers.
  \<^item> \<^verbatim>\<open>order-service\<close>: \<^theory_text>\<open>OrderRepo\<close> (tables, \<^verbatim>\<open>order.sql.go\<close>, \<open>CreateOrder_repo\<close>, \<open>CancelOrder\<close>), \<^theory_text>\<open>OrderService\<close> (\<^verbatim>\<open>internal/grpc/order\<close>),
    \<^theory_text>\<open>OrderConsumer\<close> (\<^verbatim>\<open>stock_update_failed.go\<close>).
  \<^item> \<^verbatim>\<open>product-service\<close>: \<^theory_text>\<open>ProductRepo\<close>, \<^theory_text>\<open>ProductTx\<close> (tables, statements, transactions), \<^theory_text>\<open>ProductService\<close>, \<^theory_text>\<open>CategoryService\<close> (\<^verbatim>\<open>internal/grpc\<close>),
    \<^theory_text>\<open>ProductConsumer\<close> (\<^verbatim>\<open>order_created_consumer.go\<close>); their properties are in \<^theory_text>\<open>ProductSpec\<close>, \<^theory_text>\<open>ProductLog\<close> (the outbox as a log of the
    catalogue), \<^theory_text>\<open>ProductCache\<close>, \<^theory_text>\<open>ProductEvents\<close>.
  \<^item> \<^verbatim>\<open>cart-service\<close>: \<^theory_text>\<open>CartRepo\<close>, \<^theory_text>\<open>CartService\<close>, \<^theory_text>\<open>CartConsumer\<close>, \<^theory_text>\<open>CartSpec\<close>; \<^theory_text>\<open>CartCatalogue\<close> puts it over the product service.
    \<^verbatim>\<open>payment-service\<close>: \<^theory_text>\<open>PaymentService\<close>. \<^verbatim>\<open>user-service\<close>: \<^theory_text>\<open>UserService\<close>, \<^theory_text>\<open>UserSpec\<close>. \<^verbatim>\<open>search-service\<close>: \<^theory_text>\<open>SearchService\<close>, \<^theory_text>\<open>SearchSpec\<close>.
    \<^verbatim>\<open>notification-service\<close>: \<^theory_text>\<open>NotificationService\<close>.
  \<^item> \<^verbatim>\<open>api-gateway\<close>: \<^theory_text>\<open>Gateway\<close> (\<^verbatim>\<open>internal/handlers\<close>), \<^theory_text>\<open>GatewayRouter\<close> (\<^verbatim>\<open>internal/middlewares\<close>, \<^verbatim>\<open>internal/router\<close>), \<^theory_text>\<open>GatewaySpec\<close>, \<^theory_text>\<open>GatewayTypes\<close>.
  \<^item> \<^theory_text>\<open>Config\<close> (environment variables), \<^theory_text>\<open>Startup\<close> (\<^verbatim>\<open>shared/postgres\<close>, \<^verbatim>\<open>shared/web\<close>, \<^verbatim>\<open>shared/logs\<close>, \<^verbatim>\<open>tools/health-checker\<close>), \<^theory_text>\<open>Programs\<close> (every
    \<^verbatim>\<open>cmd/*/main.go\<close> to its exit status).
  \<^item> The properties that span services: \<^theory_text>\<open>Saga\<close> (order service, relayers, broker, product service), \<^theory_text>\<open>Ledger\<close> (order service over payment service),
    \<^theory_text>\<open>Access\<close> (gateway over user service), \<^theory_text>\<open>Fulfilment\<close> and this theory (one order through its consumers).

  \<^bold>\<open>Interfaces.\<close>
  The locales are the contracts between components, each interpreted on the code's definitions:
  \<^item> \<open>outbox_store\<close> (by \<open>order_store\<close>, \<open>product_store\<close>) and \<open>publisher\<close> (by \<open>fanout\<close>, \<open>delegating\<close>), which \<open>relayer\<close> extends (by \<open>order_relay\<close>,
    \<open>product_relay\<close>): what is marked as published has been handed to the broker.
  \<^item> \<open>once_consumer\<close> (by \<open>product_once\<close>, \<open>cart_once\<close>): a consumer that marks what it has processed takes a message at most once.
  \<^item> \<open>subscribing\<close> (by \<open>fanout_subscription\<close>, \<open>topic_subscription\<close>): a set-up that the subscription can repeat.
  \<^item> \<open>catalogue\<close> (by \<open>product_catalogue\<close>): what a client of the product service relies on in a batch read.

  \<^bold>\<open>What is shown.\<close>
  \<^item> Orders: an order is recorded with its event or not at all, whatever fails; its total is exact; it is fulfilled, or
    cancelled when the stock is short, and never cancelled without a recorded shortage of its own items.
  \<^item> Stock and carts: an acknowledged order has been taken in full; no redelivery takes it again unless two deliveries overlap; the
    cart that is deleted is the one of the user who ordered; a request touches the cart of its own user only; an addition changes one line; a cart
    shows its lines whose product is offered, no others, and its exact total.
  \<^item> Payments: what remains of a payment whatever the database does; every payment is for a recorded order, of its user and its exact amount, no
    order has two, and an order that is returned is paid in full.
  \<^item> Users and tokens: who is authorised has the password of the user, in every reachable state of table and cache; a login gives access until
    its token expires, also after a registration whatever happened since, and without a token only the public endpoints answer; every answer has the type of its
    endpoint or is one of the refusals and exceptions the theorem lists.
  \<^item> Caches and index: a read after an update, what a cached product is read back as, the last acknowledged event in the index;
    the event of a created product reaches the queue of the search service by exchange and key; replaying the product events of the outbox gives the products of the table.
  \<^item> Tables: the lemmas \<open>keeps\<close> of each database theory say that its handlers keep the constraints of its tables, and the tables of the product service stay
    well formed under every interleaving of deliveries.
  \<^item> Programs: a program that has started is configured, and which exit status a program can have.
  Several theorems state behaviour that the code's authors will not have wanted (a failed payment leaves its order, a short order its
  partial stock, two overlapping deliveries take the stock twice, the cart service never exits with 0): they are stated as the code behaves.

  \<^bold>\<open>State machines, bounds and termination.\<close>
  \<open>consuming\<close> (\<^theory_text>\<open>ProductEvents\<close>) interleaves the check and the update of any number of deliveries, \<open>user_reachable\<close> (\<^theory_text>\<open>UserSpec\<close>) the operations, goroutines
  and lost keys of the user service (\<open>user_step\<close> of \<^theory_text>\<open>Access\<close> is its step); \<open>shop_step\<close> (\<^theory_text>\<open>Saga\<close>) interleaves the requests, relayers, deliveries, crashes and goroutines of the
  order and the product service, where a handler of the order service is one step, since it changes no table after the transaction that
  records the order; \<open>ledger_step\<close> (\<^theory_text>\<open>Ledger\<close>) places and cancels orders while calls to the payment service are lost. Invariants are proved by rule induction. The life of a process (\<^theory_text>\<open>Programs\<close>) is a list of events,
  \<open>causal\<close> says which lists can occur. The loops end: retries and reconnections recurse on the attempts
  that are left (a publish waits at most 543.3 seconds), the parser of durations on the rest of its text. The worker and the consumer loop end with the process only:
  they recurse on the list of ticks or messages they see. The reconnecting subscription \<open>Subscribe_loop\<close> alone has fuel, the number of its rounds;
  its property (\<^theory_text>\<open>Subscriptions\<close>) gives its result for every number of rounds, one more than the closed channels being enough to reach its end. Everything else recurses on its data.

  \<^bold>\<open>Code outside the repository\<close> is an argument of the definitions that use it: \<open>ext\<close> (\<^verbatim>\<open>pgtype\<close>, gRPC's \<^verbatim>\<open>status\<close>, texts of foreign errors, PostgreSQL's collation), \<open>jwt_lib\<close>,
  \<open>hasher\<close> (argon2id), \<open>os_do\<close> (OpenSearch), \<open>dial\<close> (gomail), the limiter, the proxy, the answers of AMQP, Redis and PostgreSQL, and \<open>system\<close> (what a
  process sees). What a property needs of it is a named hypothesis of documented behaviour: \<open>uuid_round_trip\<close>, \<open>scans_cents\<close>,
  \<open>floats_cents\<close>, \<open>redis_keeps_cents\<close>, \<open>errors_are_errors\<close>, \<open>client_errors\<close>, \<open>jwt_documented\<close>, \<open>opensearch_documented\<close>; \<open>topic_match\<close> is the rule by which RabbitMQ
  compares a routing key with the key of a binding. The witnesses instantiate them with functions.

  \<^bold>\<open>Not modelled\<close>, and why:
  \<^item> Which lines the components log (the logger itself is in \<^theory_text>\<open>Startup\<close>), the loading of \<^verbatim>\<open>.env\<close> files, sockets, listeners and timeouts of \<^verbatim>\<open>net/http\<close> and \<^verbatim>\<open>grpc\<close>, the health library, the reverse proxy,
    SMTP: input and output of libraries.
  \<^item> The isolation of transactions: a transaction is one step, and what the migrations do is the constraints of the tables, not the running of their SQL.
  \<^item> Durability and confirmation in the broker: the log of a publisher ends where the client library takes the message over.
  \<^item> Generated stubs and reflection code (\<^verbatim>\<open>gen/\<close>); what \<^verbatim>\<open>sqlc\<close> generates to pass a connection on, and its \<^verbatim>\<open>Scan\<close> and \<^verbatim>\<open>Value\<close> helpers, which turn the
    label of an outbox status into the text it is; mocks, unit and integration tests.
  \<^item> The interleaving of a handler of the order service with the messages of its own order (in \<^theory_text>\<open>Saga\<close> and \<^theory_text>\<open>Ledger\<close> it is one step), and messages in
    the queues that no modelled component has sent.
  \<^item> The hexadecimal form of \<^verbatim>\<open>strconv.ParseFloat\<close>, the sign of a zero, the order of rows where the SQL leaves it open.
\<close>

section \<open>Properties across services\<close>

subsection \<open>An order the stock cannot cover\<close>

lemma find_distinct: "distinct (map f xs) \<Longrightarrow> x \<in> set xs \<Longrightarrow> find (\<lambda>y. f y = f x) xs = Some x"
  by (induction xs) (auto dest: sym)

lemma cancels:
  assumes "uuid_round_trip X" and "\<forall>n. fault_at w n = None" and "txn w = NoTx" and "s \<in> os_ID ` set (od_statuses w)"
    and "order_tables_ok w" and "row \<in> set (od_orders w)"
  shows "\<exists>w'. run_state (handleStockUpdateFailedEvent X (Some s)
      (Some (enc_stock_failed \<lparr>sfe_OrderID = uuid_text X (or_ID row), sfe_Products = ps\<rparr>))) w = (Ack, w') \<and>
    row\<lparr>or_Status := s\<rparr> \<in> set (od_orders w')"
proof -
  have d: "distinct (map or_ID (od_orders w))" using assms(5) by (simp add: order_tables_ok_def)
  have f: "find (\<lambda>r. or_ID r = or_ID row) (od_orders w) = Some row"
    using d assms(6) by (simp add: find_distinct)
  let ?e = "\<lparr>sfe_OrderID = uuid_text X (or_ID row), sfe_Products = ps\<rparr>"
  let ?w = "if or_Status row = s then w\<lparr>calls := Suc (calls w)\<rparr>
    else w\<lparr>calls := Suc (Suc (calls w)), od_orders := map (\<lambda>r. if or_ID r = or_ID row then r\<lparr>or_Status := s\<rparr> else r) (od_orders w)\<rparr>"
  have "parse_uuid X (sfe_OrderID ?e) = Inr (or_ID row)" using parse_uuid_text [OF assms(1)] by simp
  from run_handle_known [OF stock_failed_decodes this assms(2-4)]
  have "run_state (handleStockUpdateFailedEvent X (Some s) (Some (enc_stock_failed ?e))) w = (Ack, ?w)"
    by (simp add: f)
  moreover have "row\<lparr>or_Status := s\<rparr> \<in> set (od_orders ?w)"
    using assms(6) by (auto intro!: image_eqI [of _ _ row])
  ultimately show ?thesis by blast
qed

text \<open>C2. The compensation of an order the stock cannot cover, from end to end: the product service decodes the event that was
  recorded with the order, finds the stock short and records a failure; that failure goes to the exchange the order service
  listens on, which decodes it and gives the order, and it alone, its cancelled status.\<close>

theorem short_order_cancelled:
  assumes "uuid_round_trip X" and "recorded X user email amount products w row ev w'"
    and "order_ready X (event_of_order X email products row) rs (or_ID row) (after_check (pw_db p))"
    and "\<not> already_processed X (event_of_order X email products row) (pw_db p)"
    and "length (hits rs (pw_db p)) \<noteq> length products"
    and "\<forall>n. fault_at d n = None" and "txn d = NoTx" and "s \<in> os_ID ` set (od_statuses d)"
    and "order_tables_ok d" and "row \<in> set (od_orders d)"
  shows "\<exists>p' failure d'. fst (fanout_route (ob_EventName ev)) = occ_exchangeName \<and>
    run_state (handleOrderCreatedEvent X (Some (ob_Payload ev))) p = (Nack False, p') \<and>
    pb_outbox (pw_db p') = pb_outbox (pw_db p) @ [failure] \<and> ob_Status failure = ''UNPUBLISHED'' \<and>
    delegating_route (ob_EventName failure) = (sufc_exchangeName, []) \<and>
    run_state (handleStockUpdateFailedEvent X (Some s) (Some (ob_Payload failure))) d = (Ack, d') \<and>
    row\<lparr>or_Status := s\<rparr> \<in> set (od_orders d') \<and>
    {r \<in> set (od_orders d'). r \<notin> set (od_orders d)} \<subseteq> {row\<lparr>or_Status := s\<rparr>}"
proof -
  let ?e = "event_of_order X email products row"
  let ?p = "p\<lparr>pw_db := after_order rs (or_ID row) ?e (failure_of ?e) (after_check (pw_db p))\<rparr>"
  have n: "length (elems (oce_Products ?e)) = length products" by (simp add: event_of_order_def)
  have run: "run_state (handleOrderCreatedEvent X (Some (ob_Payload ev))) p = (Nack False, ?p)"
    using run_handle_order [OF recorded_decodes [OF assms(2)] assms(3,4)] assms(5) n by simp
  have name: "ob_EventName ev = orderCreatedEventName" using assms(2) by (simp add: recorded_def)
  have "\<exists>failure. pb_outbox (pw_db ?p) = pb_outbox (pw_db p) @ [failure] \<and> ob_EventName failure = stockUpdateFailedEventName \<and>
      ob_Payload failure = failure_of ?e \<and> ob_Status failure = ''UNPUBLISHED''"
    using assms(5) n by (simp add: after_order_def Let_def)
  then obtain failure where out: "pb_outbox (pw_db ?p) = pb_outbox (pw_db p) @ [failure]"
    "ob_EventName failure = stockUpdateFailedEventName" "ob_Payload failure = failure_of ?e" "ob_Status failure = ''UNPUBLISHED''"
    by blast
  obtain d' where d': "run_state (handleStockUpdateFailedEvent X (Some s) (Some (ob_Payload failure))) d = (Ack, d')"
    "row\<lparr>or_Status := s\<rparr> \<in> set (od_orders d')"
    using cancels [OF assms(1,6-10)] by (auto simp: out(3) failure_of_def event_of_order_def)
  have only: "{r \<in> set (od_orders d'). r \<notin> set (od_orders d)} \<subseteq> {row\<lparr>or_Status := s\<rparr>}"
  proof -
    have inj: "r = row" if "r \<in> set (od_orders d)" "or_ID r = or_ID row" for r
      using assms(9,10) that by (auto simp: order_tables_ok_def distinct_map inj_on_def)
    have i: "i = or_ID row" if "unmarshal_stock_failed (Some (ob_Payload failure)) = Inr event"
      "parse_uuid X (sfe_OrderID event) = Inr i" for event i
      using that parse_uuid_text [OF assms(1)] by (simp add: out(3) failure_of_def stock_failed_decodes event_of_order_def) auto
    show ?thesis using handle_effect [OF d'(1)]
      by (auto simp: same_order_tables_def dest!: i dest: inj split: if_splits)
  qed
  show ?thesis
    by (intro exI conjI, simp only: name order_exchange, rule run, rule out(1), rule out(4),
        simp only: out(2) failure_exchange, rule d'(1), rule d'(2), rule only)
qed

definition short_products_sample :: "CartProductV1 list" where
  "short_products_sample = map (\<lambda>i. \<lparr>cpv_ProductId = uuid_text sample_ext i, cpv_Name = ''tea'', cpv_Description = [],
     cpv_Price = Fin (5 / 4), cpv_Quantity = 2\<rparr>) [5, 6]"

definition order_event_row_sample :: OutboxRow where
  "order_event_row_sample = \<lparr>ob_ID = 1, ob_AggregateID = 9, ob_EventName = orderCreatedEventName,
     ob_Payload = generateOrderCreatedEventPayload (uuid_text sample_ext 9) (uuid_text sample_ext 7) ''a@b.c'' short_products_sample,
     ob_Status = ''UNPUBLISHED'', ob_CreatedAt = 0, ob_PublishedAt = None\<rparr>"

lemma sample_amount: "mapFloatToPgNumeric sample_ext (Fin 5) = Inr (Num 5)" "numeric_10_2 (Num 5) = Inr (Num 5)"
  by code_simp+

lemma recorded_sample:
  "recorded sample_ext (uuid_text sample_ext 7) ''a@b.c'' (Fin 5) short_products_sample (created_db_sample\<lparr>od_orders := []\<rparr>)
     (order_sample 1) order_event_row_sample (created_db_sample\<lparr>od_outbox := [order_event_row_sample]\<rparr>)"
  using parse_uuid_text [OF sample_uuids, of 7] sample_amount
  by (simp add: recorded_def created_db_sample_def order_sample_def order_event_row_sample_def statuses_sample_def)

lemma event_of_short: "event_of_order sample_ext ''a@b.c'' short_products_sample (order_sample 1) = order_event_sample [5, 6]"
  by (simp add: event_of_order_def short_products_sample_def order_sample_def order_event_sample_def)

theorem short_order_cancelled_witness:
  "\<exists>p' d' failure. run_state (handleOrderCreatedEvent sample_ext (Some (ob_Payload order_event_row_sample))) product_world_sample =
      (Nack False, p') \<and> pb_outbox (pw_db p') = [failure] \<and>
    run_state (handleStockUpdateFailedEvent sample_ext (Some 3) (Some (ob_Payload failure))) created_db_sample = (Ack, d') \<and>
    order_sample 3 \<in> set (od_orders d')"
proof -
  let ?rs = "[(Some 5, Some 2), (Some 6, Some 2)] :: stock_row list"
  have ready: "order_ready sample_ext (event_of_order sample_ext ''a@b.c'' short_products_sample (order_sample 1)) ?rs
      (or_ID (order_sample 1)) (after_check (pw_db product_world_sample))"
    using sample_ready [of "[5, 6]" 1] unfolding event_of_short by (simp add: product_world_sample_def sample_after_check order_sample_def)
  have new: "\<not> already_processed sample_ext (event_of_order sample_ext ''a@b.c'' short_products_sample (order_sample 1))
      (pw_db product_world_sample)"
    by (simp add: product_world_sample_def sample_not_processed)
  have short: "length (hits ?rs (pw_db product_world_sample)) \<noteq> length short_products_sample"
    using sample_hits by (simp add: product_world_sample_def short_products_sample_def)
  have d: "\<forall>n. fault_at created_db_sample n = None" "txn created_db_sample = NoTx"
    "3 \<in> os_ID ` set (od_statuses created_db_sample)" "order_tables_ok created_db_sample"
    "order_sample 1 \<in> set (od_orders created_db_sample)"
    by (simp_all add: created_db_sample_def order_tables_ok_def migrated_def statuses_sample_def order_sample_def)
  have row: "(order_sample 1)\<lparr>or_Status := 3\<rparr> = order_sample 3" by (simp add: order_sample_def)
  have empty: "pb_outbox (pw_db product_world_sample) = []" by (simp add: product_world_sample_def product_db_sample_def)
  from short_order_cancelled [OF sample_uuids recorded_sample ready new short d] show ?thesis
    unfolding row empty append_Nil by blast
qed

subsection \<open>An order the stock covers\<close>

text \<open>C3. A placed order is fulfilled, from end to end: its recorded event goes to the exchange that the product, the cart and
  the notification service listen on. The product service takes every ordered piece from the stock and reports no
  failure; the cart service deletes exactly the cart of the user who ordered; the notification service sends one mail
  to the address of the order, with one line per product, and acknowledges the message when it was sent.\<close>

theorem placed_order_fulfilled:
  assumes "uuid_round_trip X" and "recorded X user email amount products w row ev w'"
    and "order_ready X (event_of_order X email products row) rs (or_ID row) (after_check (pw_db p))"
    and "\<not> already_processed X (event_of_order X email products row) (pw_db p)"
    and "length (hits rs (pw_db p)) = length products"
    and "cart_ready (or_ID row) (cw_db c)"
  shows "\<exists>p' c'. fst (fanout_route (ob_EventName ev)) = occ_exchangeName \<and>
      fst (fanout_route (ob_EventName ev)) = cart_exchangeName \<and> fst (fanout_route (ob_EventName ev)) = notification_exchangeName \<and>
    run_state (handleOrderCreatedEvent X (Some (ob_Payload ev))) p = (Ack, p') \<and> pb_outbox (pw_db p') = pb_outbox (pw_db p) \<and>
    (\<forall>x \<in> set (hits rs (pw_db p)). \<exists>x' \<in> set (pb_products (pw_db p')). pr_ID x' = pr_ID x \<and>
       sint (pr_StockQuantity x') = sint (pr_StockQuantity x) - the (stock_match rs x)) \<and>
    run_state (handleOrderCreatedEvent_cart X (Some (ob_Payload ev))) c = (Ack, c') \<and>
    cart_cleared (or_UserID row) (or_ID row) (cw_db c) (cw_db c') \<and>
    (\<forall>dial s n. run_state (handleOrderCreatedEvent_notification dial s (Some (ob_Payload ev))) n =
       (case run_state (dial s (order_mail (sm_from s) (event_of_order X email products row))) n of
          (Inl e, n') \<Rightarrow> (Nack True, n') | (Inr u, n') \<Rightarrow> (Ack, n')))"
proof -
  let ?e = "event_of_order X email products row"
  let ?d = "after_order rs (or_ID row) ?e (failure_of ?e) (after_check (pw_db p))"
  let ?t = "clock_at (after_check (pw_db p)) (calls (after_check (pw_db p)))"
  have n: "length (elems (oce_Products ?e)) = length products" by (simp add: event_of_order_def)
  note dec = recorded_decodes [OF assms(2)]
  have name: "ob_EventName ev = orderCreatedEventName" using assms(2) by (simp add: recorded_def)
  obtain p' where p': "run_state (handleOrderCreatedEvent X (Some (ob_Payload ev))) p = (Ack, p')" "pw_db p' = ?d"
    using run_handle_order [OF dec assms(3,4)] assms(5) n by simp
  have out: "pb_outbox ?d = pb_outbox (pw_db p)" using assms(5) n by (simp add: after_order_def Let_def)
  have "\<exists>x' \<in> set (pb_products ?d). pr_ID x' = pr_ID x \<and> sint (pr_StockQuantity x') = sint (pr_StockQuantity x) - the (stock_match rs x)"
    if x: "x \<in> set (hits rs (pw_db p))" for x
  proof -
    obtain q where q: "stock_match rs x = Some q" and m: "x \<in> set (pb_products (pw_db p))" using x by (auto simp: hits_def)
    have "in_int32 (sint (pr_StockQuantity x) - q)" using assms(3) x q by (auto simp: order_ready_def fits_def)
    then show ?thesis using m take_stock_quantity(2) [OF q, of ?t] take_stock_row(1) [of ?t rs x] q
      by (intro bexI [of _ "take_stock ?t rs x"]) simp_all
  qed
  moreover obtain c' where "run_state (handleOrderCreatedEvent_cart X (Some (ob_Payload ev))) c = (Ack, c')"
    "cart_cleared (or_UserID row) (or_ID row) (cw_db c) (cw_db c')"
    using run_handle_cart [of "Some (ob_Payload ev)" ?e X "or_UserID row" "or_ID row" c] dec assms(6) parse_uuid_text [OF assms(1)]
    by (auto simp: cart_unmarshalEvent_def event_of_order_def)
  ultimately show ?thesis using p' out order_exchange
    by (intro exI [of _ p'] exI [of _ c']) (simp add: handle_notification dec name same_exchange)
qed

definition one_product_sample :: "CartProductV1 list" where
  "one_product_sample = [\<lparr>cpv_ProductId = uuid_text sample_ext 5, cpv_Name = ''tea'', cpv_Description = [], cpv_Price = Fin (5 / 2),
     cpv_Quantity = 2\<rparr>]"

definition one_event_sample :: OutboxRow where
  "one_event_sample = \<lparr>ob_ID = 1, ob_AggregateID = 9, ob_EventName = orderCreatedEventName,
     ob_Payload = generateOrderCreatedEventPayload (uuid_text sample_ext 9) (uuid_text sample_ext 7) ''a@b.c'' one_product_sample,
     ob_Status = ''UNPUBLISHED'', ob_CreatedAt = 0, ob_PublishedAt = None\<rparr>"

definition fresh_cart_sample :: "unit cart_world" where
  "fresh_cart_sample = cart_world_sample\<lparr>cw_db := cart_db_sample\<lparr>cd_processed := []\<rparr>\<rparr>"

theorem placed_order_fulfilled_witness:
  "\<exists>p' c'. run_state (handleOrderCreatedEvent sample_ext (Some (ob_Payload one_event_sample))) product_world_sample = (Ack, p') \<and>
     (\<exists>x \<in> set (pb_products (pw_db p')). pr_ID x = 5 \<and> sint (pr_StockQuantity x) = 5) \<and>
     run_state (handleOrderCreatedEvent_cart sample_ext (Some (ob_Payload one_event_sample))) fresh_cart_sample = (Ack, c') \<and>
     cd_carts (cw_db c') = []"
proof -
  let ?rs = "[(Some 5, Some 2)] :: stock_row list"
  have event: "event_of_order sample_ext ''a@b.c'' one_product_sample (order_sample 1) = order_event_sample [5]"
    by (simp add: event_of_order_def one_product_sample_def order_sample_def order_event_sample_def)
  have rec: "recorded sample_ext (uuid_text sample_ext 7) ''a@b.c'' (Fin 5) one_product_sample (created_db_sample\<lparr>od_orders := []\<rparr>)
     (order_sample 1) one_event_sample (created_db_sample\<lparr>od_outbox := [one_event_sample]\<rparr>)"
    using parse_uuid_text [OF sample_uuids, of 7] sample_amount
    by (simp add: recorded_def created_db_sample_def order_sample_def one_event_sample_def statuses_sample_def)
  have ready: "order_ready sample_ext (event_of_order sample_ext ''a@b.c'' one_product_sample (order_sample 1)) ?rs
      (or_ID (order_sample 1)) (after_check (pw_db product_world_sample))"
    using sample_ready [of "[5]" 1] unfolding event by (simp add: product_world_sample_def sample_after_check order_sample_def)
  have new: "\<not> already_processed sample_ext (event_of_order sample_ext ''a@b.c'' one_product_sample (order_sample 1))
      (pw_db product_world_sample)"
    by (simp add: product_world_sample_def sample_not_processed)
  have full: "length (hits ?rs (pw_db product_world_sample)) = length one_product_sample"
    using sample_hits by (simp add: product_world_sample_def one_product_sample_def)
  have cart: "cart_ready (or_ID (order_sample 1)) (cw_db fresh_cart_sample)"
    by (simp add: cart_ready_def fresh_cart_sample_def cart_db_sample_def cart_marked_def)
  have hit: "product_row_sample 5 7 \<in> set (hits ?rs (pw_db product_world_sample))"
    "stock_match ?rs (product_row_sample 5 7) = Some 2"
    by (simp_all add: hits_def product_world_sample_def product_db_sample_def product_row_sample_def stock_match_def)
  from placed_order_fulfilled [OF sample_uuids rec ready new full cart] obtain p' c' where
    r: "run_state (handleOrderCreatedEvent sample_ext (Some (ob_Payload one_event_sample))) product_world_sample = (Ack, p')"
      "\<forall>x \<in> set (hits ?rs (pw_db product_world_sample)). \<exists>x' \<in> set (pb_products (pw_db p')). pr_ID x' = pr_ID x \<and>
        sint (pr_StockQuantity x') = sint (pr_StockQuantity x) - the (stock_match ?rs x)"
      "run_state (handleOrderCreatedEvent_cart sample_ext (Some (ob_Payload one_event_sample))) fresh_cart_sample = (Ack, c')"
      "cart_cleared (or_UserID (order_sample 1)) (or_ID (order_sample 1)) (cw_db fresh_cart_sample) (cw_db c')" by blast
  have "\<exists>x \<in> set (pb_products (pw_db p')). pr_ID x = 5 \<and> sint (pr_StockQuantity x) = 5"
    using bspec [OF r(2) hit(1)] hit(2) by (simp add: product_row_sample_def)
  moreover have "cd_carts (cw_db c') = []"
    using r(4) by (simp add: cart_cleared_def fresh_cart_sample_def cart_db_sample_def order_sample_def)
  ultimately show ?thesis using r(1,3) by blast
qed

subsection \<open>A new product can be found\<close>

lemma created_route: "delegating_route ProductCreatedEventName = (ProductExchangeName, ProductCreatedRoutingKey)"
  by (simp add: delegating_route_def split_colon_def ProductCreatedEventName_def ProductExchangeName_def
      ProductCreatedRoutingKey_def)

text \<open>C14. A product that was created is found by the search service: the event recorded with it is sent to the topic exchange
  the search service subscribes to, under a routing key that matches the key its queue is bound with, and once it has been
  acknowledged there the index holds the product's data under its identifier, with the price of the row (the one the caller
  was told, as text), until another event about the same product arrives.\<close>

theorem created_product_indexed:
  assumes "run_state (CreateProduct X ctx req) w = (Inr p, w')" and "ev = last (pb_outbox (pw_db w'))"
    and "m = \<lparr>de_RoutingKey = snd (delegating_route (ob_EventName ev)), de_Body = Some (ob_Payload ev)\<rparr>"
    and "opensearch_documented docs os_do" and "prv_Id p \<noteq> []"
    and "run_state (handleProductCreatedEvent os_do index m) c = (Ack, c1)"
    and "list_all (about_other (prv_Id p)) later" and "run_state (deliver_all os_do index later) c1 = (rs, c2)"
  shows "fst (delegating_route (ob_EventName ev)) = so_Exchange (search_options t) \<and>
    topic_match (so_BindingKey (search_options t)) (de_RoutingKey m) \<and>
    (\<exists>e row. docs c2 (index, prv_Id p) = Some (enc_product e) \<and>
       pe_ID e = prv_Id p \<and> pe_Name e = prv_Name p \<and> pe_Description e = prv_Description p \<and>
       pe_CategoryID e = prv_CategoryId p \<and> pe_StockQuantity e = prv_StockQuantity p \<and>
       row \<in> set (pb_products (pw_db w')) \<and> p = toGRPCProduct X row \<and> pe_Price e = numeric_text X (pr_Price row) \<and>
       (\<exists>price. parse_numeric X (sprintf_f 6 (cpr_Price req)) = Inr price \<and> numeric_10_2 price = Inr (pr_Price row)))"
proof -
  from create_effect [OF assms(1)] obtain row where row: "p = toGRPCProduct X row" "pr_Description row \<noteq> None"
      "row \<in> set (pb_products (pw_db w'))"
      "\<exists>price. parse_numeric X (sprintf_f 6 (cpr_Price req)) = Inr price \<and> numeric_10_2 price = Inr (pr_Price row)"
    and ev: "event_added (pr_ID row) ProductCreatedEventName (product_event X row) (pw_db w) (pw_db w')" by auto
  have e: "ob_EventName ev = ProductCreatedEventName" "unmarshal_product (Some (ob_Payload ev)) = Inr (product_event X row)"
    using ev assms(2) by (auto simp: event_added_def)
  have id: "pe_ID (product_event X row) = prv_Id p" by (simp add: row(1) product_event_def toGRPCProduct_def)
  have dec: "unmarshal_product (de_Body m) = Inr (product_event X row)" by (simp add: assms(3) e(2))
  have "docs c2 (index, prv_Id p) = document_after m (product_event X row)"
    using last_acknowledged [OF assms(4) dec _ assms(6)] assms(5,7,8) by (simp add: id)
  moreover have "document_after m (product_event X row) = Some (enc_product (product_event X row))"
    by (simp add: document_after_def assms(3) e(1) created_route ProductCreatedRoutingKey_def ProductDeletedRoutingKey_def)
  ultimately have "docs c2 (index, prv_Id p) = Some (enc_product (product_event X row))" by simp
  moreover have "fst (delegating_route (ob_EventName ev)) = so_Exchange (search_options t)"
    "topic_match (so_BindingKey (search_options t)) (de_RoutingKey m)"
    using product_keys_bound(1) by (simp_all add: assms(3) e(1) created_route search_options_def)
  ultimately show ?thesis using row
    by (intro conjI exI [of _ "product_event X row"] exI [of _ row]) (auto simp: product_event_def toGRPCProduct_def)
qed

lemma sample_text_not_empty: "uuid_text sample_ext u \<noteq> []"
  by (simp add: sample_ext_def show_nat_nonempty)

lemma store_sample_acks:
  "unmarshal_product (de_Body m) = Inr e \<Longrightarrow> de_RoutingKey m \<noteq> ProductDeletedRoutingKey \<Longrightarrow>
     fst (run_state (handleProductCreatedEvent store_sample index m) c) = Ack"
  by (simp add: handleProductCreatedEvent_def Let_def indexProduct_def Index_def IsError_def)

theorem created_product_indexed_witness:
  "\<exists>p m e. fst (run_state (CreateProduct sample_ext None create_sample) catalogue_sample) = Inr p \<and>
     snd (run_state (handleProductCreatedEvent store_sample ''products'' m) Map.empty) (''products'', prv_Id p) = Some (enc_product e) \<and>
     pe_Name e = ''cup''"
proof -
  obtain p w' where run: "run_state (CreateProduct sample_ext None create_sample) catalogue_sample = (Inr p, w')"
    using sample_create prod.collapse by metis
  from create_effect [OF run] obtain row where row: "p = toGRPCProduct sample_ext row" "pr_Name row = ''cup''"
    and ev: "event_added (pr_ID row) ProductCreatedEventName (product_event sample_ext row) (pw_db catalogue_sample) (pw_db w')"
    by (auto simp: create_sample_def)
  let ?ev = "last (pb_outbox (pw_db w'))"
  let ?m = "\<lparr>de_RoutingKey = snd (delegating_route (ob_EventName ?ev)), de_Body = Some (ob_Payload ?ev)\<rparr>"
  have e: "ob_EventName ?ev = ProductCreatedEventName" "unmarshal_product (de_Body ?m) = Inr (product_event sample_ext row)"
    using ev by (auto simp: event_added_def)
  have key: "de_RoutingKey ?m \<noteq> ProductDeletedRoutingKey"
    by (simp add: e(1) created_route ProductCreatedRoutingKey_def ProductDeletedRoutingKey_def)
  have id: "prv_Id p \<noteq> []" by (simp add: row toGRPCProduct_def sample_text_not_empty)
  obtain c1 where ack: "run_state (handleProductCreatedEvent store_sample ''products'' ?m) Map.empty = (Ack, c1)"
    using store_sample_acks [OF e(2) key] prod.collapse by metis
  have later: "list_all (about_other (prv_Id p)) []" "run_state (deliver_all store_sample ''products'' []) c1 = ([], c1)" by simp_all
  from created_product_indexed [OF run refl refl store_sample_documented id ack later] obtain e
    where "c1 (''products'', prv_Id p) = Some (enc_product e)" "pe_Name e = prv_Name p" by auto
  moreover have "prv_Name p = ''cup''" by (simp add: row toGRPCProduct_def)
  ultimately show ?thesis using run ack by (intro exI [of _ p] exI [of _ ?m] exI [of _ e]) simp
qed

end
